(* ===== verification/Vault_Prelude.thy ===== *)
theory Vault_Prelude
  imports Main "HOL-Library.Word"
begin

text \<open>
  Shared vocabulary of the development: the machine integers and byte strings of the Rust
  program, its checked arithmetic, the early-return style of its handlers (\<open>require!\<close>,
  \<open>ok_or(..)?\<close> and \<open>?\<close>) and the little-endian byte codecs that the account layouts use.
  Every partial operation is an \<open>option\<close> and every handler returns an error or a value.
\<close>

named_theorems res_simps "success and failure of the early-return combinators"
named_theorems checked_simps "success of checked arithmetic, as facts on natural numbers"

subsection \<open>Machine types\<close>

type_synonym u8 = "8 word"
type_synonym u16 = "16 word"
type_synonym u32 = "32 word"
type_synonym u64 = "64 word"
type_synonym u128 = "128 word"
type_synonym i64 = "64 word" \<comment> \<open>two's complement, read by \<open>sint\<close>\<close>
type_synonym byte = u8
type_synonym bytes = "byte list"
type_synonym pubkey = bytes \<comment> \<open>\<open>Pubkey([u8; 32])\<close>\<close>

definition Pubkey_default :: pubkey where
  "Pubkey_default = replicate 32 0"

subsection \<open>Early returns\<close>

text \<open>
  \<open>require c e k\<close> is \<open>require!(c, e); k\<close>; \<open>ok_or m e k\<close> is
  \<open>let x = m.ok_or(e)?; k x\<close>; \<open>try_ok m k\<close> is \<open>let x = m?; k x\<close>.
\<close>

definition require :: "bool \<Rightarrow> 'e \<Rightarrow> 'e + 'a \<Rightarrow> 'e + 'a" where
  "require c e k = (if c then k else Inl e)"

definition ok_or :: "'a option \<Rightarrow> 'e \<Rightarrow> ('a \<Rightarrow> 'e + 'b) \<Rightarrow> 'e + 'b" where
  "ok_or m e k = (case m of None \<Rightarrow> Inl e | Some x \<Rightarrow> k x)"

definition try_ok :: "'e + 'a \<Rightarrow> ('a \<Rightarrow> 'e + 'b) \<Rightarrow> 'e + 'b" where
  "try_ok m k = (case m of Inl e \<Rightarrow> Inl e | Inr x \<Rightarrow> k x)"

lemma require_Inr [res_simps]: "require c e k = Inr r \<longleftrightarrow> c \<and> k = Inr r"
  by (simp add: require_def)

lemma ok_or_Inr [res_simps]: "ok_or m e k = Inr r \<longleftrightarrow> (\<exists>x. m = Some x \<and> k x = Inr r)"
  by (simp add: ok_or_def split: option.splits)

lemma try_ok_Inr [res_simps]: "try_ok m k = Inr r \<longleftrightarrow> (\<exists>x. m = Inr x \<and> k x = Inr r)"
  by (simp add: try_ok_def split: sum.splits)

lemma require_True [simp]: "require True e k = k"
  by (simp add: require_def)

lemma require_False [simp]: "require False e k = Inl e"
  by (simp add: require_def)

lemma ok_or_Some [simp]: "ok_or (Some x) e k = k x"
  by (simp add: ok_or_def)

lemma ok_or_None [simp]: "ok_or None e k = Inl e"
  by (simp add: ok_or_def)

lemma try_ok_ok [simp]: "try_ok (Inr x) k = k x"
  by (simp add: try_ok_def)

lemma try_ok_err [simp]: "try_ok (Inl e) k = Inl e"
  by (simp add: try_ok_def)

lemma require_cong [cong]: "c = c' \<Longrightarrow> (c' \<Longrightarrow> k = k') \<Longrightarrow> require c e k = require c' e k'"
  by (simp add: require_def)

lemma ok_or_weak_cong [cong]: "m = m' \<Longrightarrow> ok_or m e k = ok_or m' e k"
  by simp

lemma try_ok_weak_cong [cong]: "m = m' \<Longrightarrow> try_ok m k = try_ok m' k"
  by simp

subsection \<open>Checked arithmetic\<close>

text \<open>
  Rust's checked operations compute the exact result and return \<open>None\<close> when it does not
  fit; \<open>u_of_nat\<close> is that last step, and also \<open>try_from\<close> into a narrower type.
\<close>

definition u_of_nat :: "nat \<Rightarrow> 'a::len word option" where
  "u_of_nat n = (if n < 2 ^ LENGTH('a) then Some (word_of_nat n) else None)"

definition checked_add :: "'a::len word \<Rightarrow> 'a word \<Rightarrow> 'a word option" where
  "checked_add a b = u_of_nat (unat a + unat b)"

definition checked_sub :: "'a::len word \<Rightarrow> 'a word \<Rightarrow> 'a word option" where
  "checked_sub a b = (if unat b \<le> unat a then u_of_nat (unat a - unat b) else None)"

definition checked_mul :: "'a::len word \<Rightarrow> 'a word \<Rightarrow> 'a word option" where
  "checked_mul a b = u_of_nat (unat a * unat b)"

definition checked_div :: "'a::len word \<Rightarrow> 'a word \<Rightarrow> 'a word option" where
  "checked_div a b = (if b = 0 then None else u_of_nat (unat a div unat b))"

definition checked_pow :: "'a::len word \<Rightarrow> nat \<Rightarrow> 'a word option" where
  "checked_pow a n = u_of_nat (unat a ^ n)"

text \<open>\<open>i64::checked_sub\<close>: \<open>None\<close> when the difference leaves the signed range.\<close>

definition checked_sub_i64 :: "i64 \<Rightarrow> i64 \<Rightarrow> i64 option" where
  "checked_sub_i64 a b =
     (let d = sint a - sint b
      in if - (2 ^ 63) \<le> d \<and> d < 2 ^ 63 then Some (word_of_int d) else None)"

text \<open>Widening conversions \<open>u128::from\<close> and narrowing ones \<open>T::try_from\<close>.\<close>

definition widen :: "'a::len word \<Rightarrow> 'b::len word" where
  "widen x = word_of_nat (unat x)"

definition try_from :: "'a::len word \<Rightarrow> 'b::len word option" where
  "try_from x = u_of_nat (unat x)"

definition abs_diff :: "'a::len word \<Rightarrow> 'a word \<Rightarrow> 'a word" where
  "abs_diff a b = (if unat b \<le> unat a then a - b else b - a)"

lemma unat_bound: "unat (w :: 'a::len word) < 2 ^ LENGTH('a)"
  by (rule unsigned_less)

lemma unat_of_nat_small: "n < 2 ^ LENGTH('a) \<Longrightarrow> unat (word_of_nat n :: 'a::len word) = n"
  by (simp add: unat_of_nat)

lemma u_of_nat_Some [checked_simps]:
  "u_of_nat n = Some (w :: 'a::len word) \<longleftrightarrow> unat w = n"
  by (auto simp: u_of_nat_def unat_of_nat_small)

lemma u_of_nat_None [checked_simps]:
  "(u_of_nat n :: 'a::len word option) = None \<longleftrightarrow> 2 ^ LENGTH('a) \<le> n"
  by (auto simp: u_of_nat_def)

lemma checked_add_Some [checked_simps]:
  "checked_add a b = Some c \<longleftrightarrow> unat c = unat a + unat b"
  by (simp add: checked_add_def u_of_nat_Some)

lemma checked_sub_Some [checked_simps]:
  "checked_sub a b = Some c \<longleftrightarrow> unat a = unat c + unat b"
  by (auto simp: checked_sub_def u_of_nat_Some)

lemma checked_mul_Some [checked_simps]:
  "checked_mul a b = Some c \<longleftrightarrow> unat c = unat a * unat b"
  by (simp add: checked_mul_def u_of_nat_Some)

lemma checked_div_Some [checked_simps]:
  "checked_div a b = Some c \<longleftrightarrow> b \<noteq> 0 \<and> unat c = unat a div unat b"
  by (auto simp: checked_div_def u_of_nat_Some)

lemma checked_pow_Some [checked_simps]:
  "checked_pow a n = Some c \<longleftrightarrow> unat c = unat a ^ n"
  by (simp add: checked_pow_def u_of_nat_Some)

lemma try_from_Some [checked_simps]: "try_from x = Some y \<longleftrightarrow> unat y = unat x"
  by (simp add: try_from_def u_of_nat_Some)

lemma checked_sub_None [checked_simps]: "checked_sub a b = None \<longleftrightarrow> unat a < unat b"
proof -
  have "unat a - unat b < 2 ^ LENGTH('a)" for a b :: "'a::len word"
    using unat_bound [of a] by linarith
  then show ?thesis by (auto simp: checked_sub_def u_of_nat_def)
qed

lemma checked_add_None [checked_simps]:
  "checked_add a b = None \<longleftrightarrow> 2 ^ LENGTH('a) \<le> unat (a :: 'a::len word) + unat b"
  by (simp add: checked_add_def u_of_nat_None)

lemma u_of_nat_total: "n < 2 ^ LENGTH('a) \<Longrightarrow> \<exists>w :: 'a::len word. u_of_nat n = Some w \<and> unat w = n"
  by (auto simp: u_of_nat_def unat_of_nat_small)

lemma checked_add_total:
  "unat a + unat b < 2 ^ LENGTH('a) \<Longrightarrow>
   \<exists>c :: 'a::len word. checked_add a b = Some c \<and> unat c = unat a + unat b"
  unfolding checked_add_def by (rule u_of_nat_total)

lemma checked_mul_total:
  "unat a * unat b < 2 ^ LENGTH('a) \<Longrightarrow>
   \<exists>c :: 'a::len word. checked_mul a b = Some c \<and> unat c = unat a * unat b"
  unfolding checked_mul_def by (rule u_of_nat_total)

lemma checked_div_total:
  "b \<noteq> 0 \<Longrightarrow> \<exists>c :: 'a::len word. checked_div a b = Some c \<and> unat c = unat a div unat b"
proof -
  assume "b \<noteq> 0"
  have "unat a div unat b < 2 ^ LENGTH('a)"
    by (rule le_less_trans [OF div_le_dividend unat_bound])
  with \<open>b \<noteq> 0\<close> show ?thesis unfolding checked_div_def by (simp add: u_of_nat_total)
qed

lemma checked_sub_eq: "unat b \<le> unat a \<Longrightarrow> checked_sub a b = Some (a - b)"
  by (simp add: checked_sub_Some word_le_nat_alt [symmetric] unat_sub)

lemma unat_widen [simp]:
  "LENGTH('a) \<le> LENGTH('b) \<Longrightarrow> unat (widen (x :: 'a::len word) :: 'b::len word) = unat x"
proof -
  assume le: "LENGTH('a) \<le> LENGTH('b)"
  have "unat x < 2 ^ LENGTH('b)"
    by (rule less_le_trans [OF unat_bound power_increasing [OF le]]) simp
  then show ?thesis unfolding widen_def by (rule unat_of_nat_small)
qed

lemma unat_abs_diff:
  "unat (abs_diff a b) = (if unat b \<le> unat a then unat a - unat b else unat b - unat a)"
  by (auto simp: abs_diff_def unat_sub word_le_nat_alt)

lemma unat_eq_0 [simp]: "unat w = 0 \<longleftrightarrow> w = 0"
  by (simp add: unat_eq_zero)

lemma checked_sub_i64_Some:
  "checked_sub_i64 a b = Some c \<Longrightarrow> sint c = sint a - sint b"
  by (auto simp: checked_sub_i64_def Let_def sint_word_ariths signed_take_bit_int_eq_self
        split: if_splits)

subsection \<open>Little-endian integers\<close>

fun le_bytes :: "nat \<Rightarrow> nat \<Rightarrow> bytes" where
  "le_bytes 0 x = []"
| "le_bytes (Suc n) x = word_of_nat (x mod 256) # le_bytes n (x div 256)"

fun le_nat :: "bytes \<Rightarrow> nat" where
  "le_nat [] = 0"
| "le_nat (b # bs) = unat b + 256 * le_nat bs"

lemma length_le_bytes [simp]: "length (le_bytes n x) = n"
  by (induction n arbitrary: x) auto

lemma le_bytes_zero: "le_bytes n 0 = replicate n 0"
  by (induction n) simp_all

lemma le_nat_bound: "le_nat bs < 256 ^ length bs"
proof (induction bs)
  case (Cons b bs)
  have "unat b < 256" using unat_bound [of b] by simp
  with Cons show ?case by simp
qed simp

lemma le_nat_le_bytes: "le_nat (le_bytes n x) = x mod 256 ^ n"
proof (induction n arbitrary: x)
  case (Suc n)
  have "unat (word_of_nat (x mod 256) :: byte) = x mod 256"
    by (simp add: unat_of_nat)
  with Suc show ?case by (simp add: mod_mult2_eq)
qed simp

lemma le_bytes_le_nat: "le_bytes (length bs) (le_nat bs) = bs"
proof (induction bs)
  case (Cons b bs)
  have "unat b < 256" using unat_bound [of b] by simp
  then have "le_nat (b # bs) mod 256 = unat b" "le_nat (b # bs) div 256 = le_nat bs"
    by simp_all
  with Cons show ?case by simp
qed simp

definition u16_to_le :: "u16 \<Rightarrow> bytes" where "u16_to_le w = le_bytes 2 (unat w)"
definition u32_to_le :: "u32 \<Rightarrow> bytes" where "u32_to_le w = le_bytes 4 (unat w)"
definition u64_to_le :: "u64 \<Rightarrow> bytes" where "u64_to_le w = le_bytes 8 (unat w)"
definition u16_from_le :: "bytes \<Rightarrow> u16" where "u16_from_le bs = word_of_nat (le_nat bs)"
definition u64_from_le :: "bytes \<Rightarrow> u64" where "u64_from_le bs = word_of_nat (le_nat bs)"

lemma length_to_le [simp]:
  "length (u16_to_le a) = 2" "length (u32_to_le b) = 4" "length (u64_to_le c) = 8"
  by (simp_all add: u16_to_le_def u32_to_le_def u64_to_le_def)

lemma u16_le_roundtrip [simp]: "u16_from_le (u16_to_le w) = w"
proof -
  have "unat w < 256 ^ 2" using unat_bound [of w] by simp
  then show ?thesis
    by (simp add: u16_from_le_def u16_to_le_def le_nat_le_bytes)
qed

lemma u64_le_roundtrip [simp]: "u64_from_le (u64_to_le w) = w"
proof -
  have "unat w < 256 ^ 8" using unat_bound [of w] by simp
  then show ?thesis
    by (simp add: u64_from_le_def u64_to_le_def le_nat_le_bytes)
qed

lemma u64_to_from_le: "length bs = 8 \<Longrightarrow> u64_to_le (u64_from_le bs) = bs"
  using le_nat_bound [of bs] le_bytes_le_nat [of bs]
  by (simp add: u64_from_le_def u64_to_le_def unat_of_nat_small)

lemma u16_to_le_inject [simp]: "u16_to_le a = u16_to_le b \<longleftrightarrow> a = b"
  by (metis u16_le_roundtrip)

lemma u64_to_le_inject [simp]: "u64_to_le a = u64_to_le b \<longleftrightarrow> a = b"
  by (metis u64_le_roundtrip)

lemma u32_to_le_inject [simp]: "u32_to_le a = u32_to_le b \<longleftrightarrow> a = b"
proof
  assume "u32_to_le a = u32_to_le b"
  then have "le_nat (u32_to_le a) = le_nat (u32_to_le b)" by simp
  moreover have "le_nat (u32_to_le w) = unat w" for w
    using unat_bound [of w] by (simp add: u32_to_le_def le_nat_le_bytes)
  ultimately show "a = b" by (simp add: word_unat_eq_iff)
qed simp

subsection \<open>Slices\<close>

text \<open>\<open>s.get(from..to)\<close>: \<open>None\<close> when the range leaves the slice.\<close>

definition get_range :: "'a list \<Rightarrow> nat \<Rightarrow> nat \<Rightarrow> 'a list option" where
  "get_range xs a b = (if a \<le> b \<and> b \<le> length xs then Some (take (b - a) (drop a xs)) else None)"

definition get_at :: "'a list \<Rightarrow> nat \<Rightarrow> 'a option" where
  "get_at xs i = (if i < length xs then Some (xs ! i) else None)"

lemma get_range_Some:
  "get_range xs a b = Some ys \<longleftrightarrow> a \<le> b \<and> b \<le> length xs \<and> ys = take (b - a) (drop a xs)"
  by (auto simp: get_range_def)

lemma length_get_range: "get_range xs a b = Some ys \<Longrightarrow> length ys = b - a"
  by (auto simp: get_range_def split: if_splits)

lemma get_at_Some: "get_at xs i = Some x \<longleftrightarrow> i < length xs \<and> x = xs ! i"
  by (auto simp: get_at_def)

text \<open>\<open>data[a..b].copy_from_slice(v)\<close> on a buffer, for a range inside it.\<close>

definition splice :: "'a list \<Rightarrow> nat \<Rightarrow> 'a list \<Rightarrow> 'a list" where
  "splice xs i v = take i xs @ v @ drop (i + length v) xs"

lemma length_splice [simp]: "i + length v \<le> length xs \<Longrightarrow> length (splice xs i v) = length xs"
  by (simp add: splice_def)

text \<open>A byte-string literal.\<close>

definition ascii :: "string \<Rightarrow> bytes" where
  "ascii s = map of_char s"

end
