(* ===== verification/Vault_Error.thy ===== *)
theory Vault_Error
  imports Vault_Prelude
begin

text \<open>
  The program's error codes (\<open>error.rs\<close>), the errors of the math library
  (\<open>vault_common/src/error.rs\<close>), and the errors that come from outside the program's own
  enum: Solana's \<open>ProgramError\<close>, the constraint checks that the Anchor attributes of an
  accounts struct expand to, and whatever a CPI into the token program returns.
\<close>

datatype (plugins only: ) AsyncVaultError =
    InvalidInitialPrice
  | UnauthorizedSigner
  | UninitializedVault
  | PausedVault
  | VaultAlreadyInitialized
  | ExtensionAlreadyInitialized
  | UninitializedExtension
  | InvalidExtensionData
  | FeeBpsExceeded
  | ArithmeticError
  | MintsShouldBeDifferent
  | ShareMintSupplyShouldBeZero
  | NoPendingAuthority
  | InvalidPendingVault
  | InvalidPendingSharesVault
  | MissingFeeRecipient
  | InvalidFeeRecipient
  | RequestInvalidState
  | RequestIsNotPending
  | InvalidRequestType
  | MissingRequiredAccount
  | InvalidAssetMintExtensions
  | InvalidAssetMint
  | InvalidShareMint
  | InvalidRequest
  | RequestNotPending
  | RequestNotClaimable
  | SubscriptionsPaused
  | RedemptionsPaused
  | SubscriptionQueueOutOfOrder
  | RequestIsNotCanceled
  | MustUseCancelQueuedDepositRequest
  | RedemptionQueueOutOfOrder
  | MustUseCancelQueuedRedemptionRequest
  | SubscriptionAmountBelowMinimum
  | RedemptionAmountBelowMinimum
  | NavIsNotSet
  | InsufficientRedeemAmount
  | ApprovalRequestMismatch
  | InsufficientDepositAmount
  | InvalidShareMintExtensions
  | StaleNav
  | NavDeltaExceeded
  | NavApyExceeded
  | DepositCapExceeded
  | BreakerCanOnlyPause
  | UnsupportedPhaseConfig
  | RollingLimitExceeded
  | InvalidRollingLimitConfig
  | TimelockRequired
  | TimelockNotConfigured
  | TimelockNotReady
  | InvalidTimelockChange
  | StaleTimelockAuthority
  | AssetAlreadyApproved
  | MaxApprovedAssetsExceeded
  | AssetBalanceNonZero
  | InvalidVault
  | ExternallyManagedWithdrawalsDisabled
  | InvalidVenueDiscriminatorCount
  | VenuePaused
  | VenuePositionNonZero
  | InvalidVenueEntry
  | InvalidPosition
  | PositionBalanceNonZero
  | InsufficientPositionBalance
  | InvalidBalanceDelta
  | InstantSettlementDisabled
  | InsufficientLiquidity
  | JuniorRatioBelowMinimum
  | InvalidTrancheRequestLimitConfig
  | TrancheRequestAmountBelowMinimum
  | TrancheRequestAmountAboveMaximum
  | InvalidInstantSettlementThresholdConfig
  | InstantDepositAmountBelowMinimum
  | InstantDepositAmountAboveMaximum
  | InstantRedeemSharesBelowMinimum
  | InstantRedeemSharesAboveMaximum
  | InvalidVenueRecipient
  | InvalidStrategyPolicy
  | StrategyPolicyPaused
  | EmptyMerkleRoot
  | MerkleProofTooDeep
  | MerkleProofInvalid
  | StaleStrategyPolicyVersion
  | InvalidPolicyOperator
  | PolicyOperatorOutOfBounds
  | DuplicateManagerLimitOperator
  | InvalidVenueInstruction
  | VenueInstructionNotAllowed
  | TargetProgramMismatch
  | TargetProgramNotExecutable
  | UnsafeTargetProgram
  | TooManyCpiAccounts
  | InstructionDataTooLarge
  | ShareSupplyChanged
  | ReentrantStrategyCall
  | PolicyIngestionLimitExceeded

text \<open>
  The code Anchor gives an error: 6000 plus its position in the enum.
\<close>

primrec error_code :: "AsyncVaultError \<Rightarrow> nat" where
  "error_code InvalidInitialPrice = 6000"
| "error_code UnauthorizedSigner = 6001"
| "error_code UninitializedVault = 6002"
| "error_code PausedVault = 6003"
| "error_code VaultAlreadyInitialized = 6004"
| "error_code ExtensionAlreadyInitialized = 6005"
| "error_code UninitializedExtension = 6006"
| "error_code InvalidExtensionData = 6007"
| "error_code FeeBpsExceeded = 6008"
| "error_code ArithmeticError = 6009"
| "error_code MintsShouldBeDifferent = 6010"
| "error_code ShareMintSupplyShouldBeZero = 6011"
| "error_code NoPendingAuthority = 6012"
| "error_code InvalidPendingVault = 6013"
| "error_code InvalidPendingSharesVault = 6014"
| "error_code MissingFeeRecipient = 6015"
| "error_code InvalidFeeRecipient = 6016"
| "error_code RequestInvalidState = 6017"
| "error_code RequestIsNotPending = 6018"
| "error_code InvalidRequestType = 6019"
| "error_code MissingRequiredAccount = 6020"
| "error_code InvalidAssetMintExtensions = 6021"
| "error_code InvalidAssetMint = 6022"
| "error_code InvalidShareMint = 6023"
| "error_code InvalidRequest = 6024"
| "error_code RequestNotPending = 6025"
| "error_code RequestNotClaimable = 6026"
| "error_code SubscriptionsPaused = 6027"
| "error_code RedemptionsPaused = 6028"
| "error_code SubscriptionQueueOutOfOrder = 6029"
| "error_code RequestIsNotCanceled = 6030"
| "error_code MustUseCancelQueuedDepositRequest = 6031"
| "error_code RedemptionQueueOutOfOrder = 6032"
| "error_code MustUseCancelQueuedRedemptionRequest = 6033"
| "error_code SubscriptionAmountBelowMinimum = 6034"
| "error_code RedemptionAmountBelowMinimum = 6035"
| "error_code NavIsNotSet = 6036"
| "error_code InsufficientRedeemAmount = 6037"
| "error_code ApprovalRequestMismatch = 6038"
| "error_code InsufficientDepositAmount = 6039"
| "error_code InvalidShareMintExtensions = 6040"
| "error_code StaleNav = 6041"
| "error_code NavDeltaExceeded = 6042"
| "error_code NavApyExceeded = 6043"
| "error_code DepositCapExceeded = 6044"
| "error_code BreakerCanOnlyPause = 6045"
| "error_code UnsupportedPhaseConfig = 6046"
| "error_code RollingLimitExceeded = 6047"
| "error_code InvalidRollingLimitConfig = 6048"
| "error_code TimelockRequired = 6049"
| "error_code TimelockNotConfigured = 6050"
| "error_code TimelockNotReady = 6051"
| "error_code InvalidTimelockChange = 6052"
| "error_code StaleTimelockAuthority = 6053"
| "error_code AssetAlreadyApproved = 6054"
| "error_code MaxApprovedAssetsExceeded = 6055"
| "error_code AssetBalanceNonZero = 6056"
| "error_code InvalidVault = 6057"
| "error_code ExternallyManagedWithdrawalsDisabled = 6058"
| "error_code InvalidVenueDiscriminatorCount = 6059"
| "error_code VenuePaused = 6060"
| "error_code VenuePositionNonZero = 6061"
| "error_code InvalidVenueEntry = 6062"
| "error_code InvalidPosition = 6063"
| "error_code PositionBalanceNonZero = 6064"
| "error_code InsufficientPositionBalance = 6065"
| "error_code InvalidBalanceDelta = 6066"
| "error_code InstantSettlementDisabled = 6067"
| "error_code InsufficientLiquidity = 6068"
| "error_code JuniorRatioBelowMinimum = 6069"
| "error_code InvalidTrancheRequestLimitConfig = 6070"
| "error_code TrancheRequestAmountBelowMinimum = 6071"
| "error_code TrancheRequestAmountAboveMaximum = 6072"
| "error_code InvalidInstantSettlementThresholdConfig = 6073"
| "error_code InstantDepositAmountBelowMinimum = 6074"
| "error_code InstantDepositAmountAboveMaximum = 6075"
| "error_code InstantRedeemSharesBelowMinimum = 6076"
| "error_code InstantRedeemSharesAboveMaximum = 6077"
| "error_code InvalidVenueRecipient = 6078"
| "error_code InvalidStrategyPolicy = 6079"
| "error_code StrategyPolicyPaused = 6080"
| "error_code EmptyMerkleRoot = 6081"
| "error_code MerkleProofTooDeep = 6082"
| "error_code MerkleProofInvalid = 6083"
| "error_code StaleStrategyPolicyVersion = 6084"
| "error_code InvalidPolicyOperator = 6085"
| "error_code PolicyOperatorOutOfBounds = 6086"
| "error_code DuplicateManagerLimitOperator = 6087"
| "error_code InvalidVenueInstruction = 6088"
| "error_code VenueInstructionNotAllowed = 6089"
| "error_code TargetProgramMismatch = 6090"
| "error_code TargetProgramNotExecutable = 6091"
| "error_code UnsafeTargetProgram = 6092"
| "error_code TooManyCpiAccounts = 6093"
| "error_code InstructionDataTooLarge = 6094"
| "error_code ShareSupplyChanged = 6095"
| "error_code ReentrantStrategyCall = 6096"
| "error_code PolicyIngestionLimitExceeded = 6097"

definition all_errors :: "AsyncVaultError list" where
  "all_errors = [InvalidInitialPrice, UnauthorizedSigner, UninitializedVault, PausedVault,
     VaultAlreadyInitialized, ExtensionAlreadyInitialized, UninitializedExtension,
     InvalidExtensionData, FeeBpsExceeded, ArithmeticError, MintsShouldBeDifferent,
     ShareMintSupplyShouldBeZero, NoPendingAuthority, InvalidPendingVault,
     InvalidPendingSharesVault, MissingFeeRecipient, InvalidFeeRecipient, RequestInvalidState,
     RequestIsNotPending, InvalidRequestType, MissingRequiredAccount,
     InvalidAssetMintExtensions, InvalidAssetMint, InvalidShareMint, InvalidRequest,
     RequestNotPending, RequestNotClaimable, SubscriptionsPaused, RedemptionsPaused,
     SubscriptionQueueOutOfOrder, RequestIsNotCanceled, MustUseCancelQueuedDepositRequest,
     RedemptionQueueOutOfOrder, MustUseCancelQueuedRedemptionRequest,
     SubscriptionAmountBelowMinimum, RedemptionAmountBelowMinimum, NavIsNotSet,
     InsufficientRedeemAmount, ApprovalRequestMismatch, InsufficientDepositAmount,
     InvalidShareMintExtensions, StaleNav, NavDeltaExceeded, NavApyExceeded, DepositCapExceeded,
     BreakerCanOnlyPause, UnsupportedPhaseConfig, RollingLimitExceeded,
     InvalidRollingLimitConfig, TimelockRequired, TimelockNotConfigured, TimelockNotReady,
     InvalidTimelockChange, StaleTimelockAuthority, AssetAlreadyApproved,
     MaxApprovedAssetsExceeded, AssetBalanceNonZero, InvalidVault,
     ExternallyManagedWithdrawalsDisabled, InvalidVenueDiscriminatorCount, VenuePaused,
     VenuePositionNonZero, InvalidVenueEntry, InvalidPosition, PositionBalanceNonZero,
     InsufficientPositionBalance, InvalidBalanceDelta, InstantSettlementDisabled,
     InsufficientLiquidity, JuniorRatioBelowMinimum, InvalidTrancheRequestLimitConfig,
     TrancheRequestAmountBelowMinimum, TrancheRequestAmountAboveMaximum,
     InvalidInstantSettlementThresholdConfig, InstantDepositAmountBelowMinimum,
     InstantDepositAmountAboveMaximum, InstantRedeemSharesBelowMinimum,
     InstantRedeemSharesAboveMaximum, InvalidVenueRecipient, InvalidStrategyPolicy,
     StrategyPolicyPaused, EmptyMerkleRoot, MerkleProofTooDeep, MerkleProofInvalid,
     StaleStrategyPolicyVersion, InvalidPolicyOperator, PolicyOperatorOutOfBounds,
     DuplicateManagerLimitOperator, InvalidVenueInstruction, VenueInstructionNotAllowed,
     TargetProgramMismatch, TargetProgramNotExecutable, UnsafeTargetProgram, TooManyCpiAccounts,
     InstructionDataTooLarge, ShareSupplyChanged, ReentrantStrategyCall,
     PolicyIngestionLimitExceeded]"

lemma all_errors_complete: "e \<in> set all_errors"
  using spec [OF AsyncVaultError.nchotomy, of e]
  by (simp only: all_errors_def list.set insert_iff empty_iff disj_assoc simp_thms)

lemma all_errors_codes: "map error_code all_errors = map ((+) 6000) [0..<98]"
  unfolding all_errors_def by (simp add: upt_rec)

lemma error_code_inject [simp]: "error_code a = error_code b \<longleftrightarrow> a = b"
proof -
  have "distinct (map error_code all_errors)"
    unfolding all_errors_codes by (simp add: distinct_map)
  then have "inj_on error_code (set all_errors)" by (simp add: distinct_map)
  then show ?thesis by (auto dest: inj_onD simp: all_errors_complete)
qed

instantiation AsyncVaultError :: equal
begin

definition equal_AsyncVaultError :: "AsyncVaultError \<Rightarrow> AsyncVaultError \<Rightarrow> bool" where
  "equal_AsyncVaultError a b \<longleftrightarrow> error_code a = error_code b"

instance
  by standard (simp add: equal_AsyncVaultError_def)

end

datatype VaultMathError = VaultMathArithmeticError | FeeBpsLimitReached

datatype ProgramError = InvalidAccountData | InvalidAccountOwner

text \<open>
  Anchor's own checks: \<open>AccountNotInitialized\<close> when no account of the expected type is at
  the key, and one value per kind of attribute whose check fails without a custom error.
\<close>

datatype AnchorError =
    AccountNotInitialized | ConstraintSeeds | ConstraintHasOne | ConstraintTokenMint
  | ConstraintTokenOwner | ConstraintRaw | ConstraintSigner | AccountAlreadyInUse
  | ConstraintTokenTokenProgram | ConstraintAddress | ConstraintExecutable | InvalidProgramId
  | ConstraintAccountIsNone | AccountOwnedByWrongProgram

datatype error =
    Vault_Err AsyncVaultError
  | Program_Err ProgramError
  | Anchor_Err AnchorError
  | Cpi_Err nat \<comment> \<open>error of an invoked program\<close>
  | Panicked \<comment> \<open>a panic: an index out of bounds, or an overflow (the release profile checks them)\<close>

type_synonym 'a result = "error + 'a"

definition AsyncVaultError_from :: "VaultMathError \<Rightarrow> AsyncVaultError" where
  "AsyncVaultError_from err =
     (case err of VaultMathArithmeticError \<Rightarrow> ArithmeticError | FeeBpsLimitReached \<Rightarrow> FeeBpsExceeded)"

text \<open>\<open>.map_err(AsyncVaultError::from)\<close>\<close>

definition map_math_err :: "VaultMathError + 'a \<Rightarrow> 'a result" where
  "map_math_err r = (case r of Inl e \<Rightarrow> Inl (Vault_Err (AsyncVaultError_from e)) | Inr x \<Rightarrow> Inr x)"

lemma map_math_err_Inr [res_simps]: "map_math_err r = Inr x \<longleftrightarrow> r = Inr x"
  by (simp add: map_math_err_def split: sum.splits)

lemma map_math_err_ok [simp]: "map_math_err (Inr x) = Inr x"
  by (simp add: map_math_err_def)

abbreviation arith_err :: error where "arith_err \<equiv> Vault_Err ArithmeticError"

text \<open>\<open>checked_x(..).ok_or(AsyncVaultError::ArithmeticError)?\<close>\<close>

definition arith :: "'a option \<Rightarrow> ('a \<Rightarrow> 'b result) \<Rightarrow> 'b result" where
  "arith m k = ok_or m arith_err k"

lemma arith_Inr [res_simps]: "arith m k = Inr r \<longleftrightarrow> (\<exists>x. m = Some x \<and> k x = Inr r)"
  by (simp add: arith_def res_simps)

lemma arith_Some [simp]: "arith (Some x) k = k x"
  by (simp add: arith_def)

lemma arith_None [simp]: "arith None k = Inl arith_err"
  by (simp add: arith_def)

lemma arith_weak_cong [cong]: "m = m' \<Longrightarrow> arith m k = arith m' k"
  by simp

end
