(* ===== verification/Vault_State.thy ===== *)
theory Vault_State
  imports Vault_Error
begin

text \<open>
  The account types of \<open>state/async_vault_v2.rs\<close> and \<open>state/request.rs\<close> with the methods
  they carry: role and lifecycle guards, NAV freshness and NAV update bounds, deposit caps, the
  configuration check, the tranche queue counters and the position ledger. A method that
  mutates its receiver returns the new record; an error discards it, as the failed transaction
  does. The rolling limits are in \<open>Rolling_Limit\<close>.
\<close>

subsection \<open>Constants\<close>

definition MAX_BPS :: u16 where "MAX_BPS = 10000"
definition SECONDS_PER_YEAR :: u128 where "SECONDS_PER_YEAR = 31536000"
definition TRANCHE_REQUEST_LIMIT_COUNT :: nat where "TRANCHE_REQUEST_LIMIT_COUNT = 4"
definition MAX_APPROVED_ASSETS :: u8 where "MAX_APPROVED_ASSETS = 8"
definition MAX_VENUE_DISCRIMINATORS :: nat where "MAX_VENUE_DISCRIMINATORS = 8"
definition MAX_VENUE_DISCRIMINATOR_BYTES :: nat where
  "MAX_VENUE_DISCRIMINATOR_BYTES = MAX_VENUE_DISCRIMINATORS * 8"

subsection \<open>Requests\<close>

datatype RequestState = Pending | Claimable | Canceled

datatype RequestType = Deposit | Redeem

record request =
  req_vault :: pubkey
  req_request_type :: RequestType
  req_request_state :: RequestState
  req_owner :: pubkey
  req_amount :: u64
  req_price :: u128
  req_asset_mint_address :: pubkey
  req_share_mint_address :: pubkey
  req_created_at :: i64
  req_nav_update_version :: u64
  req_operator :: "pubkey option"
  req_tlv :: bytes \<comment> \<open>the account data from \<open>REQUEST_TLV_START\<close> on\<close>

subsection \<open>The vault\<close>

datatype NavMode = AuthoritySigned | Oracle | Hybrid

record vault =
  v_asset_mint :: pubkey
  v_approved_asset_count :: u8
  v_share_mint :: pubkey
  v_vault_token_account :: pubkey
  v_authority :: pubkey
  v_curator :: pubkey
  v_manager :: pubkey
  v_hot_manager :: pubkey
  v_fulfiller :: pubkey
  v_breaker :: pubkey
  v_fee_recipient :: pubkey
  v_paused :: bool
  v_initialized :: bool
  v_pending_vault :: pubkey
  v_nav :: u128
  v_nav_version :: u64
  v_nav_mode :: NavMode
  v_require_fresh_nav :: bool
  v_max_nav_delta_bps :: u16
  v_max_implied_apy_bps :: u32
  v_max_nav_staleness_slots :: u64
  v_last_nav_update_slot :: u64
  v_last_nav_update_timestamp :: i64
  v_pending_async_requests :: u16
  v_total_asset_balance :: u64
  v_deposit_cap :: u64
  v_pending_deposit_amount :: u64
  v_rolling_limit_window_slots :: u64
  v_manager_rolling_limit :: u64
  v_manager_window_start_slot :: u64
  v_manager_window_amount :: u64
  v_external_withdraw_rolling_limit :: u64
  v_redemption_rolling_limit :: u64
  v_external_withdraw_window_start_slot :: u64
  v_external_withdraw_window_amount :: u64
  v_redemption_window_start_slot :: u64
  v_redemption_window_amount :: u64
  v_timelock_delay_slots :: u64
  v_performance_fee_bps :: u16
  v_performance_fee_crystallization_interval_seconds :: u64
  v_protocol_fee_bps :: u16
  v_protocol_fee_recipient :: pubkey
  v_instant_redemption_fee_bps :: u16
  v_high_water_mark :: u128
  v_tranche_config :: "pubkey option"
  v_last_fee_crystallization_timestamp :: i64
  v_reserve_bump :: u8
  v_pending_vault_bump :: u8
  v_bump :: u8
  v_pending_authority :: "pubkey option"
  v_tlv :: bytes \<comment> \<open>the account data from \<open>TLV_START\<close> on\<close>

subsection \<open>The other accounts\<close>

record ProtocolFeeConfig =
  pfc_authority :: pubkey
  pfc_protocol_fee_recipient :: pubkey
  pfc_bump :: u8

record VaultAsset =
  va_vault :: pubkey
  va_asset_mint :: pubkey
  va_reserve :: pubkey
  va_pending_vault :: pubkey
  va_idle_balance :: u64
  va_deployed_balance :: u64
  va_pending_deposit_amount :: u64
  va_deposit_cap :: u64
  va_manager_window_start_slot :: u64
  va_manager_window_amount :: u64
  va_reserve_bump :: u8
  va_pending_vault_bump :: u8
  va_bump :: u8

record InstantSettlementUser =
  isu_vault :: pubkey
  isu_user :: pubkey
  isu_deposit_window_start_slot :: u64
  isu_deposit_window_amount :: u64
  isu_redeem_window_start_slot :: u64
  isu_redeem_window_amount :: u64
  isu_bump :: u8

datatype VenueType = ExternalProtocol | VaultV2

record VenueEntry =
  ve_registry_authority :: pubkey
  ve_venue_id :: bytes
  ve_target_program :: pubkey
  ve_allowed_discriminator_count :: u8
  ve_allowed_discriminators :: bytes
  ve_risk_class :: u8
  ve_venue_type :: VenueType
  ve_routine_safe :: bool
  ve_paused :: bool
  ve_bump :: u8

record VaultVenue =
  vv_vault :: pubkey
  vv_venue_entry :: pubkey
  vv_recipient_authority :: pubkey
  vv_target_program :: pubkey
  vv_routine_safe :: bool
  vv_paused :: bool
  vv_position_count :: u16
  vv_approved_at_slot :: u64
  vv_bump :: u8

record StrategyPolicy =
  sp_vault :: pubkey
  sp_strategist :: pubkey
  sp_merkle_root :: bytes
  sp_version :: u64
  sp_paused :: bool
  sp_executing :: bool
  sp_bump :: u8

record Position =
  pos_vault :: pubkey
  pos_venue_entry :: pubkey
  pos_vault_venue :: pubkey
  pos_asset_mint :: pubkey
  pos_token_account :: pubkey
  pos_amount :: u64
  pos_token_account_bump :: u8
  pos_bump :: u8

record PositionLedger =
  pl_position_amount :: u64
  pl_idle_balance :: u64
  pl_deployed_balance :: u64

record TrancheConfig =
  tc_vault :: pubkey
  tc_senior_share_mint :: pubkey
  tc_junior_share_mint :: pubkey
  tc_senior_nav :: u128
  tc_junior_nav :: u128
  tc_senior_supply :: u64
  tc_junior_supply :: u64
  tc_senior_target_bps :: u16
  tc_min_junior_ratio_bps :: u16
  tc_min_request_amounts :: "u64 list"
  tc_max_request_amounts :: "u64 list"
  tc_senior_subscription_request_total :: u64
  tc_senior_subscription_request_last_processed :: u64
  tc_senior_redemption_request_total :: u64
  tc_senior_redemption_request_last_processed :: u64
  tc_junior_subscription_request_total :: u64
  tc_junior_subscription_request_last_processed :: u64
  tc_junior_redemption_request_total :: u64
  tc_junior_redemption_request_last_processed :: u64
  tc_last_waterfall_slot :: u64
  tc_last_waterfall_timestamp :: i64
  tc_bump :: u8

subsection \<open>Guards of the vault\<close>

definition Vault_is_primary_asset :: "vault \<Rightarrow> pubkey \<Rightarrow> bool" where
  "Vault_is_primary_asset v asset_mint \<longleftrightarrow> v_asset_mint v = asset_mint"

definition Vault_assert_unpaused_and_initialized :: "vault \<Rightarrow> unit result" where
  "Vault_assert_unpaused_and_initialized v =
     require (v_initialized v) (Vault_Err UninitializedVault) (
     require (\<not> v_paused v) (Vault_Err PausedVault) (
     Inr ()))"

definition Vault_assert_uninitialized :: "vault \<Rightarrow> unit result" where
  "Vault_assert_uninitialized v =
     require (\<not> v_initialized v) (Vault_Err VaultAlreadyInitialized) (Inr ())"

definition Vault_assert_curator :: "vault \<Rightarrow> pubkey \<Rightarrow> unit result" where
  "Vault_assert_curator v signer =
     require (signer = v_curator v) (Vault_Err UnauthorizedSigner) (Inr ())"

definition Vault_assert_curator_or_fulfiller :: "vault \<Rightarrow> pubkey \<Rightarrow> unit result" where
  "Vault_assert_curator_or_fulfiller v signer =
     require (signer = v_curator v \<or> signer = v_fulfiller v) (Vault_Err UnauthorizedSigner) (Inr ())"

definition Vault_assert_breaker :: "vault \<Rightarrow> pubkey \<Rightarrow> unit result" where
  "Vault_assert_breaker v signer =
     require (signer = v_breaker v) (Vault_Err UnauthorizedSigner) (Inr ())"

definition Vault_assert_fresh_nav_for_request :: "vault \<Rightarrow> u64 \<Rightarrow> unit result" where
  "Vault_assert_fresh_nav_for_request v request_nav_version =
     (if v_require_fresh_nav v
      then require (v_nav_version v > request_nav_version) (Vault_Err StaleNav) (Inr ())
      else Inr ())"

definition Vault_assert_nav_not_stale :: "vault \<Rightarrow> u64 \<Rightarrow> unit result" where
  "Vault_assert_nav_not_stale v current_slot =
     (if v_max_nav_staleness_slots v = 0 then Inr ()
      else arith (checked_sub current_slot (v_last_nav_update_slot v)) (\<lambda>elapsed_slots.
           require (elapsed_slots \<le> v_max_nav_staleness_slots v) (Vault_Err StaleNav) (Inr ())))"

definition Vault_assert_deposit_cap_allows :: "vault \<Rightarrow> u64 \<Rightarrow> unit result" where
  "Vault_assert_deposit_cap_allows v additional_amount =
     (if v_deposit_cap v = 0 then Inr ()
      else arith (checked_add (v_total_asset_balance v) (v_pending_deposit_amount v)) (\<lambda>reserved.
           arith (checked_add reserved additional_amount) (\<lambda>reserved_total.
           require (reserved_total \<le> v_deposit_cap v) (Vault_Err DepositCapExceeded) (Inr ()))))"

definition Vault_validate_config :: "vault \<Rightarrow> unit result" where
  "Vault_validate_config v =
     require (v_max_nav_delta_bps v \<le> MAX_BPS
              \<and> v_performance_fee_bps v \<le> MAX_BPS
              \<and> v_protocol_fee_bps v \<le> MAX_BPS
              \<and> v_instant_redemption_fee_bps v \<le> MAX_BPS) (Vault_Err FeeBpsExceeded) (
     require (v_nav_mode v = AuthoritySigned) (Vault_Err UnsupportedPhaseConfig) (
     require (v_tranche_config v = None \<or> v_performance_fee_bps v = 0)
       (Vault_Err UnsupportedPhaseConfig) (
     require (v_protocol_fee_bps v > 0 \<longrightarrow> v_protocol_fee_recipient v \<noteq> Pubkey_default)
       (Vault_Err InvalidFeeRecipient) (
     require (v_rolling_limit_window_slots v > 0
              \<or> (v_manager_rolling_limit v = 0
                 \<and> v_external_withdraw_rolling_limit v = 0
                 \<and> v_redemption_rolling_limit v = 0)) (Vault_Err InvalidRollingLimitConfig) (
     Inr ())))))"

subsection \<open>Bounds on a NAV update\<close>

definition Vault_validate_nav_delta :: "vault \<Rightarrow> u128 \<Rightarrow> unit result" where
  "Vault_validate_nav_delta v updated_nav =
     (if v_max_nav_delta_bps v = 0 \<or> v_nav v = 0 then Inr ()
      else
        let delta = abs_diff updated_nav (v_nav v) in
        arith (checked_mul delta (widen MAX_BPS)) (\<lambda>scaled.
        arith (checked_div scaled (v_nav v)) (\<lambda>delta_bps.
        require (delta_bps \<le> widen (v_max_nav_delta_bps v)) (Vault_Err NavDeltaExceeded) (
        Inr ()))))"

definition Vault_validate_implied_apy :: "vault \<Rightarrow> u128 \<Rightarrow> i64 \<Rightarrow> unit result" where
  "Vault_validate_implied_apy v updated_nav now =
     (if v_max_implied_apy_bps v = 0 \<or> v_nav v = 0 \<or> updated_nav \<le> v_nav v
         \<or> v_last_nav_update_timestamp v = 0
      then Inr ()
      else
        arith (checked_sub_i64 now (v_last_nav_update_timestamp v)) (\<lambda>elapsed_seconds.
        if sint elapsed_seconds \<le> 0 then Inr ()
        else
          arith (checked_sub updated_nav (v_nav v)) (\<lambda>gain.
          arith (checked_mul gain (widen MAX_BPS)) (\<lambda>scaled.
          arith (checked_div scaled (v_nav v)) (\<lambda>gain_bps.
          arith (checked_mul gain_bps SECONDS_PER_YEAR) (\<lambda>yearly.
          arith (checked_div yearly (scast elapsed_seconds)) (\<lambda>annualized_bps.
          require (annualized_bps \<le> widen (v_max_implied_apy_bps v)) (Vault_Err NavApyExceeded) (
          Inr ()))))))))"

definition Vault_validate_nav_update :: "vault \<Rightarrow> u128 \<Rightarrow> i64 \<Rightarrow> unit result" where
  "Vault_validate_nav_update v updated_nav now =
     try_ok (Vault_validate_nav_delta v updated_nav) (\<lambda>_.
     try_ok (Vault_validate_implied_apy v updated_nav now) (\<lambda>_.
     Inr ()))"

subsection \<open>Tranche queue counters\<close>

text \<open>
  The source selects one of four counters by share mint and request type through a mutable
  reference; here the selected counter is read and written by the same case distinction.
\<close>

definition TrancheConfig_next_queue_request_id ::
  "TrancheConfig \<Rightarrow> pubkey \<Rightarrow> RequestType \<Rightarrow> (TrancheConfig \<times> u64) result" where
  "TrancheConfig_next_queue_request_id tc selected_share_mint request_type =
     (if selected_share_mint = tc_senior_share_mint tc then
        (if request_type = Deposit then
           let total = tc_senior_subscription_request_total tc + 1
           in Inr (tc\<lparr>tc_senior_subscription_request_total := total\<rparr>, total)
         else
           let total = tc_senior_redemption_request_total tc + 1
           in Inr (tc\<lparr>tc_senior_redemption_request_total := total\<rparr>, total))
      else if selected_share_mint = tc_junior_share_mint tc then
        (if request_type = Deposit then
           let total = tc_junior_subscription_request_total tc + 1
           in Inr (tc\<lparr>tc_junior_subscription_request_total := total\<rparr>, total)
         else
           let total = tc_junior_redemption_request_total tc + 1
           in Inr (tc\<lparr>tc_junior_redemption_request_total := total\<rparr>, total))
      else Inl (Vault_Err InvalidShareMint))"

definition TrancheConfig_check_and_advance_queue ::
  "TrancheConfig \<Rightarrow> pubkey \<Rightarrow> RequestType \<Rightarrow> u64 \<Rightarrow> TrancheConfig result" where
  "TrancheConfig_check_and_advance_queue tc selected_share_mint request_type request_id =
     (if selected_share_mint = tc_senior_share_mint tc then
        (if request_type = Deposit then
           require (request_id = tc_senior_subscription_request_last_processed tc + 1)
             (Vault_Err SubscriptionQueueOutOfOrder)
             (Inr (tc\<lparr>tc_senior_subscription_request_last_processed := request_id\<rparr>))
         else
           require (request_id = tc_senior_redemption_request_last_processed tc + 1)
             (Vault_Err RedemptionQueueOutOfOrder)
             (Inr (tc\<lparr>tc_senior_redemption_request_last_processed := request_id\<rparr>)))
      else if selected_share_mint = tc_junior_share_mint tc then
        (if request_type = Deposit then
           require (request_id = tc_junior_subscription_request_last_processed tc + 1)
             (Vault_Err SubscriptionQueueOutOfOrder)
             (Inr (tc\<lparr>tc_junior_subscription_request_last_processed := request_id\<rparr>))
         else
           require (request_id = tc_junior_redemption_request_last_processed tc + 1)
             (Vault_Err RedemptionQueueOutOfOrder)
             (Inr (tc\<lparr>tc_junior_redemption_request_last_processed := request_id\<rparr>)))
      else Inl (Vault_Err InvalidShareMint))"

subsection \<open>Secondary assets\<close>

definition VaultAsset_assert_matches :: "VaultAsset \<Rightarrow> pubkey \<Rightarrow> pubkey \<Rightarrow> unit result" where
  "VaultAsset_assert_matches va vault_key asset_mint =
     require (va_vault va = vault_key) (Vault_Err InvalidVault) (
     require (va_asset_mint va = asset_mint) (Vault_Err InvalidAssetMint) (
     Inr ()))"

definition VaultAsset_assert_pending_vault :: "VaultAsset \<Rightarrow> pubkey \<Rightarrow> unit result" where
  "VaultAsset_assert_pending_vault va pending_vault =
     require (va_pending_vault va = pending_vault) (Vault_Err InvalidPendingVault) (Inr ())"

definition VaultAsset_assert_reserve :: "VaultAsset \<Rightarrow> pubkey \<Rightarrow> unit result" where
  "VaultAsset_assert_reserve va reserve =
     require (va_reserve va = reserve) (Vault_Err InvalidVault) (Inr ())"

definition VaultAsset_assert_deposit_cap_allows :: "VaultAsset \<Rightarrow> u64 \<Rightarrow> unit result" where
  "VaultAsset_assert_deposit_cap_allows va additional_amount =
     (if va_deposit_cap va = 0 then Inr ()
      else arith (checked_add (va_idle_balance va) (va_pending_deposit_amount va)) (\<lambda>reserved.
           arith (checked_add reserved additional_amount) (\<lambda>reserved_total.
           require (reserved_total \<le> va_deposit_cap va) (Vault_Err DepositCapExceeded) (Inr ()))))"

definition InstantSettlementUser_ensure_initialized ::
  "InstantSettlementUser \<Rightarrow> pubkey \<Rightarrow> pubkey \<Rightarrow> u8 \<Rightarrow> InstantSettlementUser result" where
  "InstantSettlementUser_ensure_initialized u vault_key user bump =
     (if isu_vault u = Pubkey_default \<and> isu_user u = Pubkey_default
      then Inr (u\<lparr>isu_vault := vault_key, isu_user := user, isu_bump := bump\<rparr>)
      else
        require (isu_vault u = vault_key) (Vault_Err InvalidVault) (
        require (isu_user u = user) (Vault_Err UnauthorizedSigner) (
        Inr u)))"

subsection \<open>Venues, policies and positions\<close>

definition VenueEntry_assert_active :: "VenueEntry \<Rightarrow> unit result" where
  "VenueEntry_assert_active ve = require (\<not> ve_paused ve) (Vault_Err VenuePaused) (Inr ())"

definition VenueEntry_assert_authority :: "VenueEntry \<Rightarrow> pubkey \<Rightarrow> unit result" where
  "VenueEntry_assert_authority ve signer =
     require (signer = ve_registry_authority ve) (Vault_Err UnauthorizedSigner) (Inr ())"

text \<open>\<open>slice::chunks_exact(n)\<close> for \<open>n > 0\<close>: the full chunks, dropping a shorter rest.\<close>

function chunks_exact :: "nat \<Rightarrow> 'a list \<Rightarrow> 'a list list" where
  "chunks_exact n xs =
     (if n = 0 \<or> length xs < n then [] else take n xs # chunks_exact n (drop n xs))"
  by pat_completeness auto
termination
  by (relation "measure (\<lambda>(n, xs). length xs)") auto

declare chunks_exact.simps [simp del]

definition VenueEntry_assert_instruction_allowed :: "VenueEntry \<Rightarrow> bytes \<Rightarrow> unit result" where
  "VenueEntry_assert_instruction_allowed ve instruction_data =
     ok_or (get_range instruction_data 0 8) (Vault_Err InvalidVenueInstruction) (\<lambda>discriminator.
     let active_len = unat (ve_allowed_discriminator_count ve) * 8 in
     ok_or (get_range (ve_allowed_discriminators ve) 0 active_len)
       (Vault_Err InvalidVenueDiscriminatorCount) (\<lambda>allowed.
     require (list_ex (\<lambda>entry. entry = discriminator) (chunks_exact 8 allowed))
       (Vault_Err VenueInstructionNotAllowed) (
     Inr ())))"

definition VaultVenue_assert_active :: "VaultVenue \<Rightarrow> unit result" where
  "VaultVenue_assert_active vv = require (\<not> vv_paused vv) (Vault_Err VenuePaused) (Inr ())"

definition VaultVenue_assert_manager_authorized ::
  "VaultVenue \<Rightarrow> vault \<Rightarrow> pubkey \<Rightarrow> unit result" where
  "VaultVenue_assert_manager_authorized vv v signer =
     require (signer = v_manager v \<or> (signer = v_hot_manager v \<and> vv_routine_safe vv))
       (Vault_Err UnauthorizedSigner) (Inr ())"

definition VaultVenue_assert_empty :: "VaultVenue \<Rightarrow> unit result" where
  "VaultVenue_assert_empty vv =
     require (vv_position_count vv = 0) (Vault_Err VenuePositionNonZero) (Inr ())"

definition StrategyPolicy_assert_bound ::
  "StrategyPolicy \<Rightarrow> pubkey \<Rightarrow> pubkey \<Rightarrow> unit result" where
  "StrategyPolicy_assert_bound sp vault_key strategist =
     require (sp_vault sp = vault_key) (Vault_Err InvalidVault) (
     require (sp_strategist sp = strategist) (Vault_Err InvalidStrategyPolicy) (
     Inr ()))"

definition StrategyPolicy_assert_not_executing :: "StrategyPolicy \<Rightarrow> unit result" where
  "StrategyPolicy_assert_not_executing sp =
     require (\<not> sp_executing sp) (Vault_Err ReentrantStrategyCall) (Inr ())"

definition StrategyPolicy_assert_active :: "StrategyPolicy \<Rightarrow> unit result" where
  "StrategyPolicy_assert_active sp =
     require (\<not> sp_paused sp) (Vault_Err StrategyPolicyPaused) (
     require (sp_merkle_root sp \<noteq> replicate 32 0) (Vault_Err EmptyMerkleRoot) (
     StrategyPolicy_assert_not_executing sp))"

definition Position_assert_empty :: "Position \<Rightarrow> unit result" where
  "Position_assert_empty p =
     require (pos_amount p = 0) (Vault_Err PositionBalanceNonZero) (Inr ())"

subsection \<open>The position ledger\<close>

definition PositionLedger_new :: "u64 \<Rightarrow> u64 \<Rightarrow> u64 \<Rightarrow> PositionLedger" where
  "PositionLedger_new position_amount idle_balance deployed_balance =
     \<lparr>pl_position_amount = position_amount, pl_idle_balance = idle_balance,
      pl_deployed_balance = deployed_balance\<rparr>"

definition PositionLedger_deploy :: "PositionLedger \<Rightarrow> u64 \<Rightarrow> PositionLedger result" where
  "PositionLedger_deploy l amount =
     require (pl_idle_balance l \<ge> amount) (Vault_Err InsufficientLiquidity) (
     arith (checked_add (pl_position_amount l) amount) (\<lambda>position_amount.
     arith (checked_sub (pl_idle_balance l) amount) (\<lambda>idle_balance.
     arith (checked_add (pl_deployed_balance l) amount) (\<lambda>deployed_balance.
     Inr (PositionLedger_new position_amount idle_balance deployed_balance)))))"

definition PositionLedger_pull :: "PositionLedger \<Rightarrow> u64 \<Rightarrow> PositionLedger result" where
  "PositionLedger_pull l amount =
     require (pl_position_amount l \<ge> amount \<and> pl_deployed_balance l \<ge> amount)
       (Vault_Err InsufficientPositionBalance) (
     arith (checked_sub (pl_position_amount l) amount) (\<lambda>position_amount.
     arith (checked_add (pl_idle_balance l) amount) (\<lambda>idle_balance.
     arith (checked_sub (pl_deployed_balance l) amount) (\<lambda>deployed_balance.
     Inr (PositionLedger_new position_amount idle_balance deployed_balance)))))"

subsection \<open>Bundles\<close>

text \<open>The guards unfolded, with what their success means: the facts a handler's proof starts from.\<close>

lemmas vault_guard_defs =
  Vault_is_primary_asset_def Vault_assert_unpaused_and_initialized_def
  Vault_assert_uninitialized_def Vault_assert_curator_def Vault_assert_curator_or_fulfiller_def
  Vault_assert_breaker_def

lemmas asset_guard_defs =
  VaultAsset_assert_matches_def VaultAsset_assert_pending_vault_def VaultAsset_assert_reserve_def

lemmas venue_guard_defs =
  VenueEntry_assert_active_def VenueEntry_assert_authority_def VaultVenue_assert_active_def
  VaultVenue_assert_manager_authorized_def VaultVenue_assert_empty_def Position_assert_empty_def

lemmas policy_guard_defs =
  StrategyPolicy_assert_bound_def StrategyPolicy_assert_not_executing_def
  StrategyPolicy_assert_active_def

lemma Vault_assert_deposit_cap_allows_ok:
  "Vault_assert_deposit_cap_allows v a = Inr () \<longleftrightarrow>
     v_deposit_cap v = 0
     \<or> unat (v_total_asset_balance v) + unat (v_pending_deposit_amount v) + unat a
         \<le> unat (v_deposit_cap v)" (is "?l \<longleftrightarrow> ?r")
proof
  assume ?l
  then show ?r
    by (auto simp: Vault_assert_deposit_cap_allows_def res_simps checked_simps word_le_nat_alt
        split: if_splits)
next
  assume r: ?r
  show ?l
  proof (cases "v_deposit_cap v = 0")
    case False
    let ?b = "v_total_asset_balance v" and ?p = "v_pending_deposit_amount v"
    have bound: "unat ?b + unat ?p + unat a < 2 ^ 64"
      using r False unat_bound [of "v_deposit_cap v"] by simp
    then have "unat ?b + unat ?p < 2 ^ LENGTH(64)" by simp
    from checked_add_total [OF this] obtain s
      where s: "checked_add ?b ?p = Some s" "unat s = unat ?b + unat ?p" by blast
    from bound have "unat s + unat a < 2 ^ LENGTH(64)" by (simp add: s(2))
    from checked_add_total [OF this] obtain t
      where t: "checked_add s a = Some t" "unat t = unat ?b + unat ?p + unat a"
      by (auto simp: s(2))
    with r False s(1) t show ?thesis
      by (simp add: Vault_assert_deposit_cap_allows_def word_le_nat_alt)
  qed (simp add: Vault_assert_deposit_cap_allows_def)
qed

end
