(* ===== verification/Tlv.thy ===== *)
theory Tlv
  imports Vault_State "HOL-Library.AList"
begin

text \<open>
  The type-length-value region behind the vault and request accounts (\<open>extensions/tlv.rs\<close>, and
  the clients' reader in \<open>clients/rust/.../extensions/mod.rs\<close>). The routines walk a byte buffer
  by offset, as in the source. Their specification is an association list of extension ids and
  values: \<open>tlv_encode\<close> lays such a list out, and every routine on the bytes implements the
  corresponding operation on the list.
\<close>

definition TLV_TYPE_SIZE :: nat where "TLV_TYPE_SIZE = 2"
definition TLV_LENGTH_SIZE :: nat where "TLV_LENGTH_SIZE = 2"
definition TLV_HEADER_SIZE :: nat where "TLV_HEADER_SIZE = TLV_TYPE_SIZE + TLV_LENGTH_SIZE"

lemma TLV_HEADER_SIZE_eq [simp]: "TLV_HEADER_SIZE = 4"
  by (simp add: TLV_HEADER_SIZE_def TLV_TYPE_SIZE_def TLV_LENGTH_SIZE_def)

subsection \<open>The routines\<close>

text \<open>\<open>u16::from_le_bytes([tlv_data[i], tlv_data[i + 1]])\<close>\<close>

definition read_u16 :: "bytes \<Rightarrow> nat \<Rightarrow> u16" where
  "read_u16 tlv_data i = u16_from_le [tlv_data ! i, tlv_data ! (i + 1)]"

text \<open>The range of the value of the first entry of a type, from an offset on.\<close>

function get_extension_range_from :: "bytes \<Rightarrow> u16 \<Rightarrow> nat \<Rightarrow> (nat \<times> nat) option" where
  "get_extension_range_from tlv_data ext_type_id offset =
     (if offset + TLV_HEADER_SIZE \<le> length tlv_data then
        let entry_type = read_u16 tlv_data offset;
            entry_len = unat (read_u16 tlv_data (offset + 2));
            value_end = offset + TLV_HEADER_SIZE + entry_len
        in if value_end > length tlv_data then None
           else if entry_type = ext_type_id then Some (offset + TLV_HEADER_SIZE, value_end)
           else get_extension_range_from tlv_data ext_type_id value_end
      else None)"
  by pat_completeness auto
termination
  by (relation "measure (\<lambda>(tlv, _, offset). length tlv - offset)") auto

declare get_extension_range_from.simps [simp del]

definition get_extension_bytes_raw :: "bytes \<Rightarrow> u16 \<Rightarrow> bytes option" where
  "get_extension_bytes_raw tlv_data ext_type_id =
     map_option (\<lambda>(a, b). take (b - a) (drop a tlv_data))
       (get_extension_range_from tlv_data ext_type_id 0)"

text \<open>The mutable slice is its range in the buffer.\<close>

definition get_extension_bytes_raw_mut :: "bytes \<Rightarrow> u16 \<Rightarrow> (nat \<times> nat) option" where
  "get_extension_bytes_raw_mut tlv_data ext_type_id = get_extension_range_from tlv_data ext_type_id 0"

definition has_extension_raw :: "bytes \<Rightarrow> u16 \<Rightarrow> bool" where
  "has_extension_raw tlv_data ext_type_id \<longleftrightarrow> get_extension_bytes_raw tlv_data ext_type_id \<noteq> None"

definition write_extension_raw ::
  "bytes \<Rightarrow> nat \<Rightarrow> u16 \<Rightarrow> nat \<Rightarrow> bytes \<Rightarrow> bytes result" where
  "write_extension_raw tlv_data write_offset ext_type_id data_len value =
     require (length value \<le> data_len) (Vault_Err InvalidExtensionData) (
     require (write_offset + TLV_HEADER_SIZE + data_len \<le> length tlv_data)
       (Vault_Err InvalidExtensionData) (
     let tlv_data = splice tlv_data write_offset (u16_to_le ext_type_id);
         tlv_data = splice tlv_data (write_offset + 2) (u16_to_le (word_of_nat data_len));
         value_start = write_offset + TLV_HEADER_SIZE;
         tlv_data = splice tlv_data value_start value;
         tlv_data = splice tlv_data (value_start + length value)
                      (replicate (data_len - length value) 0)
     in Inr tlv_data))"

text \<open>
  The overwrite loop. An entry shorter than the new value would make the second slice
  (\<open>value_start + new_value.len()..value_end\<close>) panic.
\<close>

function update_extension_from :: "bytes \<Rightarrow> u16 \<Rightarrow> bytes \<Rightarrow> nat \<Rightarrow> bytes result" where
  "update_extension_from tlv_data ext_type new_value offset =
     (if offset + TLV_HEADER_SIZE \<le> length tlv_data then
        let entry_type = read_u16 tlv_data offset;
            entry_len = unat (read_u16 tlv_data (offset + 2));
            value_end = offset + TLV_HEADER_SIZE + entry_len
        in if value_end > length tlv_data then Inl (Vault_Err UninitializedExtension)
           else if entry_type = ext_type then
             let value_start = offset + TLV_HEADER_SIZE
             in require (value_start + length new_value \<le> value_end) Panicked (
                let tlv_data = splice tlv_data value_start new_value
                in Inr (splice tlv_data (value_start + length new_value)
                          (replicate (value_end - (value_start + length new_value)) 0)))
           else update_extension_from tlv_data ext_type new_value value_end
      else Inl (Vault_Err UninitializedExtension))"
  by pat_completeness auto
termination
  by (relation "measure (\<lambda>(tlv, _, _, offset). length tlv - offset)") auto

declare update_extension_from.simps [simp del]

function tlv_used_len_from :: "bytes \<Rightarrow> nat \<Rightarrow> nat" where
  "tlv_used_len_from tlv_data offset =
     (if offset + TLV_HEADER_SIZE \<le> length tlv_data then
        let entry_type = read_u16 tlv_data offset
        in if entry_type = 0 then offset
           else
             let entry_len = unat (read_u16 tlv_data (offset + 2));
                 next = offset + TLV_HEADER_SIZE + entry_len
             in if next > length tlv_data then offset
                else tlv_used_len_from tlv_data next
      else offset)"
  by pat_completeness auto
termination
  by (relation "measure (\<lambda>(tlv, offset). length tlv - offset)") auto

declare tlv_used_len_from.simps [simp del]

definition tlv_used_len :: "bytes \<Rightarrow> nat" where
  "tlv_used_len tlv_data = tlv_used_len_from tlv_data 0"

text \<open>The reader of the Rust client, a copy of the program's.\<close>

function get_tlv_bytes_from :: "bytes \<Rightarrow> u16 \<Rightarrow> nat \<Rightarrow> bytes option" where
  "get_tlv_bytes_from tlv_data ext_type offset =
     (if offset + TLV_HEADER_SIZE \<le> length tlv_data then
        let entry_type = read_u16 tlv_data offset;
            entry_len = unat (read_u16 tlv_data (offset + 2));
            value_end = offset + TLV_HEADER_SIZE + entry_len
        in if value_end > length tlv_data then None
           else if entry_type = ext_type
             then Some (take entry_len (drop (offset + TLV_HEADER_SIZE) tlv_data))
           else get_tlv_bytes_from tlv_data ext_type value_end
      else None)"
  by pat_completeness auto
termination
  by (relation "measure (\<lambda>(tlv, _, offset). length tlv - offset)") auto

declare get_tlv_bytes_from.simps [simp del]

definition get_tlv_bytes :: "bytes \<Rightarrow> u16 \<Rightarrow> bytes option" where
  "get_tlv_bytes tlv_data ext_type = get_tlv_bytes_from tlv_data ext_type 0"

subsection \<open>The association list a region stands for\<close>

definition tlv_entry :: "u16 \<times> bytes \<Rightarrow> bytes" where
  "tlv_entry e = u16_to_le (fst e) @ u16_to_le (word_of_nat (length (snd e))) @ snd e"

definition tlv_encode :: "(u16 \<times> bytes) list \<Rightarrow> bytes" where
  "tlv_encode es = concat (map tlv_entry es)"

definition tlv_wf :: "(u16 \<times> bytes) list \<Rightarrow> bool" where
  "tlv_wf es \<longleftrightarrow> (\<forall>(ty, v) \<in> set es. ty \<noteq> 0 \<and> length v < 2 ^ 16)"

text \<open>\<open>v\<close> padded with zeros to \<open>n\<close> bytes.\<close>

definition pad :: "nat \<Rightarrow> bytes \<Rightarrow> bytes" where
  "pad n v = v @ replicate (n - length v) 0"

lemma length_pad [simp]: "length v \<le> n \<Longrightarrow> length (pad n v) = n"
  by (simp add: pad_def)

lemma pad_full [simp]: "length v = n \<Longrightarrow> pad n v = v"
  by (simp add: pad_def)

lemma tlv_encode_simps [simp]:
  "tlv_encode [] = []"
  "tlv_encode (e # es) = tlv_entry e @ tlv_encode es"
  "tlv_encode (es @ fs) = tlv_encode es @ tlv_encode fs"
  by (simp_all add: tlv_encode_def)

lemma length_tlv_entry [simp]: "length (tlv_entry e) = 4 + length (snd e)"
  by (simp add: tlv_entry_def)

lemma tlv_encode_eq_Nil [simp]: "tlv_encode es = [] \<longleftrightarrow> es = []"
proof (cases es)
  case (Cons e fs)
  have "length (tlv_encode (e # fs)) \<noteq> 0" by simp
  with Cons show ?thesis by (metis length_0_conv list.distinct(1))
qed simp

lemma tlv_wf_simps [simp]:
  "tlv_wf []"
  "tlv_wf (e # es) \<longleftrightarrow> fst e \<noteq> 0 \<and> length (snd e) < 2 ^ 16 \<and> tlv_wf es"
  "tlv_wf (es @ fs) \<longleftrightarrow> tlv_wf es \<and> tlv_wf fs"
  by (auto simp: tlv_wf_def)

lemma u16_from_le_pair: "length bs = 2 \<Longrightarrow> u16_from_le [bs ! 0, bs ! 1] = u16_from_le bs"
  by (auto simp: length_Suc_conv numeral_2_eq_2)

lemma u16_to_le_nth: "u16_to_le w = [u16_to_le w ! 0, u16_to_le w ! 1]"
  by (rule nth_equalityI) (auto simp: less_Suc_eq numeral_2_eq_2)

text \<open>The header at a position inside a buffer.\<close>

lemma read_u16_at:
  "i = length pre \<Longrightarrow> read_u16 (pre @ u16_to_le w @ post) i = w"
proof -
  assume i: "i = length pre"
  have "read_u16 (pre @ u16_to_le w @ post) i = u16_from_le [u16_to_le w ! 0, u16_to_le w ! 1]"
    by (simp add: read_u16_def i nth_append)
  then show ?thesis by (simp only: u16_to_le_nth [symmetric] u16_le_roundtrip)
qed

lemma read_entry:
  assumes "length (snd e) < 2 ^ 16"
  shows "read_u16 (pre @ tlv_entry e @ post) (length pre) = fst e"
    and "unat (read_u16 (pre @ tlv_entry e @ post) (length pre + 2)) = length (snd e)"
proof -
  show "read_u16 (pre @ tlv_entry e @ post) (length pre) = fst e"
    using read_u16_at [OF refl, of pre "fst e"] by (simp add: tlv_entry_def)
  have "read_u16 (pre @ tlv_entry e @ post) (length pre + 2) = word_of_nat (length (snd e))"
    using read_u16_at [of "length pre + 2" "pre @ u16_to_le (fst e)"]
    by (simp add: tlv_entry_def)
  then show "unat (read_u16 (pre @ tlv_entry e @ post) (length pre + 2)) = length (snd e)"
    using assms by (simp add: unat_of_nat_small)
qed

lemma read_zeros:
  "i + 1 < length pre + n \<Longrightarrow> length pre \<le> i \<Longrightarrow> read_u16 (pre @ replicate n 0) i = 0"
  by (simp add: read_u16_def nth_append u16_from_le_def)

subsection \<open>The routines implement the list operations\<close>

text \<open>Each loop: over the zero tail, past an entry, and at the entry sought.\<close>

lemma get_range_zeros:
  "length pre \<le> i \<Longrightarrow> ty \<noteq> 0 \<Longrightarrow> get_extension_range_from (pre @ replicate n 0) ty i = None"
proof (induction "length pre + n - i" arbitrary: i rule: less_induct)
  case less
  then show ?case
    by (subst get_extension_range_from.simps) (auto simp: read_zeros Let_def)
qed

lemma get_range_skip:
  assumes "length (snd e) < 2 ^ 16" "fst e \<noteq> ty"
  shows "get_extension_range_from (pre @ tlv_entry e @ post) ty (length pre) =
         get_extension_range_from (pre @ tlv_entry e @ post) ty (length (pre @ tlv_entry e))"
  using assms read_entry [of e pre post]
  by (subst get_extension_range_from.simps) (simp add: Let_def add.assoc)

lemma get_range_hit:
  assumes "length v < 2 ^ 16"
  shows "get_extension_range_from (pre @ tlv_entry (ty, v) @ post) ty (length pre) =
         Some (length pre + 4, length pre + 4 + length v)"
  using assms read_entry [of "(ty, v)" pre post]
  by (subst get_extension_range_from.simps) simp

lemma get_range_past:
  "tlv_wf xs \<Longrightarrow> ty \<notin> fst ` set xs \<Longrightarrow>
   get_extension_range_from (pre @ tlv_encode xs @ post) ty (length pre) =
   get_extension_range_from (pre @ tlv_encode xs @ post) ty (length (pre @ tlv_encode xs))"
proof (induction xs arbitrary: pre)
  case (Cons x xs)
  from Cons.prems have "get_extension_range_from (pre @ tlv_encode (x # xs) @ post) ty (length pre) =
      get_extension_range_from (pre @ tlv_entry x @ (tlv_encode xs @ post)) ty (length (pre @ tlv_entry x))"
    using get_range_skip [of x ty pre "tlv_encode xs @ post"] by auto
  with Cons.IH [of "pre @ tlv_entry x"] Cons.prems show ?case by simp
qed simp

lemma get_range_encode:
  assumes "tlv_wf (xs @ (ty, v) # ys)" "ty \<notin> fst ` set xs"
  shows "get_extension_range_from (tlv_encode (xs @ (ty, v) # ys) @ post) ty 0 =
         Some (length (tlv_encode xs) + 4, length (tlv_encode xs) + 4 + length v)"
  using get_range_past [of xs ty "[]" "tlv_entry (ty, v) @ tlv_encode ys @ post"]
    get_range_hit [of v "tlv_encode xs" ty "tlv_encode ys @ post"] assms by simp

lemma map_of_split:
  "map_of es ty = Some v \<Longrightarrow> \<exists>xs ys. es = xs @ (ty, v) # ys \<and> ty \<notin> fst ` set xs"
proof (induction es)
  case (Cons e es)
  show ?case
  proof (cases "fst e = ty")
    case True
    with Cons.prems show ?thesis
      by (intro exI [of _ "[]"] exI [of _ es]) (auto simp: prod_eq_iff)
  next
    case False
    with Cons obtain xs ys where "es = xs @ (ty, v) # ys" "ty \<notin> fst ` set xs" by auto
    with False show ?thesis by (intro exI [of _ "e # xs"] exI [of _ ys]) auto
  qed
qed simp

lemma get_extension_bytes_raw_encode:
  assumes "tlv_wf es" "ty \<noteq> 0"
  shows "get_extension_bytes_raw (tlv_encode es @ replicate n 0) ty = map_of es ty"
proof (cases "map_of es ty")
  case None
  then have "ty \<notin> fst ` set es" by (simp add: map_of_eq_None_iff)
  from get_range_past [OF assms(1) this, of "[]" "replicate n 0"]
  have "get_extension_range_from (tlv_encode es @ replicate n 0) ty 0 =
      get_extension_range_from (tlv_encode es @ replicate n 0) ty (length (tlv_encode es))"
    by (simp only: append_Nil list.size)
  also have "\<dots> = None" by (rule get_range_zeros [OF order_refl assms(2)])
  finally have "get_extension_range_from (tlv_encode es @ replicate n 0) ty 0 = None" .
  with None show ?thesis by (simp only: get_extension_bytes_raw_def option.map)
next
  case (Some v)
  from map_of_split [OF Some]
  obtain xs ys where es: "es = xs @ (ty, v) # ys" "ty \<notin> fst ` set xs" by blast
  let ?h = "tlv_encode xs @ u16_to_le ty @ u16_to_le (word_of_nat (length v))"
  have "tlv_encode es @ replicate n 0 = ?h @ v @ tlv_encode ys @ replicate n 0"
    by (simp add: es(1) tlv_entry_def)
  moreover have "length ?h = length (tlv_encode xs) + 4" by simp
  moreover have "get_extension_range_from (tlv_encode es @ replicate n 0) ty 0 =
      Some (length (tlv_encode xs) + 4, length (tlv_encode xs) + 4 + length v)"
    using get_range_encode [of xs ty v ys] assms(1) es by blast
  ultimately show ?thesis
    by (simp add: get_extension_bytes_raw_def Some)
qed

lemma has_extension_raw_encode:
  "tlv_wf es \<Longrightarrow> ty \<noteq> 0 \<Longrightarrow>
   has_extension_raw (tlv_encode es @ replicate n 0) ty \<longleftrightarrow> map_of es ty \<noteq> None"
  by (simp add: has_extension_raw_def get_extension_bytes_raw_encode)

lemma get_tlv_bytes_from_eq:
  "get_tlv_bytes_from tlv ty i =
   map_option (\<lambda>(a, b). take (b - a) (drop a tlv)) (get_extension_range_from tlv ty i)"
proof (induction tlv ty i rule: get_tlv_bytes_from.induct)
  case (1 tlv ty i)
  then show ?case
    by (subst get_tlv_bytes_from.simps, subst get_extension_range_from.simps) (simp add: Let_def)
qed

lemma tlv_used_len_past:
  "tlv_wf xs \<Longrightarrow> tlv_used_len_from (pre @ tlv_encode xs @ post) (length pre) =
   tlv_used_len_from (pre @ tlv_encode xs @ post) (length (pre @ tlv_encode xs))"
proof (induction xs arbitrary: pre)
  case (Cons x xs)
  have "tlv_used_len_from (pre @ tlv_encode (x # xs) @ post) (length pre) =
      tlv_used_len_from (pre @ tlv_entry x @ (tlv_encode xs @ post)) (length (pre @ tlv_entry x))"
    using Cons.prems read_entry [of x pre "tlv_encode xs @ post"]
    by (subst tlv_used_len_from.simps) (simp add: Let_def add.assoc)
  with Cons.IH [of "pre @ tlv_entry x"] Cons.prems show ?case by simp
qed simp

lemma tlv_used_len_encode:
  assumes "tlv_wf es"
  shows "tlv_used_len (tlv_encode es @ replicate n 0) = length (tlv_encode es)"
proof -
  have "tlv_used_len_from (tlv_encode es @ replicate n 0) (length (tlv_encode es)) = length (tlv_encode es)"
    by (subst tlv_used_len_from.simps) (simp add: read_zeros Let_def)
  with tlv_used_len_past [OF assms, of "[]"] show ?thesis by (simp add: tlv_used_len_def)
qed

lemma splice_at: "length a = i \<Longrightarrow> length b = length v \<Longrightarrow> splice (a @ b @ c) i v = a @ v @ c"
  by (auto simp: splice_def)

lemma write_extension_raw_encode:
  assumes "length v \<le> k" "k + 4 \<le> n"
  shows "write_extension_raw (tlv_encode es @ replicate n 0) (length (tlv_encode es)) ty k v =
         Inr (tlv_encode (es @ [(ty, pad k v)]) @ replicate (n - (k + 4)) 0)"
proof -
  let ?pre = "tlv_encode es" and ?k = "u16_to_le (word_of_nat k)"
  have n: "replicate n (0 :: byte) = replicate 2 0 @ replicate 2 0 @ replicate (length v) 0
      @ replicate (k - length v) 0 @ replicate (n - (k + 4)) 0"
  proof -
    have "n = 2 + (2 + (length v + ((k - length v) + (n - (k + 4)))))" using assms by simp
    then show ?thesis by (metis replicate_add)
  qed
  have "splice (?pre @ replicate n 0) (length ?pre) (u16_to_le ty) =
      ?pre @ u16_to_le ty @ replicate 2 0 @ replicate (length v) 0
      @ replicate (k - length v) 0 @ replicate (n - (k + 4)) 0"
    unfolding n by (rule splice_at) auto
  moreover have "splice (?pre @ u16_to_le ty @ replicate 2 0 @ replicate (length v) 0
      @ replicate (k - length v) 0 @ replicate (n - (k + 4)) 0) (length ?pre + 2) ?k =
      ?pre @ u16_to_le ty @ ?k @ replicate (length v) 0 @ replicate (k - length v) 0
      @ replicate (n - (k + 4)) 0"
    using splice_at [of "?pre @ u16_to_le ty" "length ?pre + 2" "replicate 2 0" ?k] by simp
  moreover have "splice (?pre @ u16_to_le ty @ ?k @ replicate (length v) 0
      @ replicate (k - length v) 0 @ replicate (n - (k + 4)) 0) (length ?pre + 4) v =
      ?pre @ u16_to_le ty @ ?k @ v @ replicate (k - length v) 0 @ replicate (n - (k + 4)) 0"
    using splice_at [of "?pre @ u16_to_le ty @ ?k" "length ?pre + 4" "replicate (length v) 0" v]
    by simp
  moreover have "splice (?pre @ u16_to_le ty @ ?k @ v @ replicate (k - length v) 0
      @ replicate (n - (k + 4)) 0) (length ?pre + 4 + length v) (replicate (k - length v) 0) =
      ?pre @ u16_to_le ty @ ?k @ v @ replicate (k - length v) 0 @ replicate (n - (k + 4)) 0"
    using splice_at [of "?pre @ u16_to_le ty @ ?k @ v" "length ?pre + 4 + length v"
        "replicate (k - length v) 0" "replicate (k - length v) 0"] by simp
  ultimately show ?thesis
    using assms by (simp add: write_extension_raw_def Let_def tlv_entry_def pad_def)
qed

lemma update_past:
  "tlv_wf xs \<Longrightarrow> ty \<notin> fst ` set xs \<Longrightarrow>
   update_extension_from (pre @ tlv_encode xs @ post) ty v (length pre) =
   update_extension_from (pre @ tlv_encode xs @ post) ty v (length (pre @ tlv_encode xs))"
proof (induction xs arbitrary: pre)
  case (Cons x xs)
  from Cons.prems have "update_extension_from (pre @ tlv_encode (x # xs) @ post) ty v (length pre) =
      update_extension_from (pre @ tlv_entry x @ (tlv_encode xs @ post)) ty v (length (pre @ tlv_entry x))"
    using read_entry [of x pre "tlv_encode xs @ post"]
    by (subst update_extension_from.simps) (auto simp: add.assoc)
  with Cons.IH [of "pre @ tlv_entry x"] Cons.prems show ?case by simp
qed simp

lemma update_zeros:
  "length pre \<le> i \<Longrightarrow> ty \<noteq> 0 \<Longrightarrow>
   update_extension_from (pre @ replicate n 0) ty v i = Inl (Vault_Err UninitializedExtension)"
proof (induction "length pre + n - i" arbitrary: i rule: less_induct)
  case less
  then show ?case
    by (subst update_extension_from.simps) (auto simp: read_zeros Let_def)
qed

lemma update_hit:
  assumes "length old < 2 ^ 16" "length v \<le> length old"
  shows "update_extension_from (pre @ tlv_entry (ty, old) @ post) ty v (length pre) =
         Inr (pre @ tlv_entry (ty, pad (length old) v) @ post)"
proof -
  let ?h = "pre @ u16_to_le ty @ u16_to_le (word_of_nat (length old))"
  let ?z = "replicate (length old - length v) (0 :: byte)"
  have "splice (pre @ tlv_entry (ty, old) @ post) (length pre + 4) v =
      ?h @ v @ drop (length v) old @ post"
    using splice_at [of ?h "length pre + 4" "take (length v) old" v "drop (length v) old @ post"]
      assms(2) by (simp add: tlv_entry_def flip: append_assoc [of "take (length v) old"])
  moreover have "splice (?h @ v @ drop (length v) old @ post) (length pre + 4 + length v) ?z =
      ?h @ v @ ?z @ post"
    using splice_at [of "?h @ v" "length pre + 4 + length v" "drop (length v) old" ?z post] by simp
  ultimately show ?thesis
    using assms read_entry [of "(ty, old)" pre post]
    by (subst update_extension_from.simps) (simp add: tlv_entry_def pad_def Let_def)
qed

lemma update_extension_encode:
  assumes "tlv_wf (xs @ (ty, old) # ys)" "ty \<notin> fst ` set xs" "length v \<le> length old"
  shows "update_extension_from (tlv_encode (xs @ (ty, old) # ys) @ post) ty v 0 =
         Inr (tlv_encode (xs @ (ty, pad (length old) v) # ys) @ post)"
  using update_past [of xs ty "[]" "tlv_entry (ty, old) @ tlv_encode ys @ post" v]
    update_hit [of old v "tlv_encode xs" ty "tlv_encode ys @ post"] assms by simp

lemma update_split: "ty \<notin> fst ` set xs \<Longrightarrow> AList.update ty v (xs @ (ty, old) # ys) = xs @ (ty, v) # ys"
  by (induction xs) auto

end
