(* ===== verification/Fees.thy ===== *)
theory Fees
  imports Vault_State
begin

text \<open>
  The fee arithmetic of \<open>libs/vault_common/src/fee.rs\<close>, the split of a fee between the protocol
  and the fee recipient, and the conversion between assets and shares (\<open>utils.rs\<close>). Every
  operation is related to the exact quotient it approximates: fees round up, conversions down.
\<close>

subsection \<open>Fee types\<close>

datatype FeeType = FixedAmount u64 | Percentage u16

definition FeeType_validate :: "FeeType \<Rightarrow> VaultMathError + unit" where
  "FeeType_validate fee =
     (case fee of
        Percentage bps \<Rightarrow> if bps > MAX_BPS then Inl FeeBpsLimitReached else Inr ()
      | _ \<Rightarrow> Inr ())"

definition FeeType_get_fee :: "FeeType \<Rightarrow> u64 \<Rightarrow> VaultMathError + u64" where
  "FeeType_get_fee fee total_amount =
     (case fee of
        Percentage bps \<Rightarrow>
          ok_or (checked_mul (widen total_amount :: u128) (widen bps)) VaultMathArithmeticError (\<lambda>product.
          ok_or (checked_add product 9999) VaultMathArithmeticError (\<lambda>rounded.
          ok_or (checked_div rounded 10000) VaultMathArithmeticError (\<lambda>fee.
          ok_or (try_from fee) VaultMathArithmeticError Inr)))
      | FixedAmount amount \<Rightarrow> Inr amount)"

definition split_protocol_fee :: "u64 \<Rightarrow> u16 \<Rightarrow> (u64 \<times> u64) result" where
  "split_protocol_fee total_fee protocol_fee_bps =
     (if total_fee = 0 \<or> protocol_fee_bps = 0 then Inr (0, total_fee)
      else
        try_ok (map_math_err (FeeType_get_fee (Percentage protocol_fee_bps) total_fee)) (\<lambda>protocol_fee.
        arith (checked_sub total_fee protocol_fee) (\<lambda>fee_recipient_fee.
        Inr (protocol_fee, fee_recipient_fee))))"

subsection \<open>Assets and shares\<close>

text \<open>\<open>shares = net_amount * 10^decimals / nav\<close>, floored.\<close>

definition calculate_shares :: "u128 \<Rightarrow> u8 \<Rightarrow> u64 \<Rightarrow> u64 result" where
  "calculate_shares nav decimals net_amount =
     arith (checked_pow (10 :: u128) (unat decimals)) (\<lambda>precision.
     arith (checked_mul (widen net_amount) precision) (\<lambda>scaled.
     arith (checked_div scaled nav) (\<lambda>shares.
     arith (try_from shares) Inr)))"

text \<open>\<open>assets = share_amount * nav / 10^decimals\<close>, floored, and an error when it is zero.\<close>

definition calculate_assets :: "u128 \<Rightarrow> u8 \<Rightarrow> u64 \<Rightarrow> u64 result" where
  "calculate_assets nav decimals share_amount =
     arith (checked_pow (10 :: u128) (unat decimals)) (\<lambda>precision.
     arith (checked_mul (widen share_amount) nav) (\<lambda>scaled.
     arith (checked_div scaled precision) (\<lambda>assets.
     require (assets \<noteq> 0) arith_err (
     arith (try_from assets) Inr))))"

subsection \<open>What a fee is\<close>

text \<open>The rounded-up quotient: the least \<open>q\<close> with \<open>n \<le> q * d\<close>.\<close>

definition ceil_div :: "nat \<Rightarrow> nat \<Rightarrow> nat" where
  "ceil_div n d = (n + (d - 1)) div d"

lemma ceil_div_le_iff: "0 < d \<Longrightarrow> ceil_div n d \<le> q \<longleftrightarrow> n \<le> q * d"
proof -
  assume "0 < d"
  then have "ceil_div n d \<le> q \<longleftrightarrow> n + (d - 1) < Suc q * d"
    by (simp add: ceil_div_def div_less_iff_less_mult flip: less_Suc_eq_le)
  with \<open>0 < d\<close> show ?thesis by auto
qed

lemma ceil_div_0 [simp]: "ceil_div 0 d = 0"
  by (cases d) (simp_all add: ceil_div_def)

lemma ceil_div_mult [simp]: "0 < d \<Longrightarrow> ceil_div (n * d) d = n"
  by (simp add: ceil_div_def Suc_pred' add.commute flip: add_diff_assoc)

lemma FeeType_get_fee_percentage_Inr:
  "FeeType_get_fee (Percentage bps) amount = Inr fee \<longleftrightarrow> unat fee = ceil_div (unat amount * unat bps) 10000"
  (is "?l \<longleftrightarrow> ?r")
proof
  assume ?l
  then show ?r
    by (auto simp: FeeType_get_fee_def res_simps checked_simps ceil_div_def)
next
  assume r: ?r
  have "unat amount * unat bps < 2 ^ 64 * 2 ^ 16"
    using unat_bound [of amount] unat_bound [of bps] by (intro mult_strict_mono) auto
  then have p: "unat amount * unat bps < 2 ^ 80" by simp
  have mul: "\<exists>w :: u128. checked_mul (widen amount) (widen bps) = Some w \<and> unat w = unat amount * unat bps"
    using p checked_mul_total [of "widen amount :: u128" "widen bps"] by simp
  then obtain w :: u128 where w: "checked_mul (widen amount) (widen bps) = Some w"
    "unat w = unat amount * unat bps" by blast
  have "\<exists>x. checked_add w 9999 = Some x \<and> unat x = unat w + 9999"
    using checked_add_total [of w 9999] p w(2) by simp
  then obtain x where x: "checked_add w 9999 = Some x" "unat x = unat w + 9999" by blast
  obtain y where y: "checked_div x 10000 = Some y" "unat y = unat x div 10000"
    using checked_div_total [of 10000 x] by auto
  have "try_from y = Some fee" using r x(2) y(2) w(2) by (simp add: checked_simps ceil_div_def)
  with w(1) x(1) y(1) show ?l by (simp add: FeeType_get_fee_def)
qed

lemma percentage_fee_le:
  "FeeType_get_fee (Percentage bps) amount = Inr fee \<Longrightarrow> bps \<le> MAX_BPS \<Longrightarrow> fee \<le> amount"
  by (simp add: FeeType_get_fee_percentage_Inr word_le_nat_alt MAX_BPS_def ceil_div_le_iff)

lemma percentage_fee_total:
  assumes "bps \<le> MAX_BPS"
  shows "\<exists>fee. FeeType_get_fee (Percentage bps) amount = Inr fee \<and> fee \<le> amount
    \<and> unat fee = ceil_div (unat amount * unat bps) 10000"
proof -
  have le: "ceil_div (unat amount * unat bps) 10000 \<le> unat amount"
    using assms by (simp add: ceil_div_le_iff word_le_nat_alt MAX_BPS_def)
  let ?fee = "word_of_nat (ceil_div (unat amount * unat bps) 10000) :: u64"
  have "unat ?fee = ceil_div (unat amount * unat bps) 10000"
    using le unat_bound [of amount] by (intro unat_of_nat_small) linarith
  with le show ?thesis
    by (intro exI [of _ ?fee]) (simp add: FeeType_get_fee_percentage_Inr word_le_nat_alt)
qed

lemma split_protocol_fee_Inr:
  assumes "split_protocol_fee amount bps = Inr (protocol, rest)"
  shows "unat protocol + unat rest = unat amount"
    and "unat protocol = ceil_div (unat amount * unat bps) 10000"
proof -
  show "unat protocol + unat rest = unat amount"
    using assms by (auto simp: split_protocol_fee_def res_simps checked_simps split: if_splits)
  show "unat protocol = ceil_div (unat amount * unat bps) 10000"
  proof (cases "amount = 0 \<or> bps = 0")
    case False
    with assms have "FeeType_get_fee (Percentage bps) amount = Inr protocol"
      by (auto simp: split_protocol_fee_def res_simps)
    then show ?thesis by (simp add: FeeType_get_fee_percentage_Inr)
  qed (use assms in \<open>auto simp: split_protocol_fee_def\<close>)
qed
text \<open>
  C33. The protocol's part of a fee never creates or loses a unit: for a validated protocol rate
  the split always succeeds, its parts add up to the fee, and the protocol's part is the fee
  times the rate rounded up, that is the least amount \<open>p\<close> with \<open>amount * bps \<le> p * 10000\<close>.
\<close>

theorem split_protocol_fee_exact:
  assumes "bps \<le> MAX_BPS"
  shows "\<exists>protocol rest. split_protocol_fee amount bps = Inr (protocol, rest)
           \<and> unat protocol + unat rest = unat amount
           \<and> (\<forall>p. unat amount * unat bps \<le> p * 10000 \<longleftrightarrow> unat protocol \<le> p)"
proof -
  have "\<exists>protocol rest. split_protocol_fee amount bps = Inr (protocol, rest)"
  proof (cases "amount = 0 \<or> bps = 0")
    case False
    obtain fee where "FeeType_get_fee (Percentage bps) amount = Inr fee" "fee \<le> amount"
      using percentage_fee_total [OF assms] by blast
    with False show ?thesis
      by (simp add: split_protocol_fee_def checked_sub_eq word_le_nat_alt)
  qed (auto simp: split_protocol_fee_def)
  then obtain protocol rest where split: "split_protocol_fee amount bps = Inr (protocol, rest)"
    by blast
  show ?thesis
  proof (intro exI conjI allI)
    show "split_protocol_fee amount bps = Inr (protocol, rest)" by (rule split)
    show "unat protocol + unat rest = unat amount" by (rule split_protocol_fee_Inr(1) [OF split])
    show "unat amount * unat bps \<le> p * 10000 \<longleftrightarrow> unat protocol \<le> p" for p
      unfolding split_protocol_fee_Inr(2) [OF split] by (simp add: ceil_div_le_iff)
  qed
qed

theorem split_protocol_fee_exact_witness:
  "\<exists>protocol rest. split_protocol_fee 1001 250 = Inr (protocol, rest)
     \<and> unat protocol + unat rest = unat (1001 :: u64)
     \<and> (\<forall>p. unat (1001 :: u64) * unat (250 :: u16) \<le> p * 10000 \<longleftrightarrow> unat protocol \<le> p)"
  by (rule split_protocol_fee_exact) (simp add: MAX_BPS_def)

text \<open>
  C34. A validated fee is charged in full and never exceeds what it is taken from when it is a
  percentage: \<open>get_fee\<close> returns the amount times the rate rounded up, the whole amount at
  100 percent and nothing at zero; a percentage above the maximum does not pass validation, and
  a fixed fee is returned as it is.
\<close>

theorem fee_bounded:
  "(case fee of
      FixedAmount fixed \<Rightarrow> FeeType_get_fee fee amount = Inr fixed
    | Percentage bps \<Rightarrow>
        (FeeType_validate fee = Inr () \<longleftrightarrow> bps \<le> MAX_BPS)
        \<and> (FeeType_validate fee = Inr () \<longrightarrow>
             (\<exists>f. FeeType_get_fee fee amount = Inr f \<and> f \<le> amount
                \<and> unat f = ceil_div (unat amount * unat bps) 10000
                \<and> (bps = 0 \<longrightarrow> f = 0) \<and> (bps = MAX_BPS \<longrightarrow> f = amount))))"
proof (cases fee)
  case (FixedAmount fixed)
  then show ?thesis by (simp add: FeeType_get_fee_def)
next
  case (Percentage bps)
  have v: "FeeType_validate (Percentage bps) = Inr () \<longleftrightarrow> bps \<le> MAX_BPS"
    by (auto simp: FeeType_validate_def)
  have "\<exists>f. FeeType_get_fee (Percentage bps) amount = Inr f \<and> f \<le> amount
          \<and> unat f = ceil_div (unat amount * unat bps) 10000
          \<and> (bps = 0 \<longrightarrow> f = 0) \<and> (bps = MAX_BPS \<longrightarrow> f = amount)" if le: "bps \<le> MAX_BPS"
  proof -
    obtain f where f: "FeeType_get_fee (Percentage bps) amount = Inr f" "f \<le> amount"
      "unat f = ceil_div (unat amount * unat bps) 10000"
      using percentage_fee_total [OF le] by blast
    have "bps = 0 \<Longrightarrow> f = 0" "bps = MAX_BPS \<Longrightarrow> unat f = unat amount"
      using f(3) by (simp_all add: MAX_BPS_def)
    then have "bps = 0 \<longrightarrow> f = 0" "bps = MAX_BPS \<longrightarrow> f = amount"
      unfolding word_unat_eq_iff [of f amount] by blast+
    with f show ?thesis by (intro exI [of _ f]) (simp only: simp_thms)
  qed
  with v Percentage show ?thesis by simp
qed

theorem fee_bounded_witness:
  "\<exists>f. FeeType_get_fee (Percentage 30) 1000 = Inr f \<and> f \<le> 1000
     \<and> unat f = ceil_div (unat (1000 :: u64) * unat (30 :: u16)) 10000"
  using fee_bounded [of "Percentage 30" 1000, unfolded FeeType.case]
  by (auto simp: FeeType_validate_def MAX_BPS_def)

subsection \<open>What a conversion is\<close>

lemma calculate_shares_Inr:
  "calculate_shares nav decimals amount = Inr shares \<Longrightarrow>
     nav \<noteq> 0 \<and> unat shares = unat amount * 10 ^ unat decimals div unat nav"
  by (auto simp: calculate_shares_def res_simps checked_simps)

lemma calculate_assets_Inr:
  "calculate_assets nav decimals shares = Inr assets \<Longrightarrow>
     assets \<noteq> 0 \<and> unat assets = unat shares * unat nav div 10 ^ unat decimals"
  by (auto simp: calculate_assets_def res_simps checked_simps simp flip: unat_eq_0)

lemma div_mult_div_le: "n * p div k * k div p \<le> n" for n p k :: nat
proof (cases "p = 0")
  case False
  have "n * p div k * k div p \<le> n * p div p" by (intro div_le_mono) simp
  with False show ?thesis by simp
qed simp

lemma div_mult_div_loss:
  fixes n p k :: nat
  assumes "0 < k" "0 < p"
  shows "(n - n * p div k * k div p) * p < k + p"
proof -
  have "n * p < n * p div k * k + k" using dividend_less_div_times [OF assms(1), of "n * p"] by linarith
  moreover have "n * p div k * k < n * p div k * k div p * p + p"
    using dividend_less_div_times [OF assms(2), of "n * p div k * k"] by linarith
  moreover have "a - c < k + p" if "a < b + k" "b < c + p" for a b c :: nat
    using that assms by linarith
  ultimately show ?thesis unfolding diff_mult_distrib by blast
qed

text \<open>
  C26. Depositing and redeeming at one NAV never pays out more than was paid in: if \<open>amount\<close>
  assets buy \<open>shares\<close> shares and those redeem for \<open>returned\<close> assets at the same NAV, then
  \<open>returned \<le> amount\<close>, and the depositor loses less than the value of one share plus one unit.
\<close>

theorem asset_share_round_trip:
  assumes shares: "calculate_shares nav decimals amount = Inr shares"
    and returned: "calculate_assets nav decimals shares = Inr returned"
  shows "returned \<le> amount \<and>
    (unat amount - unat returned) * 10 ^ unat decimals < unat nav + 10 ^ unat decimals"
proof
  let ?p = "10 ^ unat decimals :: nat" and ?n = "unat nav"
  from calculate_shares_Inr [OF shares] have n: "0 < ?n"
    and s: "unat shares = unat amount * ?p div ?n" by (auto simp: unat_gt_0)
  from calculate_assets_Inr [OF returned] s have b: "unat returned = unat amount * ?p div ?n * ?n div ?p"
    by simp
  then show "returned \<le> amount" by (simp add: word_le_nat_alt div_mult_div_le)
  show "(unat amount - unat returned) * ?p < ?n + ?p"
    unfolding b using n by (intro div_mult_div_loss) simp_all
qed

theorem asset_share_round_trip_witness:
  "(994 :: u64) \<le> 1000 \<and>
   (unat (1000 :: u64) - unat (994 :: u64)) * 10 ^ unat (2 :: u8) < unat (700 :: u128) + 10 ^ unat (2 :: u8)"
proof (rule asset_share_round_trip)
  show "calculate_shares 700 2 1000 = Inr 142" by (simp add: calculate_shares_def calculate_assets_def checked_pow_def checked_mul_def
      checked_div_def try_from_def u_of_nat_def arith_def)
  show "calculate_assets 700 2 142 = Inr (994 :: u64)" by (simp add: calculate_shares_def calculate_assets_def checked_pow_def checked_mul_def
      checked_div_def try_from_def u_of_nat_def arith_def)
qed

text \<open>The converse: redeeming shares and buying back never gains shares.\<close>

lemma share_asset_round_trip:
  assumes "calculate_assets nav decimals shares = Inr assets"
    and "calculate_shares nav decimals assets = Inr returned"
  shows "returned \<le> shares"
  using calculate_assets_Inr [OF assms(1)] calculate_shares_Inr [OF assms(2)] div_mult_div_le
  by (simp add: word_le_nat_alt)

text \<open>Splitting a deposit never gains shares.\<close>

lemma div_add_div_le: "a div n + b div n \<le> (a + b) div n" for a b n :: nat
  by (subst div_add1_eq) simp

lemma calculate_shares_superadditive:
  assumes "calculate_shares nav decimals a = Inr x" "calculate_shares nav decimals b = Inr y"
    and "calculate_shares nav decimals c = Inr z" "unat c = unat a + unat b"
  shows "unat x + unat y \<le> unat z"
proof -
  note x = calculate_shares_Inr [OF assms(1)] and y = calculate_shares_Inr [OF assms(2)]
    and z = calculate_shares_Inr [OF assms(3)]
  have "unat x + unat y \<le> (unat a * 10 ^ unat decimals + unat b * 10 ^ unat decimals) div unat nav"
    unfolding conjunct2 [OF x] conjunct2 [OF y] by (rule div_add_div_le)
  then show ?thesis
    unfolding conjunct2 [OF z] assms(4) distrib_right .
qed

end
