(* ===== verification/Samples.thy ===== *)
theory Samples
  imports Vault_State
begin

text \<open>
  Concrete accounts on which the properties are instantiated: an initialised, unpaused vault
  with distinct role keys, and a pending deposit request of it.
\<close>

definition key :: "byte \<Rightarrow> pubkey" where
  "key b = replicate 32 b"

lemma key_inject [simp]: "key a = key b \<longleftrightarrow> a = b"
  by (simp add: key_def replicate_eq_replicate)

lemma length_key [simp]: "length (key b) = 32"
  by (simp add: key_def)

lemma key_default [simp]: "key b = Pubkey_default \<longleftrightarrow> b = 0" "Pubkey_default = key b \<longleftrightarrow> b = 0"
  by (auto simp: key_def Pubkey_default_def replicate_eq_replicate)

definition sample_vault :: vault where
  "sample_vault =
     \<lparr>v_asset_mint = key 1, v_approved_asset_count = 0, v_share_mint = key 2,
      v_vault_token_account = key 3, v_authority = key 10, v_curator = key 11, v_manager = key 12,
      v_hot_manager = key 13, v_fulfiller = key 14, v_breaker = key 15, v_fee_recipient = key 16,
      v_paused = False, v_initialized = True, v_pending_vault = key 4, v_nav = 2000000,
      v_nav_version = 1, v_nav_mode = AuthoritySigned, v_require_fresh_nav = False,
      v_max_nav_delta_bps = 500, v_max_implied_apy_bps = 0, v_max_nav_staleness_slots = 0,
      v_last_nav_update_slot = 90, v_last_nav_update_timestamp = 1000,
      v_pending_async_requests = 1, v_total_asset_balance = 5000000, v_deposit_cap = 0,
      v_pending_deposit_amount = 1000000, v_rolling_limit_window_slots = 100,
      v_manager_rolling_limit = 1000, v_manager_window_start_slot = 0,
      v_manager_window_amount = 0, v_external_withdraw_rolling_limit = 0,
      v_redemption_rolling_limit = 0, v_external_withdraw_window_start_slot = 0,
      v_external_withdraw_window_amount = 0, v_redemption_window_start_slot = 0,
      v_redemption_window_amount = 0, v_timelock_delay_slots = 0, v_performance_fee_bps = 0,
      v_performance_fee_crystallization_interval_seconds = 0, v_protocol_fee_bps = 0,
      v_protocol_fee_recipient = key 0, v_instant_redemption_fee_bps = 0, v_high_water_mark = 0,
      v_tranche_config = None, v_last_fee_crystallization_timestamp = 0, v_reserve_bump = 255,
      v_pending_vault_bump = 254, v_bump = 253, v_pending_authority = None, v_tlv = []\<rparr>"

definition sample_request :: request where
  "sample_request =
     \<lparr>req_vault = key 20, req_request_type = Deposit, req_request_state = Pending,
      req_owner = key 30, req_amount = 1000000, req_price = 0, req_asset_mint_address = key 1,
      req_share_mint_address = key 2, req_created_at = 1000, req_nav_update_version = 1,
      req_operator = None, req_tlv = []\<rparr>"

end
