(* ===== verification/Extensions.thy ===== *)
theory Extensions
  imports Tlv Fees Samples
begin

text \<open>
  The vault and request extensions (\<open>extensions/vault_extensions.rs\<close>,
  \<open>extensions/request_extensions.rs\<close> and the processors and instructions under
  \<open>extensions/\<close>). A Rust trait is a record of its operations (\<open>VaultExtension\<close>,
  \<open>RequestExtension\<close>), which the generic routines take as an argument. The locale
  \<open>vault_extension\<close> states what a \<open>Pod\<close> extension owes them, that its bytes have the declared
  length and read back to the value, and proves once that initialising and updating an
  extension reads back and leaves every other extension alone; it is interpreted for the nine
  extension structs.
\<close>

subsection \<open>Extension types\<close>

datatype ExtensionType =
    DepositFee | WithdrawalFee | PausableSubscriptions | PausableRedemptions
  | SubscriptionQueue | RedemptionQueue | MinSubscription | MinRedemption
  | ExternallyManagedWithdrawals | InstantSettlement

text \<open>\<open>ext_type as u16\<close>\<close>

fun ExtensionType_as_u16 :: "ExtensionType \<Rightarrow> u16" where
  "ExtensionType_as_u16 DepositFee = 1"
| "ExtensionType_as_u16 WithdrawalFee = 2"
| "ExtensionType_as_u16 PausableSubscriptions = 3"
| "ExtensionType_as_u16 PausableRedemptions = 4"
| "ExtensionType_as_u16 SubscriptionQueue = 5"
| "ExtensionType_as_u16 RedemptionQueue = 6"
| "ExtensionType_as_u16 MinSubscription = 7"
| "ExtensionType_as_u16 MinRedemption = 8"
| "ExtensionType_as_u16 ExternallyManagedWithdrawals = 9"
| "ExtensionType_as_u16 InstantSettlement = 10"

definition ExtensionType_try_from_u16 :: "u16 \<Rightarrow> ExtensionType option" where
  "ExtensionType_try_from_u16 value =
     (if value = 1 then Some DepositFee
      else if value = 2 then Some WithdrawalFee
      else if value = 3 then Some PausableSubscriptions
      else if value = 4 then Some PausableRedemptions
      else if value = 5 then Some SubscriptionQueue
      else if value = 6 then Some RedemptionQueue
      else if value = 7 then Some MinSubscription
      else if value = 8 then Some MinRedemption
      else if value = 9 then Some ExternallyManagedWithdrawals
      else if value = 10 then Some InstantSettlement
      else None)"

fun ExtensionType_data_len :: "ExtensionType \<Rightarrow> nat" where
  "ExtensionType_data_len DepositFee = 9"
| "ExtensionType_data_len WithdrawalFee = 9"
| "ExtensionType_data_len PausableSubscriptions = 1"
| "ExtensionType_data_len PausableRedemptions = 1"
| "ExtensionType_data_len ExternallyManagedWithdrawals = 1"
| "ExtensionType_data_len InstantSettlement = 56"
| "ExtensionType_data_len SubscriptionQueue = 16"
| "ExtensionType_data_len RedemptionQueue = 16"
| "ExtensionType_data_len MinSubscription = 8"
| "ExtensionType_data_len MinRedemption = 8"

definition ExtensionType_tlv_len :: "ExtensionType \<Rightarrow> nat" where
  "ExtensionType_tlv_len t = TLV_HEADER_SIZE + ExtensionType_data_len t"

lemma try_from_as_u16: "ExtensionType_try_from_u16 (ExtensionType_as_u16 t) = Some t"
  by (cases t) (simp_all add: ExtensionType_try_from_u16_def)

lemma as_u16_inject [simp]: "ExtensionType_as_u16 s = ExtensionType_as_u16 t \<longleftrightarrow> s = t"
  by (metis option.inject try_from_as_u16)

lemma as_u16_nonzero [simp]: "ExtensionType_as_u16 t \<noteq> 0"
  by (cases t) simp_all

lemma data_len_bound: "ExtensionType_data_len t < 2 ^ 16"
  by (cases t) simp_all

subsection \<open>Typed wrappers of the raw routines\<close>

definition get_extension_bytes :: "bytes \<Rightarrow> ExtensionType \<Rightarrow> bytes option" where
  "get_extension_bytes tlv_data ext_type = get_extension_bytes_raw tlv_data (ExtensionType_as_u16 ext_type)"

definition has_extension :: "bytes \<Rightarrow> ExtensionType \<Rightarrow> bool" where
  "has_extension tlv_data ext_type = has_extension_raw tlv_data (ExtensionType_as_u16 ext_type)"

definition write_extension :: "bytes \<Rightarrow> nat \<Rightarrow> ExtensionType \<Rightarrow> bytes \<Rightarrow> bytes result" where
  "write_extension tlv_data write_offset ext_type value =
     write_extension_raw tlv_data write_offset (ExtensionType_as_u16 ext_type)
       (ExtensionType_data_len ext_type) value"

definition update_extension :: "bytes \<Rightarrow> ExtensionType \<Rightarrow> bytes \<Rightarrow> bytes result" where
  "update_extension tlv_data ext_type new_value =
     require (length new_value \<le> ExtensionType_data_len ext_type) (Vault_Err InvalidExtensionData)
       (update_extension_from tlv_data (ExtensionType_as_u16 ext_type) new_value 0)"

subsection \<open>The generic routines\<close>

record 'e VaultExtension =
  EXTENSION_TYPE :: ExtensionType
  bytes_of :: "'e \<Rightarrow> bytes"
  pod_read :: "bytes \<Rightarrow> 'e option"

definition TLV_SIZE :: "('e, 'z) VaultExtension_scheme \<Rightarrow> nat" where
  "TLV_SIZE E = TLV_HEADER_SIZE + ExtensionType_data_len (EXTENSION_TYPE E)"

text \<open>\<open>realloc = vault.data_len() + TLV_SIZE\<close>: the account grows by zero bytes.\<close>

definition realloc :: "nat \<Rightarrow> vault \<Rightarrow> vault" where
  "realloc n v = v\<lparr>v_tlv := v_tlv v @ replicate n 0\<rparr>"

definition init_vault_extension :: "('e, 'z) VaultExtension_scheme \<Rightarrow> vault \<Rightarrow> 'e \<Rightarrow> vault result" where
  "init_vault_extension E v value =
     try_ok (Vault_assert_uninitialized v) (\<lambda>_.
     require (\<not> has_extension (v_tlv v) (EXTENSION_TYPE E)) (Vault_Err ExtensionAlreadyInitialized) (
     let write_offset = tlv_used_len (v_tlv v)
     in try_ok (write_extension (v_tlv v) write_offset (EXTENSION_TYPE E) (bytes_of E value)) (\<lambda>tlv.
        Inr (v\<lparr>v_tlv := tlv\<rparr>))))"

definition update_vault_extension :: "('e, 'z) VaultExtension_scheme \<Rightarrow> vault \<Rightarrow> 'e \<Rightarrow> vault result" where
  "update_vault_extension E v value =
     try_ok (update_extension (v_tlv v) (EXTENSION_TYPE E) (bytes_of E value)) (\<lambda>tlv.
     Inr (v\<lparr>v_tlv := tlv\<rparr>))"

text \<open>
  \<open>read_vault_extension\<close>: an absent extension is \<open>Ok(None)\<close>, a value of the wrong size an error.
\<close>

definition read_vault_extension :: "('e, 'z) VaultExtension_scheme \<Rightarrow> vault \<Rightarrow> 'e option result" where
  "read_vault_extension E v =
     (if length (v_tlv v) = 0 then Inr None
      else case get_extension_bytes (v_tlv v) (EXTENSION_TYPE E) of
        None \<Rightarrow> Inr None
      | Some bytes \<Rightarrow> ok_or (pod_read E bytes) (Vault_Err InvalidExtensionData) (\<lambda>e. Inr (Some e)))"

subsection \<open>Request extensions\<close>

datatype RequestExtensionType = SubscriptionQueueRequestType | RedemptionQueueRequestType

fun RequestExtensionType_as_u16 :: "RequestExtensionType \<Rightarrow> u16" where
  "RequestExtensionType_as_u16 SubscriptionQueueRequestType = 1"
| "RequestExtensionType_as_u16 RedemptionQueueRequestType = 2"

definition RequestExtensionType_try_from_u16 :: "u16 \<Rightarrow> RequestExtensionType option" where
  "RequestExtensionType_try_from_u16 value =
     (if value = 1 then Some SubscriptionQueueRequestType
      else if value = 2 then Some RedemptionQueueRequestType
      else None)"

definition RequestExtensionType_data_len :: "RequestExtensionType \<Rightarrow> nat" where
  "RequestExtensionType_data_len t = 8"

text \<open>Both request extensions carry the sequential id of the request, a \<open>u64\<close>.\<close>

record RequestExtension =
  REQUEST_EXTENSION_TYPE :: RequestExtensionType

definition queue_id_pod_read :: "bytes \<Rightarrow> u64 option" where
  "queue_id_pod_read bs = (if length bs = 8 then Some (u64_from_le bs) else None)"

definition SubscriptionQueueRequest :: RequestExtension where
  "SubscriptionQueueRequest = \<lparr>REQUEST_EXTENSION_TYPE = SubscriptionQueueRequestType\<rparr>"

definition RedemptionQueueRequest :: RequestExtension where
  "RedemptionQueueRequest = \<lparr>REQUEST_EXTENSION_TYPE = RedemptionQueueRequestType\<rparr>"

definition init_request_extension :: "RequestExtension \<Rightarrow> request \<Rightarrow> u64 \<Rightarrow> request result" where
  "init_request_extension R r value =
     (let write_offset = tlv_used_len (req_tlv r)
      in try_ok (write_extension_raw (req_tlv r) write_offset
           (RequestExtensionType_as_u16 (REQUEST_EXTENSION_TYPE R))
           (RequestExtensionType_data_len (REQUEST_EXTENSION_TYPE R)) (u64_to_le value)) (\<lambda>tlv.
         Inr (r\<lparr>req_tlv := tlv\<rparr>)))"

definition has_request_extension :: "RequestExtension \<Rightarrow> request \<Rightarrow> bool" where
  "has_request_extension R r =
     (if length (req_tlv r) = 0 then False
      else has_extension_raw (req_tlv r) (RequestExtensionType_as_u16 (REQUEST_EXTENSION_TYPE R)))"

definition read_request_extension :: "RequestExtension \<Rightarrow> request \<Rightarrow> u64 option result" where
  "read_request_extension R r =
     (if length (req_tlv r) = 0 then Inr None
      else case get_extension_bytes_raw (req_tlv r)
                  (RequestExtensionType_as_u16 (REQUEST_EXTENSION_TYPE R)) of
        None \<Rightarrow> Inr None
      | Some bytes \<Rightarrow> ok_or (queue_id_pod_read bytes) (Vault_Err InvalidExtensionData) (\<lambda>e. Inr (Some e)))"

definition compute_request_extension_space :: "vault \<Rightarrow> nat" where
  "compute_request_extension_space v =
     (if length (v_tlv v) = 0 then 0
      else
        (if has_extension_raw (v_tlv v) (ExtensionType_as_u16 SubscriptionQueue)
         then TLV_HEADER_SIZE + RequestExtensionType_data_len SubscriptionQueueRequestType else 0)
        + (if has_extension_raw (v_tlv v) (ExtensionType_as_u16 RedemptionQueue)
           then TLV_HEADER_SIZE + RequestExtensionType_data_len RedemptionQueueRequestType else 0))"

subsection \<open>What an extension owes the routines\<close>

text \<open>
  The region of a vault as the list of its extensions: each with a known type, of the declared
  size, at most once.
\<close>

definition vault_region :: "vault \<Rightarrow> (u16 \<times> bytes) list \<Rightarrow> bool" where
  "vault_region v es \<longleftrightarrow> v_tlv v = tlv_encode es \<and> distinct (map fst es)
     \<and> (\<forall>(ty, b) \<in> set es. \<exists>t. ty = ExtensionType_as_u16 t \<and> length b = ExtensionType_data_len t)"

lemma vault_region_wf: "vault_region v es \<Longrightarrow> tlv_wf es"
  using data_len_bound by (fastforce simp: vault_region_def tlv_wf_def)

lemma vault_region_tlv: "vault_region v es \<Longrightarrow> v_tlv v = tlv_encode es"
  by (simp add: vault_region_def)

lemma vault_region_len:
  "vault_region v es \<Longrightarrow> map_of es (ExtensionType_as_u16 t) = Some b \<Longrightarrow>
   length b = ExtensionType_data_len t"
  by (fastforce simp: vault_region_def dest: map_of_SomeD)

lemma vault_region_get:
  "vault_region v es \<Longrightarrow> get_extension_bytes (v_tlv v) t = map_of es (ExtensionType_as_u16 t)"
  using get_extension_bytes_raw_encode [of es "ExtensionType_as_u16 t" 0]
  by (simp add: get_extension_bytes_def vault_region_tlv vault_region_wf)

lemma vault_region_cong: "v_tlv v = v_tlv w \<Longrightarrow> vault_region v es \<longleftrightarrow> vault_region w es"
  by (simp add: vault_region_def)

lemma read_vault_extension_cong:
  "v_tlv v = v_tlv w \<Longrightarrow> read_vault_extension E v = read_vault_extension E w"
  by (simp add: read_vault_extension_def)

lemma read_vault_extension_region:
  "vault_region v es \<Longrightarrow> read_vault_extension E v =
     (case map_of es (ExtensionType_as_u16 (EXTENSION_TYPE E)) of
        None \<Rightarrow> Inr None
      | Some bytes \<Rightarrow> ok_or (pod_read E bytes) (Vault_Err InvalidExtensionData) (\<lambda>e. Inr (Some e)))"
proof -
  assume region: "vault_region v es"
  have "es = []" if "v_tlv v = []"
    using that by (simp add: vault_region_tlv [OF region])
  then show ?thesis
    by (simp add: read_vault_extension_def vault_region_get [OF region])
qed

locale vault_extension =
  fixes E :: "('e, 'z) VaultExtension_scheme"
    and valid :: "'e \<Rightarrow> bool"
  assumes bytes_len: "valid e \<Longrightarrow> length (bytes_of E e) = ExtensionType_data_len (EXTENSION_TYPE E)"
    and pod_roundtrip: "valid e \<Longrightarrow> pod_read E (bytes_of E e) = Some e"
    and pod_total: "length bs = ExtensionType_data_len (EXTENSION_TYPE E) \<Longrightarrow> pod_read E bs \<noteq> None"
begin

abbreviation ty :: u16 where "ty \<equiv> ExtensionType_as_u16 (EXTENSION_TYPE E)"

lemma read_total: "vault_region v es \<Longrightarrow>
    \<exists>e. read_vault_extension E v = Inr e \<and> (e = None \<longleftrightarrow> map_of es ty = None)"
  by (cases "map_of es ty")
    (auto simp: read_vault_extension_region dest!: vault_region_len pod_total)

lemma init_region:
  assumes region: "vault_region v es" and valid: "valid e"
    and ok: "init_vault_extension E (realloc (TLV_SIZE E) v) e = Inr w"
  shows "\<not> v_initialized v" "map_of es ty = None"
    "vault_region w (es @ [(ty, bytes_of E e)])" "w = v\<lparr>v_tlv := v_tlv w\<rparr>"
proof -
  let ?k = "ExtensionType_data_len (EXTENSION_TYPE E)"
  let ?v = "realloc (TLV_SIZE E) v"
  have tlv: "v_tlv ?v = tlv_encode es @ replicate (4 + ?k) 0"
    using region by (simp add: realloc_def TLV_SIZE_def vault_region_tlv)
  have wf: "tlv_wf es" using region by (rule vault_region_wf)
  have len: "length (bytes_of E e) = ?k" using valid by (rule bytes_len)
  have written: "write_extension (v_tlv ?v) (tlv_used_len (v_tlv ?v)) (EXTENSION_TYPE E) (bytes_of E e)
      = Inr (tlv_encode (es @ [(ty, bytes_of E e)]))"
    using write_extension_raw_encode [of "bytes_of E e" ?k "4 + ?k" es ty] len
    by (simp add: tlv write_extension_def tlv_used_len_encode [OF wf])
  from ok have "\<not> has_extension (v_tlv ?v) (EXTENSION_TYPE E)"
    by (simp add: init_vault_extension_def res_simps)
  then show fresh: "map_of es ty = None"
    using has_extension_raw_encode [OF wf, of ty "4 + ?k"] by (simp add: has_extension_def tlv)
  show "\<not> v_initialized v"
    using ok by (simp add: init_vault_extension_def res_simps Vault_assert_uninitialized_def realloc_def)
  have w: "w = ?v\<lparr>v_tlv := tlv_encode (es @ [(ty, bytes_of E e)])\<rparr>"
    using ok written by (simp add: init_vault_extension_def res_simps Let_def)
  then show "w = v\<lparr>v_tlv := v_tlv w\<rparr>" by (simp add: realloc_def)
  from fresh have "ty \<notin> fst ` set es" by (simp add: map_of_eq_None_iff)
  with region w len show "vault_region w (es @ [(ty, bytes_of E e)])"
    by (auto simp: vault_region_def)
qed

lemma init_total:
  assumes region: "vault_region v es" and valid: "valid e"
    and "\<not> v_initialized v" "map_of es ty = None"
  shows "\<exists>w. init_vault_extension E (realloc (TLV_SIZE E) v) e = Inr w"
proof -
  let ?k = "ExtensionType_data_len (EXTENSION_TYPE E)"
  let ?v = "realloc (TLV_SIZE E) v"
  have tlv: "v_tlv ?v = tlv_encode es @ replicate (4 + ?k) 0"
    using region by (simp add: realloc_def TLV_SIZE_def vault_region_tlv)
  have wf: "tlv_wf es" using region by (rule vault_region_wf)
  have len: "length (bytes_of E e) = ?k" using valid by (rule bytes_len)
  have "write_extension (v_tlv ?v) (tlv_used_len (v_tlv ?v)) (EXTENSION_TYPE E) (bytes_of E e)
      = Inr (tlv_encode (es @ [(ty, bytes_of E e)]))"
    using write_extension_raw_encode [of "bytes_of E e" ?k "4 + ?k" es ty] len
    by (simp add: tlv write_extension_def tlv_used_len_encode [OF wf])
  moreover have "\<not> has_extension (v_tlv ?v) (EXTENSION_TYPE E)"
    using assms(4) has_extension_raw_encode [OF wf, of ty "4 + ?k"] by (simp add: tlv has_extension_def)
  moreover have "\<not> v_initialized ?v" using assms(3) by (simp add: realloc_def)
  ultimately show ?thesis
    by (simp add: init_vault_extension_def Vault_assert_uninitialized_def)
qed

lemma update_region:
  assumes region: "vault_region v es" and valid: "valid e"
    and ok: "update_vault_extension E v e = Inr w"
  shows "map_of es ty \<noteq> None" "vault_region w (AList.update ty (bytes_of E e) es)"
    "w = v\<lparr>v_tlv := v_tlv w\<rparr>"
proof -
  have wf: "tlv_wf es" using region by (rule vault_region_wf)
  have len: "length (bytes_of E e) = ExtensionType_data_len (EXTENSION_TYPE E)"
    using valid by (rule bytes_len)
  from ok obtain tlv where tlv: "update_extension_from (tlv_encode es) ty (bytes_of E e) 0 = Inr tlv"
    and w: "w = v\<lparr>v_tlv := tlv\<rparr>"
    by (auto simp: update_vault_extension_def update_extension_def res_simps vault_region_tlv [OF region])
  from w show "w = v\<lparr>v_tlv := v_tlv w\<rparr>" by simp
  show present: "map_of es ty \<noteq> None"
  proof
    assume "map_of es ty = None"
    then have "ty \<notin> fst ` set es" by (simp add: map_of_eq_None_iff)
    with update_past [OF wf, of ty "[]" "[]"] update_zeros [of "tlv_encode es" _ ty 0] tlv
    show False by simp
  qed
  then obtain old where old: "map_of es ty = Some old" by blast
  from map_of_split [OF this] obtain xs ys
    where es: "es = xs @ (ty, old) # ys" "ty \<notin> fst ` set xs" by blast
  have oldlen: "length old = length (bytes_of E e)"
    using vault_region_len [OF region old] len by simp
  have "tlv = tlv_encode (AList.update ty (bytes_of E e) es)"
    using update_extension_encode [of xs ty old ys "bytes_of E e" "[]"] wf es oldlen tlv
    by (simp add: update_split)
  with region w es oldlen show "vault_region w (AList.update ty (bytes_of E e) es)"
    by (auto simp: vault_region_def update_split)
qed

lemma update_total:
  assumes region: "vault_region v es" and valid: "valid e" and "map_of es ty \<noteq> None"
  shows "\<exists>w. update_vault_extension E v e = Inr w"
proof -
  from assms(3) obtain old where old: "map_of es ty = Some old" by blast
  from map_of_split [OF this] obtain xs ys
    where es: "es = xs @ (ty, old) # ys" "ty \<notin> fst ` set xs" by blast
  have "length old = length (bytes_of E e)"
    using vault_region_len [OF region old] bytes_len [OF valid] by simp
  then show ?thesis
    using update_extension_encode [of xs ty old ys "bytes_of E e" "[]"] vault_region_wf [OF region] es
      bytes_len [OF valid]
    by (simp add: update_vault_extension_def update_extension_def vault_region_tlv [OF region])
qed

text \<open>On the map from types to values that a region stands for, both are a single update.\<close>

lemma init_map:
  assumes "vault_region v es" "valid e" "init_vault_extension E (realloc (TLV_SIZE E) v) e = Inr w"
  shows "get_extension_bytes (v_tlv w) =
    (get_extension_bytes (v_tlv v))(EXTENSION_TYPE E \<mapsto> bytes_of E e)"
  using init_region(2) [OF assms]
  by (auto simp: fun_eq_iff vault_region_get [OF init_region(3) [OF assms]]
      vault_region_get [OF assms(1)] map_add_def split: option.splits)

lemma update_map:
  assumes "vault_region v es" "valid e" "update_vault_extension E v e = Inr w"
  shows "get_extension_bytes (v_tlv w) =
    (get_extension_bytes (v_tlv v))(EXTENSION_TYPE E \<mapsto> bytes_of E e)"
  by (auto simp: fun_eq_iff vault_region_get [OF update_region(2) [OF assms]]
      vault_region_get [OF assms(1)] update_conv)

lemma read_after_init:
  assumes "vault_region v es" "valid e" "init_vault_extension E (realloc (TLV_SIZE E) v) e = Inr w"
  shows "read_vault_extension E w = Inr (Some e)"
proof -
  have "map_of (es @ [(ty, bytes_of E e)]) ty = Some (bytes_of E e)"
    using init_region(2) [OF assms] by (simp add: map_add_def)
  with assms(2) show ?thesis
    by (simp add: read_vault_extension_region [OF init_region(3) [OF assms]] pod_roundtrip)
qed

lemma read_after_update:
  assumes "vault_region v es" "valid e" "update_vault_extension E v e = Inr w"
  shows "read_vault_extension E w = Inr (Some e)"
  using assms(2)
  by (simp add: read_vault_extension_region [OF update_region(2) [OF assms]] update_conv pod_roundtrip)

lemma others_after_init:
  assumes "vault_region v es" "valid e" "init_vault_extension E (realloc (TLV_SIZE E) v) e = Inr w"
    and "EXTENSION_TYPE F \<noteq> EXTENSION_TYPE E"
  shows "read_vault_extension F w = read_vault_extension F v"
  using assms(4)
  by (simp add: read_vault_extension_region [OF init_region(3) [OF assms(1-3)]]
      read_vault_extension_region [OF assms(1)] map_add_def split: option.splits)

lemma others_after_update:
  assumes "vault_region v es" "valid e" "update_vault_extension E v e = Inr w"
    and "EXTENSION_TYPE F \<noteq> EXTENSION_TYPE E"
  shows "read_vault_extension F w = read_vault_extension F v"
  using assms(4)
  by (simp add: read_vault_extension_region [OF update_region(2) [OF assms(1-3)]]
      read_vault_extension_region [OF assms(1)] update_conv)

end

subsection \<open>The extension structs\<close>

text \<open>
  A fee in the region: byte 0 the discriminant (0 = FixedAmount, 1 = Percentage), bytes 1 to 8
  the amount, or the rate in bytes 1 and 2.
\<close>

record FeeData =
  fd_discriminant :: u8
  fd_data :: bytes \<comment> \<open>\<open>[u8; 8]\<close>\<close>

definition FeeData_from_fee_type :: "FeeType \<Rightarrow> FeeData" where
  "FeeData_from_fee_type fee_type =
     (let data = replicate 8 0 in
      case fee_type of
        FixedAmount amount \<Rightarrow> \<lparr>fd_discriminant = 0, fd_data = splice data 0 (u64_to_le amount)\<rparr>
      | Percentage bps \<Rightarrow> \<lparr>fd_discriminant = 1, fd_data = splice data 0 (u16_to_le bps)\<rparr>)"

definition FeeData_fee_type :: "FeeData \<Rightarrow> FeeType result" where
  "FeeData_fee_type d =
     (if fd_discriminant d = 0 then Inr (FixedAmount (u64_from_le (fd_data d)))
      else if fd_discriminant d = 1 then Inr (Percentage (u16_from_le [fd_data d ! 0, fd_data d ! 1]))
      else Inl (Vault_Err InvalidExtensionData))"

definition FeeData_bytes_of :: "FeeData \<Rightarrow> bytes" where
  "FeeData_bytes_of d = fd_discriminant d # fd_data d"

definition FeeData_pod_read :: "bytes \<Rightarrow> FeeData option" where
  "FeeData_pod_read bs =
     (if length bs = 9 then Some \<lparr>fd_discriminant = bs ! 0, fd_data = drop 1 bs\<rparr> else None)"

definition DepositFee_ext :: "FeeData VaultExtension" where
  "DepositFee_ext = \<lparr>EXTENSION_TYPE = DepositFee, bytes_of = FeeData_bytes_of, pod_read = FeeData_pod_read\<rparr>"

definition WithdrawalFee_ext :: "FeeData VaultExtension" where
  "WithdrawalFee_ext = \<lparr>EXTENSION_TYPE = WithdrawalFee, bytes_of = FeeData_bytes_of, pod_read = FeeData_pod_read\<rparr>"

text \<open>The structs of a single byte, \<open>paused\<close> or \<open>enabled\<close>, and of a single threshold.\<close>

definition flag_pod_read :: "bytes \<Rightarrow> u8 option" where
  "flag_pod_read bs = (if length bs = 1 then Some (bs ! 0) else None)"

definition PausableSubscription_ext :: "u8 VaultExtension" where
  "PausableSubscription_ext =
     \<lparr>EXTENSION_TYPE = PausableSubscriptions, bytes_of = (\<lambda>paused. [paused]), pod_read = flag_pod_read\<rparr>"

definition PausableRedemption_ext :: "u8 VaultExtension" where
  "PausableRedemption_ext =
     \<lparr>EXTENSION_TYPE = PausableRedemptions, bytes_of = (\<lambda>paused. [paused]), pod_read = flag_pod_read\<rparr>"

definition ExternallyManagedWithdrawals_ext :: "u8 VaultExtension" where
  "ExternallyManagedWithdrawals_ext =
     \<lparr>EXTENSION_TYPE = ExternallyManagedWithdrawals, bytes_of = (\<lambda>enabled. [enabled]),
      pod_read = flag_pod_read\<rparr>"

definition threshold_pod_read :: "bytes \<Rightarrow> u64 option" where
  "threshold_pod_read bs = (if length bs = 8 then Some (u64_from_le bs) else None)"

definition MinSubscription_ext :: "u64 VaultExtension" where
  "MinSubscription_ext =
     \<lparr>EXTENSION_TYPE = MinSubscription, bytes_of = u64_to_le, pod_read = threshold_pod_read\<rparr>"

definition MinRedemption_ext :: "u64 VaultExtension" where
  "MinRedemption_ext =
     \<lparr>EXTENSION_TYPE = MinRedemption, bytes_of = u64_to_le, pod_read = threshold_pod_read\<rparr>"

record InstantSettlement =
  is_min_deposit_amount :: u64
  is_max_deposit_amount :: u64
  is_min_redeem_shares :: u64
  is_max_redeem_shares :: u64
  is_max_user_deposit_amount :: u64
  is_max_user_redeem_shares :: u64
  is_enabled :: u8
  is_reserved :: bytes \<comment> \<open>\<open>[u8; 7]\<close>\<close>

definition InstantSettlement_bytes_of :: "InstantSettlement \<Rightarrow> bytes" where
  "InstantSettlement_bytes_of e =
     u64_to_le (is_min_deposit_amount e) @ u64_to_le (is_max_deposit_amount e)
     @ u64_to_le (is_min_redeem_shares e) @ u64_to_le (is_max_redeem_shares e)
     @ u64_to_le (is_max_user_deposit_amount e) @ u64_to_le (is_max_user_redeem_shares e)
     @ [is_enabled e] @ is_reserved e"

text \<open>The \<open>n\<close>-th \<open>u64\<close> of a struct.\<close>

definition u64_field :: "nat \<Rightarrow> bytes \<Rightarrow> u64" where
  "u64_field n bs = u64_from_le (take 8 (drop (8 * n) bs))"

definition InstantSettlement_pod_read :: "bytes \<Rightarrow> InstantSettlement option" where
  "InstantSettlement_pod_read bs =
     (if length bs = 56 then
        Some \<lparr>is_min_deposit_amount = u64_field 0 bs, is_max_deposit_amount = u64_field 1 bs,
              is_min_redeem_shares = u64_field 2 bs, is_max_redeem_shares = u64_field 3 bs,
              is_max_user_deposit_amount = u64_field 4 bs, is_max_user_redeem_shares = u64_field 5 bs,
              is_enabled = bs ! 48, is_reserved = drop 49 bs\<rparr>
      else None)"

definition InstantSettlement_ext :: "InstantSettlement VaultExtension" where
  "InstantSettlement_ext =
     \<lparr>EXTENSION_TYPE = InstantSettlement, bytes_of = InstantSettlement_bytes_of,
      pod_read = InstantSettlement_pod_read\<rparr>"

lemmas extension_defs =
  DepositFee_ext_def WithdrawalFee_ext_def PausableSubscription_ext_def PausableRedemption_ext_def
  ExternallyManagedWithdrawals_ext_def MinSubscription_ext_def MinRedemption_ext_def
  InstantSettlement_ext_def

lemma FeeData_roundtrip: "length (fd_data d) = 8 \<Longrightarrow> FeeData_pod_read (FeeData_bytes_of d) = Some d"
  by (simp add: FeeData_pod_read_def FeeData_bytes_of_def)

lemma InstantSettlement_roundtrip:
  "length (is_reserved e) = 7 \<Longrightarrow> InstantSettlement_pod_read (InstantSettlement_bytes_of e) = Some e"
  by (simp add: InstantSettlement_pod_read_def InstantSettlement_bytes_of_def u64_field_def
      nth_append)

lemma InstantSettlement_length:
  "length (is_reserved e) = 7 \<Longrightarrow> length (InstantSettlement_bytes_of e) = 56"
  by (simp add: InstantSettlement_bytes_of_def)

lemma InstantSettlement_pod_total: "length bs = 56 \<Longrightarrow> \<exists>e. InstantSettlement_pod_read bs = Some e"
  by (simp add: InstantSettlement_pod_read_def)

interpretation deposit_fee: vault_extension DepositFee_ext "\<lambda>d. length (fd_data d) = 8"
  by unfold_locales (auto simp: DepositFee_ext_def FeeData_roundtrip FeeData_bytes_of_def FeeData_pod_read_def)

interpretation withdrawal_fee: vault_extension WithdrawalFee_ext "\<lambda>d. length (fd_data d) = 8"
  by unfold_locales (auto simp: WithdrawalFee_ext_def FeeData_roundtrip FeeData_bytes_of_def FeeData_pod_read_def)

interpretation pausable_subscription: vault_extension PausableSubscription_ext "\<lambda>_. True"
  by unfold_locales (auto simp: PausableSubscription_ext_def flag_pod_read_def)

interpretation pausable_redemption: vault_extension PausableRedemption_ext "\<lambda>_. True"
  by unfold_locales (auto simp: PausableRedemption_ext_def flag_pod_read_def)

interpretation externally_managed: vault_extension ExternallyManagedWithdrawals_ext "\<lambda>_. True"
  by unfold_locales (auto simp: ExternallyManagedWithdrawals_ext_def flag_pod_read_def)

interpretation min_subscription: vault_extension MinSubscription_ext "\<lambda>_. True"
  by unfold_locales (auto simp: MinSubscription_ext_def threshold_pod_read_def)

interpretation min_redemption: vault_extension MinRedemption_ext "\<lambda>_. True"
  by unfold_locales (auto simp: MinRedemption_ext_def threshold_pod_read_def)

interpretation instant_settlement: vault_extension InstantSettlement_ext "\<lambda>e. length (is_reserved e) = 7"
  by unfold_locales (simp_all add: InstantSettlement_ext_def InstantSettlement_roundtrip
      InstantSettlement_length InstantSettlement_pod_total)

subsection \<open>Reading an extension's policy\<close>

definition get_deposit_fee :: "vault \<Rightarrow> u64 \<Rightarrow> u64 result" where
  "get_deposit_fee v amount =
     try_ok (read_vault_extension DepositFee_ext v) (\<lambda>ext.
     case ext of
       Some ext \<Rightarrow> try_ok (FeeData_fee_type ext) (\<lambda>fee. map_math_err (FeeType_get_fee fee amount))
     | None \<Rightarrow> Inr 0)"

definition get_withdrawal_fee :: "vault \<Rightarrow> u64 \<Rightarrow> u64 result" where
  "get_withdrawal_fee v amount =
     try_ok (read_vault_extension WithdrawalFee_ext v) (\<lambda>ext.
     case ext of
       Some ext \<Rightarrow> try_ok (FeeData_fee_type ext) (\<lambda>fee. map_math_err (FeeType_get_fee fee amount))
     | None \<Rightarrow> Inr 0)"

definition get_deposit_fee_and_net :: "vault \<Rightarrow> u64 \<Rightarrow> (u64 \<times> u64) result" where
  "get_deposit_fee_and_net v amount =
     try_ok (get_deposit_fee v amount) (\<lambda>fee.
     arith (checked_sub amount fee) (\<lambda>net.
     Inr (fee, net)))"

definition get_withdrawal_fee_and_net :: "vault \<Rightarrow> u64 \<Rightarrow> (u64 \<times> u64) result" where
  "get_withdrawal_fee_and_net v amount =
     try_ok (get_withdrawal_fee v amount) (\<lambda>fee.
     arith (checked_sub amount fee) (\<lambda>net.
     Inr (fee, net)))"

definition check_subscriptions_paused :: "vault \<Rightarrow> unit result" where
  "check_subscriptions_paused v =
     try_ok (read_vault_extension PausableSubscription_ext v) (\<lambda>ext.
     case ext of
       Some paused \<Rightarrow> require (paused = 0) (Vault_Err SubscriptionsPaused) (Inr ())
     | None \<Rightarrow> Inr ())"

definition check_redemptions_paused :: "vault \<Rightarrow> unit result" where
  "check_redemptions_paused v =
     try_ok (read_vault_extension PausableRedemption_ext v) (\<lambda>ext.
     case ext of
       Some paused \<Rightarrow> require (paused = 0) (Vault_Err RedemptionsPaused) (Inr ())
     | None \<Rightarrow> Inr ())"

definition check_min_subscription_amount :: "vault \<Rightarrow> u64 \<Rightarrow> unit result" where
  "check_min_subscription_amount v amount =
     try_ok (read_vault_extension MinSubscription_ext v) (\<lambda>ext.
     case ext of
       Some threshold \<Rightarrow> require (amount \<ge> threshold) (Vault_Err SubscriptionAmountBelowMinimum) (Inr ())
     | None \<Rightarrow> Inr ())"

definition check_min_redemption_amount :: "vault \<Rightarrow> u64 \<Rightarrow> unit result" where
  "check_min_redemption_amount v amount =
     try_ok (read_vault_extension MinRedemption_ext v) (\<lambda>ext.
     case ext of
       Some threshold \<Rightarrow> require (amount \<ge> threshold) (Vault_Err RedemptionAmountBelowMinimum) (Inr ())
     | None \<Rightarrow> Inr ())"

definition assert_externally_managed_withdrawals_enabled :: "vault \<Rightarrow> unit result" where
  "assert_externally_managed_withdrawals_enabled v =
     try_ok (read_vault_extension ExternallyManagedWithdrawals_ext v) (\<lambda>ext.
     ok_or ext (Vault_Err ExternallyManagedWithdrawalsDisabled) (\<lambda>enabled.
     require (enabled = 1) (Vault_Err ExternallyManagedWithdrawalsDisabled) (
     Inr ())))"

definition assert_instant_settlement_enabled :: "vault \<Rightarrow> InstantSettlement result" where
  "assert_instant_settlement_enabled v =
     try_ok (read_vault_extension InstantSettlement_ext v) (\<lambda>ext.
     ok_or ext (Vault_Err InstantSettlementDisabled) (\<lambda>ext.
     require (is_enabled ext = 1) (Vault_Err InstantSettlementDisabled) (
     Inr ext)))"

definition assert_instant_settlement_safety_guards :: "u16 \<Rightarrow> u64 \<Rightarrow> unit result" where
  "assert_instant_settlement_safety_guards instant_redemption_fee_bps max_nav_staleness_slots =
     require (instant_redemption_fee_bps > 0 \<and> max_nav_staleness_slots > 0)
       (Vault_Err InvalidInstantSettlementThresholdConfig) (Inr ())"

definition validate_instant_settlement_thresholds :: "u64 \<Rightarrow> u64 \<Rightarrow> u64 \<Rightarrow> u64 \<Rightarrow> unit result" where
  "validate_instant_settlement_thresholds min_deposit_amount max_deposit_amount min_redeem_shares
       max_redeem_shares =
     require (max_deposit_amount = 0 \<or> min_deposit_amount \<le> max_deposit_amount)
       (Vault_Err InvalidInstantSettlementThresholdConfig) (
     require (max_redeem_shares = 0 \<or> min_redeem_shares \<le> max_redeem_shares)
       (Vault_Err InvalidInstantSettlementThresholdConfig) (
     Inr ()))"

definition InstantSettlement_assert_deposit_amount :: "InstantSettlement \<Rightarrow> u64 \<Rightarrow> unit result" where
  "InstantSettlement_assert_deposit_amount e amount =
     require (is_min_deposit_amount e = 0 \<or> amount \<ge> is_min_deposit_amount e)
       (Vault_Err InstantDepositAmountBelowMinimum) (
     require (is_max_deposit_amount e = 0 \<or> amount \<le> is_max_deposit_amount e)
       (Vault_Err InstantDepositAmountAboveMaximum) (
     Inr ()))"

definition InstantSettlement_assert_redeem_shares :: "InstantSettlement \<Rightarrow> u64 \<Rightarrow> unit result" where
  "InstantSettlement_assert_redeem_shares e shares =
     require (is_min_redeem_shares e = 0 \<or> shares \<ge> is_min_redeem_shares e)
       (Vault_Err InstantRedeemSharesBelowMinimum) (
     require (is_max_redeem_shares e = 0 \<or> shares \<le> is_max_redeem_shares e)
       (Vault_Err InstantRedeemSharesAboveMaximum) (
     Inr ()))"

end
