(* ===== verification/Fifo_Queue.thy ===== *)
theory Fifo_Queue
  imports Extensions
begin

text \<open>
  The FIFO queues of \<open>extensions/fifo_queues\<close>: the trait \<open>FifoQueue\<close> as a record of operations
  that extends \<open>VaultExtension\<close>, its two implementations \<open>SubscriptionQueue\<close> and
  \<open>RedemptionQueue\<close>, and the generic routines. The locale \<open>fifo_queue\<close> extends
  \<open>vault_extension\<close> with the laws of the counters and proves that requests are processed in the
  order in which their ids were issued.
\<close>

subsection \<open>The trait and its routines\<close>

record 'q FifoQueue = "'q VaultExtension" +
  OUT_OF_ORDER_ERROR :: AsyncVaultError
  queue_total :: "'q \<Rightarrow> u64"
  last_processed :: "'q \<Rightarrow> u64"
  set_last_processed :: "'q \<Rightarrow> u64 \<Rightarrow> 'q"
  increment_total :: "'q \<Rightarrow> 'q \<times> u64"

text \<open>
  The id is written back in place, over the value's own bytes; \<open>None\<close> when the vault does not
  have the queue.
\<close>

definition next_queue_request_id :: "'q FifoQueue \<Rightarrow> vault \<Rightarrow> (vault \<times> u64 option) result" where
  "next_queue_request_id Q v =
     (if length (v_tlv v) = 0 then Inr (v, None)
      else case get_extension_bytes_raw_mut (v_tlv v) (ExtensionType_as_u16 (EXTENSION_TYPE Q)) of
        None \<Rightarrow> Inr (v, None)
      | Some (a, b) \<Rightarrow>
          ok_or (pod_read Q (take (b - a) (drop a (v_tlv v)))) (Vault_Err InvalidExtensionData) (\<lambda>queue.
          let (queue, new_id) = increment_total Q queue
          in require (length (bytes_of Q queue) = b - a) Panicked (
             Inr (v\<lparr>v_tlv := splice (v_tlv v) a (bytes_of Q queue)\<rparr>, Some new_id))))"

definition has_fifo_queue :: "'q FifoQueue \<Rightarrow> vault \<Rightarrow> bool result" where
  "has_fifo_queue Q v = try_ok (read_vault_extension Q v) (\<lambda>ext. Inr (ext \<noteq> None))"

definition read_queue_request_id :: "RequestExtension \<Rightarrow> request \<Rightarrow> u64 result" where
  "read_queue_request_id R r =
     try_ok (read_request_extension R r) (\<lambda>ext.
     ok_or ext (Vault_Err UninitializedExtension) Inr)"

definition check_and_advance_queue ::
  "'q FifoQueue \<Rightarrow> RequestExtension \<Rightarrow> vault \<Rightarrow> request \<Rightarrow> vault result" where
  "check_and_advance_queue Q R v r =
     try_ok (read_vault_extension Q v) (\<lambda>ext.
     case ext of
       None \<Rightarrow> Inr v
     | Some queue \<Rightarrow>
         try_ok (read_request_extension R r) (\<lambda>req_ext.
         ok_or req_ext (Vault_Err UninitializedExtension) (\<lambda>request_id.
         let expected = last_processed Q queue + 1
         in require (request_id = expected) (Vault_Err (OUT_OF_ORDER_ERROR Q)) (
            update_vault_extension Q v (set_last_processed Q queue request_id)))))"

subsection \<open>The two queues\<close>

text \<open>
  \<open>SubscriptionQueue\<close> and \<open>RedemptionQueue\<close> have the same layout: the all-time total of
  requests and the index of the last processed one.
\<close>

record FifoCounters =
  fc_all_time_total :: u64
  fc_last_processed :: u64

definition FifoCounters_zeroed :: FifoCounters where
  "FifoCounters_zeroed = \<lparr>fc_all_time_total = 0, fc_last_processed = 0\<rparr>"

definition FifoCounters_bytes_of :: "FifoCounters \<Rightarrow> bytes" where
  "FifoCounters_bytes_of q = u64_to_le (fc_all_time_total q) @ u64_to_le (fc_last_processed q)"

definition FifoCounters_pod_read :: "bytes \<Rightarrow> FifoCounters option" where
  "FifoCounters_pod_read bs =
     (if length bs = 16
      then Some \<lparr>fc_all_time_total = u64_field 0 bs, fc_last_processed = u64_field 1 bs\<rparr> else None)"

definition FifoCounters_increment_total :: "FifoCounters \<Rightarrow> FifoCounters \<times> u64" where
  "FifoCounters_increment_total q =
     (let q = q\<lparr>fc_all_time_total := fc_all_time_total q + 1\<rparr> in (q, fc_all_time_total q))"

definition SubscriptionQueue_ext :: "FifoCounters FifoQueue" where
  "SubscriptionQueue_ext =
     \<lparr>EXTENSION_TYPE = SubscriptionQueue, bytes_of = FifoCounters_bytes_of,
      pod_read = FifoCounters_pod_read, OUT_OF_ORDER_ERROR = SubscriptionQueueOutOfOrder,
      queue_total = fc_all_time_total, last_processed = fc_last_processed,
      set_last_processed = (\<lambda>q id. q\<lparr>fc_last_processed := id\<rparr>),
      increment_total = FifoCounters_increment_total\<rparr>"

definition RedemptionQueue_ext :: "FifoCounters FifoQueue" where
  "RedemptionQueue_ext =
     \<lparr>EXTENSION_TYPE = RedemptionQueue, bytes_of = FifoCounters_bytes_of,
      pod_read = FifoCounters_pod_read, OUT_OF_ORDER_ERROR = RedemptionQueueOutOfOrder,
      queue_total = fc_all_time_total, last_processed = fc_last_processed,
      set_last_processed = (\<lambda>q id. q\<lparr>fc_last_processed := id\<rparr>),
      increment_total = FifoCounters_increment_total\<rparr>"

lemma FifoCounters_roundtrip: "FifoCounters_pod_read (FifoCounters_bytes_of q) = Some q"
  by (simp add: FifoCounters_pod_read_def FifoCounters_bytes_of_def u64_field_def)

lemma length_FifoCounters_bytes [simp]: "length (FifoCounters_bytes_of q) = 16"
  by (simp add: FifoCounters_bytes_of_def)

subsection \<open>Runs of a queue\<close>

text \<open>
  A history of one queue: \<open>Join r\<close> creates the request \<open>r\<close> as the create handlers do, with a
  zeroed extension region of the computed size and the next id; \<open>Leave i\<close> asks to process the
  \<open>i\<close>-th request created. A rejected operation changes nothing. The run collects the requests
  created and the indices of the processed ones, in order.
\<close>

datatype queue_op = Join request | Leave nat

record queue_state =
  qs_vault :: vault
  qs_requests :: "request list"
  qs_processed :: "nat list"

definition queue_step :: "'q FifoQueue \<Rightarrow> RequestExtension \<Rightarrow> queue_op \<Rightarrow> queue_state \<Rightarrow> queue_state result" where
  "queue_step Q R op s =
     (case op of
        Join r \<Rightarrow>
          try_ok (next_queue_request_id Q (qs_vault s)) (\<lambda>(v, new_id).
          ok_or new_id (Vault_Err UninitializedExtension) (\<lambda>new_id.
          try_ok (init_request_extension R
            (r\<lparr>req_tlv := replicate (compute_request_extension_space (qs_vault s)) 0\<rparr>) new_id) (\<lambda>r.
          Inr (s\<lparr>qs_vault := v, qs_requests := qs_requests s @ [r]\<rparr>))))
      | Leave i \<Rightarrow>
          require (i < length (qs_requests s)) (Anchor_Err AccountNotInitialized) (
          try_ok (check_and_advance_queue Q R (qs_vault s) (qs_requests s ! i)) (\<lambda>v.
          Inr (s\<lparr>qs_vault := v, qs_processed := qs_processed s @ [i]\<rparr>))))"

fun queue_run :: "'q FifoQueue \<Rightarrow> RequestExtension \<Rightarrow> queue_op list \<Rightarrow> queue_state \<Rightarrow> queue_state" where
  "queue_run Q R [] s = s"
| "queue_run Q R (op # ops) s =
     queue_run Q R ops (case queue_step Q R op s of Inl e \<Rightarrow> s | Inr s' \<Rightarrow> s')"

text \<open>The id a created request carries reads back.\<close>

lemma RequestExtensionType_nonzero [simp]: "RequestExtensionType_as_u16 t \<noteq> 0"
  by (cases t) simp_all

lemma init_request_extension_read:
  assumes "12 \<le> n"
  shows "\<exists>w. init_request_extension R (r\<lparr>req_tlv := replicate n 0\<rparr>) new_id = Inr w
     \<and> read_request_extension R w = Inr (Some new_id) \<and> w = r\<lparr>req_tlv := req_tlv w\<rparr>"
proof -
  let ?t = "RequestExtensionType_as_u16 (REQUEST_EXTENSION_TYPE R)"
  let ?tlv = "tlv_encode [(?t, u64_to_le new_id)] @ replicate (n - 12) 0"
  have "write_extension_raw (replicate n 0) (tlv_used_len (replicate n 0)) ?t 8 (u64_to_le new_id) = Inr ?tlv"
    using write_extension_raw_encode [of "u64_to_le new_id" 8 n "[]" ?t] tlv_used_len_encode [of "[]" n]
      assms by simp
  then have w: "init_request_extension R (r\<lparr>req_tlv := replicate n 0\<rparr>) new_id = Inr (r\<lparr>req_tlv := ?tlv\<rparr>)"
    by (simp add: init_request_extension_def RequestExtensionType_data_len_def)
  have "get_extension_bytes_raw ?tlv ?t = Some (u64_to_le new_id)"
    by (subst get_extension_bytes_raw_encode) simp_all
  then have "read_request_extension R (r\<lparr>req_tlv := ?tlv\<rparr>) = Inr (Some new_id)"
    by (simp add: read_request_extension_def queue_id_pod_read_def tlv_entry_def)
  with w show ?thesis by simp
qed

subsection \<open>The contract of a queue\<close>

locale fifo_queue = vault_extension Q "\<lambda>_. True" for Q :: "'q FifoQueue" +
  fixes R :: RequestExtension
  assumes total_increment: "increment_total Q q = (q', n) \<Longrightarrow>
      n = queue_total Q q + 1 \<and> queue_total Q q' = n \<and> last_processed Q q' = last_processed Q q"
    and last_set: "last_processed Q (set_last_processed Q q n) = n"
    and total_set: "queue_total Q (set_last_processed Q q n) = queue_total Q q"
    and space: "vault_region v es \<Longrightarrow> map_of es (ExtensionType_as_u16 (EXTENSION_TYPE Q)) \<noteq> None \<Longrightarrow>
      12 \<le> compute_request_extension_space v"
begin

lemma present: "vault_region v es \<Longrightarrow> read_vault_extension Q v = Inr (Some q) \<Longrightarrow> map_of es ty \<noteq> None"
  by (cases "map_of es ty") (auto simp: read_vault_extension_region)

text \<open>Writing the incremented queue in place is the update of the extension.\<close>

lemma next_id_is_update:
  assumes region: "vault_region v es" and q: "read_vault_extension Q v = Inr (Some q)"
  shows "next_queue_request_id Q v =
    (let (q', n) = increment_total Q q
     in try_ok (update_vault_extension Q v q') (\<lambda>w. Inr (w, Some n)))"
proof -
  have wf: "tlv_wf es" using region by (rule vault_region_wf)
  from q obtain old where old: "map_of es ty = Some old" "pod_read Q old = Some q"
    by (auto simp: read_vault_extension_region [OF region] res_simps split: option.splits)
  from map_of_split [OF old(1)] obtain xs ys
    where es: "es = xs @ (ty, old) # ys" "ty \<notin> fst ` set xs" by blast
  obtain q' n where inc: "increment_total Q q = (q', n)" by fastforce
  have len: "length old = ExtensionType_data_len (EXTENSION_TYPE Q)"
    using region old(1) by (rule vault_region_len)
  have len': "length (bytes_of Q q') = length old" unfolding len by (rule bytes_len) simp
  let ?a = "length (tlv_encode xs) + 4"
  let ?h = "tlv_encode xs @ u16_to_le ty @ u16_to_le (word_of_nat (length old))"
  have tlv: "v_tlv v = ?h @ old @ tlv_encode ys"
    by (simp add: vault_region_tlv [OF region] es(1) tlv_entry_def)
  have range: "get_extension_bytes_raw_mut (v_tlv v) ty = Some (?a, ?a + length old)"
    using get_range_encode [of xs ty old ys "[]"] wf es
    by (simp add: get_extension_bytes_raw_mut_def vault_region_tlv [OF region])
  have "splice (v_tlv v) ?a (bytes_of Q q') = ?h @ bytes_of Q q' @ tlv_encode ys"
    unfolding tlv by (rule splice_at) (simp_all add: len')
  then have next_id: "next_queue_request_id Q v =
      Inr (v\<lparr>v_tlv := ?h @ bytes_of Q q' @ tlv_encode ys\<rparr>, Some n)"
    using range old(2) inc len' by (simp add: next_queue_request_id_def tlv)
  have "update_extension_from (v_tlv v) ty (bytes_of Q q') 0 = Inr (?h @ bytes_of Q q' @ tlv_encode ys)"
    using update_extension_encode [of xs ty old ys "bytes_of Q q'" "[]"] wf es len'
    by (simp add: vault_region_tlv [OF region] tlv_entry_def)
  then have "update_vault_extension Q v q' = Inr (v\<lparr>v_tlv := ?h @ bytes_of Q q' @ tlv_encode ys\<rparr>)"
    using len' len by (simp add: update_vault_extension_def update_extension_def)
  with next_id inc show ?thesis by simp
qed

text \<open>What a run keeps: ids are issued in sequence, and the processed requests are the first ones.\<close>

definition queue_inv :: "u64 \<Rightarrow> queue_state \<Rightarrow> bool" where
  "queue_inv t0 s \<longleftrightarrow>
     (\<exists>es q. vault_region (qs_vault s) es \<and> read_vault_extension Q (qs_vault s) = Inr (Some q)
        \<and> queue_total Q q = t0 + word_of_nat (length (qs_requests s))
        \<and> last_processed Q q = t0 + word_of_nat (length (qs_processed s)))
     \<and> (\<forall>i < length (qs_requests s).
          read_request_extension R (qs_requests s ! i) = Inr (Some (t0 + word_of_nat (Suc i))))
     \<and> qs_processed s = [0..<length (qs_processed s)]
     \<and> length (qs_processed s) \<le> length (qs_requests s)"

lemma queue_step_inv:
  assumes inv: "queue_inv t0 s" and few: "length (qs_requests s) < 2 ^ 64"
    and step: "queue_step Q R op s = Inr s'"
  shows "queue_inv t0 s' \<and> length (qs_requests s') \<le> Suc (length (qs_requests s))"
proof -
  from inv obtain es q where region: "vault_region (qs_vault s) es"
    and q: "read_vault_extension Q (qs_vault s) = Inr (Some q)"
    and tot: "queue_total Q q = t0 + word_of_nat (length (qs_requests s))"
    and last: "last_processed Q q = t0 + word_of_nat (length (qs_processed s))"
    and ids: "\<forall>i < length (qs_requests s).
      read_request_extension R (qs_requests s ! i) = Inr (Some (t0 + word_of_nat (Suc i)))"
    and ordered: "qs_processed s = [0..<length (qs_processed s)]"
    and le: "length (qs_processed s) \<le> length (qs_requests s)"
    unfolding queue_inv_def by blast
  show ?thesis
  proof (cases op)
    case (Join r)
    obtain q' n where inc: "increment_total Q q = (q', n)" by fastforce
    from total_increment [OF inc] tot last
    have n: "n = t0 + word_of_nat (Suc (length (qs_requests s)))"
      "queue_total Q q' = n" "last_processed Q q' = t0 + word_of_nat (length (qs_processed s))"
      by simp_all
    from present [OF region q] have "map_of es ty \<noteq> None" .
    from init_request_extension_read [OF space [OF region this], of R r n] obtain w
      where w: "init_request_extension R
          (r\<lparr>req_tlv := replicate (compute_request_extension_space (qs_vault s)) 0\<rparr>) n = Inr w"
        "read_request_extension R w = Inr (Some n)" by blast
    from step w(1) obtain v where upd: "update_vault_extension Q (qs_vault s) q' = Inr v"
      and s': "s' = s\<lparr>qs_vault := v, qs_requests := qs_requests s @ [w]\<rparr>"
      by (auto simp: Join queue_step_def next_id_is_update [OF region q] inc res_simps)
    have "\<exists>es. vault_region v es" using update_region(2) [OF region _ upd] by blast
    moreover have "read_vault_extension Q v = Inr (Some q')"
      using read_after_update [OF region _ upd] by simp
    ultimately show ?thesis
      using ids ordered le n w(2) unfolding queue_inv_def
      by (auto simp: s' nth_append less_Suc_eq)
  next
    case (Leave i)
    from step obtain v where i: "i < length (qs_requests s)"
      and adv: "check_and_advance_queue Q R (qs_vault s) (qs_requests s ! i) = Inr v"
      and s': "s' = s\<lparr>qs_vault := v, qs_processed := qs_processed s @ [i]\<rparr>"
      by (auto simp: Leave queue_step_def res_simps)
    define n where "n = t0 + word_of_nat (Suc i)"
    let ?q = "set_last_processed Q q n"
    from i ids have "read_request_extension R (qs_requests s ! i) = Inr (Some n)"
      by (simp add: n_def)
    with adv q have next_id: "n = last_processed Q q + 1"
      and upd: "update_vault_extension Q (qs_vault s) ?q = Inr v"
      by (auto simp: check_and_advance_queue_def res_simps Let_def)
    have "(word_of_nat i :: u64) = word_of_nat (length (qs_processed s))"
      using next_id by (simp add: n_def last)
    then have "unat (word_of_nat i :: u64) = unat (word_of_nat (length (qs_processed s)) :: u64)"
      by simp
    then have "i = length (qs_processed s)"
      using i le few by (simp add: unat_of_nat_small)
    moreover have "\<exists>es. vault_region v es" using update_region(2) [OF region _ upd] by blast
    moreover have "read_vault_extension Q v = Inr (Some ?q)"
      using read_after_update [OF region _ upd] by simp
    ultimately show ?thesis
      using ids ordered i tot unfolding queue_inv_def
      by (auto simp: s' n_def last_set total_set)
  qed
qed

lemma queue_run_inv:
  "queue_inv t0 s \<Longrightarrow> length (qs_requests s) + length ops < 2 ^ 64 \<Longrightarrow>
   queue_inv t0 (queue_run Q R ops s)"
proof (induction ops arbitrary: s)
  case (Cons op ops)
  show ?case
  proof (cases "queue_step Q R op s")
    case (Inr s')
    from Cons.prems have "length (qs_requests s) < 2 ^ 64" by simp
    from queue_step_inv [OF Cons.prems(1) this Inr] Cons.prems(2) Cons.IH [of s'] Inr
    show ?thesis by simp
  qed (use Cons in simp)
qed simp

lemma next_can_leave:
  assumes inv: "queue_inv t0 s" and i: "length (qs_processed s) < length (qs_requests s)"
  shows "\<exists>s'. queue_step Q R (Leave (length (qs_processed s))) s = Inr s'"
proof -
  from inv i obtain es q where region: "vault_region (qs_vault s) es"
    and q: "read_vault_extension Q (qs_vault s) = Inr (Some q)"
    and last: "last_processed Q q = t0 + word_of_nat (length (qs_processed s))"
    and r: "read_request_extension R (qs_requests s ! length (qs_processed s)) =
      Inr (Some (t0 + word_of_nat (Suc (length (qs_processed s)))))"
    unfolding queue_inv_def by blast
  from update_total [OF region _ present [OF region q]]
  obtain w where "update_vault_extension Q (qs_vault s)
      (set_last_processed Q q (last_processed Q q + 1)) = Inr w" by blast
  with q r i last show ?thesis
    by (simp add: queue_step_def check_and_advance_queue_def Let_def add.commute)
qed

lemma processed_in_order:
  assumes "vault_region v es" "read_vault_extension Q v = Inr (Some q)"
    and "queue_total Q q = last_processed Q q" "length ops < 2 ^ 64"
  defines "s \<equiv> queue_run Q R ops \<lparr>qs_vault = v, qs_requests = [], qs_processed = []\<rparr>"
  shows "qs_processed s = [0..<length (qs_processed s)]"
    and "length (qs_processed s) < length (qs_requests s) \<Longrightarrow>
      \<exists>s'. queue_step Q R (Leave (length (qs_processed s))) s = Inr s'"
proof -
  have "queue_inv (last_processed Q q) \<lparr>qs_vault = v, qs_requests = [], qs_processed = []\<rparr>"
    using assms(1-3) by (auto simp: queue_inv_def)
  from queue_run_inv [OF this] assms(4) have inv: "queue_inv (last_processed Q q) s"
    by (simp add: s_def)
  then show "qs_processed s = [0..<length (qs_processed s)]" by (simp add: queue_inv_def)
  show "\<exists>s'. queue_step Q R (Leave (length (qs_processed s))) s = Inr s'"
    if "length (qs_processed s) < length (qs_requests s)"
    using inv that by (rule next_can_leave)
qed

end

subsection \<open>The two queues satisfy it\<close>

lemma request_space:
  assumes "vault_region v es" "map_of es (ExtensionType_as_u16 t) \<noteq> None"
    and "t = SubscriptionQueue \<or> t = RedemptionQueue"
  shows "12 \<le> compute_request_extension_space v"
proof -
  have "has_extension_raw (v_tlv v) (ExtensionType_as_u16 t)"
    using assms(2) vault_region_get [OF assms(1), of t]
    by (simp add: has_extension_raw_def get_extension_bytes_def)
  moreover have "v_tlv v \<noteq> []"
    using assms(1,2) by (auto simp: vault_region_tlv)
  ultimately show ?thesis
    using assms(3) by (auto simp: compute_request_extension_space_def RequestExtensionType_data_len_def)
qed

lemma FifoCounters_pod_total: "length bs = 16 \<Longrightarrow> \<exists>q. FifoCounters_pod_read bs = Some q"
  by (simp add: FifoCounters_pod_read_def)

interpretation subscription_queue: fifo_queue SubscriptionQueue_ext SubscriptionQueueRequest
  using request_space [of _ _ SubscriptionQueue]
  by unfold_locales (auto simp: SubscriptionQueue_ext_def FifoCounters_roundtrip
      FifoCounters_pod_total FifoCounters_increment_total_def Let_def)

interpretation redemption_queue: fifo_queue RedemptionQueue_ext RedemptionQueueRequest
  using request_space [of _ _ RedemptionQueue]
  by unfold_locales (auto simp: RedemptionQueue_ext_def FifoCounters_roundtrip
      FifoCounters_pod_total FifoCounters_increment_total_def Let_def)

text \<open>
  C17. Both queues are first in, first out. Whatever attempts are made on a vault whose queue
  has nothing outstanding, in any order, the requests processed are exactly the first ones
  created, in the order of their creation, without a gap or a repetition; and as long as a
  created request is left, the oldest one can be processed.
\<close>

theorem requests_leave_in_order:
  assumes "(Q, R) \<in> {(SubscriptionQueue_ext, SubscriptionQueueRequest),
      (RedemptionQueue_ext, RedemptionQueueRequest)}"
    and "vault_region v es" "read_vault_extension Q v = Inr (Some q)"
    and "fc_all_time_total q = fc_last_processed q" "length ops < 2 ^ 64"
    and "s = queue_run Q R ops \<lparr>qs_vault = v, qs_requests = [], qs_processed = []\<rparr>"
  shows "qs_processed s = [0..<length (qs_processed s)] \<and>
    (length (qs_processed s) < length (qs_requests s) \<longrightarrow>
       (\<exists>s'. queue_step Q R (Leave (length (qs_processed s))) s = Inr s'))"
proof -
  have "Q = SubscriptionQueue_ext \<and> R = SubscriptionQueueRequest \<or>
      Q = RedemptionQueue_ext \<and> R = RedemptionQueueRequest"
    using assms(1) by blast
  then show ?thesis
  proof (elim disjE conjE)
    assume QR: "Q = SubscriptionQueue_ext" "R = SubscriptionQueueRequest"
    have "queue_total SubscriptionQueue_ext q = last_processed SubscriptionQueue_ext q"
      using assms(4) by (simp add: SubscriptionQueue_ext_def)
    from subscription_queue.processed_in_order [OF assms(2) assms(3) [unfolded QR(1)] this assms(5)]
    show ?thesis unfolding assms(6) QR by blast
  next
    assume QR: "Q = RedemptionQueue_ext" "R = RedemptionQueueRequest"
    have "queue_total RedemptionQueue_ext q = last_processed RedemptionQueue_ext q"
      using assms(4) by (simp add: RedemptionQueue_ext_def)
    from redemption_queue.processed_in_order [OF assms(2) assms(3) [unfolded QR(1)] this assms(5)]
    show ?thesis unfolding assms(6) QR by blast
  qed
qed

definition queued_vault :: vault where
  "queued_vault = sample_vault\<lparr>v_tlv := tlv_encode [(5, replicate 16 0)]\<rparr>"

lemma queued_vault_region: "vault_region queued_vault [(5, replicate 16 0)]"
  by (auto simp: vault_region_def queued_vault_def intro!: exI [of _ SubscriptionQueue])

lemma u64_field_zeros: "u64_field n (replicate k 0) = 0"
proof -
  have "le_nat (replicate m 0) = 0" for m by (induction m) simp_all
  then show ?thesis by (simp add: u64_field_def u64_from_le_def)
qed

lemma queued_vault_read:
  "read_vault_extension SubscriptionQueue_ext queued_vault = Inr (Some FifoCounters_zeroed)"
  by (simp add: read_vault_extension_region [OF queued_vault_region] SubscriptionQueue_ext_def
      FifoCounters_pod_read_def u64_field_zeros FifoCounters_zeroed_def)

definition queued_run :: queue_state where
  "queued_run = queue_run SubscriptionQueue_ext SubscriptionQueueRequest
     [Join sample_request, Leave 1, Join sample_request, Leave 1, Leave 0, Leave 0, Leave 1]
     \<lparr>qs_vault = queued_vault, qs_requests = [], qs_processed = []\<rparr>"

theorem requests_leave_in_order_witness:
  "qs_processed queued_run = [0..<length (qs_processed queued_run)]"
  by (rule conjunct1 [OF requests_leave_in_order
        [OF _ queued_vault_region queued_vault_read _ _ queued_run_def]])
    (simp_all add: FifoCounters_zeroed_def)

end
