(* ===== verification/Extension_Instructions.thy ===== *)
theory Extension_Instructions
  imports Fifo_Queue
begin

text \<open>
  The instructions that configure a vault's extensions: one \<open>initialize\<close> handler per extension,
  which grows the account and adds the entry before the vault is initialised, and the direct
  \<open>update\<close> handlers, which a vault without a timelock accepts at any time. Signers are named by
  their keys. \<open>exec_extension\<close> dispatches the instructions as \<open>lib.rs\<close> does.
\<close>

subsection \<open>Initialisation\<close>

text \<open>
  The accounts of every initialiser: \<open>authority\<close> signs and must be the curator, and \<open>vault\<close> is
  reallocated by the size of the entry.
\<close>

definition InitExtension_accounts ::
  "('e, 'z) VaultExtension_scheme \<Rightarrow> pubkey \<Rightarrow> vault \<Rightarrow> (vault \<Rightarrow> vault result) \<Rightarrow> vault result" where
  "InitExtension_accounts E authority v k =
     require (authority = v_curator v) (Vault_Err UnauthorizedSigner) (k (realloc (TLV_SIZE E) v))"

definition initialize_deposit_fee :: "pubkey \<Rightarrow> vault \<Rightarrow> FeeType \<Rightarrow> vault result" where
  "initialize_deposit_fee authority v fee =
     InitExtension_accounts DepositFee_ext authority v (\<lambda>v.
     try_ok (map_math_err (FeeType_validate fee)) (\<lambda>_.
     init_vault_extension DepositFee_ext v (FeeData_from_fee_type fee)))"

definition initialize_withdrawal_fee :: "pubkey \<Rightarrow> vault \<Rightarrow> FeeType \<Rightarrow> vault result" where
  "initialize_withdrawal_fee authority v fee =
     InitExtension_accounts WithdrawalFee_ext authority v (\<lambda>v.
     try_ok (map_math_err (FeeType_validate fee)) (\<lambda>_.
     init_vault_extension WithdrawalFee_ext v (FeeData_from_fee_type fee)))"

text \<open>\<open>paused as u8\<close>\<close>

definition bool_as_u8 :: "bool \<Rightarrow> u8" where
  "bool_as_u8 b = (if b then 1 else 0)"

definition initialize_pausable_subscriptions :: "pubkey \<Rightarrow> vault \<Rightarrow> bool \<Rightarrow> vault result" where
  "initialize_pausable_subscriptions authority v paused =
     InitExtension_accounts PausableSubscription_ext authority v (\<lambda>v.
     init_vault_extension PausableSubscription_ext v (bool_as_u8 paused))"

definition initialize_pausable_redemptions :: "pubkey \<Rightarrow> vault \<Rightarrow> bool \<Rightarrow> vault result" where
  "initialize_pausable_redemptions authority v paused =
     InitExtension_accounts PausableRedemption_ext authority v (\<lambda>v.
     init_vault_extension PausableRedemption_ext v (bool_as_u8 paused))"

definition initialize_subscription_queue :: "pubkey \<Rightarrow> vault \<Rightarrow> vault result" where
  "initialize_subscription_queue authority v =
     InitExtension_accounts SubscriptionQueue_ext authority v (\<lambda>v.
     init_vault_extension SubscriptionQueue_ext v FifoCounters_zeroed)"

definition initialize_redemption_queue :: "pubkey \<Rightarrow> vault \<Rightarrow> vault result" where
  "initialize_redemption_queue authority v =
     InitExtension_accounts RedemptionQueue_ext authority v (\<lambda>v.
     init_vault_extension RedemptionQueue_ext v FifoCounters_zeroed)"

definition initialize_min_subscription :: "pubkey \<Rightarrow> vault \<Rightarrow> u64 \<Rightarrow> vault result" where
  "initialize_min_subscription authority v threshold =
     InitExtension_accounts MinSubscription_ext authority v (\<lambda>v.
     init_vault_extension MinSubscription_ext v threshold)"

definition initialize_min_redemption :: "pubkey \<Rightarrow> vault \<Rightarrow> u64 \<Rightarrow> vault result" where
  "initialize_min_redemption authority v threshold =
     InitExtension_accounts MinRedemption_ext authority v (\<lambda>v.
     init_vault_extension MinRedemption_ext v threshold)"

definition initialize_externally_managed_withdrawals :: "pubkey \<Rightarrow> vault \<Rightarrow> vault result" where
  "initialize_externally_managed_withdrawals authority v =
     InitExtension_accounts ExternallyManagedWithdrawals_ext authority v (\<lambda>v.
     init_vault_extension ExternallyManagedWithdrawals_ext v 1)"

record InitializeInstantSettlementArgs =
  iis_instant_redemption_fee_bps :: u16
  iis_min_deposit_amount :: u64
  iis_max_deposit_amount :: u64
  iis_min_redeem_shares :: u64
  iis_max_redeem_shares :: u64
  iis_max_user_deposit_amount :: u64
  iis_max_user_redeem_shares :: u64

definition InstantSettlement_of_args :: "InitializeInstantSettlementArgs \<Rightarrow> InstantSettlement" where
  "InstantSettlement_of_args args =
     \<lparr>is_min_deposit_amount = iis_min_deposit_amount args,
      is_max_deposit_amount = iis_max_deposit_amount args,
      is_min_redeem_shares = iis_min_redeem_shares args,
      is_max_redeem_shares = iis_max_redeem_shares args,
      is_max_user_deposit_amount = iis_max_user_deposit_amount args,
      is_max_user_redeem_shares = iis_max_user_redeem_shares args,
      is_enabled = 1, is_reserved = replicate 7 0\<rparr>"

definition initialize_instant_settlement ::
  "pubkey \<Rightarrow> vault \<Rightarrow> InitializeInstantSettlementArgs \<Rightarrow> vault result" where
  "initialize_instant_settlement authority v args =
     InitExtension_accounts InstantSettlement_ext authority v (\<lambda>v.
     require (iis_instant_redemption_fee_bps args \<le> MAX_BPS) (Vault_Err FeeBpsExceeded) (
     try_ok (assert_instant_settlement_safety_guards (iis_instant_redemption_fee_bps args)
       (v_max_nav_staleness_slots v)) (\<lambda>_.
     try_ok (validate_instant_settlement_thresholds (iis_min_deposit_amount args)
       (iis_max_deposit_amount args) (iis_min_redeem_shares args) (iis_max_redeem_shares args)) (\<lambda>_.
     require (v_tranche_config v = None) (Vault_Err UnsupportedPhaseConfig) (
     try_ok (init_vault_extension InstantSettlement_ext v (InstantSettlement_of_args args)) (\<lambda>v.
     Inr (v\<lparr>v_instant_redemption_fee_bps := iis_instant_redemption_fee_bps args\<rparr>)))))))"

subsection \<open>Direct updates\<close>

definition BasicExtensionAccounts :: "pubkey \<Rightarrow> vault \<Rightarrow> (vault \<Rightarrow> vault result) \<Rightarrow> vault result" where
  "BasicExtensionAccounts authority v k =
     require (authority = v_curator v) (Vault_Err UnauthorizedSigner) (
     require (v_timelock_delay_slots v = 0) (Vault_Err TimelockRequired) (
     k v))"

definition update_deposit_fee :: "pubkey \<Rightarrow> vault \<Rightarrow> FeeType \<Rightarrow> vault result" where
  "update_deposit_fee authority v fee =
     BasicExtensionAccounts authority v (\<lambda>v.
     try_ok (map_math_err (FeeType_validate fee)) (\<lambda>_.
     update_vault_extension DepositFee_ext v (FeeData_from_fee_type fee)))"

definition update_withdrawal_fee :: "pubkey \<Rightarrow> vault \<Rightarrow> FeeType \<Rightarrow> vault result" where
  "update_withdrawal_fee authority v fee =
     BasicExtensionAccounts authority v (\<lambda>v.
     try_ok (map_math_err (FeeType_validate fee)) (\<lambda>_.
     update_vault_extension WithdrawalFee_ext v (FeeData_from_fee_type fee)))"

definition update_pausable_subscriptions :: "pubkey \<Rightarrow> vault \<Rightarrow> bool \<Rightarrow> vault result" where
  "update_pausable_subscriptions authority v paused =
     BasicExtensionAccounts authority v (\<lambda>v.
     update_vault_extension PausableSubscription_ext v (bool_as_u8 paused))"

definition update_pausable_redemptions :: "pubkey \<Rightarrow> vault \<Rightarrow> bool \<Rightarrow> vault result" where
  "update_pausable_redemptions authority v paused =
     BasicExtensionAccounts authority v (\<lambda>v.
     update_vault_extension PausableRedemption_ext v (bool_as_u8 paused))"

definition update_min_subscription :: "pubkey \<Rightarrow> vault \<Rightarrow> u64 \<Rightarrow> vault result" where
  "update_min_subscription authority v threshold =
     BasicExtensionAccounts authority v (\<lambda>v.
     update_vault_extension MinSubscription_ext v threshold)"

definition update_min_redemption :: "pubkey \<Rightarrow> vault \<Rightarrow> u64 \<Rightarrow> vault result" where
  "update_min_redemption authority v threshold =
     BasicExtensionAccounts authority v (\<lambda>v.
     update_vault_extension MinRedemption_ext v threshold)"

subsection \<open>Dispatch\<close>

datatype extension_instruction =
    InitializeDepositFee FeeType
  | InitializeWithdrawalFee FeeType
  | InitializePausableSubscriptions bool
  | InitializePausableRedemptions bool
  | InitializeSubscriptionQueue
  | InitializeRedemptionQueue
  | InitializeMinSubscription u64
  | InitializeMinRedemption u64
  | InitializeExternallyManagedWithdrawals
  | InitializeInstantSettlement InitializeInstantSettlementArgs
  | UpdateDepositFee FeeType
  | UpdateWithdrawalFee FeeType
  | UpdatePausableSubscriptions bool
  | UpdatePausableRedemptions bool
  | UpdateMinSubscription u64
  | UpdateMinRedemption u64

fun exec_extension :: "pubkey \<Rightarrow> extension_instruction \<Rightarrow> vault \<Rightarrow> vault result" where
  "exec_extension a (InitializeDepositFee fee) v = initialize_deposit_fee a v fee"
| "exec_extension a (InitializeWithdrawalFee fee) v = initialize_withdrawal_fee a v fee"
| "exec_extension a (InitializePausableSubscriptions p) v = initialize_pausable_subscriptions a v p"
| "exec_extension a (InitializePausableRedemptions p) v = initialize_pausable_redemptions a v p"
| "exec_extension a InitializeSubscriptionQueue v = initialize_subscription_queue a v"
| "exec_extension a InitializeRedemptionQueue v = initialize_redemption_queue a v"
| "exec_extension a (InitializeMinSubscription t) v = initialize_min_subscription a v t"
| "exec_extension a (InitializeMinRedemption t) v = initialize_min_redemption a v t"
| "exec_extension a InitializeExternallyManagedWithdrawals v = initialize_externally_managed_withdrawals a v"
| "exec_extension a (InitializeInstantSettlement args) v = initialize_instant_settlement a v args"
| "exec_extension a (UpdateDepositFee fee) v = update_deposit_fee a v fee"
| "exec_extension a (UpdateWithdrawalFee fee) v = update_withdrawal_fee a v fee"
| "exec_extension a (UpdatePausableSubscriptions p) v = update_pausable_subscriptions a v p"
| "exec_extension a (UpdatePausableRedemptions p) v = update_pausable_redemptions a v p"
| "exec_extension a (UpdateMinSubscription t) v = update_min_subscription a v t"
| "exec_extension a (UpdateMinRedemption t) v = update_min_redemption a v t"

subsection \<open>What an instruction configures\<close>

text \<open>The specification: the extension an instruction sets, the bytes it sets it to, and whether it adds it.\<close>

fun configures :: "extension_instruction \<Rightarrow> ExtensionType \<times> bytes" where
  "configures (InitializeDepositFee fee) = (DepositFee, FeeData_bytes_of (FeeData_from_fee_type fee))"
| "configures (InitializeWithdrawalFee fee) = (WithdrawalFee, FeeData_bytes_of (FeeData_from_fee_type fee))"
| "configures (InitializePausableSubscriptions p) = (PausableSubscriptions, [bool_as_u8 p])"
| "configures (InitializePausableRedemptions p) = (PausableRedemptions, [bool_as_u8 p])"
| "configures InitializeSubscriptionQueue = (SubscriptionQueue, replicate 16 0)"
| "configures InitializeRedemptionQueue = (RedemptionQueue, replicate 16 0)"
| "configures (InitializeMinSubscription t) = (MinSubscription, u64_to_le t)"
| "configures (InitializeMinRedemption t) = (MinRedemption, u64_to_le t)"
| "configures InitializeExternallyManagedWithdrawals = (ExternallyManagedWithdrawals, [1])"
| "configures (InitializeInstantSettlement args) =
     (InstantSettlement, InstantSettlement_bytes_of (InstantSettlement_of_args args))"
| "configures (UpdateDepositFee fee) = (DepositFee, FeeData_bytes_of (FeeData_from_fee_type fee))"
| "configures (UpdateWithdrawalFee fee) = (WithdrawalFee, FeeData_bytes_of (FeeData_from_fee_type fee))"
| "configures (UpdatePausableSubscriptions p) = (PausableSubscriptions, [bool_as_u8 p])"
| "configures (UpdatePausableRedemptions p) = (PausableRedemptions, [bool_as_u8 p])"
| "configures (UpdateMinSubscription t) = (MinSubscription, u64_to_le t)"
| "configures (UpdateMinRedemption t) = (MinRedemption, u64_to_le t)"

fun adds_extension :: "extension_instruction \<Rightarrow> bool" where
  "adds_extension (UpdateDepositFee fee) = False"
| "adds_extension (UpdateWithdrawalFee fee) = False"
| "adds_extension (UpdatePausableSubscriptions p) = False"
| "adds_extension (UpdatePausableRedemptions p) = False"
| "adds_extension (UpdateMinSubscription t) = False"
| "adds_extension (UpdateMinRedemption t) = False"
| "adds_extension _ = True"

lemma length_splice_data [simp]:
  "length (fd_data (FeeData_from_fee_type fee)) = 8"
  by (cases fee) (simp_all add: FeeData_from_fee_type_def)

lemma FeeData_fee_type_roundtrip: "FeeData_fee_type (FeeData_from_fee_type fee) = Inr fee"
proof (cases fee)
  case (FixedAmount amount)
  then show ?thesis by (simp add: FeeData_fee_type_def FeeData_from_fee_type_def splice_def)
next
  case (Percentage bps)
  have "u16_from_le [u16_to_le bps ! 0, u16_to_le bps ! 1] = bps"
    by (simp only: u16_to_le_nth [symmetric] u16_le_roundtrip)
  with Percentage show ?thesis
    by (simp add: FeeData_fee_type_def FeeData_from_fee_type_def splice_def nth_append)
qed

lemma zeroed_counters: "FifoCounters_bytes_of FifoCounters_zeroed = replicate 16 0"
  by (simp add: FifoCounters_bytes_of_def FifoCounters_zeroed_def u64_to_le_def le_bytes_zero
      flip: replicate_add)

text \<open>Each handler is one of the two generic routines behind its guards.\<close>

definition extension_effect ::
  "pubkey \<Rightarrow> extension_instruction \<Rightarrow> vault \<Rightarrow> vault \<Rightarrow> bool" where
  "extension_effect a i v w \<longleftrightarrow>
     a = v_curator v
     \<and> (\<exists>es. vault_region w es)
     \<and> get_extension_bytes (v_tlv w) =
         (get_extension_bytes (v_tlv v))(fst (configures i) \<mapsto> snd (configures i))
     \<and> (if adds_extension i
        then \<not> v_initialized v \<and> get_extension_bytes (v_tlv v) (fst (configures i)) = None
        else v_timelock_delay_slots v = 0 \<and> get_extension_bytes (v_tlv v) (fst (configures i)) \<noteq> None)
     \<and> w\<lparr>v_tlv := [], v_instant_redemption_fee_bps := 0\<rparr> =
         v\<lparr>v_tlv := [], v_instant_redemption_fee_bps := 0\<rparr>"

context vault_extension begin

lemma init_effect:
  assumes region: "vault_region v es" and valid: "valid e"
    and ok: "init_vault_extension E (realloc (TLV_SIZE E) v) e = Inr w"
    and i: "adds_extension i" "configures i = (EXTENSION_TYPE E, bytes_of E e)" and a: "a = v_curator v"
  shows "extension_effect a i v w"
proof -
  have same: "w = v\<lparr>v_tlv := v_tlv w\<rparr>" by (rule init_region(4) [OF region valid ok])
  have "w\<lparr>v_tlv := [], v_instant_redemption_fee_bps := 0\<rparr> =
      v\<lparr>v_tlv := [], v_instant_redemption_fee_bps := 0\<rparr>"
    by (subst same) simp
  with init_region(1-3) [OF region valid ok] init_map [OF region valid ok] i a
    vault_region_get [OF region]
  show ?thesis by (auto simp: extension_effect_def)
qed

lemma update_effect:
  assumes region: "vault_region v es" and valid: "valid e"
    and ok: "update_vault_extension E v e = Inr w"
    and i: "\<not> adds_extension i" "configures i = (EXTENSION_TYPE E, bytes_of E e)"
    and a: "a = v_curator v" "v_timelock_delay_slots v = 0"
  shows "extension_effect a i v w"
proof -
  have same: "w = v\<lparr>v_tlv := v_tlv w\<rparr>" by (rule update_region(3) [OF region valid ok])
  have "w\<lparr>v_tlv := [], v_instant_redemption_fee_bps := 0\<rparr> =
      v\<lparr>v_tlv := [], v_instant_redemption_fee_bps := 0\<rparr>"
    by (subst same) simp
  with update_region(1,2) [OF region valid ok] update_map [OF region valid ok] i a
    vault_region_get [OF region]
  show ?thesis by (auto simp: extension_effect_def)
qed

end

lemmas extension_handler_defs =
  initialize_deposit_fee_def initialize_withdrawal_fee_def initialize_pausable_subscriptions_def
  initialize_pausable_redemptions_def initialize_subscription_queue_def initialize_redemption_queue_def
  initialize_min_subscription_def initialize_min_redemption_def
  initialize_externally_managed_withdrawals_def InitExtension_accounts_def
  update_deposit_fee_def update_withdrawal_fee_def update_pausable_subscriptions_def
  update_pausable_redemptions_def update_min_subscription_def update_min_redemption_def
  BasicExtensionAccounts_def

lemma extension_instruction_effect_lemma:
  assumes region: "vault_region v es" and ok: "exec_extension a i v = Inr w"
  shows "extension_effect a i v w"
proof -
  note [simp] = extension_handler_defs res_simps bool_as_u8_def
  show ?thesis
  proof (cases i)
    case (InitializeDepositFee fee)
    then show ?thesis using ok
      by (intro deposit_fee.init_effect [OF region, of "FeeData_from_fee_type fee"])
        (auto simp: DepositFee_ext_def)
  next
    case (InitializeWithdrawalFee fee)
    then show ?thesis using ok
      by (intro withdrawal_fee.init_effect [OF region, of "FeeData_from_fee_type fee"])
        (auto simp: WithdrawalFee_ext_def)
  next
    case (InitializePausableSubscriptions p)
    then show ?thesis using ok
      by (intro pausable_subscription.init_effect [OF region, of "bool_as_u8 p"])
        (auto simp: PausableSubscription_ext_def)
  next
    case (InitializePausableRedemptions p)
    then show ?thesis using ok
      by (intro pausable_redemption.init_effect [OF region, of "bool_as_u8 p"])
        (auto simp: PausableRedemption_ext_def)
  next
    case InitializeSubscriptionQueue
    then show ?thesis using ok
      by (intro subscription_queue.init_effect [OF region, of FifoCounters_zeroed])
        (auto simp: SubscriptionQueue_ext_def zeroed_counters)
  next
    case InitializeRedemptionQueue
    then show ?thesis using ok
      by (intro redemption_queue.init_effect [OF region, of FifoCounters_zeroed])
        (auto simp: RedemptionQueue_ext_def zeroed_counters)
  next
    case (InitializeMinSubscription t)
    then show ?thesis using ok
      by (intro min_subscription.init_effect [OF region, of t]) (auto simp: MinSubscription_ext_def)
  next
    case (InitializeMinRedemption t)
    then show ?thesis using ok
      by (intro min_redemption.init_effect [OF region, of t]) (auto simp: MinRedemption_ext_def)
  next
    case InitializeExternallyManagedWithdrawals
    then show ?thesis using ok
      by (intro externally_managed.init_effect [OF region, of 1])
        (auto simp: ExternallyManagedWithdrawals_ext_def)
  next
    case (InitializeInstantSettlement args)
    with ok obtain u where u: "init_vault_extension InstantSettlement_ext
        (realloc (TLV_SIZE InstantSettlement_ext) v) (InstantSettlement_of_args args) = Inr u"
      and w: "w = u\<lparr>v_instant_redemption_fee_bps := iis_instant_redemption_fee_bps args\<rparr>"
      and a: "a = v_curator v"
      by (auto simp: initialize_instant_settlement_def)
    have "extension_effect a i v u"
      using InitializeInstantSettlement a
      by (intro instant_settlement.init_effect [OF region _ u])
        (auto simp: InstantSettlement_ext_def InstantSettlement_of_args_def)
    then show ?thesis
      by (simp add: extension_effect_def w vault_region_def)
  next
    case (UpdateDepositFee fee)
    then show ?thesis using ok
      by (intro deposit_fee.update_effect [OF region, of "FeeData_from_fee_type fee"])
        (auto simp: DepositFee_ext_def)
  next
    case (UpdateWithdrawalFee fee)
    then show ?thesis using ok
      by (intro withdrawal_fee.update_effect [OF region, of "FeeData_from_fee_type fee"])
        (auto simp: WithdrawalFee_ext_def)
  next
    case (UpdatePausableSubscriptions p)
    then show ?thesis using ok
      by (intro pausable_subscription.update_effect [OF region, of "bool_as_u8 p"])
        (auto simp: PausableSubscription_ext_def)
  next
    case (UpdatePausableRedemptions p)
    then show ?thesis using ok
      by (intro pausable_redemption.update_effect [OF region, of "bool_as_u8 p"])
        (auto simp: PausableRedemption_ext_def)
  next
    case (UpdateMinSubscription t)
    then show ?thesis using ok
      by (intro min_subscription.update_effect [OF region, of t]) (auto simp: MinSubscription_ext_def)
  next
    case (UpdateMinRedemption t)
    then show ?thesis using ok
      by (intro min_redemption.update_effect [OF region, of t]) (auto simp: MinRedemption_ext_def)
  qed
qed

text \<open>
  C36. Configuring one extension is one update of the vault's extension map: an accepted
  instruction was signed by the curator, sets the bytes of exactly its own extension and leaves
  the bytes of every other extension, and every other field of the vault (the instant
  redemption fee apart), as they were. Adding needs an uninitialised vault without the
  extension; changing needs a vault with it and without a timelock. The region stays well formed.
\<close>

theorem extension_instruction_effect:
  assumes "vault_region v es" "exec_extension a i v = Inr w"
  shows "extension_effect a i v w"
  using assms by (rule extension_instruction_effect_lemma)

definition min_subscription_vault :: vault where
  "min_subscription_vault = sample_vault\<lparr>v_tlv := tlv_encode [(7, replicate 8 0)]\<rparr>"

lemma min_subscription_vault_region: "vault_region min_subscription_vault [(7, replicate 8 0)]"
  by (auto simp: vault_region_def min_subscription_vault_def intro!: exI [of _ MinSubscription])

lemma min_subscription_vault_update:
  "\<exists>w. exec_extension (key 11) (UpdateMinSubscription 5) min_subscription_vault = Inr w"
  using min_subscription.update_total [OF min_subscription_vault_region, of 5]
  by (simp add: extension_handler_defs MinSubscription_ext_def)
    (simp add: min_subscription_vault_def sample_vault_def)

theorem extension_instruction_effect_witness:
  "\<exists>w. extension_effect (key 11) (UpdateMinSubscription 5) min_subscription_vault w"
  using min_subscription_vault_update
    extension_instruction_effect [OF min_subscription_vault_region, of "key 11" "UpdateMinSubscription 5"]
  by blast

subsection \<open>Configured fees\<close>

text \<open>What a fee takes from an amount, as the pair of the fee and the rest.\<close>

definition charges :: "(u64 \<Rightarrow> (u64 \<times> u64) result) \<Rightarrow> FeeType \<Rightarrow> bool" where
  "charges get fee \<longleftrightarrow>
     (\<forall>amount. case fee of
        FixedAmount fixed \<Rightarrow>
          get amount = (if fixed \<le> amount then Inr (fixed, amount - fixed) else Inl arith_err)
      | Percentage bps \<Rightarrow>
          bps \<le> MAX_BPS
          \<and> (\<exists>f net. get amount = Inr (f, net) \<and> unat f + unat net = unat amount
               \<and> unat f = ceil_div (unat amount * unat bps) 10000))"

lemma charges_read:
  assumes valid: "FeeType_validate fee = Inr ()"
    and get: "\<And>amount. get amount = try_ok (map_math_err (FeeType_get_fee fee amount)) (\<lambda>f.
      arith (checked_sub amount f) (\<lambda>net. Inr (f, net)))"
  shows "charges get fee"
proof (cases fee)
  case (FixedAmount fixed)
  have "checked_sub amount fixed = (if fixed \<le> amount then Some (amount - fixed) else None)" for amount
    by (simp add: checked_sub_eq checked_sub_None word_le_nat_alt)
  with FixedAmount show ?thesis
    by (simp add: charges_def get FeeType_get_fee_def)
next
  case (Percentage bps)
  with valid have le: "bps \<le> MAX_BPS" by (auto simp: FeeType_validate_def split: if_splits)
  have "\<exists>f net. get amount = Inr (f, net) \<and> unat f + unat net = unat amount
      \<and> unat f = ceil_div (unat amount * unat bps) 10000" for amount
  proof -
    obtain f where f: "FeeType_get_fee (Percentage bps) amount = Inr f" "f \<le> amount"
      "unat f = ceil_div (unat amount * unat bps) 10000"
      using percentage_fee_total [OF le] by blast
    then have "get amount = Inr (f, amount - f)"
      by (simp add: get Percentage checked_sub_eq word_le_nat_alt)
    moreover have "unat f + unat (amount - f) = unat amount"
      using f(2) by (simp add: unat_sub word_le_nat_alt)
    ultimately show ?thesis using f(3) by blast
  qed
  with le Percentage show ?thesis by (simp add: charges_def)
qed

lemma FeeData_pod_read_of_fee:
  "FeeData_pod_read (FeeData_bytes_of (FeeData_from_fee_type fee)) = Some (FeeData_from_fee_type fee)"
  by (rule FeeData_roundtrip) simp

lemma read_deposit_fee:
  "vault_region w es \<Longrightarrow>
   get_extension_bytes (v_tlv w) DepositFee = Some (FeeData_bytes_of (FeeData_from_fee_type fee)) \<Longrightarrow>
   read_vault_extension DepositFee_ext w = Inr (Some (FeeData_from_fee_type fee))"
  by (simp add: read_vault_extension_region vault_region_get DepositFee_ext_def FeeData_pod_read_of_fee)

lemma read_withdrawal_fee:
  "vault_region w es \<Longrightarrow>
   get_extension_bytes (v_tlv w) WithdrawalFee = Some (FeeData_bytes_of (FeeData_from_fee_type fee)) \<Longrightarrow>
   read_vault_extension WithdrawalFee_ext w = Inr (Some (FeeData_from_fee_type fee))"
  by (simp add: read_vault_extension_region vault_region_get WithdrawalFee_ext_def FeeData_pod_read_of_fee)

text \<open>
  C35. The fee the curator configures is the fee the handlers charge: after an accepted
  instruction that sets the deposit (withdrawal) fee, the program takes from every amount the
  configured fixed fee, failing when the amount does not cover it, or the configured percentage
  rounded up, and the fee and the net amount add up to the gross amount.
\<close>

theorem configured_fee_is_charged:
  assumes "vault_region v es" "exec_extension a i v = Inr w"
  shows "(i \<in> {InitializeDepositFee fee, UpdateDepositFee fee} \<longrightarrow> charges (get_deposit_fee_and_net w) fee)
    \<and> (i \<in> {InitializeWithdrawalFee fee, UpdateWithdrawalFee fee} \<longrightarrow>
          charges (get_withdrawal_fee_and_net w) fee)"
proof -
  have effect: "extension_effect a i v w"
    using assms by (rule extension_instruction_effect_lemma)
  then obtain es' where region: "vault_region w es'" by (auto simp: extension_effect_def)
  have "charges (get_deposit_fee_and_net w) fee"
    if i: "i \<in> {InitializeDepositFee fee, UpdateDepositFee fee}"
  proof (rule charges_read)
    show "FeeType_validate fee = Inr ()"
      using assms(2) i by (auto simp: extension_handler_defs res_simps)
    have "read_vault_extension DepositFee_ext w = Inr (Some (FeeData_from_fee_type fee))"
      using effect i by (intro read_deposit_fee [OF region]) (auto simp: extension_effect_def)
    then show "get_deposit_fee_and_net w amount = try_ok (map_math_err (FeeType_get_fee fee amount))
        (\<lambda>f. arith (checked_sub amount f) (\<lambda>net. Inr (f, net)))" for amount
      by (simp add: get_deposit_fee_and_net_def get_deposit_fee_def FeeData_fee_type_roundtrip)
  qed
  moreover have "charges (get_withdrawal_fee_and_net w) fee"
    if i: "i \<in> {InitializeWithdrawalFee fee, UpdateWithdrawalFee fee}"
  proof (rule charges_read)
    show "FeeType_validate fee = Inr ()"
      using assms(2) i by (auto simp: extension_handler_defs res_simps)
    have "read_vault_extension WithdrawalFee_ext w = Inr (Some (FeeData_from_fee_type fee))"
      using effect i by (intro read_withdrawal_fee [OF region]) (auto simp: extension_effect_def)
    then show "get_withdrawal_fee_and_net w amount = try_ok (map_math_err (FeeType_get_fee fee amount))
        (\<lambda>f. arith (checked_sub amount f) (\<lambda>net. Inr (f, net)))" for amount
      by (simp add: get_withdrawal_fee_and_net_def get_withdrawal_fee_def FeeData_fee_type_roundtrip)
  qed
  ultimately show ?thesis by blast
qed

definition deposit_fee_vault :: vault where
  "deposit_fee_vault = sample_vault\<lparr>v_tlv := tlv_encode [(1, replicate 9 0)]\<rparr>"

lemma deposit_fee_vault_region: "vault_region deposit_fee_vault [(1, replicate 9 0)]"
  by (auto simp: vault_region_def deposit_fee_vault_def intro!: exI [of _ DepositFee])

theorem configured_fee_is_charged_witness:
  "\<exists>w. exec_extension (key 11) (UpdateDepositFee (Percentage 25)) deposit_fee_vault = Inr w
     \<and> charges (get_deposit_fee_and_net w) (Percentage 25)"
proof -
  have "\<exists>w. exec_extension (key 11) (UpdateDepositFee (Percentage 25)) deposit_fee_vault = Inr w"
    using deposit_fee.update_total [OF deposit_fee_vault_region, of "FeeData_from_fee_type (Percentage 25)"]
    by (simp add: extension_handler_defs DepositFee_ext_def FeeType_validate_def MAX_BPS_def)
      (simp add: deposit_fee_vault_def sample_vault_def)
  then obtain w where "exec_extension (key 11) (UpdateDepositFee (Percentage 25)) deposit_fee_vault = Inr w"
    by blast
  with configured_fee_is_charged [OF deposit_fee_vault_region this, of "Percentage 25"] show ?thesis
    by blast
qed

end
