(* ===== verification/World.thy ===== *)
theory World
  imports Fees Fifo_Queue
begin

text \<open>
  The world an instruction runs in: the accounts of the program by address, the token ledger,
  the account infos of the transaction, and the runtime. The token program, the clock, the
  derivation of program addresses and the hash are not code of this repository: they are fields
  of an \<open>env\<close> record that every handler takes. What a property needs of the token program is a
  named law here, and a reference ledger shows that the laws can hold.

  Fields of an accounts struct are the keys of its accounts. Anchor's signer and writable checks
  on named accounts, and the payment of rent, are left to the runtime; the attributes \<open>seeds\<close>,
  \<open>has_one\<close>, \<open>constraint\<close>, \<open>token::*\<close>, \<open>init\<close> and \<open>close\<close> are part of each handler.
\<close>

subsection \<open>Account infos\<close>

text \<open>An entry of \<open>ctx.remaining_accounts\<close>, with the owner and data at the start of the instruction.\<close>

record account_info =
  ai_key :: pubkey
  ai_owner :: pubkey
  ai_is_signer :: bool
  ai_is_writable :: bool
  ai_executable :: bool
  ai_data :: bytes

subsection \<open>The token ledger\<close>

text \<open>
  What the program reads of a mint and of a token account: the owning token program, supply,
  decimals and authorities; the two Token-2022 extensions it looks for are the transfer fee in
  force at an epoch and the presence of \<open>ConfidentialMintBurn\<close>.
\<close>

record mint_account =
  mint_program :: pubkey
  mint_supply :: u64
  mint_decimals :: u8
  mint_authority :: "pubkey option"
  mint_freeze_authority :: "pubkey option"
  mint_transfer_fee_bps :: "(u64 \<Rightarrow> u16) option"
  mint_confidential_mint_burn :: bool

record token_account =
  ta_program :: pubkey
  ta_mint :: pubkey
  ta_owner :: pubkey
  ta_amount :: u64

record ledger =
  l_mints :: "pubkey \<Rightarrow> mint_account option"
  l_tokens :: "pubkey \<Rightarrow> token_account option"

text \<open>
  The instructions of the token programs, each taking the program's id first and the authority
  last; an error fails the instruction that invoked it.
\<close>

record spl =
  spl_transfer_checked ::
    "u64 \<Rightarrow> pubkey \<Rightarrow> pubkey \<Rightarrow> pubkey \<Rightarrow> pubkey \<Rightarrow> pubkey \<Rightarrow> u64 \<Rightarrow> u8 \<Rightarrow> ledger \<Rightarrow> ledger result"
    \<comment> \<open>epoch (transfer fees depend on it), program, from, mint, to, authority, amount, decimals\<close>
  spl_mint_to :: "pubkey \<Rightarrow> pubkey \<Rightarrow> pubkey \<Rightarrow> pubkey \<Rightarrow> u64 \<Rightarrow> ledger \<Rightarrow> ledger result"
    \<comment> \<open>program, mint, to, authority, amount\<close>
  spl_burn :: "pubkey \<Rightarrow> pubkey \<Rightarrow> pubkey \<Rightarrow> pubkey \<Rightarrow> u64 \<Rightarrow> ledger \<Rightarrow> ledger result"
    \<comment> \<open>program, mint, from, authority, amount\<close>
  spl_set_mint_authority :: "pubkey \<Rightarrow> pubkey \<Rightarrow> pubkey \<Rightarrow> pubkey \<Rightarrow> ledger \<Rightarrow> ledger result"
    \<comment> \<open>program, mint, new authority, current authority\<close>
  spl_init_account :: "pubkey \<Rightarrow> pubkey \<Rightarrow> pubkey \<Rightarrow> pubkey \<Rightarrow> ledger \<Rightarrow> ledger result"
    \<comment> \<open>program, account, mint, owner: Anchor's \<open>init\<close> with \<open>token::mint\<close> and \<open>token::authority\<close>\<close>
  spl_close_account :: "pubkey \<Rightarrow> pubkey \<Rightarrow> pubkey \<Rightarrow> pubkey \<Rightarrow> ledger \<Rightarrow> ledger result"
    \<comment> \<open>program, account, destination, authority\<close>

subsection \<open>The runtime\<close>

record env =
  env_program_id :: pubkey \<comment> \<open>\<open>crate::ID\<close>\<close>
  env_token_id :: pubkey \<comment> \<open>\<open>token::ID\<close>\<close>
  env_token_2022_id :: pubkey
  env_system_id :: pubkey
  env_slot :: u64
  env_unix_timestamp :: i64
  env_epoch :: u64
  env_find_program_address :: "bytes list \<Rightarrow> pubkey \<times> u8"
  env_create_program_address :: "bytes list \<Rightarrow> pubkey option"
  env_hash :: "bytes \<Rightarrow> bytes"
  env_spl :: spl

subsection \<open>Queued updates\<close>

text \<open>
  The four \<open>Pending*Update\<close> account types have the same first four fields; the policy update
  also names the policy and the version it was queued against.
\<close>

record UpdateVaultArgs =
  uva_paused :: "bool option"
  uva_fee_recipient :: "pubkey option"
  uva_manager :: "pubkey option"
  uva_hot_manager :: "pubkey option"
  uva_fulfiller :: "pubkey option"
  uva_breaker :: "pubkey option"
  uva_nav_mode :: "NavMode option"
  uva_require_fresh_nav :: "bool option"
  uva_max_nav_delta_bps :: "u16 option"
  uva_max_implied_apy_bps :: "u32 option"
  uva_max_nav_staleness_slots :: "u64 option"
  uva_deposit_cap :: "u64 option"
  uva_rolling_limit_window_slots :: "u64 option"
  uva_manager_rolling_limit :: "u64 option"
  uva_external_withdraw_rolling_limit :: "u64 option"
  uva_redemption_rolling_limit :: "u64 option"
  uva_timelock_delay_slots :: "u64 option"
  uva_performance_fee_bps :: "u16 option"
  uva_performance_fee_crystallization_interval_seconds :: "u64 option"
  uva_protocol_fee_bps :: "u16 option"
  uva_protocol_fee_recipient :: "pubkey option"
  uva_instant_redemption_fee_bps :: "u16 option"

datatype FeeUpdateKind = DepositFeeKind | WithdrawalFeeKind

record FeeUpdateArgs =
  fua_kind :: FeeUpdateKind
  fua_fee :: FeeType

datatype ExtensionUpdateKind =
    MinSubscriptionKind | MinRedemptionKind | PausableSubscriptionsKind | PausableRedemptionsKind

record ExtensionUpdateArgs =
  eua_kind :: ExtensionUpdateKind
  eua_threshold :: u64
  eua_paused :: bool

record StrategyPolicyUpdateArgs =
  sua_merkle_root :: bytes
  sua_paused :: bool

record 'a pending_update =
  pu_vault :: pubkey
  pu_queued_by :: pubkey
  pu_created_slot :: u64
  pu_eta_slot :: u64
  pu_args :: 'a

type_synonym PendingVaultUpdate = "UpdateVaultArgs pending_update"
type_synonym PendingFeeUpdate = "FeeUpdateArgs pending_update"
type_synonym PendingExtensionUpdate = "ExtensionUpdateArgs pending_update"

record PendingStrategyPolicyUpdate = "StrategyPolicyUpdateArgs pending_update" +
  pspu_strategy_policy :: pubkey
  pspu_expected_version :: u64

subsection \<open>The accounts of the program\<close>

text \<open>
  One map per account type: Anchor's discriminator keeps an account of one type from being read
  as another, and \<open>init\<close> needs an address that no account uses yet.
\<close>

type_synonym 'a accounts = "pubkey \<Rightarrow> 'a option"

record world =
  w_ledger :: ledger
  w_vaults :: "vault accounts"
  w_requests :: "request accounts"
  w_vault_assets :: "VaultAsset accounts"
  w_tranche_configs :: "TrancheConfig accounts"
  w_instant_users :: "InstantSettlementUser accounts"
  w_protocol_fee_configs :: "ProtocolFeeConfig accounts"
  w_venue_entries :: "VenueEntry accounts"
  w_vault_venues :: "VaultVenue accounts"
  w_positions :: "Position accounts"
  w_policies :: "StrategyPolicy accounts"
  w_pending_vault_updates :: "PendingVaultUpdate accounts"
  w_pending_fee_updates :: "PendingFeeUpdate accounts"
  w_pending_extension_updates :: "PendingExtensionUpdate accounts"
  w_pending_policy_updates :: "PendingStrategyPolicyUpdate accounts"

definition fresh :: "world \<Rightarrow> pubkey \<Rightarrow> bool" where
  "fresh w k \<longleftrightarrow>
     l_mints (w_ledger w) k = None \<and> l_tokens (w_ledger w) k = None
     \<and> w_vaults w k = None \<and> w_requests w k = None \<and> w_vault_assets w k = None
     \<and> w_tranche_configs w k = None \<and> w_instant_users w k = None
     \<and> w_protocol_fee_configs w k = None \<and> w_venue_entries w k = None
     \<and> w_vault_venues w k = None \<and> w_positions w k = None \<and> w_policies w k = None
     \<and> w_pending_vault_updates w k = None \<and> w_pending_fee_updates w k = None
     \<and> w_pending_extension_updates w k = None \<and> w_pending_policy_updates w k = None"

definition load :: "'a accounts \<Rightarrow> pubkey \<Rightarrow> ('a \<Rightarrow> 'b result) \<Rightarrow> 'b result" where
  "load m k f = ok_or (m k) (Anchor_Err AccountNotInitialized) f"

text \<open>\<open>Option<Account<T>>\<close>: an absent account is passed as the program's own id.\<close>

definition load_opt :: "'a accounts \<Rightarrow> pubkey option \<Rightarrow> ('a option \<Rightarrow> 'b result) \<Rightarrow> 'b result" where
  "load_opt m ko f =
     (case ko of None \<Rightarrow> f None | Some k \<Rightarrow> load m k (\<lambda>x. f (Some x)))"

definition init_account :: "world \<Rightarrow> pubkey \<Rightarrow> 'b result \<Rightarrow> 'b result" where
  "init_account w k f = require (fresh w k) (Anchor_Err AccountAlreadyInUse) f"

definition put_opt :: "'a accounts \<Rightarrow> pubkey option \<Rightarrow> 'a option \<Rightarrow> 'a accounts" where
  "put_opt m ko x = (case ko of None \<Rightarrow> m | Some k \<Rightarrow> m(k := x))"

definition close :: "'a accounts \<Rightarrow> pubkey \<Rightarrow> 'a accounts" where
  "close m k = m(k := None)"

lemma load_Inr [res_simps]: "load m k f = Inr r \<longleftrightarrow> (\<exists>x. m k = Some x \<and> f x = Inr r)"
  by (simp add: load_def res_simps)

lemma load_weak_cong [cong]: "m k = m' k' \<Longrightarrow> load m k f = load m' k' f"
  by (simp add: load_def)

lemma load_Some [simp]: "m k = Some x \<Longrightarrow> load m k f = f x"
  by (simp add: load_def)

lemma load_opt_None [simp]: "load_opt m None f = f None"
  by (simp add: load_opt_def)

lemma load_opt_Some [simp]: "load_opt m (Some k) f = load m k (\<lambda>x. f (Some x))"
  by (simp add: load_opt_def)

definition opt_account :: "'a accounts \<Rightarrow> pubkey option \<Rightarrow> 'a option \<Rightarrow> bool" where
  "opt_account m ko x \<longleftrightarrow> (case ko of None \<Rightarrow> x = None | Some k \<Rightarrow> x \<noteq> None \<and> m k = x)"

lemma load_opt_Inr [res_simps]:
  "load_opt m ko f = Inr r \<longleftrightarrow> (\<exists>x. opt_account m ko x \<and> f x = Inr r)"
  by (auto simp: load_opt_def res_simps opt_account_def split: option.split)

lemma opt_account_Some: "opt_account m (Some k) x \<Longrightarrow> \<exists>a. m k = Some a \<and> x = Some a"
  by (auto simp: opt_account_def)

lemma load_opt_weak_cong [cong]: "m = m' \<Longrightarrow> ko = ko' \<Longrightarrow> load_opt m ko f = load_opt m' ko' f"
  by simp

lemma init_account_Inr [res_simps]: "init_account w k f = Inr r \<longleftrightarrow> fresh w k \<and> f = Inr r"
  by (simp add: init_account_def res_simps)

lemma close_same [simp]: "close m k k = None"
  by (simp add: close_def)

lemma close_other [simp]: "k' \<noteq> k \<Longrightarrow> close m k k' = m k'"
  by (simp add: close_def)

end
