(* ===== verification/Token_Program.thy ===== *)
theory Token_Program
  imports World Samples
begin

text \<open>
  Program addresses, the account constraints that many instructions share, the calls into the
  token programs, and what is assumed of them. The token programs are fields of \<open>env\<close>;
  \<open>spl_laws\<close> states the documented effect of the instructions the vault invokes, and
  \<open>reference_spl\<close> is a small ledger that satisfies it.
\<close>

subsection \<open>Seeds\<close>

definition VAULT_CONFIG_SEED :: bytes where "VAULT_CONFIG_SEED = ascii ''vault''"
definition PROTOCOL_FEE_CONFIG_SEED :: bytes where
  "PROTOCOL_FEE_CONFIG_SEED = ascii ''protocol_fee_config''"
definition RESERVE_CONFIG_SEED :: bytes where "RESERVE_CONFIG_SEED = ascii ''reserve''"
definition PENDING_VAULT_SEED :: bytes where "PENDING_VAULT_SEED = ascii ''pending''"
definition ASSET_CONFIG_SEED :: bytes where "ASSET_CONFIG_SEED = ascii ''asset''"
definition ASSET_RESERVE_SEED :: bytes where "ASSET_RESERVE_SEED = ascii ''asset_reserve''"
definition ASSET_PENDING_SEED :: bytes where "ASSET_PENDING_SEED = ascii ''asset_pending''"
definition VENUE_ENTRY_SEED :: bytes where "VENUE_ENTRY_SEED = ascii ''venue''"
definition VAULT_VENUE_SEED :: bytes where "VAULT_VENUE_SEED = ascii ''vault_venue''"
definition STRATEGY_POLICY_SEED :: bytes where "STRATEGY_POLICY_SEED = ascii ''strategy_policy''"
definition POSITION_SEED :: bytes where "POSITION_SEED = ascii ''position''"
definition POSITION_TOKEN_SEED :: bytes where "POSITION_TOKEN_SEED = ascii ''position_token''"
definition TRANCHE_CONFIG_SEED :: bytes where "TRANCHE_CONFIG_SEED = ascii ''tranches''"
definition INSTANT_USER_LIMIT_SEED :: bytes where "INSTANT_USER_LIMIT_SEED = ascii ''instant_user''"

subsection \<open>Constraints\<close>

text \<open>
  \<open>seeds = [..], bump = b\<close> recomputes the address from the stored bump; \<open>seeds = [..], bump\<close>
  searches for it, and the handler reads the bump found from \<open>ctx.bumps\<close>.
\<close>

definition seeds_with_bump :: "env \<Rightarrow> bytes list \<Rightarrow> u8 \<Rightarrow> pubkey \<Rightarrow> 'a result \<Rightarrow> 'a result" where
  "seeds_with_bump E seeds bump k f =
     require (env_create_program_address E (seeds @ [[bump]]) = Some k) (Anchor_Err ConstraintSeeds) f"

definition seeds_canonical :: "env \<Rightarrow> bytes list \<Rightarrow> pubkey \<Rightarrow> (u8 \<Rightarrow> 'a result) \<Rightarrow> 'a result" where
  "seeds_canonical E seeds k f =
     require (fst (env_find_program_address E seeds) = k) (Anchor_Err ConstraintSeeds)
       (f (snd (env_find_program_address E seeds)))"

definition vault_seeds :: "vault \<Rightarrow> bytes list" where
  "vault_seeds v = [VAULT_CONFIG_SEED, v_share_mint v]"

definition vault_pda :: "env \<Rightarrow> pubkey \<Rightarrow> vault \<Rightarrow> 'a result \<Rightarrow> 'a result" where
  "vault_pda E vault_key v f = seeds_with_bump E (vault_seeds v) (v_bump v) vault_key f"

text \<open>\<open>token::mint\<close>, \<open>token::authority\<close> and \<open>token::token_program\<close>.\<close>

definition token_constraints ::
  "token_account \<Rightarrow> pubkey \<Rightarrow> pubkey \<Rightarrow> 'a result \<Rightarrow> 'a result" where
  "token_constraints t mint authority f =
     require (ta_owner t = authority) (Anchor_Err ConstraintTokenOwner) (
     require (ta_mint t = mint) (Anchor_Err ConstraintTokenMint) f)"

definition token_constraints_program ::
  "token_account \<Rightarrow> pubkey \<Rightarrow> pubkey \<Rightarrow> pubkey \<Rightarrow> 'a result \<Rightarrow> 'a result" where
  "token_constraints_program t mint authority program f =
     token_constraints t mint authority (
     require (ta_program t = program) (Anchor_Err ConstraintTokenTokenProgram) f)"

text \<open>\<open>Interface<TokenInterface>\<close>: one of the two token programs.\<close>

definition is_token_program :: "env \<Rightarrow> pubkey \<Rightarrow> bool" where
  "is_token_program E p \<longleftrightarrow> p = env_token_id E \<or> p = env_token_2022_id E"

definition token_interface :: "env \<Rightarrow> pubkey \<Rightarrow> 'a result \<Rightarrow> 'a result" where
  "token_interface E p f = require (is_token_program E p) (Anchor_Err InvalidProgramId) f"

lemmas constraint_defs =
  seeds_with_bump_def vault_pda_def token_constraints_def
  token_constraints_program_def token_interface_def

lemma seeds_with_bump_Inr [res_simps]:
  "seeds_with_bump E seeds b k f = Inr r \<longleftrightarrow>
     env_create_program_address E (seeds @ [[b]]) = Some k \<and> f = Inr r"
  by (simp add: seeds_with_bump_def res_simps)

lemma seeds_canonical_Inr [res_simps]:
  "seeds_canonical E seeds k f = Inr r \<longleftrightarrow>
     fst (env_find_program_address E seeds) = k
     \<and> f (snd (env_find_program_address E seeds)) = Inr r"
  by (simp add: seeds_canonical_def res_simps)

lemma vault_pda_Inr [res_simps]:
  "vault_pda E k v f = Inr r \<longleftrightarrow>
     env_create_program_address E (vault_seeds v @ [[v_bump v]]) = Some k \<and> f = Inr r"
  by (simp add: vault_pda_def res_simps)

lemma token_constraints_Inr [res_simps]:
  "token_constraints t m a f = Inr r \<longleftrightarrow> ta_owner t = a \<and> ta_mint t = m \<and> f = Inr r"
  by (simp add: token_constraints_def res_simps)

lemma token_constraints_program_Inr [res_simps]:
  "token_constraints_program t m a p f = Inr r \<longleftrightarrow>
     ta_owner t = a \<and> ta_mint t = m \<and> ta_program t = p \<and> f = Inr r"
  by (simp add: token_constraints_program_def res_simps)

lemma token_interface_Inr [res_simps]:
  "token_interface E p f = Inr r \<longleftrightarrow> is_token_program E p \<and> f = Inr r"
  by (simp add: token_interface_def res_simps)

subsection \<open>Calls into the token programs\<close>

text \<open>
  \<open>CpiContext::new\<close> passes on the signatures of the transaction; with \<open>new_with_signer\<close> the
  runtime accepts the authority's signature when the seeds derive its address.
\<close>

definition missing_signature :: error where "missing_signature = Cpi_Err 0"

definition signed_by :: "env \<Rightarrow> bytes list \<Rightarrow> pubkey \<Rightarrow> 'a result \<Rightarrow> 'a result" where
  "signed_by E seeds authority f =
     require (env_create_program_address E seeds = Some authority) missing_signature f"

definition signer_seeds :: "vault \<Rightarrow> bytes list" where
  "signer_seeds v = vault_seeds v @ [[v_bump v]]"

definition transfer_checked ::
  "env \<Rightarrow> pubkey \<Rightarrow> pubkey \<Rightarrow> pubkey \<Rightarrow> pubkey \<Rightarrow> pubkey \<Rightarrow> u64 \<Rightarrow> u8 \<Rightarrow> ledger \<Rightarrow> ledger result" where
  "transfer_checked E = spl_transfer_checked (env_spl E) (env_epoch E)"

definition mint_to ::
  "env \<Rightarrow> pubkey \<Rightarrow> pubkey \<Rightarrow> pubkey \<Rightarrow> pubkey \<Rightarrow> u64 \<Rightarrow> ledger \<Rightarrow> ledger result" where
  "mint_to E = spl_mint_to (env_spl E)"

definition burn ::
  "env \<Rightarrow> pubkey \<Rightarrow> pubkey \<Rightarrow> pubkey \<Rightarrow> pubkey \<Rightarrow> u64 \<Rightarrow> ledger \<Rightarrow> ledger result" where
  "burn E = spl_burn (env_spl E)"

lemma signed_by_Inr [res_simps]:
  "signed_by E seeds a f = Inr r \<longleftrightarrow> env_create_program_address E seeds = Some a \<and> f = Inr r"
  by (simp add: signed_by_def res_simps)

subsection \<open>What is assumed of the token programs\<close>

definition amount_of :: "ledger \<Rightarrow> pubkey \<Rightarrow> nat" where
  "amount_of L k = (case l_tokens L k of None \<Rightarrow> 0 | Some t \<Rightarrow> unat (ta_amount t))"

definition holder :: "ledger \<Rightarrow> pubkey \<Rightarrow> (pubkey \<times> pubkey \<times> pubkey) option" where
  "holder L k = map_option (\<lambda>t. (ta_program t, ta_mint t, ta_owner t)) (l_tokens L k)"

text \<open>
  A transfer of the mint takes no fee at the current epoch: only Token-2022 mints with a
  transfer fee configuration take one.
\<close>

definition no_transfer_fee :: "env \<Rightarrow> ledger \<Rightarrow> pubkey \<Rightarrow> bool" where
  "no_transfer_fee E L mint \<longleftrightarrow>
     (case l_mints L mint of
        None \<Rightarrow> False
      | Some m \<Rightarrow>
          mint_program m = env_token_2022_id E \<longrightarrow>
          (case mint_transfer_fee_bps m of None \<Rightarrow> True | Some get_epoch_fee \<Rightarrow> get_epoch_fee (env_epoch E) = 0))"

text \<open>
  A transfer takes exactly the amount from the source; without a transfer fee the destination
  receives all of it. No other account changes, and no account changes its owner or mint.
\<close>

definition transfer_effect :: "env \<Rightarrow> pubkey \<Rightarrow> pubkey \<Rightarrow> pubkey \<Rightarrow> nat \<Rightarrow> ledger \<Rightarrow> ledger \<Rightarrow> bool" where
  "transfer_effect E src mint dst amount L L' \<longleftrightarrow>
     holder L' = holder L \<and> l_mints L' = l_mints L
     \<and> (\<forall>k. k \<noteq> src \<longrightarrow> k \<noteq> dst \<longrightarrow> amount_of L' k = amount_of L k)
     \<and> (src \<noteq> dst \<longrightarrow>
          amount_of L' src + amount = amount_of L src
          \<and> amount_of L dst \<le> amount_of L' dst
          \<and> amount_of L' dst \<le> amount_of L dst + amount
          \<and> (no_transfer_fee E L mint \<longrightarrow> amount_of L' dst = amount_of L dst + amount))
     \<and> (src = dst \<longrightarrow> amount_of L src \<le> amount_of L' src + amount)"

definition mint_effect :: "pubkey \<Rightarrow> pubkey \<Rightarrow> nat \<Rightarrow> ledger \<Rightarrow> ledger \<Rightarrow> bool" where
  "mint_effect mint to amount L L' \<longleftrightarrow>
     holder L' = holder L
     \<and> (\<forall>k. k \<noteq> to \<longrightarrow> amount_of L' k = amount_of L k)
     \<and> amount_of L' to = amount_of L to + amount
     \<and> (\<forall>k. k \<noteq> mint \<longrightarrow> l_mints L' k = l_mints L k)
     \<and> (\<exists>m. l_mints L mint = Some m
          \<and> (\<exists>s. l_mints L' mint = Some (m\<lparr>mint_supply := s\<rparr>) \<and> unat s = unat (mint_supply m) + amount))"

definition burn_effect :: "pubkey \<Rightarrow> pubkey \<Rightarrow> nat \<Rightarrow> ledger \<Rightarrow> ledger \<Rightarrow> bool" where
  "burn_effect mint from amount L L' \<longleftrightarrow>
     holder L' = holder L
     \<and> (\<forall>k. k \<noteq> from \<longrightarrow> amount_of L' k = amount_of L k)
     \<and> amount_of L' from + amount = amount_of L from
     \<and> (\<exists>t. l_tokens L from = Some t \<and> ta_mint t = mint)
     \<and> (\<forall>k. k \<noteq> mint \<longrightarrow> l_mints L' k = l_mints L k)
     \<and> (\<exists>m. l_mints L mint = Some m
          \<and> (\<exists>s. l_mints L' mint = Some (m\<lparr>mint_supply := s\<rparr>) \<and> unat (mint_supply m) = unat s + amount))"

definition spl_laws :: "env \<Rightarrow> bool" where
  "spl_laws E \<longleftrightarrow>
     (\<forall>p from mint to a n d L L'.
        transfer_checked E p from mint to a n d L = Inr L'
        \<longrightarrow> transfer_effect E from mint to (unat n) L L')
     \<and> (\<forall>p mint to a n L L'. mint_to E p mint to a n L = Inr L' \<longrightarrow> mint_effect mint to (unat n) L L')
     \<and> (\<forall>p mint from a n L L'. burn E p mint from a n L = Inr L' \<longrightarrow> burn_effect mint from (unat n) L L')"

lemma spl_transfer:
  "spl_laws E \<Longrightarrow> transfer_checked E p from mint to a n d L = Inr L' \<Longrightarrow>
   transfer_effect E from mint to (unat n) L L'"
  unfolding spl_laws_def by metis

lemma spl_mint:
  "spl_laws E \<Longrightarrow> mint_to E p mint to a n L = Inr L' \<Longrightarrow> mint_effect mint to (unat n) L L'"
  unfolding spl_laws_def by metis

lemma spl_burnt:
  "spl_laws E \<Longrightarrow> burn E p mint from a n L = Inr L' \<Longrightarrow> burn_effect mint from (unat n) L L'"
  unfolding spl_laws_def by metis

text \<open>
  Addresses that \<open>create_program_address\<close> derives are off the curve: no transaction is signed
  with them.
\<close>

definition is_wallet :: "env \<Rightarrow> pubkey \<Rightarrow> bool" where
  "is_wallet E k \<longleftrightarrow> (\<forall>seeds. env_create_program_address E seeds \<noteq> Some k)"

end
