(* ===== verification/Request_Utils.thy ===== *)
theory Request_Utils
  imports Token_Program
begin

text \<open>
  The account-level helpers of \<open>utils.rs\<close> that the request, settlement and NAV instructions
  share: the protocol fee recipient, the share mint a request selects and its tranche, request
  limits and queues of a tranche vault, checks on mints, and raw reads of token accounts.
\<close>

subsection \<open>Raw reads of token program accounts\<close>

definition validate_token_account_owner :: "account_info \<Rightarrow> pubkey \<Rightarrow> unit result" where
  "validate_token_account_owner info expected_owner =
     (let data = ai_data info in
      if length data < 64 then Inl (Program_Err InvalidAccountData)
      else
        let owner = take 32 (drop 32 data) in
        if owner \<noteq> expected_owner then Inl (Program_Err InvalidAccountOwner) else Inr ())"

definition validate_token_account_mint_and_owner ::
  "account_info \<Rightarrow> pubkey \<Rightarrow> pubkey \<Rightarrow> unit result" where
  "validate_token_account_mint_and_owner info expected_mint expected_owner =
     (let data = ai_data info in
      if length data < 64 then Inl (Program_Err InvalidAccountData)
      else
        let mint = take 32 data; owner = take 32 (drop 32 data) in
        if mint \<noteq> expected_mint then Inl (Program_Err InvalidAccountData)
        else if owner \<noteq> expected_owner then Inl (Program_Err InvalidAccountOwner)
        else Inr ())"

definition read_mint_supply_and_decimals :: "account_info \<Rightarrow> (u64 \<times> u8) result" where
  "read_mint_supply_and_decimals info =
     (let data = ai_data info in
      if length data < 45 then Inl (Program_Err InvalidAccountData)
      else Inr (u64_from_le (take 8 (drop 36 data)), data ! 44))"

subsection \<open>Extensions of mints\<close>

definition validate_asset_mint_extensions :: "env \<Rightarrow> mint_account \<Rightarrow> unit result" where
  "validate_asset_mint_extensions E m =
     (if mint_program m \<noteq> env_token_2022_id E then Inr ()
      else
        case mint_transfer_fee_bps m of
          None \<Rightarrow> Inr ()
        | Some get_epoch_fee \<Rightarrow>
            let transfer_fee_bps = get_epoch_fee (env_epoch E) in
            if transfer_fee_bps \<noteq> 0 then Inl (Vault_Err InvalidAssetMintExtensions) else Inr ())"

definition validate_share_mint_extensions :: "env \<Rightarrow> mint_account \<Rightarrow> unit result" where
  "validate_share_mint_extensions E m =
     (if mint_program m \<noteq> env_token_2022_id E then Inr ()
      else if mint_confidential_mint_burn m then Inl (Vault_Err InvalidShareMintExtensions)
      else Inr ())"

subsection \<open>The protocol fee recipient\<close>

definition is_protocol_fee_config_account :: "env \<Rightarrow> account_info \<Rightarrow> bool" where
  "is_protocol_fee_config_account E info \<longleftrightarrow>
     ai_key info = fst (env_find_program_address E [PROTOCOL_FEE_CONFIG_SEED])
     \<and> ai_owner info = env_program_id E"

definition protocol_fee_recipient_from_config :: "env \<Rightarrow> world \<Rightarrow> account_info \<Rightarrow> pubkey result" where
  "protocol_fee_recipient_from_config E w info =
     (let (expected, expected_bump) = env_find_program_address E [PROTOCOL_FEE_CONFIG_SEED] in
      require (ai_key info = expected) (Vault_Err InvalidVault) (
      load (w_protocol_fee_configs w) (ai_key info) (\<lambda>config.
      require (pfc_bump config = expected_bump) (Vault_Err InvalidVault) (
      require (pfc_protocol_fee_recipient config \<noteq> Pubkey_default) (Vault_Err InvalidFeeRecipient) (
      Inr (pfc_protocol_fee_recipient config))))))"

definition resolve_protocol_fee_recipient ::
  "env \<Rightarrow> world \<Rightarrow> vault \<Rightarrow> account_info option \<Rightarrow> (pubkey \<times> bool) result" where
  "resolve_protocol_fee_recipient E w v maybe_config_info =
     (case maybe_config_info of
        Some config_info \<Rightarrow>
          if is_protocol_fee_config_account E config_info
          then try_ok (protocol_fee_recipient_from_config E w config_info) (\<lambda>recipient.
               Inr (recipient, True))
          else Inr (v_protocol_fee_recipient v, False)
      | None \<Rightarrow> Inr (v_protocol_fee_recipient v, False))"

subsection \<open>The share mint of a request\<close>

record TrancheRequestInfo =
  tri_senior_share_mint :: pubkey
  tri_junior_share_mint :: pubkey
  tri_senior_nav :: u128
  tri_junior_nav :: u128
  tri_senior_supply :: u64
  tri_junior_supply :: u64
  tri_min_junior_ratio_bps :: u16
  tri_min_request_amounts :: "u64 list"
  tri_max_request_amounts :: "u64 list"

record RequestShareMintContext =
  rsc_consumed_accounts :: nat
  rsc_tranche_nav :: "u128 option"
  rsc_tranche_info :: "TrancheRequestInfo option"

definition TrancheRequestInfo_of :: "TrancheConfig \<Rightarrow> TrancheRequestInfo" where
  "TrancheRequestInfo_of tc =
     \<lparr>tri_senior_share_mint = tc_senior_share_mint tc,
      tri_junior_share_mint = tc_junior_share_mint tc,
      tri_senior_nav = tc_senior_nav tc, tri_junior_nav = tc_junior_nav tc,
      tri_senior_supply = tc_senior_supply tc, tri_junior_supply = tc_junior_supply tc,
      tri_min_junior_ratio_bps = tc_min_junior_ratio_bps tc,
      tri_min_request_amounts = tc_min_request_amounts tc,
      tri_max_request_amounts = tc_max_request_amounts tc\<rparr>"

definition validate_request_share_mint ::
  "env \<Rightarrow> world \<Rightarrow> vault \<Rightarrow> pubkey \<Rightarrow> pubkey \<Rightarrow> account_info list \<Rightarrow> RequestShareMintContext result" where
  "validate_request_share_mint E w v vault_key selected_share_mint remaining_accounts =
     (case v_tranche_config v of
        None \<Rightarrow>
          require (selected_share_mint = v_share_mint v) (Vault_Err InvalidShareMint) (
          Inr \<lparr>rsc_consumed_accounts = 0, rsc_tranche_nav = None, rsc_tranche_info = None\<rparr>)
      | Some expected_tranche_config \<Rightarrow>
          ok_or (get_at remaining_accounts 0) (Vault_Err MissingRequiredAccount) (\<lambda>tranche_config_info.
          require (ai_key tranche_config_info = expected_tranche_config) (Vault_Err InvalidVault) (
          let expected_pda = fst (env_find_program_address E [TRANCHE_CONFIG_SEED, vault_key]) in
          require (expected_tranche_config = expected_pda) (Vault_Err InvalidVault) (
          load (w_tranche_configs w) (ai_key tranche_config_info) (\<lambda>tc.
          require (tc_vault tc = vault_key) (Vault_Err InvalidVault) (
          try_ok
            (if selected_share_mint = tc_senior_share_mint tc then Inr (tc_senior_nav tc)
             else if selected_share_mint = tc_junior_share_mint tc then Inr (tc_junior_nav tc)
             else Inl (Vault_Err InvalidShareMint)) (\<lambda>tranche_nav.
          Inr \<lparr>rsc_consumed_accounts = 1, rsc_tranche_nav = Some tranche_nav,
               rsc_tranche_info = Some (TrancheRequestInfo_of tc)\<rparr>)))))))"

text \<open>\<open>tranche_nav.filter(|nav| *nav > 0).unwrap_or(vault.nav)\<close>: the price of a request.\<close>

definition request_nav :: "RequestShareMintContext \<Rightarrow> vault \<Rightarrow> u128" where
  "request_nav ctx v =
     (case rsc_tranche_nav ctx of
        Some nav \<Rightarrow> if nav > 0 then nav else v_nav v
      | None \<Rightarrow> v_nav v)"

definition enforce_tranche_request_limits ::
  "RequestShareMintContext \<Rightarrow> pubkey \<Rightarrow> RequestType \<Rightarrow> u64 \<Rightarrow> unit result" where
  "enforce_tranche_request_limits ctx selected_share_mint request_type amount =
     (case rsc_tranche_info ctx of
        None \<Rightarrow> Inr ()
      | Some info \<Rightarrow>
          try_ok
            (if selected_share_mint = tri_senior_share_mint info
             then Inr (if request_type = Deposit then 0 else 1 :: nat)
             else if selected_share_mint = tri_junior_share_mint info
             then Inr (if request_type = Deposit then 2 else 3)
             else Inl (Vault_Err InvalidShareMint)) (\<lambda>limit_index.
          ok_or (get_at (tri_min_request_amounts info) limit_index) Panicked (\<lambda>min_amount.
          require (min_amount = 0 \<or> amount \<ge> min_amount) (Vault_Err TrancheRequestAmountBelowMinimum) (
          ok_or (get_at (tri_max_request_amounts info) limit_index) Panicked (\<lambda>max_amount.
          require (max_amount = 0 \<or> amount \<le> max_amount) (Vault_Err TrancheRequestAmountAboveMaximum) (
          Inr ()))))))"

definition next_tranche_queue_request_id ::
  "TrancheConfig accounts \<Rightarrow> RequestShareMintContext \<Rightarrow> pubkey \<Rightarrow> RequestType \<Rightarrow>
   account_info list \<Rightarrow> (TrancheConfig accounts \<times> u64 option) result" where
  "next_tranche_queue_request_id tcs ctx selected_share_mint request_type remaining_accounts =
     (if rsc_tranche_info ctx = None then Inr (tcs, None)
      else
        ok_or (get_at remaining_accounts 0) (Vault_Err MissingRequiredAccount) (\<lambda>info.
        require (ai_is_writable info) (Vault_Err MissingRequiredAccount) (
        load tcs (ai_key info) (\<lambda>tc.
        try_ok (TrancheConfig_next_queue_request_id tc selected_share_mint request_type) (\<lambda>(tc, rid).
        Inr (tcs(ai_key info \<mapsto> tc), Some rid))))))"

definition check_and_advance_tranche_queue ::
  "RequestExtension \<Rightarrow> TrancheConfig accounts \<Rightarrow> RequestShareMintContext \<Rightarrow> pubkey \<Rightarrow> RequestType \<Rightarrow>
   request \<Rightarrow> account_info list \<Rightarrow> (TrancheConfig accounts \<times> bool) result" where
  "check_and_advance_tranche_queue R tcs ctx selected_share_mint request_type r remaining_accounts =
     (if rsc_tranche_info ctx = None then Inr (tcs, False)
      else
        ok_or (get_at remaining_accounts 0) (Vault_Err MissingRequiredAccount) (\<lambda>info.
        require (ai_is_writable info) (Vault_Err MissingRequiredAccount) (
        try_ok (read_queue_request_id R r) (\<lambda>request_id.
        load tcs (ai_key info) (\<lambda>tc.
        try_ok (TrancheConfig_check_and_advance_queue tc selected_share_mint request_type request_id) (\<lambda>tc.
        Inr (tcs(ai_key info \<mapsto> tc), True)))))))"

subsection \<open>Facts about them\<close>

lemma validate_request_share_mint_tranche:
  "validate_request_share_mint E w v vk m ra = Inr ctx \<Longrightarrow>
   rsc_tranche_info ctx = None \<longleftrightarrow> v_tranche_config v = None"
  by (auto simp: validate_request_share_mint_def Let_def res_simps split: option.splits if_splits)

lemma validate_asset_mint_extensions_fee:
  "l_mints L mint = Some m \<Longrightarrow>
   validate_asset_mint_extensions E m = Inr () \<longleftrightarrow> no_transfer_fee E L mint"
  by (auto simp: validate_asset_mint_extensions_def no_transfer_fee_def Let_def split: option.splits)

end
