(* ===== verification/Reference_Ledger.thy ===== *)
theory Reference_Ledger
  imports Token_Program
begin

text \<open>
  A token ledger that satisfies \<open>spl_laws\<close>: the token program without extensions. It instantiates
  the token program of \<open>env\<close> where a property is applied to a concrete world; no theorem about
  the program rests on it.
\<close>

definition reference_transfer ::
  "u64 \<Rightarrow> pubkey \<Rightarrow> pubkey \<Rightarrow> pubkey \<Rightarrow> pubkey \<Rightarrow> pubkey \<Rightarrow> u64 \<Rightarrow> u8 \<Rightarrow> ledger \<Rightarrow> ledger result" where
  "reference_transfer epoch program src mint dst authority n decimals L =
     ok_or (l_tokens L src) (Cpi_Err 1) (\<lambda>s.
     ok_or (l_tokens L dst) (Cpi_Err 1) (\<lambda>d.
     require (ta_mint s = mint \<and> ta_mint d = mint) (Cpi_Err 2) (
     require (ta_owner s = authority) (Cpi_Err 3) (
     ok_or (checked_sub (ta_amount s) n) (Cpi_Err 4) (\<lambda>left.
     if src = dst then Inr L
     else
       ok_or (checked_add (ta_amount d) n) (Cpi_Err 5) (\<lambda>received.
       Inr (L\<lparr>l_tokens := (l_tokens L)(src \<mapsto> s\<lparr>ta_amount := left\<rparr>,
                                        dst \<mapsto> d\<lparr>ta_amount := received\<rparr>)\<rparr>)))))))"

definition reference_mint_to ::
  "pubkey \<Rightarrow> pubkey \<Rightarrow> pubkey \<Rightarrow> pubkey \<Rightarrow> u64 \<Rightarrow> ledger \<Rightarrow> ledger result" where
  "reference_mint_to program mint dst authority n L =
     ok_or (l_mints L mint) (Cpi_Err 1) (\<lambda>m.
     ok_or (l_tokens L dst) (Cpi_Err 1) (\<lambda>d.
     require (ta_mint d = mint) (Cpi_Err 2) (
     require (mint_authority m = Some authority) (Cpi_Err 3) (
     ok_or (checked_add (mint_supply m) n) (Cpi_Err 5) (\<lambda>supply.
     ok_or (checked_add (ta_amount d) n) (Cpi_Err 5) (\<lambda>received.
     Inr (L\<lparr>l_mints := (l_mints L)(mint \<mapsto> m\<lparr>mint_supply := supply\<rparr>),
            l_tokens := (l_tokens L)(dst \<mapsto> d\<lparr>ta_amount := received\<rparr>)\<rparr>)))))))"

definition reference_burn ::
  "pubkey \<Rightarrow> pubkey \<Rightarrow> pubkey \<Rightarrow> pubkey \<Rightarrow> u64 \<Rightarrow> ledger \<Rightarrow> ledger result" where
  "reference_burn program mint src authority n L =
     ok_or (l_mints L mint) (Cpi_Err 1) (\<lambda>m.
     ok_or (l_tokens L src) (Cpi_Err 1) (\<lambda>s.
     require (ta_mint s = mint) (Cpi_Err 2) (
     require (ta_owner s = authority) (Cpi_Err 3) (
     ok_or (checked_sub (mint_supply m) n) (Cpi_Err 4) (\<lambda>supply.
     ok_or (checked_sub (ta_amount s) n) (Cpi_Err 4) (\<lambda>left.
     Inr (L\<lparr>l_mints := (l_mints L)(mint \<mapsto> m\<lparr>mint_supply := supply\<rparr>),
            l_tokens := (l_tokens L)(src \<mapsto> s\<lparr>ta_amount := left\<rparr>)\<rparr>)))))))"

definition reference_set_mint_authority ::
  "pubkey \<Rightarrow> pubkey \<Rightarrow> pubkey \<Rightarrow> pubkey \<Rightarrow> ledger \<Rightarrow> ledger result" where
  "reference_set_mint_authority program mint new authority L =
     ok_or (l_mints L mint) (Cpi_Err 1) (\<lambda>m.
     require (mint_authority m = Some authority) (Cpi_Err 3) (
     Inr (L\<lparr>l_mints := (l_mints L)(mint \<mapsto> m\<lparr>mint_authority := Some new\<rparr>)\<rparr>)))"

definition reference_init_account ::
  "pubkey \<Rightarrow> pubkey \<Rightarrow> pubkey \<Rightarrow> pubkey \<Rightarrow> ledger \<Rightarrow> ledger result" where
  "reference_init_account program k mint owner L =
     require (l_tokens L k = None \<and> l_mints L k = None) (Cpi_Err 6) (
     Inr (L\<lparr>l_tokens := (l_tokens L)(k \<mapsto>
        \<lparr>ta_program = program, ta_mint = mint, ta_owner = owner, ta_amount = 0\<rparr>)\<rparr>))"

definition reference_close_account ::
  "pubkey \<Rightarrow> pubkey \<Rightarrow> pubkey \<Rightarrow> pubkey \<Rightarrow> ledger \<Rightarrow> ledger result" where
  "reference_close_account program k dst authority L =
     ok_or (l_tokens L k) (Cpi_Err 1) (\<lambda>t.
     require (ta_owner t = authority) (Cpi_Err 3) (
     require (ta_amount t = 0) (Cpi_Err 7) (
     Inr (L\<lparr>l_tokens := (l_tokens L)(k := None)\<rparr>))))"

definition reference_spl :: spl where
  "reference_spl =
     \<lparr>spl_transfer_checked = reference_transfer, spl_mint_to = reference_mint_to,
      spl_burn = reference_burn, spl_set_mint_authority = reference_set_mint_authority,
      spl_init_account = reference_init_account, spl_close_account = reference_close_account\<rparr>"

lemma reference_transfer_effect:
  assumes "reference_transfer e p src mint dst a n d L = Inr L'"
  shows "transfer_effect E src mint dst (unat n) L L'"
proof (cases "src = dst")
  case True
  with assms show ?thesis
    by (auto simp: reference_transfer_def res_simps transfer_effect_def)
next
  case False
  with assms obtain s d left received where "l_tokens L src = Some s" "l_tokens L dst = Some d"
    "checked_sub (ta_amount s) n = Some left" "checked_add (ta_amount d) n = Some received"
    "L' = L\<lparr>l_tokens := (l_tokens L)(src \<mapsto> s\<lparr>ta_amount := left\<rparr>,
                                   dst \<mapsto> d\<lparr>ta_amount := received\<rparr>)\<rparr>"
    by (auto simp: reference_transfer_def res_simps)
  with False show ?thesis
    by (auto simp: checked_simps transfer_effect_def holder_def amount_of_def fun_eq_iff)
qed

lemma reference_mint_effect:
  assumes "reference_mint_to p mint dst a n L = Inr L'"
  shows "mint_effect mint dst (unat n) L L'"
  using assms
  by (auto simp: reference_mint_to_def res_simps checked_simps mint_effect_def holder_def
      amount_of_def fun_eq_iff)

lemma reference_burn_effect:
  assumes "reference_burn p mint src a n L = Inr L'"
  shows "burn_effect mint src (unat n) L L'"
  using assms
  by (auto simp: reference_burn_def res_simps checked_simps burn_effect_def holder_def
      amount_of_def fun_eq_iff)

lemma reference_spl_laws: "env_spl E = reference_spl \<Longrightarrow> spl_laws E"
  by (simp add: spl_laws_def transfer_checked_def mint_to_def burn_def reference_spl_def
      reference_transfer_effect reference_mint_effect reference_burn_effect)

subsection \<open>A runtime\<close>

text \<open>
  Program addresses from a table: the vault \<open>key 20\<close> of share mint \<open>key 2\<close> with its tranche
  configuration, the policy of strategist \<open>key 12\<close>, the limits of user \<open>key 30\<close>, a venue with a
  position, and the protocol fee configuration.
\<close>

definition sample_addresses :: "((bytes list \<times> u8) \<times> pubkey) list" where
  "sample_addresses =
     [(([VAULT_CONFIG_SEED, key 2], 253), key 20),
      (([TRANCHE_CONFIG_SEED, key 20], 252), key 21),
      (([PROTOCOL_FEE_CONFIG_SEED], 251), key 22),
      (([STRATEGY_POLICY_SEED, key 20, key 12], 250), key 23),
      (([INSTANT_USER_LIMIT_SEED, key 20, key 30], 249), key 24),
      (([VENUE_ENTRY_SEED, key 50, key 7], 248), key 25),
      (([VAULT_VENUE_SEED, key 20, key 25], 247), key 26),
      (([POSITION_SEED, key 20, key 25, key 1], 246), key 27),
      (([POSITION_TOKEN_SEED, key 20, key 25, key 1], 245), key 28)]"

definition sample_find :: "bytes list \<Rightarrow> pubkey \<times> u8" where
  "sample_find seeds =
     (case filter (\<lambda>((s, b), k). s = seeds) sample_addresses of
        [] \<Rightarrow> (key 255, 0) | ((s, b), k) # _ \<Rightarrow> (k, b))"

definition sample_create :: "bytes list \<Rightarrow> pubkey option" where
  "sample_create seeds =
     (case map_of (map (\<lambda>((s, b), k). (s @ [[b]], k)) sample_addresses) seeds of
        Some k \<Rightarrow> Some k
      | None \<Rightarrow> if seeds \<noteq> [] \<and> last seeds = [0] then Some (key 255) else None)"

definition sample_env :: env where
  "sample_env =
     \<lparr>env_program_id = key 200, env_token_id = key 201, env_token_2022_id = key 202,
      env_system_id = key 203, env_slot = 100, env_unix_timestamp = 2000, env_epoch = 1,
      env_find_program_address = sample_find, env_create_program_address = sample_create,
      env_hash = (\<lambda>bs. replicate 32 0), env_spl = reference_spl\<rparr>"

lemmas seed_defs =
  VAULT_CONFIG_SEED_def PROTOCOL_FEE_CONFIG_SEED_def TRANCHE_CONFIG_SEED_def STRATEGY_POLICY_SEED_def
  INSTANT_USER_LIMIT_SEED_def VENUE_ENTRY_SEED_def VAULT_VENUE_SEED_def POSITION_SEED_def
  POSITION_TOKEN_SEED_def ascii_def

lemma sample_create_simps [simp]:
  "sample_create [VAULT_CONFIG_SEED, key 2, [253]] = Some (key 20)"
  "sample_create [TRANCHE_CONFIG_SEED, key 20, [252]] = Some (key 21)"
  "sample_create [STRATEGY_POLICY_SEED, key 20, key 12, [250]] = Some (key 23)"
  "sample_create [VENUE_ENTRY_SEED, key 50, key 7, [248]] = Some (key 25)"
  "sample_create [VAULT_VENUE_SEED, key 20, key 25, [247]] = Some (key 26)"
  "sample_create [POSITION_SEED, key 20, key 25, key 1, [246]] = Some (key 27)"
  "sample_create [POSITION_TOKEN_SEED, key 20, key 25, key 1, [245]] = Some (key 28)"
  by (simp_all add: sample_create_def sample_addresses_def seed_defs)

lemma sample_find_simps [simp]:
  "sample_find [TRANCHE_CONFIG_SEED, key 20] = (key 21, 252)"
  "sample_find [PROTOCOL_FEE_CONFIG_SEED] = (key 22, 251)"
  "sample_find [STRATEGY_POLICY_SEED, key 20, key 12] = (key 23, 250)"
  "sample_find [INSTANT_USER_LIMIT_SEED, key 20, key 30] = (key 24, 249)"
  "sample_find [VENUE_ENTRY_SEED, key 50, key 7] = (key 25, 248)"
  "sample_find [VAULT_VENUE_SEED, key 20, key 25] = (key 26, 247)"
  "sample_find [POSITION_SEED, key 20, key 25, key 1] = (key 27, 246)"
  "sample_find [POSITION_TOKEN_SEED, key 20, key 25, key 1] = (key 28, 245)"
  by (simp_all add: sample_find_def sample_addresses_def seed_defs)

lemma sample_wallet: "b \<notin> {20, 21, 22, 23, 24, 25, 26, 27, 28, 255} \<Longrightarrow> is_wallet sample_env (key b)"
  by (auto simp: is_wallet_def sample_env_def sample_create_def sample_addresses_def
      split: if_splits option.splits)

lemma sample_env_spl_laws: "spl_laws sample_env"
  by (rule reference_spl_laws) (simp add: sample_env_def)

end
