(* ===== verification/Sample_World.thy ===== *)
theory Sample_World
  imports Reference_Ledger
begin

text \<open>
  The concrete world the properties of the instructions are applied to: the vault \<open>key 20\<close> with
  its reserve \<open>key 3\<close> and escrow \<open>key 4\<close>, a user \<open>key 30\<close> with an asset account \<open>key 31\<close> and a
  share account \<open>key 32\<close>, and the user's pending deposit \<open>key 40\<close>, on the reference ledger.
\<close>

definition sample_mint :: "pubkey option \<Rightarrow> mint_account" where
  "sample_mint authority =
     \<lparr>mint_program = key 201, mint_supply = 4000000, mint_decimals = 6,
      mint_authority = authority, mint_freeze_authority = None, mint_transfer_fee_bps = None,
      mint_confidential_mint_burn = False\<rparr>"

definition sample_token :: "pubkey \<Rightarrow> pubkey \<Rightarrow> u64 \<Rightarrow> token_account" where
  "sample_token mint owner amount =
     \<lparr>ta_program = key 201, ta_mint = mint, ta_owner = owner, ta_amount = amount\<rparr>"

definition sample_ledger :: ledger where
  "sample_ledger =
     \<lparr>l_mints = [key 1 \<mapsto> sample_mint None, key 2 \<mapsto> sample_mint (Some (key 20))],
      l_tokens =
        [key 3 \<mapsto> sample_token (key 1) (key 20) 5000000,
         key 4 \<mapsto> sample_token (key 1) (key 20) 1000000,
         key 31 \<mapsto> sample_token (key 1) (key 30) 7000000,
         key 32 \<mapsto> sample_token (key 2) (key 30) 3000000]\<rparr>"

definition empty_world :: world where
  "empty_world =
     \<lparr>w_ledger = \<lparr>l_mints = Map.empty, l_tokens = Map.empty\<rparr>, w_vaults = Map.empty,
      w_requests = Map.empty, w_vault_assets = Map.empty, w_tranche_configs = Map.empty,
      w_instant_users = Map.empty, w_protocol_fee_configs = Map.empty, w_venue_entries = Map.empty,
      w_vault_venues = Map.empty, w_positions = Map.empty, w_policies = Map.empty,
      w_pending_vault_updates = Map.empty, w_pending_fee_updates = Map.empty,
      w_pending_extension_updates = Map.empty, w_pending_policy_updates = Map.empty\<rparr>"

definition sample_world :: world where
  "sample_world = empty_world
     \<lparr>w_ledger := sample_ledger, w_vaults := [key 20 \<mapsto> sample_vault],
      w_requests := [key 40 \<mapsto> sample_request]\<rparr>"

text \<open>Evaluation of an instruction on the sample world.\<close>

lemmas sample_world_defs =
  sample_world_def empty_world_def sample_ledger_def sample_mint_def sample_token_def
  sample_vault_def sample_request_def sample_env_def

lemmas cpi_eval =
  signed_by_def transfer_checked_def mint_to_def burn_def reference_spl_def
  reference_transfer_def reference_mint_to_def reference_burn_def

lemmas checked_eval =
  checked_add_def checked_sub_def checked_mul_def checked_div_def checked_pow_def try_from_def
  checked_sub_i64_def u_of_nat_def widen_def abs_diff_def MAX_BPS_def

end
