(* ===== verification/Vault_Admin.thy ===== *)
theory Vault_Admin
  imports Extension_Instructions Request_Utils Sample_World
begin

text \<open>
  The instructions that set up and configure a vault: \<open>create_vault\<close>, \<open>initialize_tranches\<close>,
  \<open>initialize_vault\<close>, the direct \<open>update_vault\<close>, \<open>pause_vault\<close>, the two steps of a change of
  authority, and the protocol fee configuration.
\<close>

subsection \<open>Creating a vault\<close>

record AsyncVaultArgs =
  ava_authority :: pubkey
  ava_fee_recipient :: pubkey

record CreateVault =
  cv_mint_authority :: pubkey
  cv_asset_mint :: pubkey
  cv_share_mint :: pubkey
  cv_vault :: pubkey
  cv_reserve :: pubkey
  cv_pending_vault :: pubkey
  cv_asset_token_program :: pubkey
  cv_share_token_program :: pubkey

definition set_mint_authority ::
  "env \<Rightarrow> pubkey \<Rightarrow> pubkey \<Rightarrow> pubkey \<Rightarrow> pubkey \<Rightarrow> ledger \<Rightarrow> ledger result" where
  "set_mint_authority E = spl_set_mint_authority (env_spl E)"

text \<open>
  Anchor's \<open>init\<close> with \<open>seeds\<close> and \<open>token::\<close> constraints: the address is the canonical one and
  unused, and the token program initialises the account.
\<close>

definition init_token_account ::
  "env \<Rightarrow> world \<Rightarrow> bytes list \<Rightarrow> pubkey \<Rightarrow> pubkey \<Rightarrow> pubkey \<Rightarrow> pubkey \<Rightarrow> ledger \<Rightarrow>
   (u8 \<Rightarrow> ledger \<Rightarrow> 'a result) \<Rightarrow> 'a result" where
  "init_token_account E w seeds k mint owner program L f =
     seeds_canonical E seeds k (\<lambda>bump.
     init_account w k (
     try_ok (spl_init_account (env_spl E) program k mint owner L) (\<lambda>L. f bump L)))"

text \<open>The value of a new vault; every role starts with the one authority.\<close>

definition new_vault ::
  "CreateVault \<Rightarrow> AsyncVaultArgs \<Rightarrow> u8 \<Rightarrow> u8 \<Rightarrow> u8 \<Rightarrow> vault" where
  "new_vault accts args vault_bump reserve_bump pending_vault_bump =
     \<lparr>v_asset_mint = cv_asset_mint accts, v_approved_asset_count = 1,
      v_share_mint = cv_share_mint accts, v_vault_token_account = cv_reserve accts,
      v_authority = ava_authority args, v_curator = ava_authority args,
      v_manager = ava_authority args, v_hot_manager = ava_authority args,
      v_fulfiller = ava_authority args, v_breaker = ava_authority args,
      v_fee_recipient = ava_fee_recipient args, v_paused = False, v_initialized = False,
      v_pending_vault = cv_pending_vault accts, v_nav = 0, v_nav_version = 0,
      v_nav_mode = AuthoritySigned, v_require_fresh_nav = True, v_max_nav_delta_bps = 0,
      v_max_implied_apy_bps = 0, v_max_nav_staleness_slots = 0, v_last_nav_update_slot = 0,
      v_last_nav_update_timestamp = 0, v_pending_async_requests = 0, v_total_asset_balance = 0,
      v_deposit_cap = 0, v_pending_deposit_amount = 0, v_rolling_limit_window_slots = 0,
      v_manager_rolling_limit = 0, v_manager_window_start_slot = 0, v_manager_window_amount = 0,
      v_external_withdraw_rolling_limit = 0, v_redemption_rolling_limit = 0,
      v_external_withdraw_window_start_slot = 0, v_external_withdraw_window_amount = 0,
      v_redemption_window_start_slot = 0, v_redemption_window_amount = 0,
      v_timelock_delay_slots = 0, v_performance_fee_bps = 0,
      v_performance_fee_crystallization_interval_seconds = 0, v_protocol_fee_bps = 0,
      v_protocol_fee_recipient = ava_fee_recipient args, v_instant_redemption_fee_bps = 0,
      v_high_water_mark = 0, v_tranche_config = None, v_last_fee_crystallization_timestamp = 0,
      v_reserve_bump = reserve_bump, v_pending_vault_bump = pending_vault_bump,
      v_bump = vault_bump, v_pending_authority = None, v_tlv = []\<rparr>"

definition create_vault :: "env \<Rightarrow> CreateVault \<Rightarrow> AsyncVaultArgs \<Rightarrow> world \<Rightarrow> world result" where
  "create_vault E accts args w =
     load (l_mints (w_ledger w)) (cv_asset_mint accts) (\<lambda>asset_mint.
     load (l_mints (w_ledger w)) (cv_share_mint accts) (\<lambda>share_mint.
     token_interface E (cv_asset_token_program accts) (
     token_interface E (cv_share_token_program accts) (
     seeds_canonical E [VAULT_CONFIG_SEED, cv_share_mint accts] (cv_vault accts) (\<lambda>vault_bump.
     init_account w (cv_vault accts) (
     init_token_account E w [RESERVE_CONFIG_SEED, cv_share_mint accts] (cv_reserve accts)
       (cv_asset_mint accts) (cv_vault accts) (cv_asset_token_program accts) (w_ledger w)
       (\<lambda>reserve_bump L.
     init_token_account E w [PENDING_VAULT_SEED, cv_share_mint accts] (cv_pending_vault accts)
       (cv_asset_mint accts) (cv_vault accts) (cv_asset_token_program accts) L
       (\<lambda>pending_vault_bump L.
     require (distinct [cv_vault accts, cv_reserve accts, cv_pending_vault accts])
       (Anchor_Err AccountAlreadyInUse) (
     require (cv_share_mint accts \<noteq> cv_asset_mint accts) (Vault_Err MintsShouldBeDifferent) (
     require (mint_supply share_mint = 0) (Vault_Err ShareMintSupplyShouldBeZero) (
     try_ok (validate_asset_mint_extensions E asset_mint) (\<lambda>_.
     try_ok (validate_share_mint_extensions E share_mint) (\<lambda>_.
     try_ok (set_mint_authority E (cv_share_token_program accts) (cv_share_mint accts)
       (cv_vault accts) (cv_mint_authority accts) L) (\<lambda>L.
     Inr (w\<lparr>w_ledger := L,
            w_vaults := (w_vaults w)(cv_vault accts \<mapsto>
              new_vault accts args vault_bump reserve_bump pending_vault_bump)\<rparr>
     )))))))))))))))"

subsection \<open>Tranches\<close>

record InitializeTranchesArgs =
  ita_senior_target_bps :: u16
  ita_min_junior_ratio_bps :: u16
  ita_min_request_amounts :: "u64 list"
  ita_max_request_amounts :: "u64 list"

record InitializeTranches =
  it_mint_authority :: pubkey
  it_authority :: pubkey
  it_vault :: pubkey
  it_senior_share_mint :: pubkey
  it_junior_share_mint :: pubkey
  it_tranche_config :: pubkey
  it_senior_share_token_program :: pubkey
  it_junior_share_token_program :: pubkey

definition require_mint_owned_by :: "mint_account \<Rightarrow> pubkey \<Rightarrow> unit result" where
  "require_mint_owned_by m authority =
     (case mint_authority m of
        Some current_authority \<Rightarrow>
          require (current_authority = authority) (Vault_Err UnauthorizedSigner) (Inr ())
      | None \<Rightarrow> Inl (Vault_Err UnauthorizedSigner))"

definition validate_tranche_args :: "InitializeTranchesArgs \<Rightarrow> unit result" where
  "validate_tranche_args args =
     require (ita_senior_target_bps args \<le> MAX_BPS \<and> ita_min_junior_ratio_bps args \<le> MAX_BPS)
       (Vault_Err FeeBpsExceeded) (
     require (list_all (\<lambda>(min_amount, max_amount). max_amount = 0 \<or> min_amount \<le> max_amount)
         (zip (ita_min_request_amounts args) (ita_max_request_amounts args)))
       (Vault_Err InvalidTrancheRequestLimitConfig) (
     Inr ()))"

definition validate_tranche_mints ::
  "env \<Rightarrow> InitializeTranches \<Rightarrow> vault \<Rightarrow> mint_account \<Rightarrow> mint_account \<Rightarrow> unit result" where
  "validate_tranche_mints E accts v senior junior =
     require (it_senior_share_mint accts \<noteq> it_junior_share_mint accts)
       (Vault_Err MintsShouldBeDifferent) (
     require (it_senior_share_mint accts \<noteq> v_asset_mint v) (Vault_Err InvalidShareMint) (
     require (it_junior_share_mint accts \<noteq> v_asset_mint v) (Vault_Err InvalidShareMint) (
     require (it_senior_share_mint accts = v_share_mint v \<or> it_junior_share_mint accts = v_share_mint v)
       (Vault_Err InvalidShareMint) (
     require (mint_supply senior = 0 \<and> mint_supply junior = 0)
       (Vault_Err ShareMintSupplyShouldBeZero) (
     require (mint_program senior = it_senior_share_token_program accts)
       (Vault_Err InvalidShareMint) (
     require (mint_program junior = it_junior_share_token_program accts)
       (Vault_Err InvalidShareMint) (
     try_ok (validate_share_mint_extensions E senior) (\<lambda>_.
     validate_share_mint_extensions E junior))))))))"

definition new_tranche_config ::
  "InitializeTranches \<Rightarrow> InitializeTranchesArgs \<Rightarrow> u8 \<Rightarrow> TrancheConfig" where
  "new_tranche_config accts args bump =
     \<lparr>tc_vault = it_vault accts, tc_senior_share_mint = it_senior_share_mint accts,
      tc_junior_share_mint = it_junior_share_mint accts, tc_senior_nav = 0, tc_junior_nav = 0,
      tc_senior_supply = 0, tc_junior_supply = 0,
      tc_senior_target_bps = ita_senior_target_bps args,
      tc_min_junior_ratio_bps = ita_min_junior_ratio_bps args,
      tc_min_request_amounts = ita_min_request_amounts args,
      tc_max_request_amounts = ita_max_request_amounts args,
      tc_senior_subscription_request_total = 0, tc_senior_subscription_request_last_processed = 0,
      tc_senior_redemption_request_total = 0, tc_senior_redemption_request_last_processed = 0,
      tc_junior_subscription_request_total = 0, tc_junior_subscription_request_last_processed = 0,
      tc_junior_redemption_request_total = 0, tc_junior_redemption_request_last_processed = 0,
      tc_last_waterfall_slot = 0, tc_last_waterfall_timestamp = 0, tc_bump = bump\<rparr>"

definition initialize_tranches ::
  "env \<Rightarrow> InitializeTranches \<Rightarrow> InitializeTranchesArgs \<Rightarrow> world \<Rightarrow> world result" where
  "initialize_tranches E accts args w =
     load (w_vaults w) (it_vault accts) (\<lambda>v.
     load (l_mints (w_ledger w)) (it_senior_share_mint accts) (\<lambda>senior.
     load (l_mints (w_ledger w)) (it_junior_share_mint accts) (\<lambda>junior.
     seeds_canonical E [TRANCHE_CONFIG_SEED, it_vault accts] (it_tranche_config accts) (\<lambda>bump.
     init_account w (it_tranche_config accts) (
     token_interface E (it_senior_share_token_program accts) (
     token_interface E (it_junior_share_token_program accts) (
     try_ok (Vault_assert_uninitialized v) (\<lambda>_.
     try_ok (Vault_assert_curator v (it_authority accts)) (\<lambda>_.
     require (v_tranche_config v = None) (Vault_Err ExtensionAlreadyInitialized) (
     require (v_performance_fee_bps v = 0) (Vault_Err UnsupportedPhaseConfig) (
     try_ok (validate_tranche_args args) (\<lambda>_.
     try_ok (validate_tranche_mints E accts v senior junior) (\<lambda>_.
     try_ok
       (if it_senior_share_mint accts = v_share_mint v then
          try_ok (require_mint_owned_by senior (it_vault accts)) (\<lambda>_.
          set_mint_authority E (it_junior_share_token_program accts) (it_junior_share_mint accts)
            (it_vault accts) (it_mint_authority accts) (w_ledger w))
        else
          try_ok (require_mint_owned_by junior (it_vault accts)) (\<lambda>_.
          set_mint_authority E (it_senior_share_token_program accts) (it_senior_share_mint accts)
            (it_vault accts) (it_mint_authority accts) (w_ledger w))) (\<lambda>L.
     Inr (w\<lparr>w_ledger := L,
            w_vaults := (w_vaults w)(it_vault accts \<mapsto>
              v\<lparr>v_tranche_config := Some (it_tranche_config accts)\<rparr>),
            w_tranche_configs := (w_tranche_configs w)(it_tranche_config accts \<mapsto>
              new_tranche_config accts args bump)\<rparr>
     )))))))))))))))"

subsection \<open>Activation, pausing and change of authority\<close>

record InitializeVault =
  iv_authority :: pubkey
  iv_share_mint :: pubkey
  iv_vault :: pubkey

definition initialize_vault :: "InitializeVault \<Rightarrow> world \<Rightarrow> world result" where
  "initialize_vault accts w =
     load (l_mints (w_ledger w)) (iv_share_mint accts) (\<lambda>_.
     load (w_vaults w) (iv_vault accts) (\<lambda>v.
     require (v_share_mint v = iv_share_mint accts) (Vault_Err InvalidShareMint) (
     require (iv_authority accts = v_curator v) (Vault_Err UnauthorizedSigner) (
     try_ok (Vault_assert_uninitialized v) (\<lambda>_.
     Inr (w\<lparr>w_vaults := (w_vaults w)(iv_vault accts \<mapsto> v\<lparr>v_initialized := True\<rparr>)\<rparr>))))))"

record PauseVault =
  pv_breaker :: pubkey
  pv_share_mint :: pubkey
  pv_vault :: pubkey

definition pause_vault :: "env \<Rightarrow> PauseVault \<Rightarrow> world \<Rightarrow> world result" where
  "pause_vault E accts w =
     load (l_mints (w_ledger w)) (pv_share_mint accts) (\<lambda>_.
     load (w_vaults w) (pv_vault accts) (\<lambda>v.
     seeds_with_bump E [VAULT_CONFIG_SEED, pv_share_mint accts] (v_bump v) (pv_vault accts) (
     try_ok (Vault_assert_breaker v (pv_breaker accts)) (\<lambda>_.
     Inr (w\<lparr>w_vaults := (w_vaults w)(pv_vault accts \<mapsto> v\<lparr>v_paused := True\<rparr>)\<rparr>)))))"

record InviteNewAuthority =
  ina_authority :: pubkey
  ina_vault :: pubkey

definition invite_new_authority :: "InviteNewAuthority \<Rightarrow> pubkey \<Rightarrow> world \<Rightarrow> world result" where
  "invite_new_authority accts new_authority w =
     load (w_vaults w) (ina_vault accts) (\<lambda>v.
     try_ok (Vault_assert_curator v (ina_authority accts)) (\<lambda>_.
     Inr (w\<lparr>w_vaults := (w_vaults w)(ina_vault accts \<mapsto>
            v\<lparr>v_pending_authority := Some new_authority\<rparr>)\<rparr>)))"

record AcceptAuthorityInvitation =
  aai_new_authority :: pubkey
  aai_vault :: pubkey

text \<open>The roles that the previous authority still holds move with it.\<close>

definition take_over :: "pubkey \<Rightarrow> vault \<Rightarrow> vault" where
  "take_over pending v =
     (let previous_authority = v_authority v;
          role = (\<lambda>k. if k = previous_authority then pending else k) in
      v\<lparr>v_authority := pending, v_curator := pending, v_manager := role (v_manager v),
        v_hot_manager := role (v_hot_manager v), v_fulfiller := role (v_fulfiller v),
        v_breaker := role (v_breaker v), v_pending_authority := None\<rparr>)"

definition accept_authority_invitation :: "AcceptAuthorityInvitation \<Rightarrow> world \<Rightarrow> world result" where
  "accept_authority_invitation accts w =
     load (w_vaults w) (aai_vault accts) (\<lambda>v.
     ok_or (v_pending_authority v) (Vault_Err NoPendingAuthority) (\<lambda>pending.
     require (aai_new_authority accts = pending) (Vault_Err UnauthorizedSigner) (
     Inr (w\<lparr>w_vaults := (w_vaults w)(aai_vault accts \<mapsto> take_over pending v)\<rparr>))))"

subsection \<open>Configuration updates\<close>

definition UpdateVaultArgs_has_timelocked_fields :: "UpdateVaultArgs \<Rightarrow> bool" where
  "UpdateVaultArgs_has_timelocked_fields a \<longleftrightarrow>
     uva_fee_recipient a \<noteq> None \<or> uva_manager a \<noteq> None \<or> uva_hot_manager a \<noteq> None
     \<or> uva_fulfiller a \<noteq> None \<or> uva_nav_mode a \<noteq> None \<or> uva_require_fresh_nav a \<noteq> None
     \<or> uva_max_nav_delta_bps a \<noteq> None \<or> uva_max_implied_apy_bps a \<noteq> None
     \<or> uva_max_nav_staleness_slots a \<noteq> None \<or> uva_deposit_cap a \<noteq> None
     \<or> uva_rolling_limit_window_slots a \<noteq> None \<or> uva_manager_rolling_limit a \<noteq> None
     \<or> uva_external_withdraw_rolling_limit a \<noteq> None \<or> uva_redemption_rolling_limit a \<noteq> None
     \<or> uva_timelock_delay_slots a \<noteq> None \<or> uva_performance_fee_bps a \<noteq> None
     \<or> uva_performance_fee_crystallization_interval_seconds a \<noteq> None
     \<or> uva_protocol_fee_bps a \<noteq> None \<or> uva_protocol_fee_recipient a \<noteq> None
     \<or> uva_instant_redemption_fee_bps a \<noteq> None"

definition UpdateVaultArgs_has_pause_change :: "UpdateVaultArgs \<Rightarrow> bool" where
  "UpdateVaultArgs_has_pause_change a \<longleftrightarrow> uva_paused a \<noteq> None"

text \<open>\<open>if let Some(x) = args.x { require!(..) }\<close> and \<open>args.x.unwrap_or(vault.x)\<close>\<close>

definition require_some :: "'a option \<Rightarrow> ('a \<Rightarrow> bool) \<Rightarrow> error \<Rightarrow> 'b result \<Rightarrow> 'b result" where
  "require_some x P e f = (case x of None \<Rightarrow> f | Some a \<Rightarrow> require (P a) e f)"

definition unwrap_or :: "'a option \<Rightarrow> 'a \<Rightarrow> 'a" where
  "unwrap_or x d = (case x of None \<Rightarrow> d | Some a \<Rightarrow> a)"

lemma require_some_Inr [res_simps]:
  "require_some x P e f = Inr r \<longleftrightarrow> (\<forall>a. x = Some a \<longrightarrow> P a) \<and> f = Inr r"
  by (auto simp: require_some_def res_simps split: option.splits)

lemma unwrap_or_simps [simp]: "unwrap_or None d = d" "unwrap_or (Some a) d = a"
  by (simp_all add: unwrap_or_def)

definition validate_update_args_supported :: "vault \<Rightarrow> UpdateVaultArgs \<Rightarrow> unit result" where
  "validate_update_args_supported v args =
     require_some (uva_max_nav_delta_bps args) (\<lambda>x. x \<le> MAX_BPS) (Vault_Err FeeBpsExceeded) (
     require_some (uva_performance_fee_bps args) (\<lambda>x. x \<le> MAX_BPS) (Vault_Err FeeBpsExceeded) (
     require_some (uva_protocol_fee_bps args) (\<lambda>x. x \<le> MAX_BPS) (Vault_Err FeeBpsExceeded) (
     require (unwrap_or (uva_protocol_fee_bps args) (v_protocol_fee_bps v) > 0 \<longrightarrow>
         unwrap_or (uva_protocol_fee_recipient args) (v_protocol_fee_recipient v) \<noteq> Pubkey_default)
       (Vault_Err InvalidFeeRecipient) (
     require_some (uva_instant_redemption_fee_bps args) (\<lambda>x. x \<le> MAX_BPS) (Vault_Err FeeBpsExceeded) (
     require_some (uva_nav_mode args) (\<lambda>m. m = AuthoritySigned) (Vault_Err UnsupportedPhaseConfig) (
     require (v_tranche_config v = None
         \<or> unwrap_or (uva_performance_fee_bps args) (v_performance_fee_bps v) = 0)
       (Vault_Err UnsupportedPhaseConfig) (
     require (unwrap_or (uva_rolling_limit_window_slots args) (v_rolling_limit_window_slots v) > 0
         \<or> unwrap_or (uva_manager_rolling_limit args) (v_manager_rolling_limit v) = 0
           \<and> unwrap_or (uva_external_withdraw_rolling_limit args) (v_external_withdraw_rolling_limit v) = 0
           \<and> unwrap_or (uva_redemption_rolling_limit args) (v_redemption_rolling_limit v) = 0)
       (Vault_Err InvalidRollingLimitConfig) (
     Inr ()))))))))"

definition validate_queued_vault_update :: "vault \<Rightarrow> UpdateVaultArgs \<Rightarrow> unit result" where
  "validate_queued_vault_update v args =
     require (UpdateVaultArgs_has_timelocked_fields args \<and> \<not> UpdateVaultArgs_has_pause_change args)
       (Vault_Err InvalidTimelockChange) (
     require (uva_breaker args = None) (Vault_Err InvalidTimelockChange) (
     validate_update_args_supported v args))"

definition updated_vault :: "UpdateVaultArgs \<Rightarrow> vault \<Rightarrow> vault" where
  "updated_vault a v =
     v\<lparr>v_paused := unwrap_or (uva_paused a) (v_paused v),
       v_fee_recipient := unwrap_or (uva_fee_recipient a) (v_fee_recipient v),
       v_manager := unwrap_or (uva_manager a) (v_manager v),
       v_hot_manager := unwrap_or (uva_hot_manager a) (v_hot_manager v),
       v_fulfiller := unwrap_or (uva_fulfiller a) (v_fulfiller v),
       v_breaker := unwrap_or (uva_breaker a) (v_breaker v),
       v_nav_mode := unwrap_or (uva_nav_mode a) (v_nav_mode v),
       v_require_fresh_nav := unwrap_or (uva_require_fresh_nav a) (v_require_fresh_nav v),
       v_max_nav_delta_bps := unwrap_or (uva_max_nav_delta_bps a) (v_max_nav_delta_bps v),
       v_max_implied_apy_bps := unwrap_or (uva_max_implied_apy_bps a) (v_max_implied_apy_bps v),
       v_max_nav_staleness_slots := unwrap_or (uva_max_nav_staleness_slots a) (v_max_nav_staleness_slots v),
       v_deposit_cap := unwrap_or (uva_deposit_cap a) (v_deposit_cap v),
       v_rolling_limit_window_slots :=
         unwrap_or (uva_rolling_limit_window_slots a) (v_rolling_limit_window_slots v),
       v_manager_rolling_limit := unwrap_or (uva_manager_rolling_limit a) (v_manager_rolling_limit v),
       v_external_withdraw_rolling_limit :=
         unwrap_or (uva_external_withdraw_rolling_limit a) (v_external_withdraw_rolling_limit v),
       v_redemption_rolling_limit :=
         unwrap_or (uva_redemption_rolling_limit a) (v_redemption_rolling_limit v),
       v_timelock_delay_slots := unwrap_or (uva_timelock_delay_slots a) (v_timelock_delay_slots v),
       v_performance_fee_bps := unwrap_or (uva_performance_fee_bps a) (v_performance_fee_bps v),
       v_performance_fee_crystallization_interval_seconds :=
         unwrap_or (uva_performance_fee_crystallization_interval_seconds a)
           (v_performance_fee_crystallization_interval_seconds v),
       v_protocol_fee_bps := unwrap_or (uva_protocol_fee_bps a) (v_protocol_fee_bps v),
       v_protocol_fee_recipient :=
         unwrap_or (uva_protocol_fee_recipient a) (v_protocol_fee_recipient v),
       v_instant_redemption_fee_bps :=
         unwrap_or (uva_instant_redemption_fee_bps a) (v_instant_redemption_fee_bps v)\<rparr>"

definition apply_vault_update :: "vault \<Rightarrow> UpdateVaultArgs \<Rightarrow> vault result" where
  "apply_vault_update v args =
     (let v = updated_vault args v in
      try_ok (Vault_validate_config v) (\<lambda>_. Inr v))"

record UpdateVault =
  uv_authority :: pubkey
  uv_share_mint :: pubkey
  uv_vault :: pubkey

definition update_vault :: "env \<Rightarrow> UpdateVault \<Rightarrow> UpdateVaultArgs \<Rightarrow> world \<Rightarrow> world result" where
  "update_vault E accts args w =
     load (l_mints (w_ledger w)) (uv_share_mint accts) (\<lambda>_.
     load (w_vaults w) (uv_vault accts) (\<lambda>v.
     seeds_with_bump E [VAULT_CONFIG_SEED, uv_share_mint accts] (v_bump v) (uv_vault accts) (
     try_ok (Vault_assert_curator v (uv_authority accts)) (\<lambda>_.
     if v_timelock_delay_slots v > 0 \<and> UpdateVaultArgs_has_timelocked_fields args
     then Inl (Vault_Err TimelockRequired)
     else
       try_ok (apply_vault_update v args) (\<lambda>v.
       Inr (w\<lparr>w_vaults := (w_vaults w)(uv_vault accts \<mapsto> v)\<rparr>))))))"

subsection \<open>The protocol fee configuration\<close>

record InitializeProtocolFeeConfig =
  ipf_authority :: pubkey
  ipf_protocol_fee_config :: pubkey

definition initialize_protocol_fee_config ::
  "env \<Rightarrow> InitializeProtocolFeeConfig \<Rightarrow> pubkey \<Rightarrow> world \<Rightarrow> world result" where
  "initialize_protocol_fee_config E accts protocol_fee_recipient w =
     seeds_canonical E [PROTOCOL_FEE_CONFIG_SEED] (ipf_protocol_fee_config accts) (\<lambda>bump.
     init_account w (ipf_protocol_fee_config accts) (
     require (protocol_fee_recipient \<noteq> Pubkey_default) (Vault_Err InvalidFeeRecipient) (
     Inr (w\<lparr>w_protocol_fee_configs := (w_protocol_fee_configs w)(ipf_protocol_fee_config accts \<mapsto>
            \<lparr>pfc_authority = ipf_authority accts,
             pfc_protocol_fee_recipient = protocol_fee_recipient, pfc_bump = bump\<rparr>)\<rparr>))))"

record UpdateProtocolFeeConfig =
  upf_authority :: pubkey
  upf_protocol_fee_config :: pubkey

definition update_protocol_fee_config ::
  "env \<Rightarrow> UpdateProtocolFeeConfig \<Rightarrow> pubkey \<Rightarrow> world \<Rightarrow> world result" where
  "update_protocol_fee_config E accts protocol_fee_recipient w =
     load (w_protocol_fee_configs w) (upf_protocol_fee_config accts) (\<lambda>c.
     seeds_with_bump E [PROTOCOL_FEE_CONFIG_SEED] (pfc_bump c) (upf_protocol_fee_config accts) (
     require (pfc_authority c = upf_authority accts) (Vault_Err UnauthorizedSigner) (
     require (protocol_fee_recipient \<noteq> Pubkey_default) (Vault_Err InvalidFeeRecipient) (
     Inr (w\<lparr>w_protocol_fee_configs := (w_protocol_fee_configs w)(upf_protocol_fee_config accts \<mapsto>
            c\<lparr>pfc_protocol_fee_recipient := protocol_fee_recipient\<rparr>)\<rparr>)))))"

end
