(* ===== verification/Rolling_Limit.thy ===== *)
theory Rolling_Limit
  imports Vault_State
begin

text \<open>
  The rolling-limit buckets: \<open>Vault::consume_rolling_limit\<close> and the six buckets that use it
  (three on the vault, one per secondary asset, two per instant-settlement user). The locale
  \<open>rolling_bucket\<close> is the contract of a bucket: two fields of an owner's state, consumed by the
  shared routine under a limit and a window that consuming does not change. Its lemmas are
  proved once and every bucket is an interpretation.
\<close>

subsection \<open>The shared routine\<close>

definition consume_rolling_limit ::
  "u64 \<Rightarrow> u64 \<Rightarrow> u64 \<Rightarrow> u64 \<Rightarrow> u64 \<Rightarrow> u64 \<Rightarrow> (u64 \<times> u64) result" where
  "consume_rolling_limit amount current_slot limit window_slots window_start_slot window_amount =
     (if limit = 0 then Inr (window_start_slot, window_amount)
      else
        require (window_slots > 0) (Vault_Err InvalidRollingLimitConfig) (
        arith (checked_add window_start_slot window_slots) (\<lambda>window_end.
        let window_uninitialized = (window_start_slot = 0 \<and> window_amount = 0);
            reset = (window_uninitialized \<or> current_slot \<ge> window_end);
            start = (if reset then current_slot else window_start_slot);
            consumed = (if reset then 0 else window_amount)
        in arith (checked_add consumed amount) (\<lambda>next_amount.
           require (next_amount \<le> limit) (Vault_Err RollingLimitExceeded) (
           Inr (start, next_amount))))))"

definition Vault_consume_manager_rolling_limit :: "vault \<Rightarrow> u64 \<Rightarrow> u64 \<Rightarrow> vault result" where
  "Vault_consume_manager_rolling_limit v amount current_slot =
     try_ok (consume_rolling_limit amount current_slot (v_manager_rolling_limit v)
       (v_rolling_limit_window_slots v) (v_manager_window_start_slot v)
       (v_manager_window_amount v)) (\<lambda>(start, consumed).
     Inr (v\<lparr>v_manager_window_start_slot := start, v_manager_window_amount := consumed\<rparr>))"

definition Vault_consume_external_withdraw_rolling_limit ::
  "vault \<Rightarrow> u64 \<Rightarrow> u64 \<Rightarrow> vault result" where
  "Vault_consume_external_withdraw_rolling_limit v amount current_slot =
     try_ok (consume_rolling_limit amount current_slot (v_external_withdraw_rolling_limit v)
       (v_rolling_limit_window_slots v) (v_external_withdraw_window_start_slot v)
       (v_external_withdraw_window_amount v)) (\<lambda>(start, consumed).
     Inr (v\<lparr>v_external_withdraw_window_start_slot := start,
            v_external_withdraw_window_amount := consumed\<rparr>))"

definition Vault_consume_redemption_rolling_limit :: "vault \<Rightarrow> u64 \<Rightarrow> u64 \<Rightarrow> vault result" where
  "Vault_consume_redemption_rolling_limit v amount current_slot =
     try_ok (consume_rolling_limit amount current_slot (v_redemption_rolling_limit v)
       (v_rolling_limit_window_slots v) (v_redemption_window_start_slot v)
       (v_redemption_window_amount v)) (\<lambda>(start, consumed).
     Inr (v\<lparr>v_redemption_window_start_slot := start, v_redemption_window_amount := consumed\<rparr>))"

definition VaultAsset_consume_manager_rolling_limit ::
  "VaultAsset \<Rightarrow> u64 \<Rightarrow> u64 \<Rightarrow> u64 \<Rightarrow> u64 \<Rightarrow> VaultAsset result" where
  "VaultAsset_consume_manager_rolling_limit va amount current_slot manager_rolling_limit
       rolling_limit_window_slots =
     try_ok (consume_rolling_limit amount current_slot manager_rolling_limit
       rolling_limit_window_slots (va_manager_window_start_slot va)
       (va_manager_window_amount va)) (\<lambda>(start, consumed).
     Inr (va\<lparr>va_manager_window_start_slot := start, va_manager_window_amount := consumed\<rparr>))"

definition InstantSettlementUser_consume_deposit_limit ::
  "InstantSettlementUser \<Rightarrow> u64 \<Rightarrow> u64 \<Rightarrow> u64 \<Rightarrow> u64 \<Rightarrow> InstantSettlementUser result" where
  "InstantSettlementUser_consume_deposit_limit u amount current_slot limit window_slots =
     try_ok (consume_rolling_limit amount current_slot limit window_slots
       (isu_deposit_window_start_slot u) (isu_deposit_window_amount u)) (\<lambda>(start, consumed).
     Inr (u\<lparr>isu_deposit_window_start_slot := start, isu_deposit_window_amount := consumed\<rparr>))"

definition InstantSettlementUser_consume_redeem_limit ::
  "InstantSettlementUser \<Rightarrow> u64 \<Rightarrow> u64 \<Rightarrow> u64 \<Rightarrow> u64 \<Rightarrow> InstantSettlementUser result" where
  "InstantSettlementUser_consume_redeem_limit u amount current_slot limit window_slots =
     try_ok (consume_rolling_limit amount current_slot limit window_slots
       (isu_redeem_window_start_slot u) (isu_redeem_window_amount u)) (\<lambda>(start, consumed).
     Inr (u\<lparr>isu_redeem_window_start_slot := start, isu_redeem_window_amount := consumed\<rparr>))"

subsection \<open>The epoch window model\<close>

text \<open>
  The abstract account of a bucket on natural numbers: an optional window that holds what was
  consumed since it opened. \<open>abs_window\<close> reads the two stored words, where \<open>(0, 0)\<close> stands for
  \<open>no window\<close>.
\<close>

definition abs_window :: "u64 \<Rightarrow> u64 \<Rightarrow> (nat \<times> nat) option" where
  "abs_window start consumed =
     (if start = 0 \<and> consumed = 0 then None else Some (unat start, unat consumed))"

definition spec_consume :: "nat \<Rightarrow> nat \<Rightarrow> nat \<Rightarrow> nat \<Rightarrow> (nat \<times> nat) option \<Rightarrow> (nat \<times> nat) option" where
  "spec_consume amount slot limit window w =
     (let (start, consumed) =
        (case w of None \<Rightarrow> (slot, 0)
         | Some (s, c) \<Rightarrow> if s + window \<le> slot then (slot, 0) else (s, c))
      in if consumed + amount \<le> limit then Some (start, consumed + amount) else None)"

lemma consume_rolling_limit_spec:
  assumes "limit \<noteq> 0" "0 < window" "unat start + unat window < 2 ^ 64"
  shows "(case consume_rolling_limit amount slot limit window start consumed of
            Inl e \<Rightarrow> spec_consume (unat amount) (unat slot) (unat limit) (unat window)
                       (abs_window start consumed) = None
          | Inr (start', consumed') \<Rightarrow>
              spec_consume (unat amount) (unat slot) (unat limit) (unat window)
                (abs_window start consumed) = Some (unat start', unat consumed'))"
proof -
  have "unat start + unat window < 2 ^ LENGTH(64)" using assms(3) by simp
  from checked_add_total [OF this] obtain we
    where we: "checked_add start window = Some we" "unat we = unat start + unat window" by blast
  define reset where "reset \<longleftrightarrow> (start = 0 \<and> consumed = 0) \<or> we \<le> slot"
  define c where "c = (if reset then 0 else consumed)"
  have exc: "consume_rolling_limit amount slot limit window start consumed =
      arith (checked_add c amount) (\<lambda>n. require (n \<le> limit) (Vault_Err RollingLimitExceeded)
        (Inr (if reset then slot else start, n)))"
    using assms(1,2) we(1) by (auto simp: consume_rolling_limit_def reset_def c_def Let_def)
  have sp: "spec_consume (unat amount) (unat slot) (unat limit) (unat window)
      (abs_window start consumed) =
      (if unat c + unat amount \<le> unat limit
       then Some (unat (if reset then slot else start), unat c + unat amount) else None)"
    using we(2) by (auto simp: spec_consume_def abs_window_def reset_def c_def word_le_nat_alt)
  show ?thesis
  proof (cases "checked_add c amount")
    case None
    then have "unat limit < unat c + unat amount"
      using unat_bound [of limit] by (simp add: checked_simps)
    with None show ?thesis by (simp add: exc sp)
  next
    case (Some n)
    then have "unat n = unat c + unat amount" by (simp add: checked_simps)
    with Some show ?thesis by (simp add: exc sp require_def word_le_nat_alt)
  qed
qed

subsection \<open>Any window of the configured length\<close>

text \<open>
  A sequence of transactions against one bucket: \<open>(amount, slot)\<close> pairs, of which a rejected
  one leaves the state as it was. The second component lists the accepted ones.
\<close>

fun bucket_run ::
  "('s \<Rightarrow> u64 \<Rightarrow> u64 \<Rightarrow> 's result) \<Rightarrow> 's \<Rightarrow> (u64 \<times> u64) list \<Rightarrow> 's \<times> (u64 \<times> u64) list" where
  "bucket_run consume s [] = (s, [])"
| "bucket_run consume s (op # ops) =
     (case consume s (fst op) (snd op) of
        Inl e \<Rightarrow> bucket_run consume s ops
      | Inr s' \<Rightarrow> (case bucket_run consume s' ops of (t, accepted) \<Rightarrow> (t, op # accepted)))"

definition sum_amounts :: "(u64 \<times> u64) list \<Rightarrow> nat" where
  "sum_amounts ops = sum_list (map (\<lambda>op. unat (fst op)) ops)"

definition accepted_between :: "nat \<Rightarrow> nat \<Rightarrow> (u64 \<times> u64) list \<Rightarrow> nat" where
  "accepted_between t n ops = sum_amounts (filter (\<lambda>op. t \<le> unat (snd op) \<and> unat (snd op) < t + n) ops)"

definition accepted_from :: "nat \<Rightarrow> (u64 \<times> u64) list \<Rightarrow> nat" where
  "accepted_from t ops = sum_amounts (filter (\<lambda>op. t \<le> unat (snd op)) ops)"

lemma sum_amounts_simps [simp]:
  "sum_amounts [] = 0" "sum_amounts (op # ops) = unat (fst op) + sum_amounts ops" "sum_amounts (xs @ ys) = sum_amounts xs + sum_amounts ys"
  by (simp_all add: sum_amounts_def)

lemma sum_amounts_filter_mono:
  "(\<And>op. op \<in> set ops \<Longrightarrow> P op \<Longrightarrow> Q op) \<Longrightarrow> sum_amounts (filter P ops) \<le> sum_amounts (filter Q ops)"
  by (induction ops) (auto intro: le_trans [OF _ le_add2])

lemma sum_amounts_filter_le: "sum_amounts (filter P ops) \<le> sum_amounts ops"
  by (induction ops) auto

lemma accepted_append [simp]:
  "accepted_between t n (xs @ ys) = accepted_between t n xs + accepted_between t n ys"
  "accepted_from t (xs @ ys) = accepted_from t xs + accepted_from t ys"
  by (simp_all add: accepted_between_def accepted_from_def)

lemma accepted_bounds:
  "accepted_between t n ops \<le> accepted_from t ops" "accepted_from t ops \<le> sum_amounts ops"
  by (auto simp: accepted_between_def accepted_from_def intro: sum_amounts_filter_mono sum_amounts_filter_le)

lemma accepted_outside:
  "(\<And>op. op \<in> set ops \<Longrightarrow> unat (snd op) < t) \<Longrightarrow> accepted_from t ops = 0"
  "(\<And>op. op \<in> set ops \<Longrightarrow> t + n \<le> unat (snd op)) \<Longrightarrow> accepted_between t n ops = 0"
  by (auto simp: accepted_between_def accepted_from_def filter_empty_conv not_le not_less
      intro!: arg_cong [where f = sum_amounts, THEN trans] simp flip: sum_amounts_simps(1))

text \<open>
  What the routine keeps true of its bucket: the accepted operations split into those of
  earlier windows (\<open>pre\<close>) and of the current one (\<open>cur\<close>), whose total is the stored amount.
\<close>

definition window_inv ::
  "nat \<Rightarrow> nat \<Rightarrow> u64 \<Rightarrow> u64 \<Rightarrow> nat \<Rightarrow> (u64 \<times> u64) list \<Rightarrow> bool" where
  "window_inv L W start consumed now acc \<longleftrightarrow>
     (\<exists>pre cur. acc = pre @ cur \<and> sum_amounts cur = unat consumed \<and> sum_amounts cur \<le> L
       \<and> unat start \<le> now
       \<and> (\<forall>op \<in> set cur. unat start \<le> unat (snd op))
       \<and> (\<forall>op \<in> set pre. unat (snd op) \<le> unat start)
       \<and> (\<forall>op \<in> set acc. unat (snd op) \<le> now)
       \<and> (\<forall>t. unat start < t + W \<longrightarrow> accepted_from t pre \<le> L)
       \<and> (\<forall>t. accepted_between t W pre \<le> 2 * L))"

lemma window_inv_start: "window_inv L W 0 0 now []"
  by (simp add: window_inv_def accepted_from_def accepted_between_def)

lemma window_inv_bound: "window_inv L W start consumed now acc \<Longrightarrow> accepted_between t W acc \<le> 2 * L"
proof -
  assume "window_inv L W start consumed now acc"
  then obtain pre cur where acc: "acc = pre @ cur" and cur: "sum_amounts cur \<le> L"
    and late: "\<forall>op \<in> set cur. unat start \<le> unat (snd op)"
    and recent: "\<forall>t. unat start < t + W \<longrightarrow> accepted_from t pre \<le> L"
    and old: "\<forall>t. accepted_between t W pre \<le> 2 * L"
    by (auto simp: window_inv_def)
  show ?thesis
  proof (cases "unat start < t + W")
    case True
    with recent have "accepted_from t pre \<le> L" by blast
    with cur accepted_bounds(1) [of t W pre] accepted_bounds(1) [of t W cur] accepted_bounds(2) [of t cur]
    show ?thesis by (simp add: acc)
  next
    case False
    have "accepted_between t W cur = 0"
      by (rule accepted_outside(2)) (use late False in force)
    with old show ?thesis by (simp add: acc)
  qed
qed

lemma window_inv_later: "window_inv L W start consumed now acc \<Longrightarrow> now \<le> now' \<Longrightarrow>
    window_inv L W start consumed now' acc"
  unfolding window_inv_def
  by (elim exE conjE, rule exI, rule exI, intro conjI) (assumption | fastforce)+

lemma window_inv_step:
  assumes inv: "window_inv (unat limit) (unat window) start consumed now acc"
    and lim: "limit \<noteq> 0" and later: "now \<le> unat slot"
    and ok: "consume_rolling_limit amount slot limit window start consumed = Inr (start', consumed')"
  shows "window_inv (unat limit) (unat window) start' consumed' (unat slot) (acc @ [(amount, slot)])"
proof -
  let ?L = "unat limit" and ?W = "unat window"
  have bound: "accepted_between t ?W acc \<le> 2 * ?L" for t
    using inv by (rule window_inv_bound)
  from inv obtain pre cur where acc: "acc = pre @ cur"
    and cur: "sum_amounts cur = unat consumed" "sum_amounts cur \<le> ?L" "\<forall>op \<in> set cur. unat start \<le> unat (snd op)"
    and now: "unat start \<le> now"
    and pre: "\<forall>op \<in> set pre. unat (snd op) \<le> unat start"
    and all: "\<forall>op \<in> set acc. unat (snd op) \<le> now"
    and recent: "\<forall>t. unat start < t + ?W \<longrightarrow> accepted_from t pre \<le> ?L"
    and old: "\<forall>t. accepted_between t ?W pre \<le> 2 * ?L"
    by (auto simp: window_inv_def)
  define reset where "reset \<longleftrightarrow> (start = 0 \<and> consumed = 0) \<or> unat start + ?W \<le> unat slot"
  from ok lim have W: "0 < ?W"
    and res: "start' = (if reset then slot else start)" "unat consumed' \<le> ?L"
      "unat consumed' = (if reset then 0 else unat consumed) + unat amount"
    by (auto simp: consume_rolling_limit_def Let_def res_simps checked_simps reset_def
        word_le_nat_alt word_less_nat_alt split: if_splits)
  have all': "\<forall>op \<in> set (acc @ [(amount, slot)]). unat (snd op) \<le> unat slot"
    using all later by fastforce
  show ?thesis
  proof (cases reset)
    case False
    with res cur now later pre all' recent old show ?thesis
      unfolding window_inv_def
      by (intro exI [of _ pre] exI [of _ "cur @ [(amount, slot)]"]) (auto simp: acc)
  next
    case True
    have fresh: "accepted_from t acc \<le> ?L" if t: "unat slot < t + ?W" for t
    proof (cases "start = 0 \<and> consumed = 0")
      case True
      with recent W have "accepted_from t pre \<le> ?L" by simp
      with True cur(1) accepted_bounds(2) [of t cur] show ?thesis by (simp add: acc)
    next
      case False
      with \<open>reset\<close> t have "unat start < t" by (simp add: reset_def)
      then have "accepted_from t pre = 0"
        by (intro accepted_outside(1)) (use pre in fastforce)
      with cur(2) accepted_bounds(2) [of t cur] show ?thesis by (simp add: acc)
    qed
    from True res all later all' fresh bound show ?thesis
      unfolding window_inv_def
      by (intro exI [of _ acc] exI [of _ "[(amount, slot)]"]) auto
  qed
qed

subsection \<open>The contract of a bucket\<close>

locale rolling_bucket =
  fixes window_start :: "'s \<Rightarrow> u64"
    and window_consumed :: "'s \<Rightarrow> u64"
    and put :: "u64 \<Rightarrow> u64 \<Rightarrow> 's \<Rightarrow> 's"
    and limit_of :: "'s \<Rightarrow> u64"
    and window_of :: "'s \<Rightarrow> u64"
    and consume :: "'s \<Rightarrow> u64 \<Rightarrow> u64 \<Rightarrow> 's result"
  assumes consume_eq: "consume s amount slot =
      try_ok (consume_rolling_limit amount slot (limit_of s) (window_of s) (window_start s)
        (window_consumed s)) (\<lambda>(start, consumed). Inr (put start consumed s))"
    and start_put: "window_start (put start consumed s) = start"
    and consumed_put: "window_consumed (put start consumed s) = consumed"
    and limit_put: "limit_of (put start consumed s) = limit_of s"
    and window_put: "window_of (put start consumed s) = window_of s"
    and put_same: "put (window_start s) (window_consumed s) s = s"
begin

lemma consume_Inr: "consume s amount slot = Inr s' \<longleftrightarrow>
    (\<exists>start consumed. consume_rolling_limit amount slot (limit_of s) (window_of s) (window_start s)
       (window_consumed s) = Inr (start, consumed) \<and> s' = put start consumed s)"
  by (auto simp: consume_eq res_simps split: prod.splits)

lemma consume_disabled: "limit_of s = 0 \<Longrightarrow> consume s amount slot = Inr s"
  by (simp add: consume_eq consume_rolling_limit_def put_same)

lemma consume_keeps_config:
  "consume s amount slot = Inr s' \<Longrightarrow> limit_of s' = limit_of s \<and> window_of s' = window_of s"
  by (auto simp: consume_Inr limit_put window_put)

lemma consume_within_limit:
  "consume s amount slot = Inr s' \<Longrightarrow> limit_of s \<noteq> 0 \<Longrightarrow>
   window_consumed s' \<le> limit_of s \<and> unat amount \<le> unat (window_consumed s')"
  by (auto simp: consume_Inr consumed_put consume_rolling_limit_def Let_def res_simps checked_simps
      split: if_splits)

lemma run_keeps_window_inv:
  assumes "window_inv (unat (limit_of s)) (unat (window_of s)) (window_start s) (window_consumed s) now acc"
    and "limit_of s \<noteq> 0" and "sorted (now # map (\<lambda>op. unat (snd op)) ops)"
  shows "\<exists>t now'. window_inv (unat (limit_of s)) (unat (window_of s)) (window_start t)
           (window_consumed t) now' (acc @ snd (bucket_run consume s ops))"
  using assms
proof (induction ops arbitrary: s now acc)
  case Nil
  then show ?case by auto
next
  case (Cons op ops)
  from Cons.prems(3) have later: "now \<le> unat (snd op)"
    and ord: "sorted (unat (snd op) # map (\<lambda>op. unat (snd op)) ops)" by auto
  show ?case
  proof (cases "consume s (fst op) (snd op)")
    case (Inl e)
    with Cons.IH [OF window_inv_later [OF Cons.prems(1) later] Cons.prems(2) ord] show ?thesis
      by simp
  next
    case (Inr s')
    then obtain start consumed where c: "consume_rolling_limit (fst op) (snd op) (limit_of s)
        (window_of s) (window_start s) (window_consumed s) = Inr (start, consumed)"
      and s': "s' = put start consumed s" by (auto simp: consume_Inr)
    from window_inv_step [OF Cons.prems(1,2) later c]
    have "window_inv (unat (limit_of s')) (unat (window_of s')) (window_start s')
        (window_consumed s') (unat (snd op)) (acc @ [op])"
      by (simp add: s' start_put consumed_put limit_put window_put)
    from Cons.IH [OF this _ ord] Cons.prems(2) show ?thesis
      by (simp add: s' limit_put window_put Inr case_prod_beta)
  qed
qed

text \<open>Any stretch of slots as long as the window sees at most twice the limit.\<close>

lemma sliding_window_bound:
  assumes "window_start s = 0" "window_consumed s = 0" "limit_of s \<noteq> 0"
    and "sorted (map (\<lambda>op. unat (snd op)) ops)"
  shows "accepted_between t (unat (window_of s)) (snd (bucket_run consume s ops))
         \<le> 2 * unat (limit_of s)"
proof -
  from assms have "window_inv (unat (limit_of s)) (unat (window_of s)) (window_start s)
      (window_consumed s) 0 []" by (simp add: window_inv_start)
  from run_keeps_window_inv [OF this assms(3), of ops] assms(4) show ?thesis
    by (auto dest: window_inv_bound)
qed

end

subsection \<open>The six buckets\<close>

interpretation manager_bucket: rolling_bucket v_manager_window_start_slot v_manager_window_amount
  "\<lambda>start consumed v. v\<lparr>v_manager_window_start_slot := start, v_manager_window_amount := consumed\<rparr>"
  v_manager_rolling_limit v_rolling_limit_window_slots Vault_consume_manager_rolling_limit
  by unfold_locales (simp_all add: Vault_consume_manager_rolling_limit_def)

interpretation external_withdraw_bucket: rolling_bucket v_external_withdraw_window_start_slot
  v_external_withdraw_window_amount
  "\<lambda>start consumed v. v\<lparr>v_external_withdraw_window_start_slot := start,
      v_external_withdraw_window_amount := consumed\<rparr>"
  v_external_withdraw_rolling_limit v_rolling_limit_window_slots
  Vault_consume_external_withdraw_rolling_limit
  by unfold_locales (simp_all add: Vault_consume_external_withdraw_rolling_limit_def)

interpretation redemption_bucket: rolling_bucket v_redemption_window_start_slot
  v_redemption_window_amount
  "\<lambda>start consumed v. v\<lparr>v_redemption_window_start_slot := start,
      v_redemption_window_amount := consumed\<rparr>"
  v_redemption_rolling_limit v_rolling_limit_window_slots Vault_consume_redemption_rolling_limit
  by unfold_locales (simp_all add: Vault_consume_redemption_rolling_limit_def)

interpretation asset_manager_bucket: rolling_bucket va_manager_window_start_slot
  va_manager_window_amount
  "\<lambda>start consumed va. va\<lparr>va_manager_window_start_slot := start, va_manager_window_amount := consumed\<rparr>"
  "\<lambda>_. limit" "\<lambda>_. window"
  "\<lambda>va amount slot. VaultAsset_consume_manager_rolling_limit va amount slot limit window"
  for limit window
  by unfold_locales (simp_all add: VaultAsset_consume_manager_rolling_limit_def)

interpretation user_deposit_bucket: rolling_bucket isu_deposit_window_start_slot
  isu_deposit_window_amount
  "\<lambda>start consumed u. u\<lparr>isu_deposit_window_start_slot := start, isu_deposit_window_amount := consumed\<rparr>"
  "\<lambda>_. limit" "\<lambda>_. window"
  "\<lambda>u amount slot. InstantSettlementUser_consume_deposit_limit u amount slot limit window"
  for limit window
  by unfold_locales (simp_all add: InstantSettlementUser_consume_deposit_limit_def)

interpretation user_redeem_bucket: rolling_bucket isu_redeem_window_start_slot
  isu_redeem_window_amount
  "\<lambda>start consumed u. u\<lparr>isu_redeem_window_start_slot := start, isu_redeem_window_amount := consumed\<rparr>"
  "\<lambda>_. limit" "\<lambda>_. window"
  "\<lambda>u amount slot. InstantSettlementUser_consume_redeem_limit u amount slot limit window"
  for limit window
  by unfold_locales (simp_all add: InstantSettlementUser_consume_redeem_limit_def)

end
