(* ===== verification/Requests.thy ===== *)
theory Requests
  imports Request_Utils
begin

text \<open>
  The user's side of the request lifecycle: \<open>create_deposit_request\<close>, \<open>create_redeem_request\<close>,
  \<open>set_operator\<close>, \<open>cancel_request\<close>, the cancellations of queued requests, and the permissionless
  \<open>skip_canceled_queue_request\<close>. Each instruction checks the constraints of its accounts struct,
  runs its handler, and writes back the accounts it changed.
\<close>

record RequestArgs =
  ra_amount :: u64
  ra_operator :: "pubkey option"

subsection \<open>Queue ids and queue order\<close>

text \<open>The id a new request gets from its queue, the tranche's or the vault's, if there is one.\<close>

definition assign_queue_id ::
  "FifoCounters FifoQueue \<Rightarrow> vault \<Rightarrow> TrancheConfig accounts \<Rightarrow> RequestShareMintContext \<Rightarrow> pubkey \<Rightarrow>
   RequestType \<Rightarrow> account_info list \<Rightarrow> (vault \<times> TrancheConfig accounts \<times> u64 option) result" where
  "assign_queue_id Q v tcs ctx share_mint request_type remaining_accounts =
     (if rsc_tranche_info ctx \<noteq> None then
        try_ok (has_fifo_queue Q v) (\<lambda>has.
        if has then
          try_ok (next_tranche_queue_request_id tcs ctx share_mint request_type remaining_accounts)
            (\<lambda>(tcs, queue_id). Inr (v, tcs, queue_id))
        else Inr (v, tcs, None))
      else try_ok (next_queue_request_id Q v) (\<lambda>(v, queue_id). Inr (v, tcs, queue_id)))"

definition tag_request :: "RequestExtension \<Rightarrow> request \<Rightarrow> u64 option \<Rightarrow> request result" where
  "tag_request R r queue_id =
     (case queue_id of None \<Rightarrow> Inr r | Some rid \<Rightarrow> init_request_extension R r rid)"

text \<open>A request leaves its queue: the order is enforced and the queue advances.\<close>

definition leave_queue ::
  "FifoCounters FifoQueue \<Rightarrow> RequestExtension \<Rightarrow> vault \<Rightarrow> TrancheConfig accounts \<Rightarrow>
   RequestShareMintContext \<Rightarrow> pubkey \<Rightarrow> RequestType \<Rightarrow> request \<Rightarrow> account_info list \<Rightarrow>
   (vault \<times> TrancheConfig accounts) result" where
  "leave_queue Q R v tcs ctx share_mint request_type r remaining_accounts =
     (if rsc_tranche_info ctx \<noteq> None then
        try_ok (has_fifo_queue Q v) (\<lambda>has.
        if has then
          try_ok (check_and_advance_tranche_queue R tcs ctx share_mint request_type r remaining_accounts)
            (\<lambda>(tcs, advanced). Inr (v, tcs))
        else Inr (v, tcs))
      else try_ok (check_and_advance_queue Q R v r) (\<lambda>v. Inr (v, tcs)))"

definition check_fifo_ordering ::
  "vault \<Rightarrow> TrancheConfig accounts \<Rightarrow> RequestShareMintContext \<Rightarrow> pubkey \<Rightarrow> request \<Rightarrow>
   account_info list \<Rightarrow> (vault \<times> TrancheConfig accounts) result" where
  "check_fifo_ordering v tcs ctx share_mint r remaining_accounts =
     (case req_request_type r of
        Deposit \<Rightarrow>
          leave_queue SubscriptionQueue_ext SubscriptionQueueRequest v tcs ctx share_mint Deposit r
            remaining_accounts
      | Redeem \<Rightarrow>
          leave_queue RedemptionQueue_ext RedemptionQueueRequest v tcs ctx share_mint Redeem r
            remaining_accounts)"

subsection \<open>Creating a deposit request\<close>

record CreateDepositRequest =
  cdr_user :: pubkey
  cdr_asset_mint :: pubkey
  cdr_share_mint :: pubkey
  cdr_vault :: pubkey
  cdr_vault_asset :: "pubkey option"
  cdr_request :: pubkey
  cdr_user_token_account :: pubkey
  cdr_pending_vault :: pubkey
  cdr_asset_token_program :: pubkey

definition transfer_assets_from_user_to_pending_vault ::
  "env \<Rightarrow> CreateDepositRequest \<Rightarrow> mint_account \<Rightarrow> u64 \<Rightarrow> ledger \<Rightarrow> ledger result" where
  "transfer_assets_from_user_to_pending_vault E accts asset_mint amount L =
     transfer_checked E (cdr_asset_token_program accts) (cdr_user_token_account accts)
       (cdr_asset_mint accts) (cdr_pending_vault accts) (cdr_user accts) amount
       (mint_decimals asset_mint) L"

text \<open>The escrow a deposit goes to, and the room under the deposit cap.\<close>

definition assert_deposit_target ::
  "vault \<Rightarrow> VaultAsset option \<Rightarrow> CreateDepositRequest \<Rightarrow> u64 \<Rightarrow> unit result" where
  "assert_deposit_target v vault_asset accts amount =
     (if Vault_is_primary_asset v (cdr_asset_mint accts) then
        try_ok (Vault_assert_deposit_cap_allows v amount) (\<lambda>_.
        require (v_pending_vault v = cdr_pending_vault accts) (Vault_Err InvalidPendingVault) (
        Inr ()))
      else
        ok_or vault_asset (Vault_Err InvalidAssetMint) (\<lambda>va.
        try_ok (VaultAsset_assert_matches va (cdr_vault accts) (cdr_asset_mint accts)) (\<lambda>_.
        try_ok (VaultAsset_assert_pending_vault va (cdr_pending_vault accts)) (\<lambda>_.
        VaultAsset_assert_deposit_cap_allows va amount))))"

text \<open>A deposit enters the pending amount of the vault, or of the secondary asset.\<close>

definition add_pending_deposit ::
  "bool \<Rightarrow> u64 \<Rightarrow> vault \<Rightarrow> VaultAsset option \<Rightarrow> (vault \<times> VaultAsset option) result" where
  "add_pending_deposit is_primary_asset amount v vault_asset =
     (if is_primary_asset then
        arith (checked_add (v_pending_deposit_amount v) amount) (\<lambda>pending.
        Inr (v\<lparr>v_pending_deposit_amount := pending\<rparr>, vault_asset))
      else
        ok_or vault_asset (Vault_Err InvalidAssetMint) (\<lambda>va.
        arith (checked_add (va_pending_deposit_amount va) amount) (\<lambda>pending.
        Inr (v, Some (va\<lparr>va_pending_deposit_amount := pending\<rparr>)))))"

definition create_deposit_request ::
  "env \<Rightarrow> CreateDepositRequest \<Rightarrow> account_info list \<Rightarrow> RequestArgs \<Rightarrow> world \<Rightarrow> world result" where
  "create_deposit_request E accts remaining_accounts args w =
     load (l_mints (w_ledger w)) (cdr_asset_mint accts) (\<lambda>asset_mint.
     load (l_mints (w_ledger w)) (cdr_share_mint accts) (\<lambda>share_mint.
     load (w_vaults w) (cdr_vault accts) (\<lambda>v.
     load_opt (w_vault_assets w) (cdr_vault_asset accts) (\<lambda>vault_asset.
     init_account w (cdr_request accts) (
     load (l_tokens (w_ledger w)) (cdr_user_token_account accts) (\<lambda>user_token_account.
     load (l_tokens (w_ledger w)) (cdr_pending_vault accts) (\<lambda>pending_vault.
     token_interface E (cdr_asset_token_program accts) (
     vault_pda E (cdr_vault accts) v (
     token_constraints user_token_account (cdr_asset_mint accts) (cdr_user accts) (
     token_constraints_program pending_vault (cdr_asset_mint accts) (cdr_vault accts)
       (cdr_asset_token_program accts) (
     try_ok (Vault_assert_unpaused_and_initialized v) (\<lambda>_.
     try_ok (validate_request_share_mint E w v (cdr_vault accts) (cdr_share_mint accts)
       remaining_accounts) (\<lambda>ctx.
     let is_primary_asset = Vault_is_primary_asset v (cdr_asset_mint accts) in
     try_ok (assert_deposit_target v vault_asset accts (ra_amount args)) (\<lambda>_.
     try_ok (check_subscriptions_paused v) (\<lambda>_.
     try_ok (check_min_subscription_amount v (ra_amount args)) (\<lambda>_.
     try_ok (enforce_tranche_request_limits ctx (cdr_share_mint accts) Deposit (ra_amount args)) (\<lambda>_.
     try_ok (get_deposit_fee v (ra_amount args)) (\<lambda>deposit_fee.
     require (ra_amount args > deposit_fee) (Vault_Err InsufficientDepositAmount) (
     try_ok (validate_asset_mint_extensions E asset_mint) (\<lambda>_.
     try_ok (transfer_assets_from_user_to_pending_vault E accts asset_mint (ra_amount args)
       (w_ledger w)) (\<lambda>L.
     let r = \<lparr>req_vault = cdr_vault accts, req_request_type = Deposit,
              req_request_state = Pending, req_owner = cdr_user accts,
              req_amount = ra_amount args, req_price = request_nav ctx v,
              req_asset_mint_address = cdr_asset_mint accts,
              req_share_mint_address = cdr_share_mint accts,
              req_created_at = env_unix_timestamp E,
              req_nav_update_version = v_nav_version v, req_operator = ra_operator args,
              req_tlv = replicate (compute_request_extension_space v) 0\<rparr> in
     arith (checked_add (v_pending_async_requests v) 1) (\<lambda>pending_async_requests.
     try_ok (add_pending_deposit is_primary_asset (ra_amount args)
       (v\<lparr>v_pending_async_requests := pending_async_requests\<rparr>) vault_asset) (\<lambda>(v, vault_asset).
     try_ok (assign_queue_id SubscriptionQueue_ext v (w_tranche_configs w) ctx (cdr_share_mint accts)
       Deposit remaining_accounts) (\<lambda>(v, tcs, queue_id).
     try_ok (tag_request SubscriptionQueueRequest r queue_id) (\<lambda>r.
     Inr (w\<lparr>w_ledger := L,
            w_vaults := (w_vaults w)(cdr_vault accts \<mapsto> v),
            w_requests := (w_requests w)(cdr_request accts \<mapsto> r),
            w_vault_assets := put_opt (w_vault_assets w) (cdr_vault_asset accts) vault_asset,
            w_tranche_configs := tcs\<rparr>))))))))))))))))))))))))))"

subsection \<open>Creating a redeem request\<close>

record CreateRedeemRequest =
  crr_user :: pubkey
  crr_asset_mint :: pubkey
  crr_share_mint :: pubkey
  crr_vault :: pubkey
  crr_vault_asset :: "pubkey option"
  crr_request :: pubkey
  crr_user_share_account :: pubkey
  crr_share_token_program :: pubkey

definition burn_shares :: "env \<Rightarrow> CreateRedeemRequest \<Rightarrow> u64 \<Rightarrow> ledger \<Rightarrow> ledger result" where
  "burn_shares E accts amount L =
     burn E (crr_share_token_program accts) (crr_share_mint accts) (crr_user_share_account accts)
       (crr_user accts) amount L"

definition create_redeem_request ::
  "env \<Rightarrow> CreateRedeemRequest \<Rightarrow> account_info list \<Rightarrow> RequestArgs \<Rightarrow> world \<Rightarrow> world result" where
  "create_redeem_request E accts remaining_accounts args w =
     load (l_mints (w_ledger w)) (crr_asset_mint accts) (\<lambda>asset_mint.
     load (l_mints (w_ledger w)) (crr_share_mint accts) (\<lambda>share_mint.
     load (w_vaults w) (crr_vault accts) (\<lambda>v.
     load_opt (w_vault_assets w) (crr_vault_asset accts) (\<lambda>vault_asset.
     init_account w (crr_request accts) (
     load (l_tokens (w_ledger w)) (crr_user_share_account accts) (\<lambda>user_share_account.
     token_interface E (crr_share_token_program accts) (
     vault_pda E (crr_vault accts) v (
     token_constraints user_share_account (crr_share_mint accts) (crr_user accts) (
     try_ok (Vault_assert_unpaused_and_initialized v) (\<lambda>_.
     try_ok (validate_request_share_mint E w v (crr_vault accts) (crr_share_mint accts)
       remaining_accounts) (\<lambda>ctx.
     try_ok
       (if \<not> Vault_is_primary_asset v (crr_asset_mint accts) then
          ok_or vault_asset (Vault_Err InvalidAssetMint) (\<lambda>va.
          VaultAsset_assert_matches va (crr_vault accts) (crr_asset_mint accts))
        else Inr ()) (\<lambda>_.
     try_ok (check_redemptions_paused v) (\<lambda>_.
     try_ok (check_min_redemption_amount v (ra_amount args)) (\<lambda>_.
     require (ra_amount args > 0) (Vault_Err InsufficientRedeemAmount) (
     try_ok (enforce_tranche_request_limits ctx (crr_share_mint accts) Redeem (ra_amount args)) (\<lambda>_.
     try_ok (burn_shares E accts (ra_amount args) (w_ledger w)) (\<lambda>L.
     let r = \<lparr>req_vault = crr_vault accts, req_request_type = Redeem,
              req_request_state = Pending, req_owner = crr_user accts,
              req_amount = ra_amount args, req_price = request_nav ctx v,
              req_asset_mint_address = crr_asset_mint accts,
              req_share_mint_address = crr_share_mint accts,
              req_created_at = env_unix_timestamp E,
              req_nav_update_version = v_nav_version v, req_operator = ra_operator args,
              req_tlv = replicate (compute_request_extension_space v) 0\<rparr> in
     arith (checked_add (v_pending_async_requests v) 1) (\<lambda>pending_async_requests.
     try_ok (assign_queue_id RedemptionQueue_ext
       (v\<lparr>v_pending_async_requests := pending_async_requests\<rparr>) (w_tranche_configs w) ctx
       (crr_share_mint accts) Redeem remaining_accounts) (\<lambda>(v, tcs, queue_id).
     try_ok (tag_request RedemptionQueueRequest r queue_id) (\<lambda>r.
     Inr (w\<lparr>w_ledger := L,
            w_vaults := (w_vaults w)(crr_vault accts \<mapsto> v),
            w_requests := (w_requests w)(crr_request accts \<mapsto> r),
            w_tranche_configs := tcs\<rparr>)))))))))))))))))))))"

subsection \<open>Delegating the claim\<close>

record SetOperator =
  so_user :: pubkey
  so_operator :: pubkey
  so_request :: pubkey

definition set_operator :: "SetOperator \<Rightarrow> world \<Rightarrow> world result" where
  "set_operator accts w =
     load (w_requests w) (so_request accts) (\<lambda>r.
     require (so_user accts = req_owner r) (Vault_Err UnauthorizedSigner) (
     Inr (w\<lparr>w_requests := (w_requests w)(so_request accts \<mapsto>
            r\<lparr>req_operator := Some (so_operator accts)\<rparr>)\<rparr>)))"

subsection \<open>Refunds\<close>

text \<open>
  The refund of a deposit leaves the escrow the deposit went to, and the pending amount shrinks
  by it; the refund of a redemption mints the burnt shares again.
\<close>

definition assert_refund_escrow ::
  "vault \<Rightarrow> VaultAsset option \<Rightarrow> pubkey \<Rightarrow> pubkey \<Rightarrow> pubkey \<Rightarrow> unit result" where
  "assert_refund_escrow v vault_asset vault_key asset_mint pending_vault =
     (if Vault_is_primary_asset v asset_mint then
        require (v_pending_vault v = pending_vault) (Vault_Err InvalidPendingVault) (Inr ())
      else
        ok_or vault_asset (Vault_Err InvalidAssetMint) (\<lambda>va.
        try_ok (VaultAsset_assert_matches va vault_key asset_mint) (\<lambda>_.
        VaultAsset_assert_pending_vault va pending_vault)))"

definition release_pending_deposit ::
  "bool \<Rightarrow> u64 \<Rightarrow> vault \<Rightarrow> VaultAsset option \<Rightarrow> (vault \<times> VaultAsset option) result" where
  "release_pending_deposit is_primary_asset refund_amount v vault_asset =
     (if is_primary_asset then
        arith (checked_sub (v_pending_deposit_amount v) refund_amount) (\<lambda>pending.
        Inr (v\<lparr>v_pending_deposit_amount := pending\<rparr>, vault_asset))
      else
        ok_or vault_asset (Vault_Err InvalidAssetMint) (\<lambda>va.
        arith (checked_sub (va_pending_deposit_amount va) refund_amount) (\<lambda>pending.
        Inr (v, Some (va\<lparr>va_pending_deposit_amount := pending\<rparr>)))))"

text \<open>
  \<open>transfer_assets_to_user\<close> and \<open>mint_shares\<close>: the accounts they need are optional in the
  accounts struct of \<open>cancel_request\<close> and \<open>reject_request\<close>.
\<close>

definition transfer_assets_to_user ::
  "env \<Rightarrow> pubkey \<Rightarrow> vault \<Rightarrow> pubkey \<Rightarrow> mint_account \<Rightarrow> pubkey option \<Rightarrow> pubkey option \<Rightarrow>
   pubkey option \<Rightarrow> u64 \<Rightarrow> ledger \<Rightarrow> ledger result" where
  "transfer_assets_to_user E vault_key v asset_mint_key asset_mint pending_vault user_token_account
     asset_token_program amount L =
     ok_or pending_vault (Vault_Err MissingRequiredAccount) (\<lambda>src.
     ok_or user_token_account (Vault_Err MissingRequiredAccount) (\<lambda>dst.
     ok_or asset_token_program (Vault_Err MissingRequiredAccount) (\<lambda>program.
     signed_by E (signer_seeds v) vault_key (
     transfer_checked E program src asset_mint_key dst vault_key amount (mint_decimals asset_mint) L))))"

definition mint_shares ::
  "env \<Rightarrow> pubkey \<Rightarrow> vault \<Rightarrow> pubkey \<Rightarrow> pubkey option \<Rightarrow> pubkey option \<Rightarrow> u64 \<Rightarrow> ledger \<Rightarrow>
   ledger result" where
  "mint_shares E vault_key v share_mint_key user_share_account share_token_program amount L =
     ok_or user_share_account (Vault_Err MissingRequiredAccount) (\<lambda>dst.
     ok_or share_token_program (Vault_Err MissingRequiredAccount) (\<lambda>program.
     signed_by E (signer_seeds v) vault_key (
     mint_to E program share_mint_key dst vault_key amount L)))"

definition refund_deposit ::
  "env \<Rightarrow> pubkey \<Rightarrow> vault \<Rightarrow> pubkey \<Rightarrow> mint_account \<Rightarrow> VaultAsset option \<Rightarrow> pubkey option \<Rightarrow>
   pubkey option \<Rightarrow> pubkey option \<Rightarrow> u64 \<Rightarrow> ledger \<Rightarrow> (vault \<times> VaultAsset option \<times> ledger) result" where
  "refund_deposit E vault_key v asset_mint_key asset_mint vault_asset pending_vault
     user_token_account asset_token_program refund_amount L =
     (let is_primary_asset = Vault_is_primary_asset v asset_mint_key in
      if \<not> is_primary_asset \<and> vault_asset = None then Inl (Vault_Err InvalidAssetMint)
      else
        ok_or pending_vault (Vault_Err MissingRequiredAccount) (\<lambda>src.
        try_ok (assert_refund_escrow v vault_asset vault_key asset_mint_key src) (\<lambda>_.
        try_ok (transfer_assets_to_user E vault_key v asset_mint_key asset_mint pending_vault
          user_token_account asset_token_program refund_amount L) (\<lambda>L.
        try_ok (release_pending_deposit is_primary_asset refund_amount v vault_asset)
          (\<lambda>(v, vault_asset). Inr (v, vault_asset, L))))))"

definition validate_queue_extension_constraints :: "request \<Rightarrow> unit result" where
  "validate_queue_extension_constraints r =
     (case req_request_type r of
        Deposit \<Rightarrow>
          require (\<not> has_request_extension SubscriptionQueueRequest r)
            (Vault_Err MustUseCancelQueuedDepositRequest) (Inr ())
      | Redeem \<Rightarrow>
          require (\<not> has_request_extension RedemptionQueueRequest r)
            (Vault_Err MustUseCancelQueuedRedemptionRequest) (Inr ()))"

text \<open>An optional token account whose constraint names an optional token program.\<close>

definition opt_token_constraints ::
  "token_account option \<Rightarrow> pubkey \<Rightarrow> pubkey \<Rightarrow> 'a result \<Rightarrow> 'a result" where
  "opt_token_constraints t mint authority f =
     (case t of None \<Rightarrow> f | Some t \<Rightarrow> token_constraints t mint authority f)"

definition opt_token_constraints_program ::
  "token_account option \<Rightarrow> pubkey \<Rightarrow> pubkey \<Rightarrow> pubkey option \<Rightarrow> 'a result \<Rightarrow> 'a result" where
  "opt_token_constraints_program t mint authority program f =
     (case t of
        None \<Rightarrow> f
      | Some t \<Rightarrow>
          ok_or program (Anchor_Err ConstraintAccountIsNone) (\<lambda>program.
          token_constraints_program t mint authority program f))"

definition opt_token_interface :: "env \<Rightarrow> pubkey option \<Rightarrow> 'a result \<Rightarrow> 'a result" where
  "opt_token_interface E program f =
     (case program of None \<Rightarrow> f | Some p \<Rightarrow> token_interface E p f)"

lemma opt_token_constraints_Inr [res_simps]:
  "opt_token_constraints t m a f = Inr x \<longleftrightarrow>
     f = Inr x \<and> (\<forall>t'. t = Some t' \<longrightarrow> ta_owner t' = a \<and> ta_mint t' = m)"
  by (auto simp: opt_token_constraints_def res_simps split: option.splits)

lemma opt_token_constraints_program_Inr [res_simps]:
  "opt_token_constraints_program t m a p f = Inr x \<longleftrightarrow>
     f = Inr x \<and> (\<forall>t'. t = Some t' \<longrightarrow> ta_owner t' = a \<and> ta_mint t' = m \<and> p = Some (ta_program t'))"
  by (auto simp: opt_token_constraints_program_def res_simps split: option.splits)

lemma opt_token_interface_Inr [res_simps]:
  "opt_token_interface E p f = Inr x \<longleftrightarrow> f = Inr x \<and> (\<forall>p'. p = Some p' \<longrightarrow> is_token_program E p')"
  by (auto simp: opt_token_interface_def res_simps split: option.splits)

lemmas opt_constraint_defs =
  opt_token_constraints_def opt_token_constraints_program_def opt_token_interface_def

subsection \<open>Cancelling a request\<close>

record CancelRequest =
  ca_user :: pubkey
  ca_asset_mint :: pubkey
  ca_share_mint :: pubkey
  ca_vault :: pubkey
  ca_vault_asset :: "pubkey option"
  ca_request :: pubkey
  ca_user_token_account :: "pubkey option"
  ca_asset_pending_vault :: "pubkey option"
  ca_user_share_account :: "pubkey option"
  ca_share_token_program :: "pubkey option"
  ca_asset_token_program :: "pubkey option"

definition cancel_request ::
  "env \<Rightarrow> CancelRequest \<Rightarrow> account_info list \<Rightarrow> world \<Rightarrow> world result" where
  "cancel_request E accts remaining_accounts w =
     load (l_mints (w_ledger w)) (ca_asset_mint accts) (\<lambda>asset_mint.
     load (l_mints (w_ledger w)) (ca_share_mint accts) (\<lambda>share_mint.
     load (w_vaults w) (ca_vault accts) (\<lambda>v.
     load_opt (w_vault_assets w) (ca_vault_asset accts) (\<lambda>vault_asset.
     load (w_requests w) (ca_request accts) (\<lambda>r.
     load_opt (l_tokens (w_ledger w)) (ca_user_token_account accts) (\<lambda>user_token_account.
     load_opt (l_tokens (w_ledger w)) (ca_asset_pending_vault accts) (\<lambda>asset_pending_vault.
     load_opt (l_tokens (w_ledger w)) (ca_user_share_account accts) (\<lambda>user_share_account.
     opt_token_interface E (ca_share_token_program accts) (
     opt_token_interface E (ca_asset_token_program accts) (
     vault_pda E (ca_vault accts) v (
     require (req_vault r = ca_vault accts) (Anchor_Err ConstraintHasOne) (
     require (req_owner r = ca_user accts) (Vault_Err UnauthorizedSigner) (
     opt_token_constraints user_token_account (ca_asset_mint accts) (ca_user accts) (
     opt_token_constraints_program asset_pending_vault (ca_asset_mint accts) (ca_vault accts)
       (ca_asset_token_program accts) (
     opt_token_constraints_program user_share_account (ca_share_mint accts) (ca_user accts)
       (ca_share_token_program accts) (
     try_ok (Vault_assert_unpaused_and_initialized v) (\<lambda>_.
     require (req_request_state r = Pending) (Vault_Err RequestIsNotPending) (
     require (req_asset_mint_address r = ca_asset_mint accts) (Vault_Err InvalidAssetMint) (
     require (req_share_mint_address r = ca_share_mint accts) (Vault_Err InvalidShareMint) (
     try_ok (validate_request_share_mint E w v (ca_vault accts) (ca_share_mint accts)
       remaining_accounts) (\<lambda>_.
     try_ok (validate_queue_extension_constraints r) (\<lambda>_.
     try_ok
       (case req_request_type r of
          Deposit \<Rightarrow>
            refund_deposit E (ca_vault accts) v (ca_asset_mint accts) asset_mint vault_asset
              (ca_asset_pending_vault accts) (ca_user_token_account accts)
              (ca_asset_token_program accts) (req_amount r) (w_ledger w)
        | Redeem \<Rightarrow>
            try_ok (mint_shares E (ca_vault accts) v (ca_share_mint accts)
              (ca_user_share_account accts) (ca_share_token_program accts) (req_amount r)
              (w_ledger w)) (\<lambda>L. Inr (v, vault_asset, L))) (\<lambda>(v, vault_asset, L).
     arith (checked_sub (v_pending_async_requests v) 1) (\<lambda>pending_async_requests.
     Inr (w\<lparr>w_ledger := L,
            w_vaults := (w_vaults w)(ca_vault accts \<mapsto>
              v\<lparr>v_pending_async_requests := pending_async_requests\<rparr>),
            w_requests := close (w_requests w) (ca_request accts),
            w_vault_assets := put_opt (w_vault_assets w) (ca_vault_asset accts) vault_asset\<rparr>
     )))))))))))))))))))))))))"

subsection \<open>Cancelling a queued request\<close>

record CancelQueuedDepositRequest =
  cqd_user :: pubkey
  cqd_asset_mint :: pubkey
  cqd_share_mint :: pubkey
  cqd_vault :: pubkey
  cqd_vault_asset :: "pubkey option"
  cqd_request :: pubkey
  cqd_user_token_account :: pubkey
  cqd_asset_pending_vault :: pubkey
  cqd_asset_token_program :: pubkey

definition cancel_queued_deposit_request ::
  "env \<Rightarrow> CancelQueuedDepositRequest \<Rightarrow> account_info list \<Rightarrow> world \<Rightarrow> world result" where
  "cancel_queued_deposit_request E accts remaining_accounts w =
     load (l_mints (w_ledger w)) (cqd_asset_mint accts) (\<lambda>asset_mint.
     load (l_mints (w_ledger w)) (cqd_share_mint accts) (\<lambda>share_mint.
     load (w_vaults w) (cqd_vault accts) (\<lambda>v.
     load_opt (w_vault_assets w) (cqd_vault_asset accts) (\<lambda>vault_asset.
     load (w_requests w) (cqd_request accts) (\<lambda>r.
     load (l_tokens (w_ledger w)) (cqd_user_token_account accts) (\<lambda>user_token_account.
     load (l_tokens (w_ledger w)) (cqd_asset_pending_vault accts) (\<lambda>asset_pending_vault.
     token_interface E (cqd_asset_token_program accts) (
     vault_pda E (cqd_vault accts) v (
     require (req_vault r = cqd_vault accts) (Anchor_Err ConstraintHasOne) (
     require (req_owner r = cqd_user accts) (Vault_Err UnauthorizedSigner) (
     require (req_request_type r = Deposit) (Vault_Err InvalidRequestType) (
     token_constraints user_token_account (cqd_asset_mint accts) (cqd_user accts) (
     token_constraints_program asset_pending_vault (cqd_asset_mint accts) (cqd_vault accts)
       (cqd_asset_token_program accts) (
     try_ok (Vault_assert_unpaused_and_initialized v) (\<lambda>_.
     require (req_request_state r = Pending) (Vault_Err RequestIsNotPending) (
     require (has_request_extension SubscriptionQueueRequest r) (Vault_Err UninitializedExtension) (
     require (req_asset_mint_address r = cqd_asset_mint accts) (Vault_Err InvalidAssetMint) (
     require (req_share_mint_address r = cqd_share_mint accts) (Vault_Err InvalidShareMint) (
     try_ok (validate_request_share_mint E w v (cqd_vault accts) (cqd_share_mint accts)
       remaining_accounts) (\<lambda>_.
     try_ok (assert_refund_escrow v vault_asset (cqd_vault accts) (cqd_asset_mint accts)
       (cqd_asset_pending_vault accts)) (\<lambda>_.
     try_ok
       (signed_by E (signer_seeds v) (cqd_vault accts) (
        transfer_checked E (cqd_asset_token_program accts) (cqd_asset_pending_vault accts)
          (cqd_asset_mint accts) (cqd_user_token_account accts) (cqd_vault accts) (req_amount r)
          (mint_decimals asset_mint) (w_ledger w))) (\<lambda>L.
     try_ok (release_pending_deposit (Vault_is_primary_asset v (cqd_asset_mint accts)) (req_amount r)
       v vault_asset) (\<lambda>(v, vault_asset).
     arith (checked_sub (v_pending_async_requests v) 1) (\<lambda>pending_async_requests.
     Inr (w\<lparr>w_ledger := L,
            w_vaults := (w_vaults w)(cqd_vault accts \<mapsto>
              v\<lparr>v_pending_async_requests := pending_async_requests\<rparr>),
            w_requests := (w_requests w)(cqd_request accts \<mapsto> r\<lparr>req_request_state := Canceled\<rparr>),
            w_vault_assets := put_opt (w_vault_assets w) (cqd_vault_asset accts) vault_asset\<rparr>
     )))))))))))))))))))))))))"

record CancelQueuedRedemptionRequest =
  cqr_user :: pubkey
  cqr_asset_mint :: pubkey
  cqr_share_mint :: pubkey
  cqr_vault :: pubkey
  cqr_request :: pubkey
  cqr_user_share_account :: pubkey
  cqr_share_token_program :: pubkey

definition cancel_queued_redemption_request ::
  "env \<Rightarrow> CancelQueuedRedemptionRequest \<Rightarrow> account_info list \<Rightarrow> world \<Rightarrow> world result" where
  "cancel_queued_redemption_request E accts remaining_accounts w =
     load (l_mints (w_ledger w)) (cqr_asset_mint accts) (\<lambda>asset_mint.
     load (l_mints (w_ledger w)) (cqr_share_mint accts) (\<lambda>share_mint.
     load (w_vaults w) (cqr_vault accts) (\<lambda>v.
     load (w_requests w) (cqr_request accts) (\<lambda>r.
     load (l_tokens (w_ledger w)) (cqr_user_share_account accts) (\<lambda>user_share_account.
     token_interface E (cqr_share_token_program accts) (
     vault_pda E (cqr_vault accts) v (
     require (v_asset_mint v = cqr_asset_mint accts) (Vault_Err InvalidAssetMint) (
     require (req_vault r = cqr_vault accts) (Anchor_Err ConstraintHasOne) (
     require (req_owner r = cqr_user accts) (Vault_Err UnauthorizedSigner) (
     require (req_request_type r = Redeem) (Vault_Err InvalidRequestType) (
     token_constraints_program user_share_account (cqr_share_mint accts) (cqr_user accts)
       (cqr_share_token_program accts) (
     try_ok (Vault_assert_unpaused_and_initialized v) (\<lambda>_.
     require (req_request_state r = Pending) (Vault_Err RequestIsNotPending) (
     require (has_request_extension RedemptionQueueRequest r) (Vault_Err UninitializedExtension) (
     require (req_asset_mint_address r = cqr_asset_mint accts) (Vault_Err InvalidAssetMint) (
     require (req_share_mint_address r = cqr_share_mint accts) (Vault_Err InvalidShareMint) (
     try_ok (validate_request_share_mint E w v (cqr_vault accts) (cqr_share_mint accts)
       remaining_accounts) (\<lambda>_.
     try_ok
       (signed_by E (signer_seeds v) (cqr_vault accts) (
        mint_to E (cqr_share_token_program accts) (cqr_share_mint accts)
          (cqr_user_share_account accts) (cqr_vault accts) (req_amount r) (w_ledger w))) (\<lambda>L.
     arith (checked_sub (v_pending_async_requests v) 1) (\<lambda>pending_async_requests.
     Inr (w\<lparr>w_ledger := L,
            w_vaults := (w_vaults w)(cqr_vault accts \<mapsto>
              v\<lparr>v_pending_async_requests := pending_async_requests\<rparr>),
            w_requests := (w_requests w)(cqr_request accts \<mapsto> r\<lparr>req_request_state := Canceled\<rparr>)\<rparr>
     )))))))))))))))))))))"

subsection \<open>Skipping a canceled request\<close>

record SkipCanceledQueueRequest =
  sc_vault :: pubkey
  sc_request :: pubkey
  sc_owner :: pubkey

definition skip_canceled_queue_request ::
  "env \<Rightarrow> SkipCanceledQueueRequest \<Rightarrow> account_info list \<Rightarrow> world \<Rightarrow> world result" where
  "skip_canceled_queue_request E accts remaining_accounts w =
     load (w_vaults w) (sc_vault accts) (\<lambda>v.
     load (w_requests w) (sc_request accts) (\<lambda>r.
     require (req_vault r = sc_vault accts) (Anchor_Err ConstraintHasOne) (
     require (req_owner r = sc_owner accts) (Anchor_Err ConstraintHasOne) (
     require (req_request_state r = Canceled) (Vault_Err RequestIsNotCanceled) (
     try_ok (validate_request_share_mint E w v (sc_vault accts) (req_share_mint_address r)
       remaining_accounts) (\<lambda>ctx.
     try_ok (check_fifo_ordering v (w_tranche_configs w) ctx (req_share_mint_address r) r
       remaining_accounts) (\<lambda>(v, tcs).
     Inr (w\<lparr>w_vaults := (w_vaults w)(sc_vault accts \<mapsto> v),
            w_requests := close (w_requests w) (sc_request accts),
            w_tranche_configs := tcs\<rparr>))))))))"

end
