(* ===== verification/Settlement.thy ===== *)
theory Settlement
  imports Fees Rolling_Limit Requests
begin

text \<open>
  The vault's side of the request lifecycle: \<open>approve_request\<close> (with the junior ratio floor, the
  tranche supply cache, the fees and the accounting of a settlement), \<open>reject_request\<close> and
  \<open>claim\<close>.
\<close>

subsection \<open>Tranche checks of an approval\<close>

definition assets_from_supply :: "u64 \<Rightarrow> u8 \<Rightarrow> u128 \<Rightarrow> u128 result" where
  "assets_from_supply supply decimals nav =
     (if supply = 0 \<or> nav = 0 then Inr 0
      else
        arith (checked_pow 10 (unat decimals)) (\<lambda>precision.
        arith (checked_mul (widen supply) nav) (\<lambda>product.
        arith (checked_div product precision) Inr)))"

definition require_token_mint_account :: "env \<Rightarrow> account_info \<Rightarrow> unit result" where
  "require_token_mint_account E info =
     require (is_token_program E (ai_owner info)) (Vault_Err InvalidShareMint) (Inr ())"

definition post_approval_supply :: "u64 \<Rightarrow> u64 \<Rightarrow> RequestType \<Rightarrow> u64 \<Rightarrow> u64 result" where
  "post_approval_supply cached_supply live_supply_after_request request_type share_delta =
     (if request_type = Deposit then
        arith (checked_add (max cached_supply live_supply_after_request) share_delta) Inr
      else
        arith (checked_add live_supply_after_request share_delta) (\<lambda>live_supply_before_request.
        arith (checked_sub (max cached_supply live_supply_before_request) share_delta) Inr))"

text \<open>The iterator over the remaining accounts is the list of those not yet taken.\<close>

definition next_account ::
  "account_info list \<Rightarrow> AsyncVaultError \<Rightarrow> (account_info \<Rightarrow> account_info list \<Rightarrow> 'a result) \<Rightarrow> 'a result" where
  "next_account remaining e f =
     (case remaining of [] \<Rightarrow> Inl (Vault_Err e) | info # rest \<Rightarrow> f info rest)"

lemma next_account_Inr [res_simps]:
  "next_account xs e f = Inr r \<longleftrightarrow> (\<exists>x rest. xs = x # rest \<and> f x rest = Inr r)"
  by (cases xs) (simp_all add: next_account_def)

definition junior_ratio_bps ::
  "vault \<Rightarrow> TrancheRequestInfo \<Rightarrow> u64 \<Rightarrow> u8 \<Rightarrow> u64 \<Rightarrow> u8 \<Rightarrow> u128 option result" where
  "junior_ratio_bps v info senior_supply senior_decimals junior_supply junior_decimals =
     (let senior_nav = if tri_senior_nav info > 0 then tri_senior_nav info else v_nav v;
          junior_nav = if tri_junior_nav info > 0 then tri_junior_nav info else v_nav v in
      try_ok (assets_from_supply senior_supply senior_decimals senior_nav) (\<lambda>senior_assets.
      try_ok (assets_from_supply junior_supply junior_decimals junior_nav) (\<lambda>junior_assets.
      arith (checked_add senior_assets junior_assets) (\<lambda>total_assets.
      if total_assets = 0 then Inr None
      else
        arith (checked_mul junior_assets (widen MAX_BPS)) (\<lambda>scaled.
        arith (checked_div scaled total_assets) (\<lambda>ratio. Inr (Some ratio)))))))"

definition maybe_enforce_junior_ratio_floor ::
  "env \<Rightarrow> vault \<Rightarrow> pubkey \<Rightarrow> RequestType \<Rightarrow> u64 \<Rightarrow> TrancheRequestInfo option \<Rightarrow> account_info list \<Rightarrow>
   account_info list result" where
  "maybe_enforce_junior_ratio_floor E v selected_share_mint request_type share_delta tranche_info
     remaining =
     (case tranche_info of
        None \<Rightarrow> Inr remaining
      | Some info \<Rightarrow>
          if tri_min_junior_ratio_bps info = 0 then Inr remaining
          else if \<not> (request_type = Deposit \<and> selected_share_mint = tri_senior_share_mint info)
               \<and> \<not> (request_type = Redeem \<and> selected_share_mint = tri_junior_share_mint info)
          then Inr remaining
          else
            next_account remaining MissingRequiredAccount (\<lambda>senior_info remaining.
            next_account remaining MissingRequiredAccount (\<lambda>junior_info remaining.
            require (ai_key senior_info = tri_senior_share_mint info) (Vault_Err InvalidShareMint) (
            require (ai_key junior_info = tri_junior_share_mint info) (Vault_Err InvalidShareMint) (
            try_ok (require_token_mint_account E senior_info) (\<lambda>_.
            try_ok (require_token_mint_account E junior_info) (\<lambda>_.
            try_ok (read_mint_supply_and_decimals senior_info) (\<lambda>(senior_live_supply, senior_decimals).
            try_ok (read_mint_supply_and_decimals junior_info) (\<lambda>(junior_live_supply, junior_decimals).
            try_ok
              (if selected_share_mint = tri_senior_share_mint info
               then post_approval_supply (tri_senior_supply info) senior_live_supply request_type share_delta
               else Inr (max senior_live_supply (tri_senior_supply info))) (\<lambda>senior_supply.
            try_ok
              (if selected_share_mint = tri_junior_share_mint info
               then post_approval_supply (tri_junior_supply info) junior_live_supply request_type share_delta
               else Inr (max junior_live_supply (tri_junior_supply info))) (\<lambda>junior_supply.
            try_ok (junior_ratio_bps v info senior_supply senior_decimals junior_supply junior_decimals) (\<lambda>ratio.
            case ratio of
              None \<Rightarrow> Inr remaining
            | Some ratio \<Rightarrow>
                require (ratio \<ge> widen (tri_min_junior_ratio_bps info)) (Vault_Err JuniorRatioBelowMinimum) (
                Inr remaining)))))))))))))"

definition update_tranche_supply_cache ::
  "TrancheConfig accounts \<Rightarrow> pubkey \<Rightarrow> RequestType \<Rightarrow> u64 \<Rightarrow> u64 \<Rightarrow> TrancheRequestInfo option \<Rightarrow>
   account_info option \<Rightarrow> TrancheConfig accounts result" where
  "update_tranche_supply_cache tcs selected_share_mint request_type share_delta
     selected_live_supply_after_request tranche_info tranche_config_info =
     (case tranche_info of
        None \<Rightarrow> Inr tcs
      | Some info \<Rightarrow>
          ok_or tranche_config_info (Vault_Err MissingRequiredAccount) (\<lambda>config_info.
          require (ai_is_writable config_info) (Vault_Err MissingRequiredAccount) (
          load tcs (ai_key config_info) (\<lambda>tc.
          try_ok
            (if selected_share_mint = tri_senior_share_mint info then
               try_ok (post_approval_supply (tri_senior_supply info) selected_live_supply_after_request
                 request_type share_delta) (\<lambda>s. Inr (tc\<lparr>tc_senior_supply := s\<rparr>))
             else if selected_share_mint = tri_junior_share_mint info then
               try_ok (post_approval_supply (tri_junior_supply info) selected_live_supply_after_request
                 request_type share_delta) (\<lambda>s. Inr (tc\<lparr>tc_junior_supply := s\<rparr>))
             else Inr tc) (\<lambda>tc.
          Inr (tcs(ai_key config_info \<mapsto> tc)))))))"

subsection \<open>Fees of a settlement\<close>

text \<open>
  The token accounts of the two fee recipients, taken from the remaining accounts when there is
  a fee to pay, and the transfers to them.
\<close>

definition fee_recipient_accounts ::
  "env \<Rightarrow> world \<Rightarrow> vault \<Rightarrow> u64 \<Rightarrow> u64 \<Rightarrow> account_info list \<Rightarrow>
   (account_info option \<times> account_info option) result" where
  "fee_recipient_accounts E w v fee_recipient_fee protocol_fee remaining =
     try_ok
       (if fee_recipient_fee > 0 then
          next_account remaining MissingFeeRecipient (\<lambda>info remaining.
          try_ok (validate_token_account_owner info (v_fee_recipient v)) (\<lambda>_.
          Inr (Some info, remaining)))
        else Inr (None, remaining)) (\<lambda>(fee_recipient_info, remaining).
     if protocol_fee > 0 then
       try_ok (resolve_protocol_fee_recipient E w v (get_at remaining 0)) (\<lambda>(recipient, consumed).
       let remaining = if consumed then drop 1 remaining else remaining in
       next_account remaining MissingFeeRecipient (\<lambda>info remaining.
       try_ok (validate_token_account_owner info recipient) (\<lambda>_.
       Inr (fee_recipient_info, Some info))))
     else Inr (fee_recipient_info, None))"

text \<open>\<open>transfer_asset_from_pending_vault\<close> and \<open>transfer_asset_from_vault\<close>: the source is the argument.\<close>

definition transfer_asset_from ::
  "env \<Rightarrow> pubkey \<Rightarrow> vault \<Rightarrow> pubkey \<Rightarrow> pubkey \<Rightarrow> mint_account \<Rightarrow> pubkey \<Rightarrow> pubkey \<Rightarrow> u64 \<Rightarrow>
   ledger \<Rightarrow> ledger result" where
  "transfer_asset_from E vault_key v program asset_mint_key asset_mint src dst amount L =
     signed_by E (signer_seeds v) vault_key (
     transfer_checked E program src asset_mint_key dst vault_key amount (mint_decimals asset_mint) L)"

definition pay_settlement ::
  "(pubkey \<Rightarrow> u64 \<Rightarrow> ledger \<Rightarrow> ledger result) \<Rightarrow> account_info option \<Rightarrow> u64 \<Rightarrow>
   account_info option \<Rightarrow> u64 \<Rightarrow> pubkey \<Rightarrow> u64 \<Rightarrow> ledger \<Rightarrow> ledger result" where
  "pay_settlement transfer fee_recipient_info fee_recipient_fee protocol_info protocol_fee dst net L =
     try_ok
       (case fee_recipient_info of
          None \<Rightarrow> Inr L | Some info \<Rightarrow> transfer (ai_key info) fee_recipient_fee L) (\<lambda>L.
     try_ok
       (case protocol_info of
          None \<Rightarrow> Inr L | Some info \<Rightarrow> transfer (ai_key info) protocol_fee L) (\<lambda>L.
     transfer dst net L))"

subsection \<open>Accounting of a settlement\<close>

definition account_deposit ::
  "bool \<Rightarrow> u64 \<Rightarrow> u64 \<Rightarrow> vault \<Rightarrow> VaultAsset option \<Rightarrow> (vault \<times> VaultAsset option) result" where
  "account_deposit is_primary_asset balance_delta original_amount v vault_asset =
     (if is_primary_asset then
        try_ok
          (if v_deposit_cap v > 0 then
             arith (checked_add (v_total_asset_balance v) balance_delta) (\<lambda>capped_total.
             require (capped_total \<le> v_deposit_cap v) (Vault_Err DepositCapExceeded) (Inr ()))
           else Inr ()) (\<lambda>_.
        arith (checked_add (v_total_asset_balance v) balance_delta) (\<lambda>total_asset_balance.
        arith (checked_sub (v_pending_deposit_amount v) original_amount) (\<lambda>pending_deposit_amount.
        Inr (v\<lparr>v_total_asset_balance := total_asset_balance,
               v_pending_deposit_amount := pending_deposit_amount\<rparr>, vault_asset))))
      else
        ok_or vault_asset (Vault_Err InvalidAssetMint) (\<lambda>va.
        arith (checked_add (va_idle_balance va) balance_delta) (\<lambda>idle_balance.
        arith (checked_sub (va_pending_deposit_amount va) original_amount) (\<lambda>pending_deposit_amount.
        Inr (v, Some (va\<lparr>va_idle_balance := idle_balance,
                        va_pending_deposit_amount := pending_deposit_amount\<rparr>))))))"

definition account_redeem ::
  "bool \<Rightarrow> u64 \<Rightarrow> vault \<Rightarrow> VaultAsset option \<Rightarrow> (vault \<times> VaultAsset option) result" where
  "account_redeem is_primary_asset balance_delta v vault_asset =
     (if is_primary_asset then
        arith (checked_sub (v_total_asset_balance v) balance_delta) (\<lambda>total_asset_balance.
        Inr (v\<lparr>v_total_asset_balance := total_asset_balance\<rparr>, vault_asset))
      else
        ok_or vault_asset (Vault_Err InvalidAssetMint) (\<lambda>va.
        arith (checked_sub (va_idle_balance va) balance_delta) (\<lambda>idle_balance.
        Inr (v, Some (va\<lparr>va_idle_balance := idle_balance\<rparr>)))))"

subsection \<open>Approving a request\<close>

record ApproveRequestArgs =
  ara_owner :: pubkey
  ara_request_type :: RequestType
  ara_amount :: u64
  ara_created_at :: i64
  ara_nav_update_version :: u64

record ApproveRequest =
  ar_authority :: pubkey
  ar_asset_mint :: pubkey
  ar_share_mint :: pubkey
  ar_vault :: pubkey
  ar_vault_asset :: "pubkey option"
  ar_request :: pubkey
  ar_vault_token_account :: pubkey
  ar_pending_vault :: pubkey
  ar_asset_token_program :: pubkey

text \<open>The caller restates the request it means, so that an account swapped under it is refused.\<close>

definition args_match_request :: "ApproveRequestArgs \<Rightarrow> request \<Rightarrow> bool" where
  "args_match_request args r \<longleftrightarrow>
     req_owner r = ara_owner args \<and> req_request_type r = ara_request_type args
     \<and> req_amount r = ara_amount args \<and> req_created_at r = ara_created_at args
     \<and> req_nav_update_version r = ara_nav_update_version args"

definition settle_deposit_request ::
  "env \<Rightarrow> world \<Rightarrow> ApproveRequest \<Rightarrow> mint_account \<Rightarrow> mint_account \<Rightarrow> vault \<Rightarrow> TrancheConfig accounts \<Rightarrow>
   RequestShareMintContext \<Rightarrow> u128 \<Rightarrow> u64 \<Rightarrow> account_info option \<Rightarrow> account_info list \<Rightarrow>
   (TrancheConfig accounts \<times> ledger \<times> u64 \<times> u64) result" where
  "settle_deposit_request E w accts asset_mint share_mint v tcs ctx nav original_amount
     tranche_config_info remaining =
     try_ok (get_deposit_fee_and_net v original_amount) (\<lambda>(deposit_fee, net_deposit).
     require (net_deposit > 0) (Vault_Err InsufficientDepositAmount) (
     try_ok (calculate_shares nav (mint_decimals share_mint) net_deposit) (\<lambda>shares.
     require (shares > 0) (Vault_Err InsufficientDepositAmount) (
     try_ok (maybe_enforce_junior_ratio_floor E v (ar_share_mint accts) Deposit shares
       (rsc_tranche_info ctx) remaining) (\<lambda>remaining.
     try_ok (update_tranche_supply_cache tcs (ar_share_mint accts) Deposit shares
       (mint_supply share_mint) (rsc_tranche_info ctx) tranche_config_info) (\<lambda>tcs.
     try_ok (split_protocol_fee deposit_fee (v_protocol_fee_bps v)) (\<lambda>(protocol_fee, fee_recipient_fee).
     try_ok (fee_recipient_accounts E w v fee_recipient_fee protocol_fee remaining)
       (\<lambda>(fee_recipient_info, protocol_info).
     try_ok (pay_settlement
       (transfer_asset_from E (ar_vault accts) v (ar_asset_token_program accts) (ar_asset_mint accts)
         asset_mint (ar_pending_vault accts))
       fee_recipient_info fee_recipient_fee protocol_info protocol_fee
       (ar_vault_token_account accts) net_deposit (w_ledger w)) (\<lambda>L.
     Inr (tcs, L, shares, net_deposit))))))))))"

definition settle_redeem_request ::
  "env \<Rightarrow> world \<Rightarrow> ApproveRequest \<Rightarrow> mint_account \<Rightarrow> mint_account \<Rightarrow> vault \<Rightarrow> TrancheConfig accounts \<Rightarrow>
   RequestShareMintContext \<Rightarrow> u128 \<Rightarrow> u64 \<Rightarrow> account_info option \<Rightarrow> account_info list \<Rightarrow>
   (vault \<times> TrancheConfig accounts \<times> ledger \<times> u64 \<times> u64) result" where
  "settle_redeem_request E w accts asset_mint share_mint v tcs ctx nav original_amount
     tranche_config_info remaining =
     try_ok (calculate_assets nav (mint_decimals share_mint) original_amount) (\<lambda>assets.
     try_ok (maybe_enforce_junior_ratio_floor E v (ar_share_mint accts) Redeem original_amount
       (rsc_tranche_info ctx) remaining) (\<lambda>remaining.
     try_ok (update_tranche_supply_cache tcs (ar_share_mint accts) Redeem original_amount
       (mint_supply share_mint) (rsc_tranche_info ctx) tranche_config_info) (\<lambda>tcs.
     try_ok (get_withdrawal_fee_and_net v assets) (\<lambda>(withdraw_fee, net_assets).
     try_ok (Vault_consume_redemption_rolling_limit v assets (env_slot E)) (\<lambda>v.
     try_ok (split_protocol_fee withdraw_fee (v_protocol_fee_bps v)) (\<lambda>(protocol_fee, fee_recipient_fee).
     try_ok (fee_recipient_accounts E w v fee_recipient_fee protocol_fee remaining)
       (\<lambda>(fee_recipient_info, protocol_info).
     try_ok (pay_settlement
       (transfer_asset_from E (ar_vault accts) v (ar_asset_token_program accts) (ar_asset_mint accts)
         asset_mint (ar_vault_token_account accts))
       fee_recipient_info fee_recipient_fee protocol_info protocol_fee
       (ar_pending_vault accts) net_assets (w_ledger w)) (\<lambda>L.
     Inr (v, tcs, L, net_assets, assets)))))))))"

definition assert_approval_accounts ::
  "vault \<Rightarrow> VaultAsset option \<Rightarrow> ApproveRequest \<Rightarrow> unit result" where
  "assert_approval_accounts v vault_asset accts =
     (if Vault_is_primary_asset v (ar_asset_mint accts) then
        require (v_vault_token_account v = ar_vault_token_account accts) (Vault_Err InvalidVault) (
        require (v_pending_vault v = ar_pending_vault accts) (Vault_Err InvalidPendingVault) (
        Inr ()))
      else
        ok_or vault_asset (Vault_Err InvalidAssetMint) (\<lambda>va.
        try_ok (VaultAsset_assert_matches va (ar_vault accts) (ar_asset_mint accts)) (\<lambda>_.
        try_ok (VaultAsset_assert_reserve va (ar_vault_token_account accts)) (\<lambda>_.
        try_ok (VaultAsset_assert_pending_vault va (ar_pending_vault accts)) (\<lambda>_.
        Inl (Vault_Err UnsupportedPhaseConfig))))))"

definition approve_request ::
  "env \<Rightarrow> ApproveRequest \<Rightarrow> account_info list \<Rightarrow> ApproveRequestArgs \<Rightarrow> world \<Rightarrow> world result" where
  "approve_request E accts remaining_accounts args w =
     load (l_mints (w_ledger w)) (ar_asset_mint accts) (\<lambda>asset_mint.
     load (l_mints (w_ledger w)) (ar_share_mint accts) (\<lambda>share_mint.
     load (w_vaults w) (ar_vault accts) (\<lambda>v.
     load_opt (w_vault_assets w) (ar_vault_asset accts) (\<lambda>vault_asset.
     load (w_requests w) (ar_request accts) (\<lambda>r.
     load (l_tokens (w_ledger w)) (ar_vault_token_account accts) (\<lambda>vault_token_account.
     load (l_tokens (w_ledger w)) (ar_pending_vault accts) (\<lambda>pending_vault.
     token_interface E (ar_asset_token_program accts) (
     vault_pda E (ar_vault accts) v (
     require (req_vault r = ar_vault accts) (Vault_Err InvalidRequest) (
     token_constraints_program vault_token_account (ar_asset_mint accts) (ar_vault accts)
       (ar_asset_token_program accts) (
     token_constraints_program pending_vault (ar_asset_mint accts) (ar_vault accts)
       (ar_asset_token_program accts) (
     try_ok (Vault_assert_unpaused_and_initialized v) (\<lambda>_.
     try_ok (Vault_assert_curator_or_fulfiller v (ar_authority accts)) (\<lambda>_.
     try_ok (validate_asset_mint_extensions E asset_mint) (\<lambda>_.
     require (req_request_state r = Pending) (Vault_Err RequestNotPending) (
     require (args_match_request args r) (Vault_Err ApprovalRequestMismatch) (
     require (req_asset_mint_address r = ar_asset_mint accts) (Vault_Err InvalidAssetMint) (
     require (req_share_mint_address r = ar_share_mint accts) (Vault_Err InvalidShareMint) (
     try_ok (validate_request_share_mint E w v (ar_vault accts) (ar_share_mint accts)
       remaining_accounts) (\<lambda>ctx.
     let is_primary_asset = Vault_is_primary_asset v (ar_asset_mint accts) in
     try_ok (assert_approval_accounts v vault_asset accts) (\<lambda>_.
     require (v_nav v > 0) (Vault_Err NavIsNotSet) (
     try_ok (Vault_assert_fresh_nav_for_request v (req_nav_update_version r)) (\<lambda>_.
     try_ok (Vault_assert_nav_not_stale v (env_slot E)) (\<lambda>_.
     let nav = request_nav ctx v; original_amount = req_amount r in
     try_ok (check_fifo_ordering v (w_tranche_configs w) ctx (ar_share_mint accts) r
       remaining_accounts) (\<lambda>(v, tcs).
     let remaining = drop (rsc_consumed_accounts ctx) remaining_accounts;
         tranche_config_info = get_at remaining_accounts 0 in
     try_ok
       (case req_request_type r of
          Deposit \<Rightarrow>
            try_ok (settle_deposit_request E w accts asset_mint share_mint v tcs ctx nav
              original_amount tranche_config_info remaining) (\<lambda>(tcs, L, claimable_amount, balance_delta).
            try_ok (account_deposit is_primary_asset balance_delta original_amount v vault_asset)
              (\<lambda>(v, vault_asset). Inr (v, vault_asset, tcs, L, claimable_amount)))
        | Redeem \<Rightarrow>
            try_ok (settle_redeem_request E w accts asset_mint share_mint v tcs ctx nav
              original_amount tranche_config_info remaining) (\<lambda>(v, tcs, L, claimable_amount, balance_delta).
            try_ok (account_redeem is_primary_asset balance_delta v vault_asset)
              (\<lambda>(v, vault_asset). Inr (v, vault_asset, tcs, L, claimable_amount))))
       (\<lambda>(v, vault_asset, tcs, L, claimable_amount).
     arith (checked_sub (v_pending_async_requests v) 1) (\<lambda>pending_async_requests.
     Inr (w\<lparr>w_ledger := L,
            w_vaults := (w_vaults w)(ar_vault accts \<mapsto>
              v\<lparr>v_pending_async_requests := pending_async_requests\<rparr>),
            w_requests := (w_requests w)(ar_request accts \<mapsto>
              r\<lparr>req_amount := claimable_amount, req_price := nav,
                req_request_state := Claimable\<rparr>),
            w_vault_assets := put_opt (w_vault_assets w) (ar_vault_asset accts) vault_asset,
            w_tranche_configs := tcs\<rparr>))))))))))))))))))))))))))))"

subsection \<open>Rejecting a request\<close>

record RejectRequest =
  rr_authority :: pubkey
  rr_asset_mint :: pubkey
  rr_share_mint :: pubkey
  rr_vault :: pubkey
  rr_vault_asset :: "pubkey option"
  rr_request :: pubkey
  rr_user :: pubkey
  rr_user_token_account :: "pubkey option"
  rr_asset_pending_vault :: "pubkey option"
  rr_user_share_account :: "pubkey option"
  rr_share_token_program :: "pubkey option"
  rr_asset_token_program :: "pubkey option"

definition reject_request ::
  "env \<Rightarrow> RejectRequest \<Rightarrow> account_info list \<Rightarrow> ApproveRequestArgs \<Rightarrow> world \<Rightarrow> world result" where
  "reject_request E accts remaining_accounts args w =
     load (l_mints (w_ledger w)) (rr_asset_mint accts) (\<lambda>asset_mint.
     load (l_mints (w_ledger w)) (rr_share_mint accts) (\<lambda>share_mint.
     load (w_vaults w) (rr_vault accts) (\<lambda>v.
     load_opt (w_vault_assets w) (rr_vault_asset accts) (\<lambda>vault_asset.
     load (w_requests w) (rr_request accts) (\<lambda>r.
     load_opt (l_tokens (w_ledger w)) (rr_user_token_account accts) (\<lambda>user_token_account.
     load_opt (l_tokens (w_ledger w)) (rr_asset_pending_vault accts) (\<lambda>asset_pending_vault.
     load_opt (l_tokens (w_ledger w)) (rr_user_share_account accts) (\<lambda>user_share_account.
     opt_token_interface E (rr_share_token_program accts) (
     opt_token_interface E (rr_asset_token_program accts) (
     vault_pda E (rr_vault accts) v (
     require (req_vault r = rr_vault accts) (Anchor_Err ConstraintHasOne) (
     require (req_owner r = rr_user accts) (Vault_Err UnauthorizedSigner) (
     opt_token_constraints user_token_account (rr_asset_mint accts) (rr_user accts) (
     opt_token_constraints_program asset_pending_vault (rr_asset_mint accts) (rr_vault accts)
       (rr_asset_token_program accts) (
     opt_token_constraints_program user_share_account (rr_share_mint accts) (rr_user accts)
       (rr_share_token_program accts) (
     try_ok (Vault_assert_curator_or_fulfiller v (rr_authority accts)) (\<lambda>_.
     require (req_request_state r = Pending) (Vault_Err RequestInvalidState) (
     require (args_match_request args r) (Vault_Err ApprovalRequestMismatch) (
     require (req_asset_mint_address r = rr_asset_mint accts) (Vault_Err InvalidAssetMint) (
     require (req_share_mint_address r = rr_share_mint accts) (Vault_Err InvalidShareMint) (
     try_ok (validate_request_share_mint E w v (rr_vault accts) (rr_share_mint accts)
       remaining_accounts) (\<lambda>ctx.
     try_ok (check_fifo_ordering v (w_tranche_configs w) ctx (rr_share_mint accts) r
       remaining_accounts) (\<lambda>(v, tcs).
     try_ok
       (case req_request_type r of
          Deposit \<Rightarrow>
            refund_deposit E (rr_vault accts) v (rr_asset_mint accts) asset_mint vault_asset
              (rr_asset_pending_vault accts) (rr_user_token_account accts)
              (rr_asset_token_program accts) (req_amount r) (w_ledger w)
        | Redeem \<Rightarrow>
            try_ok (mint_shares E (rr_vault accts) v (rr_share_mint accts)
              (rr_user_share_account accts) (rr_share_token_program accts) (req_amount r)
              (w_ledger w)) (\<lambda>L. Inr (v, vault_asset, L))) (\<lambda>(v, vault_asset, L).
     arith (checked_sub (v_pending_async_requests v) 1) (\<lambda>pending_async_requests.
     Inr (w\<lparr>w_ledger := L,
            w_vaults := (w_vaults w)(rr_vault accts \<mapsto>
              v\<lparr>v_pending_async_requests := pending_async_requests\<rparr>),
            w_requests := close (w_requests w) (rr_request accts),
            w_vault_assets := put_opt (w_vault_assets w) (rr_vault_asset accts) vault_asset,
            w_tranche_configs := tcs\<rparr>))))))))))))))))))))))))))"

subsection \<open>Claiming\<close>

record Claim =
  cl_user :: pubkey
  cl_owner :: pubkey
  cl_asset_mint :: pubkey
  cl_share_mint :: pubkey
  cl_vault :: pubkey
  cl_vault_asset :: "pubkey option"
  cl_request :: pubkey
  cl_pending_vault :: "pubkey option"
  cl_user_share_account :: "pubkey option"
  cl_user_asset_account :: "pubkey option"
  cl_asset_token_program :: pubkey
  cl_share_token_program :: "pubkey option"

definition claim :: "env \<Rightarrow> Claim \<Rightarrow> account_info list \<Rightarrow> world \<Rightarrow> world result" where
  "claim E accts remaining_accounts w =
     load (l_mints (w_ledger w)) (cl_asset_mint accts) (\<lambda>asset_mint.
     load (l_mints (w_ledger w)) (cl_share_mint accts) (\<lambda>share_mint.
     load (w_vaults w) (cl_vault accts) (\<lambda>v.
     load_opt (w_vault_assets w) (cl_vault_asset accts) (\<lambda>vault_asset.
     load (w_requests w) (cl_request accts) (\<lambda>r.
     load_opt (l_tokens (w_ledger w)) (cl_pending_vault accts) (\<lambda>pending_vault.
     load_opt (l_tokens (w_ledger w)) (cl_user_share_account accts) (\<lambda>user_share_account.
     load_opt (l_tokens (w_ledger w)) (cl_user_asset_account accts) (\<lambda>user_asset_account.
     token_interface E (cl_asset_token_program accts) (
     opt_token_interface E (cl_share_token_program accts) (
     vault_pda E (cl_vault accts) v (
     require (req_owner r = cl_owner accts) (Vault_Err InvalidRequest) (
     require (req_vault r = cl_vault accts) (Vault_Err InvalidRequest) (
     opt_token_constraints_program pending_vault (cl_asset_mint accts) (cl_vault accts)
       (Some (cl_asset_token_program accts)) (
     opt_token_constraints user_share_account (cl_share_mint accts) (req_owner r) (
     opt_token_constraints_program user_asset_account (cl_asset_mint accts) (req_owner r)
       (Some (cl_asset_token_program accts)) (
     try_ok (Vault_assert_unpaused_and_initialized v) (\<lambda>_.
     require (cl_user accts = req_owner r \<or> req_operator r = Some (cl_user accts))
       (Vault_Err UnauthorizedSigner) (
     require (req_request_state r = Claimable) (Vault_Err RequestNotClaimable) (
     require (req_asset_mint_address r = cl_asset_mint accts) (Vault_Err InvalidAssetMint) (
     require (req_share_mint_address r = cl_share_mint accts) (Vault_Err InvalidShareMint) (
     try_ok (validate_request_share_mint E w v (cl_vault accts) (cl_share_mint accts)
       remaining_accounts) (\<lambda>_.
     try_ok
       (case req_request_type r of
          Deposit \<Rightarrow>
            mint_shares E (cl_vault accts) v (cl_share_mint accts) (cl_user_share_account accts)
              (cl_share_token_program accts) (req_amount r) (w_ledger w)
        | Redeem \<Rightarrow>
            ok_or (cl_pending_vault accts) (Vault_Err MissingRequiredAccount) (\<lambda>src.
            try_ok (assert_refund_escrow v vault_asset (cl_vault accts) (cl_asset_mint accts) src) (\<lambda>_.
            transfer_assets_to_user E (cl_vault accts) v (cl_asset_mint accts) asset_mint
              (cl_pending_vault accts) (cl_user_asset_account accts)
              (Some (cl_asset_token_program accts)) (req_amount r) (w_ledger w)))) (\<lambda>L.
     Inr (w\<lparr>w_ledger := L, w_requests := close (w_requests w) (cl_request accts)\<rparr>
     ))))))))))))))))))))))))"

end
