(* ===== verification/Instant_Settlement.thy ===== *)
theory Instant_Settlement
  imports Vault_Admin Settlement
begin

text \<open>
  Instant deposits and redemptions: one instruction that prices at the current NAV, charges the
  fees, consumes the limits and moves shares and assets, for vaults that opted in. They share
  the per-user limit account and the payment of the fees.
\<close>

subsection \<open>The per-user limit account\<close>

text \<open>
  The account is created on first use: an unused address is turned into an account of zeroes,
  which \<open>ensure_initialized\<close> then takes over.
\<close>

definition zeroed_instant_user :: InstantSettlementUser where
  "zeroed_instant_user =
     \<lparr>isu_vault = Pubkey_default, isu_user = Pubkey_default, isu_deposit_window_start_slot = 0,
      isu_deposit_window_amount = 0, isu_redeem_window_start_slot = 0,
      isu_redeem_window_amount = 0, isu_bump = 0\<rparr>"

definition load_or_init_instant_settlement_user ::
  "env \<Rightarrow> world \<Rightarrow> pubkey \<Rightarrow> pubkey \<Rightarrow> pubkey \<Rightarrow> u8 \<Rightarrow> InstantSettlementUser result" where
  "load_or_init_instant_settlement_user E w instant_user vault_key user bump =
     (let (expected, expected_bump) =
        env_find_program_address E [INSTANT_USER_LIMIT_SEED, vault_key, user] in
      require (instant_user = expected) (Vault_Err InvalidVault) (
      require (bump = expected_bump) (Vault_Err InvalidVault) (
      case w_instant_users w instant_user of
        Some account \<Rightarrow> InstantSettlementUser_ensure_initialized account vault_key user bump
      | None \<Rightarrow>
          require (fresh w instant_user) (Anchor_Err AccountOwnedByWrongProgram) (
          signed_by E [INSTANT_USER_LIMIT_SEED, vault_key, user, [bump]] instant_user (
          InstantSettlementUser_ensure_initialized zeroed_instant_user vault_key user bump)))))"

text \<open>
  The part of both handlers that consumes a per-user limit: nothing happens for a zero limit;
  otherwise the account must be given, and \<open>consume\<close> is the bucket's routine.
\<close>

definition consume_user_limit ::
  "env \<Rightarrow> world \<Rightarrow> pubkey option \<Rightarrow> pubkey \<Rightarrow> pubkey \<Rightarrow> u64 \<Rightarrow>
   (InstantSettlementUser \<Rightarrow> InstantSettlementUser result) \<Rightarrow> InstantSettlementUser accounts result" where
  "consume_user_limit E w instant_user vault_key user limit consume =
     (if limit \<noteq> 0 then
        ok_or instant_user (Vault_Err MissingRequiredAccount) (\<lambda>k.
        try_ok (load_or_init_instant_settlement_user E w k vault_key user
          (snd (env_find_program_address E [INSTANT_USER_LIMIT_SEED, vault_key, user]))) (\<lambda>u.
        try_ok (consume u) (\<lambda>u.
        Inr ((w_instant_users w)(k \<mapsto> u)))))
      else Inr (w_instant_users w))"

text \<open>\<open>Option<UncheckedAccount>\<close> with canonical seeds\<close>

definition opt_seeds_canonical :: "env \<Rightarrow> bytes list \<Rightarrow> pubkey option \<Rightarrow> 'a result \<Rightarrow> 'a result" where
  "opt_seeds_canonical E seeds ko f =
     (case ko of None \<Rightarrow> f | Some k \<Rightarrow> seeds_canonical E seeds k (\<lambda>_. f))"

text \<open>\<open>token::mint\<close> and \<open>token::token_program\<close> of an optional account\<close>

definition opt_token_mint_program ::
  "token_account option \<Rightarrow> pubkey \<Rightarrow> pubkey \<Rightarrow> 'a result \<Rightarrow> 'a result" where
  "opt_token_mint_program t mint program f =
     (case t of
        None \<Rightarrow> f
      | Some t \<Rightarrow>
          require (ta_mint t = mint) (Anchor_Err ConstraintTokenMint) (
          require (ta_program t = program) (Anchor_Err ConstraintTokenTokenProgram) f))"

lemma opt_seeds_canonical_Inr [res_simps]:
  "opt_seeds_canonical E seeds ko f = Inr r \<longleftrightarrow>
     f = Inr r \<and> (\<forall>k. ko = Some k \<longrightarrow> fst (env_find_program_address E seeds) = k)"
  by (auto simp: opt_seeds_canonical_def res_simps split: option.splits)

lemma opt_token_mint_program_Inr [res_simps]:
  "opt_token_mint_program t m p f = Inr r \<longleftrightarrow>
     f = Inr r \<and> (\<forall>t'. t = Some t' \<longrightarrow> ta_mint t' = m \<and> ta_program t' = p)"
  by (auto simp: opt_token_mint_program_def res_simps split: option.splits)

subsection \<open>Payment of the fees\<close>

text \<open>
  \<open>transfer\<close> is the transfer of the handler, from the user or from the vault. The owner check
  reads the raw data of the protocol recipient's token account, whose owner field it compares.
\<close>

definition pay_instant_fees ::
  "env \<Rightarrow> world \<Rightarrow> vault \<Rightarrow> (pubkey \<Rightarrow> u64 \<Rightarrow> ledger \<Rightarrow> ledger result) \<Rightarrow> pubkey option \<Rightarrow> u64 \<Rightarrow>
   pubkey option \<Rightarrow> token_account option \<Rightarrow> u64 \<Rightarrow> account_info list \<Rightarrow> ledger \<Rightarrow> ledger result" where
  "pay_instant_fees E w v transfer fee_recipient_token_account fee_recipient_fee
     protocol_fee_recipient_token_account protocol_token protocol_fee remaining_accounts L =
     try_ok
       (if fee_recipient_fee > 0 then
          ok_or fee_recipient_token_account (Vault_Err MissingFeeRecipient) (\<lambda>dst.
          transfer dst fee_recipient_fee L)
        else Inr L) (\<lambda>L.
     if protocol_fee > 0 then
       try_ok (resolve_protocol_fee_recipient E w v (get_at remaining_accounts 0)) (\<lambda>(recipient, _).
       ok_or protocol_fee_recipient_token_account (Vault_Err MissingFeeRecipient) (\<lambda>dst.
       ok_or protocol_token (Vault_Err MissingFeeRecipient) (\<lambda>t.
       require (ta_owner t = recipient) (Program_Err InvalidAccountOwner) (
       transfer dst protocol_fee L))))
     else Inr L)"

subsection \<open>Instant deposit\<close>

record InstantDeposit =
  id_user :: pubkey
  id_asset_mint :: pubkey
  id_share_mint :: pubkey
  id_vault :: pubkey
  id_instant_user :: "pubkey option"
  id_vault_token_account :: pubkey
  id_user_asset_account :: pubkey
  id_user_share_account :: pubkey
  id_fee_recipient_token_account :: "pubkey option"
  id_protocol_fee_recipient_token_account :: "pubkey option"
  id_asset_token_program :: pubkey
  id_share_token_program :: pubkey

definition transfer_user_assets_to ::
  "env \<Rightarrow> InstantDeposit \<Rightarrow> mint_account \<Rightarrow> pubkey \<Rightarrow> u64 \<Rightarrow> ledger \<Rightarrow> ledger result" where
  "transfer_user_assets_to E accts asset_mint dst amount L =
     transfer_checked E (id_asset_token_program accts) (id_user_asset_account accts)
       (id_asset_mint accts) dst (id_user accts) amount (mint_decimals asset_mint) L"

definition instant_deposit ::
  "env \<Rightarrow> InstantDeposit \<Rightarrow> account_info list \<Rightarrow> u64 \<Rightarrow> world \<Rightarrow> world result" where
  "instant_deposit E accts remaining_accounts amount w =
     load (l_mints (w_ledger w)) (id_asset_mint accts) (\<lambda>asset_mint.
     load (l_mints (w_ledger w)) (id_share_mint accts) (\<lambda>share_mint.
     load (w_vaults w) (id_vault accts) (\<lambda>v.
     load (l_tokens (w_ledger w)) (id_vault_token_account accts) (\<lambda>vault_token.
     load (l_tokens (w_ledger w)) (id_user_asset_account accts) (\<lambda>user_asset.
     load (l_tokens (w_ledger w)) (id_user_share_account accts) (\<lambda>user_share.
     load_opt (l_tokens (w_ledger w)) (id_fee_recipient_token_account accts) (\<lambda>fee_token.
     load_opt (l_tokens (w_ledger w)) (id_protocol_fee_recipient_token_account accts) (\<lambda>protocol_token.
     token_interface E (id_asset_token_program accts) (
     token_interface E (id_share_token_program accts) (
     require (v_asset_mint v = id_asset_mint accts) (Vault_Err InvalidAssetMint) (
     require (v_share_mint v = id_share_mint accts) (Vault_Err InvalidShareMint) (
     seeds_with_bump E [VAULT_CONFIG_SEED, id_share_mint accts] (v_bump v) (id_vault accts) (
     opt_seeds_canonical E [INSTANT_USER_LIMIT_SEED, id_vault accts, id_user accts] (id_instant_user accts) (
     token_constraints_program vault_token (id_asset_mint accts) (id_vault accts) (id_asset_token_program accts) (
     require (v_vault_token_account v = id_vault_token_account accts) (Vault_Err InvalidVault) (
     token_constraints_program user_asset (id_asset_mint accts) (id_user accts) (id_asset_token_program accts) (
     token_constraints_program user_share (id_share_mint accts) (id_user accts) (id_share_token_program accts) (
     opt_token_constraints_program fee_token (id_asset_mint accts) (v_fee_recipient v)
       (Some (id_asset_token_program accts)) (
     opt_token_mint_program protocol_token (id_asset_mint accts) (id_asset_token_program accts) (
     try_ok (Vault_assert_unpaused_and_initialized v) (\<lambda>_.
     require (v_tranche_config v = None) (Vault_Err UnsupportedPhaseConfig) (
     try_ok (assert_instant_settlement_enabled v) (\<lambda>instant_settlement.
     try_ok (assert_instant_settlement_safety_guards (v_instant_redemption_fee_bps v)
       (v_max_nav_staleness_slots v)) (\<lambda>_.
     try_ok (InstantSettlement_assert_deposit_amount instant_settlement amount) (\<lambda>_.
     try_ok (validate_asset_mint_extensions E asset_mint) (\<lambda>_.
     require (v_nav v > 0) (Vault_Err NavIsNotSet) (
     try_ok (Vault_assert_nav_not_stale v (env_slot E)) (\<lambda>_.
     try_ok (consume_user_limit E w (id_instant_user accts) (id_vault accts) (id_user accts)
       (is_max_user_deposit_amount instant_settlement)
       (\<lambda>u. InstantSettlementUser_consume_deposit_limit u amount (env_slot E)
          (is_max_user_deposit_amount instant_settlement) (v_rolling_limit_window_slots v))) (\<lambda>users.
     try_ok (Vault_assert_deposit_cap_allows v amount) (\<lambda>_.
     try_ok (get_deposit_fee_and_net v amount) (\<lambda>(deposit_fee, net_deposit).
     require (net_deposit > 0) (Vault_Err InsufficientDepositAmount) (
     try_ok (calculate_shares (v_nav v) (mint_decimals share_mint) net_deposit) (\<lambda>shares.
     require (shares > 0) (Vault_Err InsufficientDepositAmount) (
     try_ok (split_protocol_fee deposit_fee (v_protocol_fee_bps v)) (\<lambda>(protocol_fee, fee_recipient_fee).
     try_ok (pay_instant_fees E w v (transfer_user_assets_to E accts asset_mint)
       (id_fee_recipient_token_account accts) fee_recipient_fee
       (id_protocol_fee_recipient_token_account accts) protocol_token protocol_fee
       remaining_accounts (w_ledger w)) (\<lambda>L.
     try_ok (transfer_user_assets_to E accts asset_mint (id_vault_token_account accts) net_deposit L) (\<lambda>L.
     try_ok (signed_by E [VAULT_CONFIG_SEED, id_share_mint accts, [v_bump v]] (id_vault accts)
       (mint_to E (id_share_token_program accts) (id_share_mint accts) (id_user_share_account accts)
         (id_vault accts) shares L)) (\<lambda>L.
     arith (checked_add (v_total_asset_balance v) net_deposit) (\<lambda>total_asset_balance.
     Inr (w\<lparr>w_ledger := L,
            w_vaults := (w_vaults w)(id_vault accts \<mapsto> v\<lparr>v_total_asset_balance := total_asset_balance\<rparr>),
            w_instant_users := users\<rparr>
     ))))))))))))))))))))))))))))))))))))))))"

subsection \<open>Instant redemption\<close>

record InstantRedeem =
  ir_user :: pubkey
  ir_asset_mint :: pubkey
  ir_share_mint :: pubkey
  ir_vault :: pubkey
  ir_instant_user :: "pubkey option"
  ir_vault_token_account :: pubkey
  ir_user_share_account :: pubkey
  ir_user_asset_account :: pubkey
  ir_fee_recipient_token_account :: "pubkey option"
  ir_protocol_fee_recipient_token_account :: "pubkey option"
  ir_asset_token_program :: pubkey
  ir_share_token_program :: pubkey

definition transfer_vault_assets_to ::
  "env \<Rightarrow> InstantRedeem \<Rightarrow> vault \<Rightarrow> mint_account \<Rightarrow> pubkey \<Rightarrow> u64 \<Rightarrow> ledger \<Rightarrow> ledger result" where
  "transfer_vault_assets_to E accts v asset_mint dst amount L =
     signed_by E [VAULT_CONFIG_SEED, ir_share_mint accts, [v_bump v]] (ir_vault accts) (
     transfer_checked E (ir_asset_token_program accts) (ir_vault_token_account accts)
       (ir_asset_mint accts) dst (ir_vault accts) amount (mint_decimals asset_mint) L)"

text \<open>The fee on instant redemptions, on top of the withdrawal fee.\<close>

definition instant_redemption_fee :: "vault \<Rightarrow> u64 \<Rightarrow> u64 result" where
  "instant_redemption_fee v gross_assets =
     (if v_instant_redemption_fee_bps v = 0 then Inr 0
      else map_math_err (FeeType_get_fee (Percentage (v_instant_redemption_fee_bps v)) gross_assets))"

definition instant_redeem ::
  "env \<Rightarrow> InstantRedeem \<Rightarrow> account_info list \<Rightarrow> u64 \<Rightarrow> world \<Rightarrow> world result" where
  "instant_redeem E accts remaining_accounts shares w =
     load (l_mints (w_ledger w)) (ir_asset_mint accts) (\<lambda>asset_mint.
     load (l_mints (w_ledger w)) (ir_share_mint accts) (\<lambda>share_mint.
     load (w_vaults w) (ir_vault accts) (\<lambda>v.
     load (l_tokens (w_ledger w)) (ir_vault_token_account accts) (\<lambda>vault_token.
     load (l_tokens (w_ledger w)) (ir_user_share_account accts) (\<lambda>user_share.
     load (l_tokens (w_ledger w)) (ir_user_asset_account accts) (\<lambda>user_asset.
     load_opt (l_tokens (w_ledger w)) (ir_fee_recipient_token_account accts) (\<lambda>fee_token.
     load_opt (l_tokens (w_ledger w)) (ir_protocol_fee_recipient_token_account accts) (\<lambda>protocol_token.
     token_interface E (ir_asset_token_program accts) (
     token_interface E (ir_share_token_program accts) (
     require (v_asset_mint v = ir_asset_mint accts) (Vault_Err InvalidAssetMint) (
     require (v_share_mint v = ir_share_mint accts) (Vault_Err InvalidShareMint) (
     seeds_with_bump E [VAULT_CONFIG_SEED, ir_share_mint accts] (v_bump v) (ir_vault accts) (
     opt_seeds_canonical E [INSTANT_USER_LIMIT_SEED, ir_vault accts, ir_user accts] (ir_instant_user accts) (
     token_constraints_program vault_token (ir_asset_mint accts) (ir_vault accts) (ir_asset_token_program accts) (
     require (v_vault_token_account v = ir_vault_token_account accts) (Vault_Err InvalidVault) (
     token_constraints_program user_share (ir_share_mint accts) (ir_user accts) (ir_share_token_program accts) (
     token_constraints_program user_asset (ir_asset_mint accts) (ir_user accts) (ir_asset_token_program accts) (
     opt_token_constraints_program fee_token (ir_asset_mint accts) (v_fee_recipient v)
       (Some (ir_asset_token_program accts)) (
     opt_token_mint_program protocol_token (ir_asset_mint accts) (ir_asset_token_program accts) (
     try_ok (Vault_assert_unpaused_and_initialized v) (\<lambda>_.
     require (v_tranche_config v = None) (Vault_Err UnsupportedPhaseConfig) (
     try_ok (assert_instant_settlement_enabled v) (\<lambda>instant_settlement.
     try_ok (assert_instant_settlement_safety_guards (v_instant_redemption_fee_bps v)
       (v_max_nav_staleness_slots v)) (\<lambda>_.
     try_ok (InstantSettlement_assert_redeem_shares instant_settlement shares) (\<lambda>_.
     try_ok (validate_asset_mint_extensions E asset_mint) (\<lambda>_.
     require (v_nav v > 0) (Vault_Err NavIsNotSet) (
     try_ok (Vault_assert_nav_not_stale v (env_slot E)) (\<lambda>_.
     try_ok (consume_user_limit E w (ir_instant_user accts) (ir_vault accts) (ir_user accts)
       (is_max_user_redeem_shares instant_settlement)
       (\<lambda>u. InstantSettlementUser_consume_redeem_limit u shares (env_slot E)
          (is_max_user_redeem_shares instant_settlement) (v_rolling_limit_window_slots v))) (\<lambda>users.
     try_ok (calculate_assets (v_nav v) (mint_decimals share_mint) shares) (\<lambda>gross_assets.
     require (ta_amount vault_token \<ge> gross_assets) (Vault_Err InsufficientLiquidity) (
     try_ok (get_withdrawal_fee v gross_assets) (\<lambda>withdrawal_fee.
     try_ok (instant_redemption_fee v gross_assets) (\<lambda>instant_fee.
     arith (checked_add withdrawal_fee instant_fee) (\<lambda>total_fee.
     arith (checked_sub gross_assets total_fee) (\<lambda>net_assets.
     require (net_assets > 0) (Vault_Err InsufficientRedeemAmount) (
     try_ok (Vault_consume_redemption_rolling_limit v gross_assets (env_slot E)) (\<lambda>v.
     try_ok (burn E (ir_share_token_program accts) (ir_share_mint accts) (ir_user_share_account accts)
       (ir_user accts) shares (w_ledger w)) (\<lambda>L.
     try_ok (split_protocol_fee total_fee (v_protocol_fee_bps v)) (\<lambda>(protocol_fee, fee_recipient_fee).
     try_ok (pay_instant_fees E w v (transfer_vault_assets_to E accts v asset_mint)
       (ir_fee_recipient_token_account accts) fee_recipient_fee
       (ir_protocol_fee_recipient_token_account accts) protocol_token protocol_fee
       remaining_accounts L) (\<lambda>L.
     try_ok (transfer_vault_assets_to E accts v asset_mint (ir_user_asset_account accts) net_assets L) (\<lambda>L.
     arith (checked_sub (v_total_asset_balance v) gross_assets) (\<lambda>total_asset_balance.
     Inr (w\<lparr>w_ledger := L,
            w_vaults := (w_vaults w)(ir_vault accts \<mapsto> v\<lparr>v_total_asset_balance := total_asset_balance\<rparr>),
            w_instant_users := users\<rparr>
     )))))))))))))))))))))))))))))))))))))))))))"

end
