(* ===== verification/Sample_Instant.thy ===== *)
theory Sample_Instant
  imports Instant_Settlement Sample_World
begin

text \<open>
  A vault with instant settlement enabled at a NAV of 1, up to 5000 of each per user and window,
  on which the properties of instant deposits and redemptions are applied.
\<close>

definition instant_limits :: InstantSettlement where
  "instant_limits =
     \<lparr>is_min_deposit_amount = 10, is_max_deposit_amount = 0, is_min_redeem_shares = 10,
      is_max_redeem_shares = 0, is_max_user_deposit_amount = 5000, is_max_user_redeem_shares = 5000,
      is_enabled = 1, is_reserved = replicate 7 0\<rparr>"

definition instant_vault :: vault where
  "instant_vault = sample_vault
     \<lparr>v_nav := 1000000, v_max_nav_staleness_slots := 50, v_instant_redemption_fee_bps := 100,
      v_tlv := tlv_encode [(10, InstantSettlement_bytes_of instant_limits)]\<rparr>"

definition instant_world :: world where
  "instant_world = sample_world
     \<lparr>w_ledger := sample_ledger\<lparr>l_tokens := (l_tokens sample_ledger)(key 33 \<mapsto> sample_token (key 1) (key 16) 0)\<rparr>,
      w_vaults := [key 20 \<mapsto> instant_vault]\<rparr>"

definition sample_instant_deposit :: InstantDeposit where
  "sample_instant_deposit =
     \<lparr>id_user = key 30, id_asset_mint = key 1, id_share_mint = key 2, id_vault = key 20,
      id_instant_user = Some (key 24), id_vault_token_account = key 3,
      id_user_asset_account = key 31, id_user_share_account = key 32,
      id_fee_recipient_token_account = Some (key 33), id_protocol_fee_recipient_token_account = None,
      id_asset_token_program = key 201, id_share_token_program = key 201\<rparr>"

definition sample_instant_redeem :: InstantRedeem where
  "sample_instant_redeem =
     \<lparr>ir_user = key 30, ir_asset_mint = key 1, ir_share_mint = key 2, ir_vault = key 20,
      ir_instant_user = Some (key 24), ir_vault_token_account = key 3,
      ir_user_share_account = key 32, ir_user_asset_account = key 31,
      ir_fee_recipient_token_account = Some (key 33), ir_protocol_fee_recipient_token_account = None,
      ir_asset_token_program = key 201, ir_share_token_program = key 201\<rparr>"

lemma instant_vault_region: "vault_region instant_vault [(10, InstantSettlement_bytes_of instant_limits)]"
  by (auto simp: vault_region_def instant_vault_def InstantSettlement_length instant_limits_def
      intro!: exI [of _ InstantSettlement])

lemma instant_vault_reads [simp]:
  "assert_instant_settlement_enabled instant_vault = Inr instant_limits"
  "get_deposit_fee instant_vault amount = Inr 0" "get_withdrawal_fee instant_vault amount = Inr 0"
  by (simp_all add: read_vault_extension_region [OF instant_vault_region] assert_instant_settlement_enabled_def get_deposit_fee_def get_withdrawal_fee_def
      extension_defs InstantSettlement_roundtrip instant_limits_def)

lemma instant_vault_fields [simp]:
  "v_asset_mint instant_vault = key 1" "v_share_mint instant_vault = key 2"
  "v_vault_token_account instant_vault = key 3" "v_bump instant_vault = 253"
  "v_fee_recipient instant_vault = key 16" "\<not> v_paused instant_vault" "v_initialized instant_vault"
  "v_tranche_config instant_vault = None" "v_instant_redemption_fee_bps instant_vault = 100"
  "v_max_nav_staleness_slots instant_vault = 50" "v_nav instant_vault = 1000000"
  "v_last_nav_update_slot instant_vault = 90" "v_deposit_cap instant_vault = 0"
  "v_require_fresh_nav instant_vault = False" "v_protocol_fee_bps instant_vault = 0"
  "v_total_asset_balance instant_vault = 5000000" "v_rolling_limit_window_slots instant_vault = 100"
  "v_redemption_rolling_limit instant_vault = 0"
  by (simp_all add: instant_vault_def sample_vault_def)

lemma sample_instant_user [simp]:
  "sample_create [INSTANT_USER_LIMIT_SEED, key 20, key 30, [249]] = Some (key 24)"
  by (simp add: sample_create_def sample_addresses_def seed_defs)

lemmas instant_eval =
  instant_world_def sample_instant_deposit_def sample_instant_redeem_def empty_world_def
  sample_world_def sample_ledger_def sample_mint_def sample_token_def sample_request_def sample_env_def
  load_def load_opt_def seeds_with_bump_def opt_seeds_canonical_def seeds_canonical_def
  token_constraints_program_def token_constraints_def opt_token_constraints_program_def
  opt_token_mint_program_def token_interface_def is_token_program_def
  Vault_assert_unpaused_and_initialized_def assert_instant_settlement_safety_guards_def
  validate_asset_mint_extensions_def Vault_assert_nav_not_stale_def consume_user_limit_def
  load_or_init_instant_settlement_user_def zeroed_instant_user_def fresh_def

lemma instant_limits_simps [simp]:
  "is_max_user_deposit_amount instant_limits = 5000" "is_max_user_redeem_shares instant_limits = 5000"
  "InstantSettlement_assert_deposit_amount instant_limits 1000 = Inr ()"
  "InstantSettlement_assert_redeem_shares instant_limits 1000 = Inr ()"
  by (simp_all add: instant_limits_def InstantSettlement_assert_deposit_amount_def
      InstantSettlement_assert_redeem_shares_def)

lemma sample_prices [simp]:
  "calculate_shares 1000000 6 1000 = Inr 1000" "calculate_assets 1000000 6 1000 = Inr 1000"
  "FeeType_get_fee (Percentage 100) 1000 = Inr 10"
  by (simp_all add: calculate_shares_def calculate_assets_def FeeType_get_fee_def checked_eval)

lemmas instant_eval_steps =
  Vault_assert_deposit_cap_allows_def get_deposit_fee_and_net_def split_protocol_fee_def
  InstantSettlementUser_ensure_initialized_def InstantSettlementUser_consume_deposit_limit_def
  InstantSettlementUser_consume_redeem_limit_def consume_rolling_limit_def pay_instant_fees_def
  transfer_user_assets_to_def transfer_vault_assets_to_def instant_redemption_fee_def
  Vault_consume_redemption_rolling_limit_def cpi_eval checked_eval Let_def

lemma sample_instant_deposit_runs:
  "\<exists>w. instant_deposit sample_env sample_instant_deposit [] 1000 instant_world = Inr w"
  by (simp add: instant_deposit_def instant_eval instant_eval_steps)

lemma sample_instant_redeem_runs:
  "\<exists>w. instant_redeem sample_env sample_instant_redeem [] 1000 instant_world = Inr w"
  by (simp add: instant_redeem_def instant_eval instant_eval_steps)

end
