(* ===== verification/Request_Books.thy ===== *)
theory Request_Books
  imports Settlement
begin

text \<open>
  The books of a vault: what its counters, its pending deposit amount and its escrow account owe
  to the open requests. The abstract state of a vault's request book is the multiset of weights
  its requests carry; \<open>books_ok\<close> ties it to the vault and the ledger, and \<open>books_step\<close> is the one
  step from which every instruction's preservation proof follows.
\<close>

subsection \<open>Weights of requests\<close>

definition opt_weight :: "('a \<Rightarrow> nat) \<Rightarrow> 'a option \<Rightarrow> nat" where
  "opt_weight f x = (case x of None \<Rightarrow> 0 | Some a \<Rightarrow> f a)"

definition weight :: "('a \<Rightarrow> nat) \<Rightarrow> 'a accounts \<Rightarrow> nat" where
  "weight f m = (\<Sum>k\<in>dom m. f (the (m k)))"

lemma opt_weight_simps [simp]: "opt_weight f None = 0" "opt_weight f (Some a) = f a"
  by (simp_all add: opt_weight_def)

lemma weight_remove:
  assumes "finite (dom m)"
  shows "weight f m = weight f (m(k := None)) + opt_weight f (m k)"
proof (cases "m k")
  case None
  then have "m(k := None) = m" by (simp add: fun_upd_idem)
  with None show ?thesis by simp
next
  case (Some a)
  have "weight f (m(k := None)) = (\<Sum>x\<in>dom m - {k}. f (the (m x)))"
    unfolding weight_def by (intro sum.cong) auto
  moreover have "weight f m = f (the (m k)) + (\<Sum>x\<in>dom m - {k}. f (the (m x)))"
    unfolding weight_def using assms Some by (intro sum.remove) auto
  ultimately show ?thesis using Some by simp
qed

lemma weight_update:
  assumes "finite (dom m)"
  shows "weight f (m(k := x)) + opt_weight f (m k) = weight f m + opt_weight f x"
proof -
  have "finite (dom (m(k := x)))" using assms by (cases x) simp_all
  from weight_remove [OF this, of f k] have "weight f (m(k := x)) = weight f (m(k := None)) + opt_weight f x"
    by simp
  with weight_remove [OF assms, of f k] show ?thesis by simp
qed

lemma weight_member: "finite (dom m) \<Longrightarrow> m k = Some a \<Longrightarrow> f a \<le> weight f m"
  using weight_remove [of m f k] by simp

lemma weight_zero: "(\<And>k a. m k = Some a \<Longrightarrow> f a = 0) \<Longrightarrow> weight f m = 0"
  unfolding weight_def by (auto intro!: sum.neutral)

text \<open>
  A pending request counts one; a pending deposit of the asset counts its amount; and the escrow
  owes every pending deposit its refund and every claimable redemption its payout.
\<close>

definition pending_count :: "pubkey \<Rightarrow> request \<Rightarrow> nat" where
  "pending_count vk r = (if req_vault r = vk \<and> req_request_state r = Pending then 1 else 0)"

definition pending_deposit :: "pubkey \<Rightarrow> pubkey \<Rightarrow> request \<Rightarrow> nat" where
  "pending_deposit vk asset r =
     (if req_vault r = vk \<and> req_asset_mint_address r = asset
         \<and> req_request_state r = Pending \<and> req_request_type r = Deposit
      then unat (req_amount r) else 0)"

definition escrowed :: "pubkey \<Rightarrow> pubkey \<Rightarrow> request \<Rightarrow> nat" where
  "escrowed vk asset r =
     (if req_vault r = vk \<and> req_asset_mint_address r = asset
         \<and> (req_request_state r = Pending \<and> req_request_type r = Deposit
            \<or> req_request_state r = Claimable \<and> req_request_type r = Redeem)
      then unat (req_amount r) else 0)"

lemmas weights = pending_count_def pending_deposit_def escrowed_def

subsection \<open>The books\<close>

text \<open>The fields no request instruction changes.\<close>

definition identity :: "vault \<Rightarrow> pubkey \<times> pubkey \<times> pubkey \<times> pubkey \<times> u8" where
  "identity v = (v_asset_mint v, v_share_mint v, v_vault_token_account v, v_pending_vault v, v_bump v)"

lemma identity_eq:
  "identity v' = identity v \<longleftrightarrow>
     v_asset_mint v' = v_asset_mint v \<and> v_share_mint v' = v_share_mint v
     \<and> v_vault_token_account v' = v_vault_token_account v
     \<and> v_pending_vault v' = v_pending_vault v \<and> v_bump v' = v_bump v"
  by (simp add: identity_def)

definition books_ok :: "env \<Rightarrow> request accounts \<Rightarrow> ledger \<Rightarrow> pubkey \<Rightarrow> vault \<Rightarrow> bool" where
  "books_ok E requests L vk v \<longleftrightarrow>
     unat (v_pending_async_requests v) = weight (pending_count vk) requests
     \<and> unat (v_pending_deposit_amount v) = weight (pending_deposit vk (v_asset_mint v)) requests
     \<and> weight (escrowed vk (v_asset_mint v)) requests \<le> amount_of L (v_pending_vault v)
     \<and> env_create_program_address E (signer_seeds v) = Some vk
     \<and> (\<exists>p. holder L (v_pending_vault v) = Some (p, v_asset_mint v, vk))
     \<and> v_pending_vault v \<noteq> v_vault_token_account v"

definition world_books :: "env \<Rightarrow> world \<Rightarrow> bool" where
  "world_books E w \<longleftrightarrow>
     finite (dom (w_requests w))
     \<and> (\<forall>vk v. w_vaults w vk = Some v \<longrightarrow> books_ok E (w_requests w) (w_ledger w) vk v)"

lemma books_of:
  "world_books E w \<Longrightarrow> w_vaults w k = Some v \<Longrightarrow> books_ok E (w_requests w) (w_ledger w) k v"
  by (simp add: world_books_def)

lemma signer_seeds_identity: "identity v' = identity v \<Longrightarrow> signer_seeds v' = signer_seeds v"
  by (simp add: identity_eq signer_seeds_def vault_seeds_def)

text \<open>
  One account's request changes, from nothing, to another state, or to nothing; the counters
  follow the weights, the escrow of the vault covers what it owes, and no other vault's escrow
  shrinks.
\<close>

lemma books_step:
  assumes books: "world_books E w"
    and v: "w_vaults w vk = Some v"
    and vaults: "w_vaults w' = (w_vaults w)(vk \<mapsto> v')" and ident: "identity v' = identity v"
    and requests: "w_requests w' = (w_requests w)(rk := new)"
    and own: "\<And>r. w_requests w rk = Some r \<or> new = Some r \<Longrightarrow> req_vault r = vk"
    and count: "unat (v_pending_async_requests v') + opt_weight (pending_count vk) (w_requests w rk)
      = unat (v_pending_async_requests v) + opt_weight (pending_count vk) new"
    and deposits: "unat (v_pending_deposit_amount v')
        + opt_weight (pending_deposit vk (v_asset_mint v)) (w_requests w rk)
      = unat (v_pending_deposit_amount v) + opt_weight (pending_deposit vk (v_asset_mint v)) new"
    and escrow: "amount_of (w_ledger w) (v_pending_vault v) + opt_weight (escrowed vk (v_asset_mint v)) new
      \<le> amount_of (w_ledger w') (v_pending_vault v)
        + opt_weight (escrowed vk (v_asset_mint v)) (w_requests w rk)"
    and holders: "holder (w_ledger w') = holder (w_ledger w)"
    and others: "\<And>k v2. k \<noteq> vk \<Longrightarrow> w_vaults w k = Some v2 \<Longrightarrow>
      amount_of (w_ledger w) (v_pending_vault v2) \<le> amount_of (w_ledger w') (v_pending_vault v2)"
  shows "world_books E w'"
proof -
  have fin: "finite (dom (w_requests w))" using books by (simp add: world_books_def)
  have w: "weight f (w_requests w') + opt_weight f (w_requests w rk) = weight f (w_requests w) + opt_weight f new"
    for f unfolding requests by (rule weight_update [OF fin])
  have "books_ok E (w_requests w') (w_ledger w') k v2" if k: "w_vaults w' k = Some v2" for k v2
  proof (cases "k = vk")
    case True
    with k vaults have v2: "v2 = v'" by simp
    have ok: "books_ok E (w_requests w) (w_ledger w) vk v"
      using books v by (simp add: world_books_def)
    from ident have f: "v_asset_mint v' = v_asset_mint v" "v_pending_vault v' = v_pending_vault v"
      "v_vault_token_account v' = v_vault_token_account v" by (simp_all add: identity_eq)
    show ?thesis unfolding True v2 books_ok_def
      using ok w [of "pending_count vk"] w [of "pending_deposit vk (v_asset_mint v)"]
        w [of "escrowed vk (v_asset_mint v)"] count deposits escrow
      by (simp add: f books_ok_def holders signer_seeds_identity [OF ident])
  next
    case False
    with k vaults have v2: "w_vaults w k = Some v2" by simp
    have zero: "opt_weight (pending_count k) x = 0" "opt_weight (pending_deposit k a) x = 0"
      "opt_weight (escrowed k a) x = 0" if "x = w_requests w rk \<or> x = new" for x a
      using own that False by (cases x; auto simp: weights)+
    have "books_ok E (w_requests w) (w_ledger w) k v2" using books v2 by (simp add: world_books_def)
    then show ?thesis unfolding books_ok_def
      using w [of "pending_count k"] w [of "pending_deposit k (v_asset_mint v2)"]
        w [of "escrowed k (v_asset_mint v2)"] others [OF False v2]
      by (simp add: zero holders)
  qed
  moreover have "finite (dom (w_requests w'))" unfolding requests using fin by (cases new) simp_all
  ultimately show ?thesis by (simp add: world_books_def)
qed

text \<open>A step that touches no request, no counter and no escrow.\<close>

lemma books_same_requests:
  assumes books: "world_books E w" and requests: "w_requests w' = w_requests w"
    and holders: "holder (w_ledger w') = holder (w_ledger w)"
    and vaults: "\<And>k v'. w_vaults w' k = Some v' \<Longrightarrow> \<exists>v. w_vaults w k = Some v
      \<and> identity v' = identity v \<and> v_pending_async_requests v' = v_pending_async_requests v
      \<and> v_pending_deposit_amount v' = v_pending_deposit_amount v
      \<and> amount_of (w_ledger w) (v_pending_vault v) \<le> amount_of (w_ledger w') (v_pending_vault v)"
  shows "world_books E w'"
proof -
  have "books_ok E (w_requests w') (w_ledger w') k v'" if "w_vaults w' k = Some v'" for k v'
  proof -
    from vaults [OF that] obtain v where v: "w_vaults w k = Some v" "identity v' = identity v"
      "v_pending_async_requests v' = v_pending_async_requests v"
      "v_pending_deposit_amount v' = v_pending_deposit_amount v"
      "amount_of (w_ledger w) (v_pending_vault v) \<le> amount_of (w_ledger w') (v_pending_vault v)" by blast
    from v(2) have "v_asset_mint v' = v_asset_mint v" "v_pending_vault v' = v_pending_vault v"
      "v_vault_token_account v' = v_vault_token_account v" by (simp_all add: identity_eq)
    then show ?thesis using books_of [OF books v(1)] v
      by (simp add: books_ok_def requests holders signer_seeds_identity [OF v(2)])
  qed
  moreover have "finite (dom (w_requests w'))" using books by (simp add: world_books_def requests)
  ultimately show ?thesis by (simp add: world_books_def)
qed

subsection \<open>Which accounts a call debits\<close>

text \<open>Only accounts in the set may hold less than before, and no account changes hands.\<close>

definition debits :: "pubkey set \<Rightarrow> ledger \<Rightarrow> ledger \<Rightarrow> bool" where
  "debits D L L' \<longleftrightarrow> holder L' = holder L \<and> (\<forall>k. k \<notin> D \<longrightarrow> amount_of L k \<le> amount_of L' k)"

lemma debits_holder: "debits D L L' \<Longrightarrow> holder L' = holder L"
  by (simp add: debits_def)

lemma debits_le: "debits D L L' \<Longrightarrow> k \<notin> D \<Longrightarrow> amount_of L k \<le> amount_of L' k"
  by (simp add: debits_def)

lemma debits_refl: "debits D L L"
  by (simp add: debits_def)

lemma debits_trans: "debits D L L' \<Longrightarrow> debits D L' L'' \<Longrightarrow> debits D L L''"
  by (auto simp: debits_def intro: order_trans)

lemma transfer_debits:
  assumes "transfer_effect E src mint dst n L L'"
  shows "debits {src} L L'" "amount_of L src \<le> amount_of L' src + n"
proof -
  have "amount_of L k \<le> amount_of L' k" if "k \<noteq> src" for k
    using assms that by (cases "k = dst") (auto simp: transfer_effect_def)
  then show "debits {src} L L'" using assms by (auto simp: debits_def transfer_effect_def)
  show "amount_of L src \<le> amount_of L' src + n"
    using assms by (cases "src = dst") (auto simp: transfer_effect_def)
qed

lemma transfer_credits:
  "transfer_effect E src mint dst n L L' \<Longrightarrow> src \<noteq> dst \<Longrightarrow> no_transfer_fee E L mint \<Longrightarrow>
   amount_of L' dst = amount_of L dst + n"
  by (simp add: transfer_effect_def)

lemma mint_debits: "mint_effect mint dst n L L' \<Longrightarrow> debits D L L'"
  unfolding mint_effect_def debits_def by (metis le_add1 order_refl)

lemma burn_debits: "burn_effect mint src n L L' \<Longrightarrow> debits {src} L L'"
  by (auto simp: burn_effect_def debits_def)

text \<open>
  An account held by one vault, or by a wallet, is never the escrow of another vault; and an
  account of another mint is not the vault's own escrow.
\<close>

lemma held_by:
  "l_tokens L k = Some t \<Longrightarrow> holder L k = Some (ta_program t, ta_mint t, ta_owner t)"
  by (simp add: holder_def)

lemma not_escrow:
  assumes "world_books E w" "w_vaults w k = Some v" "holder (w_ledger w) acct = Some (p, m, own)"
    and "own \<noteq> k \<or> m \<noteq> v_asset_mint v"
  shows "acct \<noteq> v_pending_vault v"
proof -
  from assms(1,2) have "books_ok E (w_requests w) (w_ledger w) k v" by (simp add: world_books_def)
  with assms(3,4) show ?thesis by (auto simp: books_ok_def)
qed

lemma wallet_is_no_vault:
  "world_books E w \<Longrightarrow> w_vaults w k = Some v \<Longrightarrow> is_wallet E user \<Longrightarrow> user \<noteq> k"
  by (auto simp: world_books_def books_ok_def is_wallet_def)

text \<open>
  The step in the form the instructions use: the debited accounts are held by the vault itself or
  by wallets.
\<close>

definition held_by_vault_or_wallet :: "env \<Rightarrow> ledger \<Rightarrow> pubkey \<Rightarrow> pubkey set \<Rightarrow> bool" where
  "held_by_vault_or_wallet E L vk D \<longleftrightarrow>
     (\<forall>a\<in>D. \<exists>p m own. holder L a = Some (p, m, own) \<and> (own = vk \<or> is_wallet E own))"

lemma other_escrows_kept:
  assumes "world_books E w" "debits D (w_ledger w) L" "held_by_vault_or_wallet E (w_ledger w) vk D"
    and "k \<noteq> vk" "w_vaults w k = Some v2"
  shows "amount_of (w_ledger w) (v_pending_vault v2) \<le> amount_of L (v_pending_vault v2)"
proof (rule debits_le [OF assms(2)], rule notI)
  assume "v_pending_vault v2 \<in> D"
  with assms(3) obtain p m own where *: "holder (w_ledger w) (v_pending_vault v2) = Some (p, m, own)"
    "own = vk \<or> is_wallet E own" unfolding held_by_vault_or_wallet_def by blast
  then have "own \<noteq> k" using assms(4) wallet_is_no_vault [OF assms(1,5)] by blast
  with not_escrow [OF assms(1,5) *(1)] show False by blast
qed

lemma books_step_debits:
  assumes "world_books E w" "w_vaults w vk = Some v"
    and "w_vaults w' = (w_vaults w)(vk \<mapsto> v')" "identity v' = identity v"
    and "w_requests w' = (w_requests w)(rk := new)"
    and "\<And>r. w_requests w rk = Some r \<or> new = Some r \<Longrightarrow> req_vault r = vk"
    and "unat (v_pending_async_requests v') + opt_weight (pending_count vk) (w_requests w rk)
      = unat (v_pending_async_requests v) + opt_weight (pending_count vk) new"
    and "unat (v_pending_deposit_amount v')
        + opt_weight (pending_deposit vk (v_asset_mint v)) (w_requests w rk)
      = unat (v_pending_deposit_amount v) + opt_weight (pending_deposit vk (v_asset_mint v)) new"
    and "amount_of (w_ledger w) (v_pending_vault v) + opt_weight (escrowed vk (v_asset_mint v)) new
      \<le> amount_of (w_ledger w') (v_pending_vault v)
        + opt_weight (escrowed vk (v_asset_mint v)) (w_requests w rk)"
    and "debits D (w_ledger w) (w_ledger w')" "held_by_vault_or_wallet E (w_ledger w) vk D"
  shows "world_books E w'"
  by (rule books_step [OF assms(1-9) debits_holder [OF assms(10)]
        other_escrows_kept [OF assms(1,10,11)]])

subsection \<open>Refunds\<close>

text \<open>
  What a refund does to the vault and the ledger: the vault forgets the deposit it held, and the
  escrow loses at most what it owed the request.
\<close>

definition refunded :: "env \<Rightarrow> pubkey \<Rightarrow> vault \<Rightarrow> request \<Rightarrow> vault \<Rightarrow> ledger \<Rightarrow> ledger \<Rightarrow> bool" where
  "refunded E vk v r v' L L' \<longleftrightarrow>
     identity v' = identity v
     \<and> v_pending_async_requests v' = v_pending_async_requests v
     \<and> unat (v_pending_deposit_amount v)
         = unat (v_pending_deposit_amount v') + pending_deposit vk (v_asset_mint v) r
     \<and> amount_of L (v_pending_vault v)
         \<le> amount_of L' (v_pending_vault v) + escrowed vk (v_asset_mint v) r
     \<and> (\<exists>D. debits D L L' \<and> held_by_vault_or_wallet E L vk D)"

lemma refunded_books:
  assumes books: "world_books E w" and v: "w_vaults w vk = Some v" and r: "w_requests w rk = Some r"
    and "req_vault r = vk" "req_request_state r = Pending"
    and ref: "refunded E vk v1 r v2 (w_ledger w) (w_ledger w')"
    and v1: "v1 = v\<lparr>v_tlv := tlv\<rparr>"
    and pa: "unat (v_pending_async_requests v2) = unat pa + 1"
    and vaults: "w_vaults w' = (w_vaults w)(vk \<mapsto> v2\<lparr>v_pending_async_requests := pa\<rparr>)"
    and requests: "w_requests w' = (w_requests w)(rk := new)"
    and new: "new = None \<or> new = Some (r\<lparr>req_request_state := Canceled\<rparr>)"
  shows "world_books E w'"
proof -
  from ref obtain D where D: "debits D (w_ledger w) (w_ledger w')"
    "held_by_vault_or_wallet E (w_ledger w) vk D" by (auto simp: refunded_def)
  have zero: "opt_weight (pending_count vk) new = 0" "opt_weight (pending_deposit vk a) new = 0"
    "opt_weight (escrowed vk a) new = 0" for a using new by (auto simp: weights)
  have "identity (v2\<lparr>v_pending_async_requests := pa\<rparr>) = identity v"
    using ref v1 by (simp add: refunded_def identity_eq)
  then show ?thesis
  proof (rule books_step_debits [OF books v vaults _ requests _ _ _ _ D])
    show "req_vault r' = vk" if "w_requests w rk = Some r' \<or> new = Some r'" for r'
      using that new assms(3,4) by auto
  qed (use ref v1 pa assms(3-5) in \<open>simp_all add: refunded_def zero\<close>,
       simp_all add: pending_count_def)
qed

lemma mint_shares_refunded:
  assumes spl: "spl_laws E" and "mint_shares E vk v m dst p n L = Inr L'" "req_request_type r = Redeem"
    and "req_request_state r = Pending"
  shows "refunded E vk v r v L L'"
proof -
  from assms(2) obtain d where "mint_effect m d (unat n) L L'"
    by (auto simp: mint_shares_def res_simps dest: spl_mint [OF spl])
  then have "debits {} L L'" by (rule mint_debits)
  then show ?thesis
    using assms(3,4) debits_le [of "{}" L L' "v_pending_vault v"]
    by (auto simp: refunded_def weights held_by_vault_or_wallet_def intro!: exI [of _ "{}"])
qed

lemma released_deposit_refunded:
  assumes spl: "spl_laws E" and effect: "transfer_effect E src am dst (unat (req_amount r)) L L'"
    and held: "holder L src = Some (p, am, vk)"
    and escrow: "v_asset_mint v = am \<Longrightarrow> src = v_pending_vault v"
      "v_asset_mint v \<noteq> am \<Longrightarrow> src \<noteq> v_pending_vault v"
    and r: "req_request_type r = Deposit" "req_request_state r = Pending" "req_vault r = vk"
      "req_asset_mint_address r = am"
    and rel: "release_pending_deposit (Vault_is_primary_asset v am) (req_amount r) v va = Inr (v', va')"
  shows "refunded E vk v r v' L L'"
proof -
  note D = transfer_debits [OF effect]
  have "identity v' = identity v" "v_pending_async_requests v' = v_pending_async_requests v"
    "unat (v_pending_deposit_amount v)
      = unat (v_pending_deposit_amount v') + pending_deposit vk (v_asset_mint v) r"
    using rel r
    by (auto simp: release_pending_deposit_def res_simps checked_simps weights identity_eq
        Vault_is_primary_asset_def split: if_splits)
  moreover have "amount_of L (v_pending_vault v)
      \<le> amount_of L' (v_pending_vault v) + escrowed vk (v_asset_mint v) r"
    using D(2) debits_le [OF D(1)] escrow r by (cases "v_asset_mint v = am") (auto simp: weights)
  moreover have "held_by_vault_or_wallet E L vk {src}"
    using held by (simp add: held_by_vault_or_wallet_def)
  ultimately show ?thesis using D(1) unfolding refunded_def by blast
qed

text \<open>
  The refund of \<open>cancel_request\<close> and \<open>reject_request\<close>: the escrow account that the constraints
  accept is the vault's own for its primary asset, and another one for any other asset.
\<close>

lemma escrow_account:
  assumes "world_books E w" "w_vaults w vk = Some v" "l_tokens (w_ledger w) src = Some t"
    and "ta_owner t = vk" "ta_mint t = am"
    and "assert_refund_escrow v va vk am src = Inr ()"
  shows "\<exists>p. holder (w_ledger w) src = Some (p, am, vk)"
    and "v_asset_mint v = am \<Longrightarrow> src = v_pending_vault v"
    and "v_asset_mint v \<noteq> am \<Longrightarrow> src \<noteq> v_pending_vault v"
proof -
  have h: "holder (w_ledger w) src = Some (ta_program t, am, vk)" using assms by (simp add: holder_def)
  then show "\<exists>p. holder (w_ledger w) src = Some (p, am, vk)" by blast
  show "v_asset_mint v = am \<Longrightarrow> src = v_pending_vault v"
    using assms(6) by (simp add: assert_refund_escrow_def vault_guard_defs res_simps)
  show "v_asset_mint v \<noteq> am \<Longrightarrow> src \<noteq> v_pending_vault v"
    using not_escrow [OF assms(1,2) h] by blast
qed

lemma refund_deposit_refunded:
  assumes spl: "spl_laws E" and books: "world_books E w" and v: "w_vaults w vk = Some v"
    and run: "refund_deposit E vk v1 am m va src dst prog (req_amount r) (w_ledger w) = Inr (v', va', L')"
    and v1: "v1 = v\<lparr>v_tlv := tlv\<rparr>"
    and src: "opt_account (l_tokens (w_ledger w)) src t"
      "\<And>t'. t = Some t' \<Longrightarrow> ta_owner t' = vk \<and> ta_mint t' = am"
    and r: "req_request_type r = Deposit" "req_request_state r = Pending" "req_vault r = vk"
      "req_asset_mint_address r = am"
  shows "refunded E vk v1 r v' (w_ledger w) L'"
proof -
  from run obtain s d p where *: "src = Some s" "assert_refund_escrow v1 va vk am s = Inr ()"
    "transfer_checked E p s am d vk (req_amount r) (mint_decimals m) (w_ledger w) = Inr L'"
    "release_pending_deposit (Vault_is_primary_asset v1 am) (req_amount r) v1 va = Inr (v', va')"
    by (auto simp: refund_deposit_def transfer_assets_to_user_def res_simps Let_def split: if_splits)
  from src *(1) obtain t' where t': "l_tokens (w_ledger w) s = Some t'" "ta_owner t' = vk" "ta_mint t' = am"
    using opt_account_Some by metis
  have "assert_refund_escrow v1 va vk am s = assert_refund_escrow v va vk am s"
    by (simp add: v1 assert_refund_escrow_def vault_guard_defs)
  with *(2) have "assert_refund_escrow v va vk am s = Inr ()" by simp
  note esc = escrow_account [OF books v t' this]
  from esc(1) obtain p' where h: "holder (w_ledger w) s = Some (p', am, vk)" by blast
  show ?thesis
    using released_deposit_refunded [OF spl spl_transfer [OF spl *(3)] h _ _ r *(4)] esc(2,3) v1 by simp
qed

subsection \<open>What the helpers leave alone\<close>

lemma tlv_unchanged [intro]: "\<exists>tlv. v = v\<lparr>v_tlv := tlv\<rparr>" for v :: vault
  by (rule exI [of _ "v_tlv v"]) simp

lemma next_queue_request_id_keeps:
  "next_queue_request_id Q v = Inr (v', rid) \<Longrightarrow> \<exists>tlv. v' = v\<lparr>v_tlv := tlv\<rparr>"
  by (auto simp: next_queue_request_id_def Let_def res_simps case_prod_unfold
      split: if_splits option.splits)

lemma check_and_advance_queue_keeps:
  "check_and_advance_queue Q R v r = Inr v' \<Longrightarrow> \<exists>tlv. v' = v\<lparr>v_tlv := tlv\<rparr>"
  by (auto simp: check_and_advance_queue_def update_vault_extension_def Let_def res_simps
      split: option.splits)

lemma assign_queue_id_keeps:
  "assign_queue_id Q v tcs ctx m t ra = Inr (v', tcs', rid) \<Longrightarrow> \<exists>tlv. v' = v\<lparr>v_tlv := tlv\<rparr>"
  by (auto simp: assign_queue_id_def res_simps dest: next_queue_request_id_keeps split: if_splits)

lemma check_fifo_ordering_keeps:
  "check_fifo_ordering v tcs ctx m r ra = Inr (v', tcs') \<Longrightarrow> \<exists>tlv. v' = v\<lparr>v_tlv := tlv\<rparr>"
  by (auto simp: check_fifo_ordering_def leave_queue_def res_simps dest: check_and_advance_queue_keeps
      split: if_splits RequestType.splits)

lemma tag_request_keeps:
  "tag_request R r rid = Inr r' \<Longrightarrow> \<exists>tlv. r' = r\<lparr>req_tlv := tlv\<rparr>"
  by (cases rid) (auto simp: tag_request_def init_request_extension_def Let_def res_simps
      intro: exI [of _ "req_tlv r"])

lemma consume_redemption_keeps:
  "Vault_consume_redemption_rolling_limit v n s = Inr v' \<Longrightarrow>
   identity v' = identity v \<and> v_pending_async_requests v' = v_pending_async_requests v
   \<and> v_pending_deposit_amount v' = v_pending_deposit_amount v
   \<and> v_total_asset_balance v' = v_total_asset_balance v"
  by (auto simp: Vault_consume_redemption_rolling_limit_def res_simps identity_eq)

end
