(* ===== verification/Request_Lifecycle.thy ===== *)
theory Request_Lifecycle
  imports Request_Books
begin

text \<open>
  Every instruction of the request lifecycle keeps the books: for each, what it does to the
  request, the vault's counters and the ledger, and from that the preservation of
  \<open>world_books\<close>.
\<close>

lemma add_pending_deposit_Inr:
  "add_pending_deposit primary n v va = Inr (v', va') \<Longrightarrow>
   \<exists>d. v' = v\<lparr>v_pending_deposit_amount := d\<rparr>
     \<and> unat d = unat (v_pending_deposit_amount v) + (if primary then unat n else 0)"
  by (auto simp: add_pending_deposit_def res_simps checked_simps split: if_splits
      intro: exI [of _ "v_pending_deposit_amount v"])

lemma release_pending_deposit_Inr:
  "release_pending_deposit primary n v va = Inr (v', va') \<Longrightarrow>
   \<exists>d. v' = v\<lparr>v_pending_deposit_amount := d\<rparr>
     \<and> unat (v_pending_deposit_amount v) = unat d + (if primary then unat n else 0)"
  by (auto simp: release_pending_deposit_def res_simps checked_simps split: if_splits
      intro: exI [of _ "v_pending_deposit_amount v"])

lemma create_deposit_request_Inr:
  assumes "create_deposit_request E accts ra args w = Inr w'"
  obtains v v' va r user_acct L vas tcs m where
    "w' = w\<lparr>w_ledger := L, w_vaults := (w_vaults w)(cdr_vault accts \<mapsto> v'),
           w_requests := (w_requests w)(cdr_request accts \<mapsto> r), w_vault_assets := vas,
           w_tranche_configs := tcs\<rparr>"
    "w_vaults w (cdr_vault accts) = Some v"
    "l_tokens (w_ledger w) (cdr_user_token_account accts) = Some user_acct"
    "l_mints (w_ledger w) (cdr_asset_mint accts) = Some m"
    "assert_deposit_target v va accts (ra_amount args) = Inr ()"
    "transfer_assets_from_user_to_pending_vault E accts m (ra_amount args) (w_ledger w) = Inr L"
    "validate_asset_mint_extensions E m = Inr ()"
    "Vault_assert_unpaused_and_initialized v = Inr ()"
    "w_requests w (cdr_request accts) = None"
    "ta_owner user_acct = cdr_user accts" "ta_mint user_acct = cdr_asset_mint accts"
    "identity v' = identity v"
    "unat (v_pending_async_requests v') = unat (v_pending_async_requests v) + 1"
    "unat (v_pending_deposit_amount v') = unat (v_pending_deposit_amount v)
       + (if v_asset_mint v = cdr_asset_mint accts then unat (ra_amount args) else 0)"
    "req_vault r = cdr_vault accts" "req_request_type r = Deposit" "req_request_state r = Pending"
    "req_owner r = cdr_user accts" "req_amount r = ra_amount args"
    "req_asset_mint_address r = cdr_asset_mint accts"
proof -
  from assms show thesis
    apply (clarsimp simp: create_deposit_request_def res_simps Let_def)
    apply (drule add_pending_deposit_Inr assign_queue_id_keeps tag_request_keeps)+
    apply clarsimp
    apply (rule that, assumption, assumption, assumption, assumption, assumption, assumption, assumption)
    apply (simp_all add: fresh_def identity_eq checked_simps vault_guard_defs)
    done
qed

lemma create_deposit_request_books:
  assumes run: "create_deposit_request E accts ra args w = Inr w'"
    and spl: "spl_laws E" and wallet: "is_wallet E (cdr_user accts)" and books: "world_books E w"
  shows "world_books E w'"
  using run
proof (rule create_deposit_request_Inr, goal_cases)
  case (1 v v' va r t L vas tcs m)
  let ?vk = "cdr_vault accts" and ?src = "cdr_user_token_account accts"
    and ?asset = "cdr_asset_mint accts" and ?n = "unat (ra_amount args)"
  have effect: "transfer_effect E ?src ?asset (cdr_pending_vault accts) ?n (w_ledger w) L"
    using 1(6) by (auto simp: transfer_assets_from_user_to_pending_vault_def intro: spl_transfer [OF spl])
  note debit = transfer_debits(1) [OF effect]
  have holder: "holder (w_ledger w) ?src = Some (ta_program t, ?asset, cdr_user accts)"
    using held_by [OF 1(3)] 1(10,11) by simp
  have src: "?src \<noteq> v_pending_vault v"
    using not_escrow [OF books 1(2) holder] wallet_is_no_vault [OF books 1(2) wallet] by blast
  have "amount_of (w_ledger w) (v_pending_vault v) + (if v_asset_mint v = ?asset then ?n else 0)
      \<le> amount_of L (v_pending_vault v)"
  proof (cases "v_asset_mint v = ?asset")
    case True
    then have "v_pending_vault v = cdr_pending_vault accts"
      using 1(5) by (simp add: assert_deposit_target_def vault_guard_defs res_simps)
    with True transfer_credits [OF effect] src validate_asset_mint_extensions_fee [OF 1(4)] 1(7)
    show ?thesis by simp
  qed (use debits_le [OF debit] src in simp)
  moreover have "held_by_vault_or_wallet E (w_ledger w) ?vk {?src}"
    using holder wallet by (simp add: held_by_vault_or_wallet_def)
  ultimately show ?case
    using debit 1
    by (intro books_step_debits [OF books 1(2), where v' = v' and rk = "cdr_request accts"
          and new = "Some r" and D = "{?src}"]) (auto simp: weights split: if_splits)
qed

subsection \<open>Redeem requests and delegation\<close>

lemma create_redeem_request_Inr:
  assumes "create_redeem_request E accts ra args w = Inr w'"
  obtains v v' r user_acct L tcs where
    "w' = w\<lparr>w_ledger := L, w_vaults := (w_vaults w)(crr_vault accts \<mapsto> v'),
           w_requests := (w_requests w)(crr_request accts \<mapsto> r), w_tranche_configs := tcs\<rparr>"
    "w_vaults w (crr_vault accts) = Some v"
    "l_tokens (w_ledger w) (crr_user_share_account accts) = Some user_acct"
    "burn_shares E accts (ra_amount args) (w_ledger w) = Inr L"
    "Vault_assert_unpaused_and_initialized v = Inr ()"
    "w_requests w (crr_request accts) = None"
    "ta_owner user_acct = crr_user accts"
    "identity v' = identity v"
    "unat (v_pending_async_requests v') = unat (v_pending_async_requests v) + 1"
    "v_pending_deposit_amount v' = v_pending_deposit_amount v"
    "req_vault r = crr_vault accts" "req_request_type r = Redeem" "req_request_state r = Pending"
    "req_owner r = crr_user accts" "req_amount r = ra_amount args"
    "req_share_mint_address r = crr_share_mint accts"
proof -
  from assms show thesis
    apply (clarsimp simp: create_redeem_request_def res_simps Let_def)
    apply (drule assign_queue_id_keeps tag_request_keeps)+
    apply clarsimp
    apply (rule that, assumption, assumption, assumption, assumption, assumption)
    apply (simp_all add: fresh_def identity_eq checked_simps)
    done
qed

lemma create_redeem_request_books:
  assumes run: "create_redeem_request E accts ra args w = Inr w'"
    and spl: "spl_laws E" and wallet: "is_wallet E (crr_user accts)" and books: "world_books E w"
  shows "world_books E w'"
  using run
proof (rule create_redeem_request_Inr, goal_cases)
  case (1 v v' r t L tcs)
  let ?src = "crr_user_share_account accts"
  have debit: "debits {?src} (w_ledger w) L"
    using 1(4) by (auto simp: burn_shares_def intro: burn_debits spl_burnt [OF spl])
  have holder: "holder (w_ledger w) ?src = Some (ta_program t, ta_mint t, crr_user accts)"
    using held_by [OF 1(3)] 1(7) by simp
  have "?src \<noteq> v_pending_vault v"
    using not_escrow [OF books 1(2) holder] wallet_is_no_vault [OF books 1(2) wallet] by blast
  then have "amount_of (w_ledger w) (v_pending_vault v) \<le> amount_of L (v_pending_vault v)"
    using debits_le [OF debit] by simp
  moreover have "held_by_vault_or_wallet E (w_ledger w) (crr_vault accts) {?src}"
    using holder wallet by (simp add: held_by_vault_or_wallet_def)
  ultimately show ?case
    using debit 1
    by (intro books_step_debits [OF books 1(2), where v' = v' and rk = "crr_request accts"
          and new = "Some r" and D = "{?src}"]) (auto simp: weights)
qed

text \<open>Changing a field of a request that its weights do not read.\<close>

lemma set_operator_books:
  assumes "set_operator accts w = Inr w'" "world_books E w"
  shows "world_books E w'"
proof -
  from assms(1) obtain r where r: "w_requests w (so_request accts) = Some r"
    and w': "w' = w\<lparr>w_requests := (w_requests w)(so_request accts \<mapsto>
      r\<lparr>req_operator := Some (so_operator accts)\<rparr>)\<rparr>"
    by (auto simp: set_operator_def res_simps)
  have fin: "finite (dom (w_requests w))" using assms(2) by (simp add: world_books_def)
  have same: "weight f (w_requests w') = weight f (w_requests w)"
    if "f (r\<lparr>req_operator := Some (so_operator accts)\<rparr>) = f r" for f
    using weight_update [OF fin, of f "so_request accts" "Some (r\<lparr>req_operator := Some (so_operator accts)\<rparr>)"]
    by (simp add: w' r that)
  have "weight (pending_count k) (w_requests w') = weight (pending_count k) (w_requests w)"
    "weight (pending_deposit k a) (w_requests w') = weight (pending_deposit k a) (w_requests w)"
    "weight (escrowed k a) (w_requests w') = weight (escrowed k a) (w_requests w)" for k a
    by (rule same; auto simp: weights)+
  moreover have "w_vaults w' = w_vaults w" "w_ledger w' = w_ledger w" "finite (dom (w_requests w'))"
    using fin by (simp_all add: w')
  ultimately show ?thesis using assms(2) by (simp add: world_books_def books_ok_def)
qed

subsection \<open>Cancellations\<close>

lemma cancel_request_books:
  assumes run: "cancel_request E accts ra w = Inr w'"
    and spl: "spl_laws E" and books: "world_books E w"
  shows "world_books E w'"
proof -
  from run obtain m v va r t L v2 va2 pa where *:
    "w_vaults w (ca_vault accts) = Some v" "w_requests w (ca_request accts) = Some r"
    "opt_account (l_tokens (w_ledger w)) (ca_asset_pending_vault accts) t"
    "\<And>t'. t = Some t' \<Longrightarrow> ta_owner t' = ca_vault accts \<and> ta_mint t' = ca_asset_mint accts"
    "req_vault r = ca_vault accts" "req_request_state r = Pending"
    "req_asset_mint_address r = ca_asset_mint accts"
    "(case req_request_type r of
        Deposit \<Rightarrow> refund_deposit E (ca_vault accts) v (ca_asset_mint accts) m va
          (ca_asset_pending_vault accts) (ca_user_token_account accts)
          (ca_asset_token_program accts) (req_amount r) (w_ledger w)
      | Redeem \<Rightarrow> try_ok (mint_shares E (ca_vault accts) v (ca_share_mint accts)
          (ca_user_share_account accts) (ca_share_token_program accts) (req_amount r)
          (w_ledger w)) (\<lambda>L. Inr (v, va, L))) = Inr (v2, va2, L)"
    "checked_sub (v_pending_async_requests v2) 1 = Some pa"
    "w' = w\<lparr>w_ledger := L, w_vaults := (w_vaults w)(ca_vault accts \<mapsto> v2\<lparr>v_pending_async_requests := pa\<rparr>),
           w_requests := close (w_requests w) (ca_request accts),
           w_vault_assets := put_opt (w_vault_assets w) (ca_vault_asset accts) va2\<rparr>"
    by (fastforce simp: cancel_request_def res_simps)
  have same: "v = v\<lparr>v_tlv := v_tlv v\<rparr>" by simp
  have "refunded E (ca_vault accts) v r v2 (w_ledger w) L"
  proof (cases "req_request_type r")
    case Deposit
    with refund_deposit_refunded [OF spl books *(1) _ same *(3,4) _ *(6,5,7)] *(8) show ?thesis by simp
  next
    case Redeem
    with mint_shares_refunded [OF spl] *(6,8) show ?thesis by (auto simp: res_simps)
  qed
  from refunded_books [OF books *(1,2,5,6) _ same, where w' = w' and pa = pa] this show ?thesis
    using *(9,10) by (simp add: checked_simps close_def)
qed

lemma reject_request_books:
  assumes run: "reject_request E accts ra args w = Inr w'"
    and spl: "spl_laws E" and books: "world_books E w"
  shows "world_books E w'"
proof -
  from run obtain m v va r t ctx v1 tcs L v2 va2 pa where *:
    "w_vaults w (rr_vault accts) = Some v" "w_requests w (rr_request accts) = Some r"
    "opt_account (l_tokens (w_ledger w)) (rr_asset_pending_vault accts) t"
    "\<And>t'. t = Some t' \<Longrightarrow> ta_owner t' = rr_vault accts \<and> ta_mint t' = rr_asset_mint accts"
    "req_vault r = rr_vault accts" "req_request_state r = Pending"
    "req_asset_mint_address r = rr_asset_mint accts"
    "(case req_request_type r of
        Deposit \<Rightarrow> refund_deposit E (rr_vault accts) v1 (rr_asset_mint accts) m va
          (rr_asset_pending_vault accts) (rr_user_token_account accts)
          (rr_asset_token_program accts) (req_amount r) (w_ledger w)
      | Redeem \<Rightarrow> try_ok (mint_shares E (rr_vault accts) v1 (rr_share_mint accts)
          (rr_user_share_account accts) (rr_share_token_program accts) (req_amount r)
          (w_ledger w)) (\<lambda>L. Inr (v1, va, L))) = Inr (v2, va2, L)"
    "checked_sub (v_pending_async_requests v2) 1 = Some pa"
    "w' = w\<lparr>w_ledger := L, w_vaults := (w_vaults w)(rr_vault accts \<mapsto> v2\<lparr>v_pending_async_requests := pa\<rparr>),
           w_requests := close (w_requests w) (rr_request accts),
           w_vault_assets := put_opt (w_vault_assets w) (rr_vault_asset accts) va2,
           w_tranche_configs := tcs\<rparr>"
    "check_fifo_ordering v (w_tranche_configs w) ctx (rr_share_mint accts) r ra = Inr (v1, tcs)"
    by (fastforce simp: reject_request_def res_simps)
  from check_fifo_ordering_keeps [OF *(11)] obtain tlv where v1: "v1 = v\<lparr>v_tlv := tlv\<rparr>" by blast
  have "refunded E (rr_vault accts) v1 r v2 (w_ledger w) L"
  proof (cases "req_request_type r")
    case Deposit
    with refund_deposit_refunded [OF spl books *(1) _ v1 *(3,4) _ *(6,5,7)] *(8) show ?thesis by simp
  next
    case Redeem
    with mint_shares_refunded [OF spl] *(6,8) show ?thesis by (auto simp: res_simps)
  qed
  from refunded_books [OF books *(1,2,5,6) _ v1, where w' = w' and pa = pa] this show ?thesis
    using *(9,10) by (simp add: checked_simps close_def)
qed

lemma cancel_queued_deposit_request_books:
  assumes run: "cancel_queued_deposit_request E accts ra w = Inr w'"
    and spl: "spl_laws E" and books: "world_books E w"
  shows "world_books E w'"
proof -
  from run obtain v va r t L v2 va2 pa p d where *:
    "w_vaults w (cqd_vault accts) = Some v" "w_requests w (cqd_request accts) = Some r"
    "l_tokens (w_ledger w) (cqd_asset_pending_vault accts) = Some t"
    "ta_owner t = cqd_vault accts" "ta_mint t = cqd_asset_mint accts"
    "req_request_type r = Deposit" "req_request_state r = Pending"
    "req_vault r = cqd_vault accts" "req_asset_mint_address r = cqd_asset_mint accts"
    "assert_refund_escrow v va (cqd_vault accts) (cqd_asset_mint accts) (cqd_asset_pending_vault accts) = Inr ()"
    "transfer_checked E p (cqd_asset_pending_vault accts) (cqd_asset_mint accts)
       (cqd_user_token_account accts) (cqd_vault accts) (req_amount r) d (w_ledger w) = Inr L"
    "release_pending_deposit (Vault_is_primary_asset v (cqd_asset_mint accts)) (req_amount r) v va = Inr (v2, va2)"
    "checked_sub (v_pending_async_requests v2) 1 = Some pa"
    "w' = w\<lparr>w_ledger := L, w_vaults := (w_vaults w)(cqd_vault accts \<mapsto> v2\<lparr>v_pending_async_requests := pa\<rparr>),
           w_requests := (w_requests w)(cqd_request accts \<mapsto> r\<lparr>req_request_state := Canceled\<rparr>),
           w_vault_assets := put_opt (w_vault_assets w) (cqd_vault_asset accts) va2\<rparr>"
    by (clarsimp simp: cancel_queued_deposit_request_def res_simps)
  note esc = escrow_account [OF books *(1,3,4,5,10)]
  from esc(1) obtain p' where "holder (w_ledger w) (cqd_asset_pending_vault accts)
      = Some (p', cqd_asset_mint accts, cqd_vault accts)" by blast
  from released_deposit_refunded [OF spl spl_transfer [OF spl *(11)] this esc(2,3) *(6-9,12)]
  have ref: "refunded E (cqd_vault accts) v r v2 (w_ledger w) L" .
  show ?thesis
    using refunded_books [OF books *(1,2,8,7), where w' = w' and pa = pa
        and tlv = "v_tlv v" and new = "Some (r\<lparr>req_request_state := Canceled\<rparr>)"] ref *(13,14)
    by (simp add: checked_simps)
qed

lemma cancel_queued_redemption_request_books:
  assumes run: "cancel_queued_redemption_request E accts ra w = Inr w'"
    and spl: "spl_laws E" and books: "world_books E w"
  shows "world_books E w'"
proof -
  from run obtain v r L pa p where *:
    "w_vaults w (cqr_vault accts) = Some v" "w_requests w (cqr_request accts) = Some r"
    "req_request_type r = Redeem" "req_request_state r = Pending" "req_vault r = cqr_vault accts"
    "mint_shares E (cqr_vault accts) v (cqr_share_mint accts) (Some (cqr_user_share_account accts))
       (Some p) (req_amount r) (w_ledger w) = Inr L"
    "checked_sub (v_pending_async_requests v) 1 = Some pa"
    "w' = w\<lparr>w_ledger := L, w_vaults := (w_vaults w)(cqr_vault accts \<mapsto> v\<lparr>v_pending_async_requests := pa\<rparr>),
           w_requests := (w_requests w)(cqr_request accts \<mapsto> r\<lparr>req_request_state := Canceled\<rparr>)\<rparr>"
    by (fastforce simp: cancel_queued_redemption_request_def res_simps mint_shares_def)
  show ?thesis
    using refunded_books [OF books *(1,2,5,4), where w' = w' and pa = pa
        and tlv = "v_tlv v" and new = "Some (r\<lparr>req_request_state := Canceled\<rparr>)"]
      mint_shares_refunded [OF spl *(6,3,4)] *(7,8)
    by (simp add: checked_simps)
qed

lemma skip_canceled_queue_request_books:
  assumes run: "skip_canceled_queue_request E accts ra w = Inr w'" and books: "world_books E w"
  shows "world_books E w'"
proof -
  from run obtain v r ctx v1 tcs where *:
    "w_vaults w (sc_vault accts) = Some v" "w_requests w (sc_request accts) = Some r"
    "req_vault r = sc_vault accts" "req_request_state r = Canceled"
    "check_fifo_ordering v (w_tranche_configs w) ctx (req_share_mint_address r) r ra = Inr (v1, tcs)"
    "w' = w\<lparr>w_vaults := (w_vaults w)(sc_vault accts \<mapsto> v1),
           w_requests := close (w_requests w) (sc_request accts), w_tranche_configs := tcs\<rparr>"
    by (auto simp: skip_canceled_queue_request_def res_simps)
  from check_fifo_ordering_keeps [OF *(5)] obtain tlv where v1: "v1 = v\<lparr>v_tlv := tlv\<rparr>" by blast
  show ?thesis
    by (rule books_step [OF books *(1), where v' = v1 and rk = "sc_request accts" and new = None])
      (simp_all add: * v1 identity_eq weights close_def)
qed

end
