(* ===== verification/Approval_Books.thy ===== *)
theory Approval_Books
  imports Request_Lifecycle
begin

text \<open>
  The books through an approval and a claim: the fees and the net amount of a settlement leave
  one account together, an approved deposit leaves the escrow, an approved redemption enters it,
  and a claim takes what the escrow owes.
\<close>

subsection \<open>Transfers of a settlement\<close>

lemma transfer_asset_from_effect:
  "spl_laws E \<Longrightarrow> transfer_asset_from E vk v p am m src dst n L = Inr L' \<Longrightarrow>
   transfer_effect E src am dst (unat n) L L'"
  by (auto simp: transfer_asset_from_def res_simps dest: spl_transfer)

text \<open>A fee transfer that takes place or not.\<close>

lemma optional_transfer_effect:
  assumes spl: "spl_laws E"
    and "(case info of None \<Rightarrow> Inr L
          | Some i \<Rightarrow> transfer_asset_from E vk v p am m src (ai_key i) n L) = Inr L'"
  shows "debits {src} L L'" "amount_of L src \<le> amount_of L' src + unat n" "l_mints L' = l_mints L"
proof -
  have "debits {src} L L' \<and> amount_of L src \<le> amount_of L' src + unat n \<and> l_mints L' = l_mints L"
  proof (cases info)
    case (Some i)
    with assms(2) have e: "transfer_effect E src am (ai_key i) (unat n) L L'"
      by (simp add: transfer_asset_from_effect [OF spl])
    then have "l_mints L' = l_mints L" by (simp add: transfer_effect_def)
    with transfer_debits [OF e] show ?thesis by simp
  qed (use assms(2) debits_refl in auto)
  then show "debits {src} L L'" "amount_of L src \<le> amount_of L' src + unat n" "l_mints L' = l_mints L"
    by blast+
qed

lemma pay_settlement_effect:
  assumes spl: "spl_laws E"
    and run: "pay_settlement (transfer_asset_from E vk v p am m src) fee_info fee protocol_info
      protocol_fee dst net L = Inr L'"
  shows "debits {src} L L'"
    and "amount_of L src \<le> amount_of L' src + (unat fee + unat protocol_fee + unat net)"
    and "src \<noteq> dst \<Longrightarrow> no_transfer_fee E L am \<Longrightarrow> amount_of L dst + unat net \<le> amount_of L' dst"
proof -
  from run obtain L1 L2 where 1: "(case fee_info of None \<Rightarrow> Inr L
        | Some i \<Rightarrow> transfer_asset_from E vk v p am m src (ai_key i) fee L) = Inr L1"
    and 2: "(case protocol_info of None \<Rightarrow> Inr L1
        | Some i \<Rightarrow> transfer_asset_from E vk v p am m src (ai_key i) protocol_fee L1) = Inr L2"
    and 3: "transfer_asset_from E vk v p am m src dst net L2 = Inr L'"
    by (auto simp: pay_settlement_def res_simps)
  note e1 = optional_transfer_effect [OF spl 1] and e2 = optional_transfer_effect [OF spl 2]
  have e3: "transfer_effect E src am dst (unat net) L2 L'" by (rule transfer_asset_from_effect [OF spl 3])
  note d3 = transfer_debits [OF e3]
  show "debits {src} L L'" by (rule debits_trans [OF debits_trans [OF e1(1) e2(1)] d3(1)])
  show "amount_of L src \<le> amount_of L' src + (unat fee + unat protocol_fee + unat net)"
    using e1(2) e2(2) d3(2) by linarith
  assume ne: "src \<noteq> dst" and "no_transfer_fee E L am"
  then have "no_transfer_fee E L2 am" using e1(3) e2(3) by (simp add: no_transfer_fee_def)
  from transfer_credits [OF e3 ne this] have "amount_of L' dst = amount_of L2 dst + unat net" .
  moreover have "amount_of L dst \<le> amount_of L1 dst" "amount_of L1 dst \<le> amount_of L2 dst"
    using debits_le [OF e1(1)] debits_le [OF e2(1)] ne by simp_all
  ultimately show "amount_of L dst + unat net \<le> amount_of L' dst" by simp
qed

lemma get_deposit_fee_and_net_Inr:
  "get_deposit_fee_and_net v n = Inr (fee, net) \<Longrightarrow> unat fee + unat net = unat n"
  by (auto simp: get_deposit_fee_and_net_def res_simps checked_simps)

lemma get_withdrawal_fee_and_net_Inr:
  "get_withdrawal_fee_and_net v n = Inr (fee, net) \<Longrightarrow> unat fee + unat net = unat n"
  by (auto simp: get_withdrawal_fee_and_net_def res_simps checked_simps)

text \<open>An approved deposit takes its original amount from the escrow, fee and net together.\<close>

lemma settle_deposit_request_effect:
  assumes spl: "spl_laws E"
    and run: "settle_deposit_request E w accts am sm v tcs ctx nav n info rem = Inr (tcs', L', claimable, delta)"
  shows "debits {ar_pending_vault accts} (w_ledger w) L'"
    and "amount_of (w_ledger w) (ar_pending_vault accts) \<le> amount_of L' (ar_pending_vault accts) + unat n"
    and "unat delta \<le> unat n"
proof -
  from run obtain fee net protocol_fee fee_recipient_fee fee_info protocol_info where
    fee: "get_deposit_fee_and_net v n = Inr (fee, net)" and
    split: "split_protocol_fee fee (v_protocol_fee_bps v) = Inr (protocol_fee, fee_recipient_fee)" and
    pay: "pay_settlement (transfer_asset_from E (ar_vault accts) v (ar_asset_token_program accts)
       (ar_asset_mint accts) am (ar_pending_vault accts))
       fee_info fee_recipient_fee protocol_info protocol_fee
       (ar_vault_token_account accts) net (w_ledger w) = Inr L'" and delta: "delta = net"
    by (auto simp: settle_deposit_request_def res_simps)
  have sum: "unat fee_recipient_fee + unat protocol_fee + unat net = unat n"
    using get_deposit_fee_and_net_Inr [OF fee] split_protocol_fee_Inr(1) [OF split] by simp
  note e = pay_settlement_effect [OF spl pay]
  show "debits {ar_pending_vault accts} (w_ledger w) L'" by (rule e(1))
  show "amount_of (w_ledger w) (ar_pending_vault accts) \<le> amount_of L' (ar_pending_vault accts) + unat n"
    using e(2) by (simp add: sum)
  show "unat delta \<le> unat n" using sum delta by simp
qed

text \<open>An approved redemption moves what can be claimed into the escrow.\<close>

lemma settle_redeem_request_effect:
  assumes spl: "spl_laws E"
    and run: "settle_redeem_request E w accts am sm v tcs ctx nav n info rem = Inr (v', tcs', L', claimable, delta)"
  shows "debits {ar_vault_token_account accts} (w_ledger w) L'"
    and "ar_vault_token_account accts \<noteq> ar_pending_vault accts \<Longrightarrow>
         no_transfer_fee E (w_ledger w) (ar_asset_mint accts) \<Longrightarrow>
         amount_of (w_ledger w) (ar_pending_vault accts) + unat claimable
           \<le> amount_of L' (ar_pending_vault accts)"
    and "amount_of (w_ledger w) (ar_vault_token_account accts)
           \<le> amount_of L' (ar_vault_token_account accts) + unat delta"
    and "identity v' = identity v \<and> v_pending_async_requests v' = v_pending_async_requests v
         \<and> v_pending_deposit_amount v' = v_pending_deposit_amount v
         \<and> v_total_asset_balance v' = v_total_asset_balance v"
proof -
  from run obtain assets fee net protocol_fee fee_recipient_fee fee_info protocol_info where
    fee: "get_withdrawal_fee_and_net v assets = Inr (fee, net)" and
    consume: "Vault_consume_redemption_rolling_limit v assets (env_slot E) = Inr v'" and
    split: "split_protocol_fee fee (v_protocol_fee_bps v') = Inr (protocol_fee, fee_recipient_fee)" and
    pay: "pay_settlement (transfer_asset_from E (ar_vault accts) v' (ar_asset_token_program accts)
       (ar_asset_mint accts) am (ar_vault_token_account accts))
       fee_info fee_recipient_fee protocol_info protocol_fee
       (ar_pending_vault accts) net (w_ledger w) = Inr L'" and
    out: "claimable = net" "delta = assets"
    by (auto simp: settle_redeem_request_def res_simps)
  have sum: "unat fee_recipient_fee + unat protocol_fee + unat net = unat assets"
    using get_withdrawal_fee_and_net_Inr [OF fee] split_protocol_fee_Inr(1) [OF split] by simp
  note e = pay_settlement_effect [OF spl pay]
  show "debits {ar_vault_token_account accts} (w_ledger w) L'" by (rule e(1))
  show "amount_of (w_ledger w) (ar_vault_token_account accts)
      \<le> amount_of L' (ar_vault_token_account accts) + unat delta"
    using e(2) by (simp add: sum out)
  show "amount_of (w_ledger w) (ar_pending_vault accts) + unat claimable
      \<le> amount_of L' (ar_pending_vault accts)"
    if "ar_vault_token_account accts \<noteq> ar_pending_vault accts"
      "no_transfer_fee E (w_ledger w) (ar_asset_mint accts)"
    using e(3) that by (simp add: out)
  show "identity v' = identity v \<and> v_pending_async_requests v' = v_pending_async_requests v
      \<and> v_pending_deposit_amount v' = v_pending_deposit_amount v
      \<and> v_total_asset_balance v' = v_total_asset_balance v"
    by (rule consume_redemption_keeps [OF consume])
qed

subsection \<open>Approval\<close>

lemma account_deposit_Inr:
  "account_deposit True delta n v va = Inr (v', va') \<Longrightarrow>
   identity v' = identity v \<and> v_pending_async_requests v' = v_pending_async_requests v
   \<and> unat (v_pending_deposit_amount v) = unat (v_pending_deposit_amount v') + unat n
   \<and> unat (v_total_asset_balance v') = unat (v_total_asset_balance v) + unat delta
   \<and> (v_deposit_cap v \<noteq> 0 \<longrightarrow> v_total_asset_balance v' \<le> v_deposit_cap v)"
  by (auto simp: account_deposit_def res_simps checked_simps identity_eq word_le_nat_alt word_gt_0
      split: if_splits)

lemma account_redeem_Inr:
  "account_redeem True delta v va = Inr (v', va') \<Longrightarrow>
   identity v' = identity v \<and> v_pending_async_requests v' = v_pending_async_requests v
   \<and> v_pending_deposit_amount v' = v_pending_deposit_amount v
   \<and> unat (v_total_asset_balance v) = unat (v_total_asset_balance v') + unat delta"
  by (auto simp: account_redeem_def res_simps checked_simps identity_eq)

text \<open>What an approval starts from, and the two ways it ends.\<close>

lemma approve_request_Inr:
  assumes "approve_request E accts ra args w = Inr w'"
  obtains v va r t_reserve t_pending am sm ctx v1 tcs1 v2 va2 tcs L claimable pa where
    "w' = w\<lparr>w_ledger := L,
           w_vaults := (w_vaults w)(ar_vault accts \<mapsto> v2\<lparr>v_pending_async_requests := pa\<rparr>),
           w_requests := (w_requests w)(ar_request accts \<mapsto>
             r\<lparr>req_amount := claimable, req_price := request_nav ctx v, req_request_state := Claimable\<rparr>),
           w_vault_assets := put_opt (w_vault_assets w) (ar_vault_asset accts) va2,
           w_tranche_configs := tcs\<rparr>"
    "w_vaults w (ar_vault accts) = Some v" "w_requests w (ar_request accts) = Some r"
    "l_mints (w_ledger w) (ar_asset_mint accts) = Some am"
    "l_mints (w_ledger w) (ar_share_mint accts) = Some sm"
    "l_tokens (w_ledger w) (ar_vault_token_account accts) = Some t_reserve"
    "l_tokens (w_ledger w) (ar_pending_vault accts) = Some t_pending"
    "check_fifo_ordering v (w_tranche_configs w) ctx (ar_share_mint accts) r ra = Inr (v1, tcs1)"
    "(case req_request_type r of
        Deposit \<Rightarrow>
          try_ok (settle_deposit_request E w accts am sm v1 tcs1 ctx (request_nav ctx v)
            (req_amount r) (get_at ra 0) (drop (rsc_consumed_accounts ctx) ra))
            (\<lambda>(tcs, L, claimable_amount, balance_delta).
          try_ok (account_deposit True balance_delta (req_amount r) v1 va)
            (\<lambda>(v, va). Inr (v, va, tcs, L, claimable_amount)))
      | Redeem \<Rightarrow>
          try_ok (settle_redeem_request E w accts am sm v1 tcs1 ctx (request_nav ctx v)
            (req_amount r) (get_at ra 0) (drop (rsc_consumed_accounts ctx) ra))
            (\<lambda>(v, tcs, L, claimable_amount, balance_delta).
          try_ok (account_redeem True balance_delta v va)
            (\<lambda>(v, va). Inr (v, va, tcs, L, claimable_amount)))) = Inr (v2, va2, tcs, L, claimable)"
    "validate_request_share_mint E w v (ar_vault accts) (ar_share_mint accts) ra = Inr ctx"
    "validate_asset_mint_extensions E am = Inr ()"
    "Vault_assert_curator_or_fulfiller v (ar_authority accts) = Inr ()"
    "Vault_assert_unpaused_and_initialized v = Inr ()"
    "Vault_assert_fresh_nav_for_request v (req_nav_update_version r) = Inr ()"
    "Vault_assert_nav_not_stale v (env_slot E) = Inr ()"
    "checked_sub (v_pending_async_requests v2) 1 = Some pa"
    "args_match_request args r" "0 < v_nav v"
    "ta_owner t_reserve = ar_vault accts" "ta_mint t_reserve = ar_asset_mint accts"
    "ta_owner t_pending = ar_vault accts" "ta_mint t_pending = ar_asset_mint accts"
    "req_vault r = ar_vault accts" "req_request_state r = Pending"
    "req_asset_mint_address r = ar_asset_mint accts" "req_share_mint_address r = ar_share_mint accts"
    "v_asset_mint v = ar_asset_mint accts"
    "v_vault_token_account v = ar_vault_token_account accts"
    "v_pending_vault v = ar_pending_vault accts"
proof -
  have primary: "v_asset_mint v = ar_asset_mint accts \<and> v_vault_token_account v = ar_vault_token_account accts
      \<and> v_pending_vault v = ar_pending_vault accts \<and> Vault_is_primary_asset v (ar_asset_mint accts) = True"
    if "assert_approval_accounts v va accts = Inr ()" for v va
    using that by (auto simp: assert_approval_accounts_def vault_guard_defs res_simps split: if_splits)
  from assms show thesis
    apply (clarsimp simp: approve_request_def res_simps Let_def)
    apply (frule primary)
    apply (rule that, assumption, assumption, assumption, assumption, assumption, assumption,
        assumption, assumption)
    apply (simp_all only: simp_thms)
    done
qed

lemma approve_request_books:
  assumes run: "approve_request E accts ra args w = Inr w'"
    and spl: "spl_laws E" and books: "world_books E w"
  shows "world_books E w'"
  using run
proof (rule approve_request_Inr, goal_cases)
  case (1 v va r t_reserve t_pending am sm ctx v1 tcs1 v2 va2 tcs L claimable pa)
  let ?vk = "ar_vault accts" and ?pv = "ar_pending_vault accts" and ?res = "ar_vault_token_account accts"
  let ?r = "r\<lparr>req_amount := claimable, req_price := request_nav ctx v, req_request_state := Claimable\<rparr>"
  from check_fifo_ordering_keeps [OF 1(8)] obtain tlv where v1: "v1 = v\<lparr>v_tlv := tlv\<rparr>" by blast
  have pa: "unat (v_pending_async_requests v2) = unat pa + 1" using 1(16) by (simp add: checked_simps)
  have held: "held_by_vault_or_wallet E (w_ledger w) ?vk {?pv}"
    "held_by_vault_or_wallet E (w_ledger w) ?vk {?res}"
    using held_by [OF 1(6)] held_by [OF 1(7)] 1(19,21) by (simp_all add: held_by_vault_or_wallet_def)
  have distinct: "?res \<noteq> ?pv"
    using books_of [OF books 1(2)] 1(28,29) by (auto simp: books_ok_def)
  have "\<exists>D. debits D (w_ledger w) L \<and> held_by_vault_or_wallet E (w_ledger w) ?vk D
      \<and> identity v2 = identity v \<and> v_pending_async_requests v2 = v_pending_async_requests v
      \<and> unat (v_pending_deposit_amount v)
          = unat (v_pending_deposit_amount v2) + pending_deposit ?vk (v_asset_mint v) r
      \<and> amount_of (w_ledger w) ?pv + escrowed ?vk (v_asset_mint v) ?r
          \<le> amount_of L ?pv + escrowed ?vk (v_asset_mint v) r"
  proof (cases "req_request_type r")
    case Deposit
    with 1(9) obtain delta where
      settle: "settle_deposit_request E w accts am sm v1 tcs1 ctx (request_nav ctx v) (req_amount r)
        (get_at ra 0) (drop (rsc_consumed_accounts ctx) ra) = Inr (tcs, L, claimable, delta)"
      and acct: "account_deposit True delta (req_amount r) v1 va = Inr (v2, va2)"
      by (auto simp: res_simps)
    show ?thesis
      using settle_deposit_request_effect [OF spl settle] account_deposit_Inr [OF acct] held(1) Deposit 1
      by (intro exI [of _ "{?pv}"]) (simp add: weights v1 identity_eq)
  next
    case Redeem
    with 1(9) obtain v' delta where
      settle: "settle_redeem_request E w accts am sm v1 tcs1 ctx (request_nav ctx v) (req_amount r)
        (get_at ra 0) (drop (rsc_consumed_accounts ctx) ra) = Inr (v', tcs, L, claimable, delta)"
      and acct: "account_redeem True delta v' va = Inr (v2, va2)"
      by (auto simp: res_simps)
    have "no_transfer_fee E (w_ledger w) (ar_asset_mint accts)"
      using validate_asset_mint_extensions_fee [OF 1(4)] 1(11) by simp
    with settle_redeem_request_effect [OF spl settle] distinct account_redeem_Inr [OF acct] held(2) Redeem 1
    show ?thesis by (intro exI [of _ "{?res}"]) (simp add: weights v1 identity_eq)
  qed
  then obtain D where D: "debits D (w_ledger w) L" "held_by_vault_or_wallet E (w_ledger w) ?vk D"
    and *: "identity v2 = identity v" "v_pending_async_requests v2 = v_pending_async_requests v"
      "unat (v_pending_deposit_amount v)
          = unat (v_pending_deposit_amount v2) + pending_deposit ?vk (v_asset_mint v) r"
      "amount_of (w_ledger w) ?pv + escrowed ?vk (v_asset_mint v) ?r
          \<le> amount_of L ?pv + escrowed ?vk (v_asset_mint v) r" by blast
  show ?case
  proof (rule books_step_debits [OF books 1(2), where rk = "ar_request accts" and new = "Some ?r"])
    show "debits D (w_ledger w) (w_ledger w')" using D(1) by (simp add: 1(1))
    show "held_by_vault_or_wallet E (w_ledger w) ?vk D" by (rule D(2))
    show "identity (v2\<lparr>v_pending_async_requests := pa\<rparr>) = identity v" using *(1) by (simp add: identity_eq)
    show "w_vaults w' = (w_vaults w)(?vk \<mapsto> v2\<lparr>v_pending_async_requests := pa\<rparr>)" by (simp add: 1(1))
    show "unat (v_pending_async_requests (v2\<lparr>v_pending_async_requests := pa\<rparr>))
        + opt_weight (pending_count ?vk) (w_requests w (ar_request accts))
        = unat (v_pending_async_requests v) + opt_weight (pending_count ?vk) (Some ?r)"
      using pa *(2) 1(3,23,24) by (simp add: pending_count_def)
  qed (use * 1 in \<open>auto simp: pending_deposit_def\<close>)
qed

subsection \<open>Claims\<close>

lemma claim_books:
  assumes run: "claim E accts ra w = Inr w'" and spl: "spl_laws E" and books: "world_books E w"
  shows "world_books E w'"
proof -
  let ?vk = "cl_vault accts" and ?am = "cl_asset_mint accts"
  from run obtain v va r am t L where *:
    "w_vaults w ?vk = Some v" "w_requests w (cl_request accts) = Some r"
    "opt_account (l_tokens (w_ledger w)) (cl_pending_vault accts) t"
    "\<And>t'. t = Some t' \<Longrightarrow> ta_owner t' = ?vk \<and> ta_mint t' = ?am"
    "req_vault r = ?vk" "req_request_state r = Claimable" "req_asset_mint_address r = ?am"
    "(case req_request_type r of
        Deposit \<Rightarrow> mint_shares E ?vk v (cl_share_mint accts) (cl_user_share_account accts)
          (cl_share_token_program accts) (req_amount r) (w_ledger w)
      | Redeem \<Rightarrow> ok_or (cl_pending_vault accts) (Vault_Err MissingRequiredAccount) (\<lambda>src.
          try_ok (assert_refund_escrow v va ?vk ?am src) (\<lambda>_.
          transfer_assets_to_user E ?vk v ?am am (cl_pending_vault accts) (cl_user_asset_account accts)
            (Some (cl_asset_token_program accts)) (req_amount r) (w_ledger w)))) = Inr L"
    "w' = w\<lparr>w_ledger := L, w_requests := close (w_requests w) (cl_request accts)\<rparr>"
    by (fastforce simp: claim_def res_simps)
  have "\<exists>D. debits D (w_ledger w) L \<and> held_by_vault_or_wallet E (w_ledger w) ?vk D
      \<and> amount_of (w_ledger w) (v_pending_vault v)
          \<le> amount_of L (v_pending_vault v) + escrowed ?vk (v_asset_mint v) r"
  proof (cases "req_request_type r")
    case Deposit
    with *(8) obtain d p where "mint_to E p (cl_share_mint accts) d ?vk (req_amount r) (w_ledger w) = Inr L"
      by (auto simp: mint_shares_def res_simps)
    from mint_debits [OF spl_mint [OF spl this]] have "debits {} (w_ledger w) L" .
    then show ?thesis using debits_le [of "{}"]
      by (intro exI [of _ "{}"]) (auto simp: held_by_vault_or_wallet_def trans_le_add1)
  next
    case Redeem
    with *(8) obtain s d p where s: "cl_pending_vault accts = Some s"
      "assert_refund_escrow v va ?vk ?am s = Inr ()"
      "transfer_checked E p s ?am d ?vk (req_amount r) (mint_decimals am) (w_ledger w) = Inr L"
      by (auto simp: transfer_assets_to_user_def res_simps)
    from *(3,4) s(1) obtain t' where t': "l_tokens (w_ledger w) s = Some t'" "ta_owner t' = ?vk" "ta_mint t' = ?am"
      using opt_account_Some by metis
    note esc = escrow_account [OF books *(1) t' s(2)]
    note D = transfer_debits [OF spl_transfer [OF spl s(3)]]
    have "amount_of (w_ledger w) (v_pending_vault v)
        \<le> amount_of L (v_pending_vault v) + escrowed ?vk (v_asset_mint v) r"
      using D(2) debits_le [OF D(1)] esc(2,3) *(5-7) Redeem
      by (cases "v_asset_mint v = ?am") (auto simp: escrowed_def)
    with D(1) esc(1) show ?thesis
      by (intro exI [of _ "{s}"]) (auto simp: held_by_vault_or_wallet_def)
  qed
  then obtain D where D: "debits D (w_ledger w) L" "held_by_vault_or_wallet E (w_ledger w) ?vk D"
    "amount_of (w_ledger w) (v_pending_vault v)
      \<le> amount_of L (v_pending_vault v) + escrowed ?vk (v_asset_mint v) r" by blast
  show ?thesis
  proof (rule books_step_debits [OF books *(1), where v' = v and rk = "cl_request accts" and new = None])
    show "debits D (w_ledger w) (w_ledger w')" using D(1) by (simp add: *(9))
    show "held_by_vault_or_wallet E (w_ledger w) ?vk D" by (rule D(2))
    show "w_vaults w' = (w_vaults w)(?vk \<mapsto> v)" using *(1) by (simp add: *(9) map_upd_triv)
  qed (use D(3) *(1-7) in \<open>auto simp: *(9) close_def pending_count_def pending_deposit_def\<close>)
qed

end
