(* ===== verification/Instant_Books.thy ===== *)
theory Instant_Books
  imports Sample_Instant Approval_Books
begin

text \<open>
  What instant deposits and redemptions do to the ledger and to the vault's books, and that
  between two NAV updates they never take cover from the shares that stay outstanding.
\<close>

subsection \<open>The fees of an instant settlement\<close>

definition transfers_from ::
  "env \<Rightarrow> pubkey \<Rightarrow> pubkey \<Rightarrow> (pubkey \<Rightarrow> u64 \<Rightarrow> ledger \<Rightarrow> ledger result) \<Rightarrow> bool" where
  "transfers_from E src mint transfer \<longleftrightarrow>
     (\<forall>dst n A B. transfer dst n A = Inr B \<longrightarrow> transfer_effect E src mint dst (unat n) A B)"

lemma transfers_fromD:
  "transfers_from E src mint transfer \<Longrightarrow> transfer dst n A = Inr B \<Longrightarrow>
   transfer_effect E src mint dst (unat n) A B"
  by (simp add: transfers_from_def)

lemma optional_fee_effect:
  assumes transfer: "transfers_from E src mint transfer"
    and "b \<Longrightarrow> \<exists>dst. transfer dst n A = Inr B" "\<not> b \<Longrightarrow> B = A"
  shows "debits {src} A B" "amount_of A src \<le> amount_of B src + unat n" "l_mints B = l_mints A"
proof -
  have "debits {src} A B \<and> amount_of A src \<le> amount_of B src + unat n \<and> l_mints B = l_mints A"
  proof (cases b)
    case True
    then obtain dst where e: "transfer_effect E src mint dst (unat n) A B" using assms(2) transfers_fromD [OF transfer] by blast
    then have "l_mints B = l_mints A" by (simp add: transfer_effect_def)
    with transfer_debits [OF e] show ?thesis by simp
  qed (use assms(3) debits_refl in auto)
  then show "debits {src} A B" "amount_of A src \<le> amount_of B src + unat n" "l_mints B = l_mints A" by auto
qed

lemma pay_instant_fees_effect:
  assumes transfer: "transfers_from E src mint transfer"
    and run: "pay_instant_fees E' w v transfer fr fee pr pt protocol_fee ra L = Inr L'"
  shows "debits {src} L L'" "amount_of L src \<le> amount_of L' src + (unat fee + unat protocol_fee)"
    "l_mints L' = l_mints L"
proof -
  obtain L1 where 1: "fee > 0 \<Longrightarrow> \<exists>dst. transfer dst fee L = Inr L1" "\<not> fee > 0 \<Longrightarrow> L1 = L"
    and 2: "protocol_fee > 0 \<Longrightarrow> \<exists>dst. transfer dst protocol_fee L1 = Inr L'" "\<not> protocol_fee > 0 \<Longrightarrow> L' = L1"
    using run by (cases "fee > 0"; cases "protocol_fee > 0") (auto simp: pay_instant_fees_def res_simps)
  note e1 = optional_fee_effect [where b = "fee > 0", OF transfer 1]
    and e2 = optional_fee_effect [where b = "protocol_fee > 0", OF transfer 2]
  show "debits {src} L L'" by (rule debits_trans [OF e1(1) e2(1)])
  show "amount_of L src \<le> amount_of L' src + (unat fee + unat protocol_fee)" using e1(2) e2(2) by simp
  show "l_mints L' = l_mints L" using e1(3) e2(3) by simp
qed

subsection \<open>An instant deposit\<close>

lemma instant_deposit_Inr:
  assumes run: "instant_deposit E accts ra amount w = Inr w'"
  obtains v am sm reserve user_asset settings users fee net shares protocol_fee rest L1 L2 L3 total where
    "w_vaults w (id_vault accts) = Some v"
    "l_mints (w_ledger w) (id_asset_mint accts) = Some am"
    "l_mints (w_ledger w) (id_share_mint accts) = Some sm"
    "l_tokens (w_ledger w) (id_vault_token_account accts) = Some reserve"
    "ta_owner reserve = id_vault accts" "ta_mint reserve = id_asset_mint accts"
    "l_tokens (w_ledger w) (id_user_asset_account accts) = Some user_asset"
    "ta_owner user_asset = id_user accts" "ta_mint user_asset = id_asset_mint accts"
    "v_asset_mint v = id_asset_mint accts" "v_share_mint v = id_share_mint accts"
    "v_vault_token_account v = id_vault_token_account accts"
    "Vault_assert_unpaused_and_initialized v = Inr ()" "v_tranche_config v = None"
    "assert_instant_settlement_enabled v = Inr settings"
    "InstantSettlement_assert_deposit_amount settings amount = Inr ()"
    "validate_asset_mint_extensions E am = Inr ()"
    "v_nav v > 0" "Vault_assert_nav_not_stale v (env_slot E) = Inr ()"
    "consume_user_limit E w (id_instant_user accts) (id_vault accts) (id_user accts)
       (is_max_user_deposit_amount settings)
       (\<lambda>u. InstantSettlementUser_consume_deposit_limit u amount (env_slot E)
          (is_max_user_deposit_amount settings) (v_rolling_limit_window_slots v)) = Inr users"
    "Vault_assert_deposit_cap_allows v amount = Inr ()"
    "get_deposit_fee_and_net v amount = Inr (fee, net)" "net > 0"
    "calculate_shares (v_nav v) (mint_decimals sm) net = Inr shares" "shares > 0"
    "split_protocol_fee fee (v_protocol_fee_bps v) = Inr (protocol_fee, rest)"
    "\<exists>pt. pay_instant_fees E w v (transfer_user_assets_to E accts am)
       (id_fee_recipient_token_account accts) rest
       (id_protocol_fee_recipient_token_account accts) pt protocol_fee ra (w_ledger w) = Inr L1"
    "transfer_user_assets_to E accts am (id_vault_token_account accts) net L1 = Inr L2"
    "mint_to E (id_share_token_program accts) (id_share_mint accts) (id_user_share_account accts)
       (id_vault accts) shares L2 = Inr L3"
    "checked_add (v_total_asset_balance v) net = Some total"
    "w' = w\<lparr>w_ledger := L3,
       w_vaults := (w_vaults w)(id_vault accts \<mapsto> v\<lparr>v_total_asset_balance := total\<rparr>),
       w_instant_users := users\<rparr>"
proof -
  from run show thesis
    apply (clarsimp simp: instant_deposit_def res_simps)
    apply (rule that)
                                  apply (assumption | rule exI)+
    done
qed

text \<open>
  The effect of a deposit. \<open>prices\<close> relates what is paid in, the fees, what the vault keeps and
  the shares minted for it.
\<close>

lemma transfer_user_assets_effect:
  "spl_laws E \<Longrightarrow>
   transfers_from E (id_user_asset_account accts) (id_asset_mint accts) (transfer_user_assets_to E accts am)"
  by (auto simp: transfers_from_def transfer_user_assets_to_def intro: spl_transfer)

text \<open>Fees and a transfer to the owner of the other side, all from one account.\<close>

lemma pay_and_transfer_effect:
  assumes transfer: "transfers_from E src mint transfer"
    and fees: "pay_instant_fees E' w v transfer fr rest pr pt protocol_fee ra L = Inr L1"
    and pay: "transfer dst net L1 = Inr L2"
  shows "debits {src} L L2" "amount_of L src \<le> amount_of L2 src + (unat rest + unat protocol_fee + unat net)"
    "l_mints L2 = l_mints L"
    "src \<noteq> dst \<Longrightarrow> no_transfer_fee E L mint \<Longrightarrow> amount_of L dst + unat net \<le> amount_of L2 dst"
proof -
  note e1 = pay_instant_fees_effect [OF transfer fees]
  note e2 = transfers_fromD [OF transfer pay]
  note d2 = transfer_debits [OF e2]
  show "debits {src} L L2" by (rule debits_trans [OF e1(1) d2(1)])
  show "amount_of L src \<le> amount_of L2 src + (unat rest + unat protocol_fee + unat net)"
    using e1(2) d2(2) by linarith
  show "l_mints L2 = l_mints L" using e1(3) e2 by (simp add: transfer_effect_def)
  assume ne: "src \<noteq> dst" and "no_transfer_fee E L mint"
  then have "no_transfer_fee E L1 mint" using e1(3) by (simp add: no_transfer_fee_def)
  from transfer_credits [OF e2 ne this] show "amount_of L dst + unat net \<le> amount_of L2 dst"
    using debits_le [OF e1(1), of dst] ne by simp
qed

lemma minted_effect:
  assumes "spl_laws E" "mint_to E p mint dst a n L = Inr L'"
  shows "debits {} L L'"
    and "l_mints L mint = Some m \<Longrightarrow>
      \<exists>s. l_mints L' mint = Some (m\<lparr>mint_supply := s\<rparr>) \<and> unat s = unat (mint_supply m) + unat n"
  using mint_debits [OF spl_mint [OF assms]] spl_mint [OF assms] by (auto simp: mint_effect_def)

lemma burnt_effect:
  assumes "spl_laws E" "burn E p mint src a n L = Inr L'"
  shows "debits {src} L L'"
    and "l_mints L mint = Some m \<Longrightarrow>
      \<exists>s. l_mints L' mint = Some (m\<lparr>mint_supply := s\<rparr>) \<and> unat (mint_supply m) = unat s + unat n"
    and "mint' \<noteq> mint \<Longrightarrow> l_mints L' mint' = l_mints L mint'"
  using burn_debits [OF spl_burnt [OF assms]] spl_burnt [OF assms] by (auto simp: burn_effect_def)



subsection \<open>An instant redemption\<close>

lemma instant_redeem_Inr:
  assumes run: "instant_redeem E accts ra shares w = Inr w'"
  obtains v am sm reserve user_share settings users gross wfee ifee total_fee net v1 L1 protocol_fee rest L2 L3 total where
    "w_vaults w (ir_vault accts) = Some v"
    "l_mints (w_ledger w) (ir_asset_mint accts) = Some am"
    "l_mints (w_ledger w) (ir_share_mint accts) = Some sm"
    "l_tokens (w_ledger w) (ir_vault_token_account accts) = Some reserve"
    "ta_owner reserve = ir_vault accts" "ta_mint reserve = ir_asset_mint accts"
    "l_tokens (w_ledger w) (ir_user_share_account accts) = Some user_share"
    "ta_owner user_share = ir_user accts" "ta_mint user_share = ir_share_mint accts"
    "v_asset_mint v = ir_asset_mint accts" "v_share_mint v = ir_share_mint accts"
    "v_vault_token_account v = ir_vault_token_account accts"
    "Vault_assert_unpaused_and_initialized v = Inr ()" "v_tranche_config v = None"
    "assert_instant_settlement_enabled v = Inr settings"
    "InstantSettlement_assert_redeem_shares settings shares = Inr ()"
    "validate_asset_mint_extensions E am = Inr ()"
    "v_nav v > 0" "Vault_assert_nav_not_stale v (env_slot E) = Inr ()"
    "consume_user_limit E w (ir_instant_user accts) (ir_vault accts) (ir_user accts)
       (is_max_user_redeem_shares settings)
       (\<lambda>u. InstantSettlementUser_consume_redeem_limit u shares (env_slot E)
          (is_max_user_redeem_shares settings) (v_rolling_limit_window_slots v)) = Inr users"
    "calculate_assets (v_nav v) (mint_decimals sm) shares = Inr gross" "gross \<le> ta_amount reserve"
    "get_withdrawal_fee v gross = Inr wfee" "instant_redemption_fee v gross = Inr ifee"
    "checked_add wfee ifee = Some total_fee" "checked_sub gross total_fee = Some net" "net > 0"
    "Vault_consume_redemption_rolling_limit v gross (env_slot E) = Inr v1"
    "burn E (ir_share_token_program accts) (ir_share_mint accts) (ir_user_share_account accts)
       (ir_user accts) shares (w_ledger w) = Inr L1"
    "split_protocol_fee total_fee (v_protocol_fee_bps v1) = Inr (protocol_fee, rest)"
    "\<exists>pt. pay_instant_fees E w v1 (transfer_vault_assets_to E accts v1 am)
       (ir_fee_recipient_token_account accts) rest
       (ir_protocol_fee_recipient_token_account accts) pt protocol_fee ra L1 = Inr L2"
    "transfer_vault_assets_to E accts v1 am (ir_user_asset_account accts) net L2 = Inr L3"
    "checked_sub (v_total_asset_balance v1) gross = Some total"
    "w' = w\<lparr>w_ledger := L3,
       w_vaults := (w_vaults w)(ir_vault accts \<mapsto> v1\<lparr>v_total_asset_balance := total\<rparr>),
       w_instant_users := users\<rparr>"
proof -
  from run show thesis
    apply (clarsimp simp: instant_redeem_def res_simps)
    apply (rule that)
                                     apply (assumption | rule exI)+
    done
qed

lemma transfer_vault_assets_effect:
  "spl_laws E \<Longrightarrow>
   transfers_from E (ir_vault_token_account accts) (ir_asset_mint accts) (transfer_vault_assets_to E accts v am)"
  by (auto simp: transfers_from_def transfer_vault_assets_to_def res_simps intro: spl_transfer)

lemma consume_redemption_Inr:
  "Vault_consume_redemption_rolling_limit v n s = Inr v' \<Longrightarrow>
   \<exists>start used. v' = v\<lparr>v_redemption_window_start_slot := start, v_redemption_window_amount := used\<rparr>"
  by (auto simp: Vault_consume_redemption_rolling_limit_def res_simps)



subsection \<open>The books of the requests\<close>

lemma instant_deposit_books:
  assumes run: "instant_deposit E accts ra amount w = Inr w'" and spl: "spl_laws E"
    and user: "is_wallet E (id_user accts)" and books: "world_books E w"
  shows "world_books E w'"
  using run
proof (rule instant_deposit_Inr, goal_cases)
  case (1 v am sm r t settings users fee net shares pf rest L1 L2 L3 total)
  from 1(27) obtain pt where fees: "pay_instant_fees E w v (transfer_user_assets_to E accts am)
      (id_fee_recipient_token_account accts) rest (id_protocol_fee_recipient_token_account accts) pt pf ra
      (w_ledger w) = Inr L1" by auto
  note e = pay_and_transfer_effect [OF transfer_user_assets_effect [OF spl] fees 1(28)]
  have D: "debits {id_user_asset_account accts} (w_ledger w) L3"
    using debits_trans [OF e(1)] minted_effect(1) [OF spl 1(29)] by (auto simp: debits_def)
  have h: "holder (w_ledger w) (id_user_asset_account accts) = Some (ta_program t, ta_mint t, id_user accts)"
    using held_by [OF 1(7)] 1(8) by simp
  have ne: "v_pending_vault v2 \<noteq> id_user_asset_account accts" if "w_vaults w k = Some v2" for k v2
    using not_escrow [OF books that h] wallet_is_no_vault [OF books that user] by auto
  have kept: "amount_of (w_ledger w) (v_pending_vault v2) \<le> amount_of L3 (v_pending_vault v2)"
    if "w_vaults w k = Some v2" for k v2
    using debits_le [OF D] ne [OF that] by simp
  show ?case
  proof (rule books_same_requests [OF books])
    show "\<exists>v. w_vaults w k = Some v \<and> identity v' = identity v
        \<and> v_pending_async_requests v' = v_pending_async_requests v
        \<and> v_pending_deposit_amount v' = v_pending_deposit_amount v
        \<and> amount_of (w_ledger w) (v_pending_vault v) \<le> amount_of (w_ledger w') (v_pending_vault v)"
      if "w_vaults w' k = Some v'" for k v'
      using that kept 1(1) by (auto simp: 1(31) identity_eq split: if_splits)
  qed (simp_all add: 1(31) debits_holder [OF D])
qed

lemma instant_redeem_books:
  assumes run: "instant_redeem E accts ra shares w = Inr w'" and spl: "spl_laws E"
    and user: "is_wallet E (ir_user accts)" and books: "world_books E w"
  shows "world_books E w'"
  using run
proof (rule instant_redeem_Inr, goal_cases)
  case (1 v am sm r t settings users gross wfee ifee total_fee net v1 L1 pf rest L2 L3 total)
  let ?res = "ir_vault_token_account accts" and ?sh = "ir_user_share_account accts"
  from 1(31) obtain pt where fees: "pay_instant_fees E w v1 (transfer_vault_assets_to E accts v1 am)
      (ir_fee_recipient_token_account accts) rest (ir_protocol_fee_recipient_token_account accts) pt pf ra
      L1 = Inr L2" by auto
  note e = pay_and_transfer_effect [OF transfer_vault_assets_effect [OF spl] fees 1(32)]
  obtain start used where v1: "v1 = v\<lparr>v_redemption_window_start_slot := start, v_redemption_window_amount := used\<rparr>"
    using consume_redemption_Inr 1(28) by blast
  have D: "debits {?sh, ?res} (w_ledger w) L3"
    using burnt_effect(1) [OF spl 1(29)] e(1) by (auto simp: debits_def intro: order_trans)
  have h: "holder (w_ledger w) ?sh = Some (ta_program t, ta_mint t, ir_user accts)"
    "holder (w_ledger w) ?res = Some (ta_program r, ta_mint r, ir_vault accts)"
    using held_by [OF 1(4)] held_by [OF 1(7)] 1(5,8) by simp_all
  have own: "?res \<noteq> v_pending_vault v" using books_of [OF books 1(1)] 1(12) by (auto simp: books_ok_def)
  have ne: "v_pending_vault v2 \<notin> {?sh, ?res}" if "w_vaults w k = Some v2" for k v2
    using not_escrow [OF books that h(1)] not_escrow [OF books that h(2)] wallet_is_no_vault [OF books that user]
      that 1(1) own by (cases "k = ir_vault accts") auto
  have kept: "amount_of (w_ledger w) (v_pending_vault v2) \<le> amount_of L3 (v_pending_vault v2)"
    if "w_vaults w k = Some v2" for k v2
    using debits_le [OF D] ne [OF that] by simp
  show ?case
  proof (rule books_same_requests [OF books])
    show "\<exists>v. w_vaults w k = Some v \<and> identity v' = identity v
        \<and> v_pending_async_requests v' = v_pending_async_requests v
        \<and> v_pending_deposit_amount v' = v_pending_deposit_amount v
        \<and> amount_of (w_ledger w) (v_pending_vault v) \<le> amount_of (w_ledger w') (v_pending_vault v)"
      if "w_vaults w' k = Some v'" for k v'
      using that kept 1(1) by (auto simp: 1(34) v1 identity_eq split: if_splits)
  qed (simp_all add: 1(34) debits_holder [OF D])
qed

end
