(* ===== verification/Nav_Update.thy ===== *)
theory Nav_Update
  imports Fees Request_Utils Sample_World
begin

text \<open>
  \<open>instructions/update_nav.rs\<close>: a new NAV per share, the performance fee crystallised above the
  high-water mark, and the waterfall that allocates a tranche vault's assets between the senior
  and the junior share class. The lemmas show that the waterfall conserves the assets, that
  losses hit the junior class first, and that the fee shares are worth at most the fee.
\<close>

subsection \<open>The waterfall\<close>

record TrancheMintSnapshot =
  tms_supply :: u64
  tms_decimals :: u8

record TrancheWaterfallState =
  tws_senior_nav :: u128
  tws_junior_nav :: u128
  tws_senior_target_bps :: u16
  tws_last_waterfall_timestamp :: i64

record TrancheWaterfallOutcome =
  two_updated_total_assets :: u128
  two_senior_assets :: u128
  two_junior_assets :: u128
  two_senior_nav :: u128
  two_junior_nav :: u128

definition assets_from_nav :: "u64 \<Rightarrow> u128 \<Rightarrow> u8 \<Rightarrow> u128 result" where
  "assets_from_nav supply nav decimals =
     (if supply = 0 \<or> nav = 0 then Inr 0
      else
        arith (checked_pow 10 (unat decimals)) (\<lambda>precision.
        arith (checked_mul (widen supply) nav) (\<lambda>product.
        arith (checked_div product precision) Inr)))"

definition nav_from_assets :: "u128 \<Rightarrow> u64 \<Rightarrow> u8 \<Rightarrow> u128 result" where
  "nav_from_assets assets supply decimals =
     (if supply = 0 then Inr 0
      else
        arith (checked_pow 10 (unat decimals)) (\<lambda>precision.
        arith (checked_mul assets precision) (\<lambda>product.
        arith (checked_div product (widen supply)) Inr)))"

definition senior_target_accrual :: "TrancheWaterfallState \<Rightarrow> u128 \<Rightarrow> i64 \<Rightarrow> u128 result" where
  "senior_target_accrual state previous_senior_assets elapsed_seconds =
     (if sint elapsed_seconds \<le> 0 \<or> tws_senior_target_bps state = 0 then Inr 0
      else
        arith (checked_mul previous_senior_assets (widen (tws_senior_target_bps state))) (\<lambda>x.
        arith (checked_mul x (scast elapsed_seconds)) (\<lambda>x.
        arith (checked_div x (widen MAX_BPS)) (\<lambda>x.
        arith (checked_div x SECONDS_PER_YEAR) Inr))))"

definition split_assets ::
  "TrancheWaterfallState \<Rightarrow> i64 \<Rightarrow> u128 \<Rightarrow> u128 \<Rightarrow> u128 \<Rightarrow> u128 \<Rightarrow> (u128 \<times> u128) result" where
  "split_assets state timestamp previous_senior_assets previous_junior_assets
     previous_total_assets updated_total_assets =
     (if updated_total_assets \<ge> previous_total_assets then
        arith (checked_sub updated_total_assets previous_total_assets) (\<lambda>gain.
        arith (checked_sub_i64 timestamp (tws_last_waterfall_timestamp state)) (\<lambda>elapsed_seconds.
        try_ok (senior_target_accrual state previous_senior_assets elapsed_seconds) (\<lambda>target_accrual.
        let senior_credit = min gain target_accrual in
        arith (checked_add previous_senior_assets senior_credit) (\<lambda>senior_assets.
        arith (checked_sub updated_total_assets senior_assets) (\<lambda>junior_assets.
        Inr (senior_assets, junior_assets))))))
      else
        arith (checked_sub previous_total_assets updated_total_assets) (\<lambda>loss.
        let junior_loss = min loss previous_junior_assets in
        arith (checked_sub previous_junior_assets junior_loss) (\<lambda>junior_assets.
        arith (checked_sub loss junior_loss) (\<lambda>senior_loss.
        arith (checked_sub previous_senior_assets senior_loss) (\<lambda>senior_assets.
        Inr (senior_assets, junior_assets))))))"

definition compute_tranche_waterfall ::
  "TrancheWaterfallState \<Rightarrow> u128 \<Rightarrow> i64 \<Rightarrow> TrancheMintSnapshot \<Rightarrow> TrancheMintSnapshot \<Rightarrow>
   TrancheWaterfallOutcome result" where
  "compute_tranche_waterfall state updated_nav timestamp senior junior =
     try_ok (assets_from_nav (tms_supply senior) (tws_senior_nav state) (tms_decimals senior))
       (\<lambda>previous_senior_assets.
     try_ok (assets_from_nav (tms_supply junior) (tws_junior_nav state) (tms_decimals junior))
       (\<lambda>previous_junior_assets.
     arith (checked_add previous_senior_assets previous_junior_assets) (\<lambda>previous_total_assets.
     try_ok (assets_from_nav (tms_supply senior) updated_nav (tms_decimals senior)) (\<lambda>s.
     try_ok (assets_from_nav (tms_supply junior) updated_nav (tms_decimals junior)) (\<lambda>j.
     arith (checked_add s j) (\<lambda>updated_total_assets.
     try_ok (split_assets state timestamp previous_senior_assets previous_junior_assets
       previous_total_assets updated_total_assets) (\<lambda>(next_senior_assets, next_junior_assets).
     try_ok (nav_from_assets next_senior_assets (tms_supply senior) (tms_decimals senior)) (\<lambda>senior_nav.
     try_ok (nav_from_assets next_junior_assets (tms_supply junior) (tms_decimals junior)) (\<lambda>junior_nav.
     Inr \<lparr>two_updated_total_assets = updated_total_assets,
          two_senior_assets = next_senior_assets, two_junior_assets = next_junior_assets,
          two_senior_nav = senior_nav, two_junior_nav = junior_nav\<rparr>)))))))))"

definition apply_tranche_waterfall ::
  "TrancheConfig \<Rightarrow> u128 \<Rightarrow> u64 \<Rightarrow> i64 \<Rightarrow> TrancheMintSnapshot \<Rightarrow> TrancheMintSnapshot \<Rightarrow>
   TrancheConfig result" where
  "apply_tranche_waterfall tc updated_nav slot timestamp senior junior =
     (let first_waterfall =
            tc_last_waterfall_slot tc = 0 \<and> tc_senior_nav tc = 0 \<and> tc_junior_nav tc = 0;
          record_snapshot = (\<lambda>tc. tc
            \<lparr>tc_senior_supply := tms_supply senior, tc_junior_supply := tms_supply junior,
             tc_last_waterfall_slot := slot, tc_last_waterfall_timestamp := timestamp\<rparr>)
      in
      if first_waterfall then
        Inr (record_snapshot (tc
          \<lparr>tc_senior_nav := if tms_supply senior = 0 then 0 else updated_nav,
           tc_junior_nav := if tms_supply junior = 0 then 0 else updated_nav\<rparr>))
      else
        try_ok (compute_tranche_waterfall
          \<lparr>tws_senior_nav = tc_senior_nav tc, tws_junior_nav = tc_junior_nav tc,
           tws_senior_target_bps = tc_senior_target_bps tc,
           tws_last_waterfall_timestamp = tc_last_waterfall_timestamp tc\<rparr>
          updated_nav timestamp senior junior) (\<lambda>outcome.
        arith (checked_add (two_senior_assets outcome) (two_junior_assets outcome)) (\<lambda>conserved_assets.
        require (conserved_assets = two_updated_total_assets outcome) arith_err (
        Inr (record_snapshot (tc
          \<lparr>tc_senior_nav := two_senior_nav outcome, tc_junior_nav := two_junior_nav outcome\<rparr>))))))"

definition maybe_apply_tranche_waterfall ::
  "env \<Rightarrow> TrancheConfig accounts \<Rightarrow> pubkey \<Rightarrow> vault \<Rightarrow> u128 \<Rightarrow> u64 \<Rightarrow> i64 \<Rightarrow> account_info list \<Rightarrow>
   TrancheConfig accounts result" where
  "maybe_apply_tranche_waterfall E tcs vault_key v updated_nav slot timestamp remaining_accounts =
     (case v_tranche_config v of
        None \<Rightarrow> Inr tcs
      | Some expected_tranche_config \<Rightarrow>
          ok_or (get_at remaining_accounts 0) (Vault_Err MissingRequiredAccount) (\<lambda>tranche_config_info.
          ok_or (get_at remaining_accounts 1) (Vault_Err MissingRequiredAccount) (\<lambda>senior_info.
          ok_or (get_at remaining_accounts 2) (Vault_Err MissingRequiredAccount) (\<lambda>junior_info.
          require (ai_is_writable tranche_config_info) (Vault_Err MissingRequiredAccount) (
          require (ai_key tranche_config_info = expected_tranche_config) (Vault_Err InvalidVault) (
          require (expected_tranche_config =
                   fst (env_find_program_address E [TRANCHE_CONFIG_SEED, vault_key]))
            (Vault_Err InvalidVault) (
          load tcs (ai_key tranche_config_info) (\<lambda>tc.
          require (tc_vault tc = vault_key) (Vault_Err InvalidVault) (
          require (tc_senior_share_mint tc = ai_key senior_info) (Vault_Err InvalidShareMint) (
          require (tc_junior_share_mint tc = ai_key junior_info) (Vault_Err InvalidShareMint) (
          require (is_token_program E (ai_owner senior_info)) (Vault_Err InvalidShareMint) (
          require (is_token_program E (ai_owner junior_info)) (Vault_Err InvalidShareMint) (
          try_ok (read_mint_supply_and_decimals senior_info) (\<lambda>(senior_supply, senior_decimals).
          try_ok (read_mint_supply_and_decimals junior_info) (\<lambda>(junior_supply, junior_decimals).
          let senior = \<lparr>tms_supply = max senior_supply (tc_senior_supply tc),
                        tms_decimals = senior_decimals\<rparr>;
              junior = \<lparr>tms_supply = max junior_supply (tc_junior_supply tc),
                        tms_decimals = junior_decimals\<rparr> in
          try_ok (apply_tranche_waterfall tc updated_nav slot timestamp senior junior) (\<lambda>tc.
          Inr (tcs(ai_key tranche_config_info \<mapsto> tc))))))))))))))))))"

subsection \<open>The performance fee\<close>

definition calculate_performance_fee_shares ::
  "u128 \<Rightarrow> u128 \<Rightarrow> u16 \<Rightarrow> u64 \<Rightarrow> u8 \<Rightarrow> u64 result" where
  "calculate_performance_fee_shares updated_nav high_water_mark fee_bps share_supply decimals =
     (if fee_bps = 0 \<or> share_supply = 0 \<or> updated_nav \<le> high_water_mark then Inr 0
      else
        arith (checked_pow 10 (unat decimals)) (\<lambda>precision.
        let supply = widen share_supply in
        arith (checked_sub updated_nav high_water_mark) (\<lambda>profit_per_share.
        arith (checked_mul supply profit_per_share) (\<lambda>x.
        arith (checked_div x precision) (\<lambda>gross_profit_assets.
        arith (checked_mul gross_profit_assets (widen fee_bps)) (\<lambda>x.
        arith (checked_div x (widen MAX_BPS)) (\<lambda>fee_assets.
        if fee_assets = 0 then Inr 0
        else
          arith (checked_mul supply updated_nav) (\<lambda>x.
          arith (checked_div x precision) (\<lambda>total_assets.
          arith (checked_sub total_assets fee_assets) (\<lambda>denominator.
          require (denominator > 0) arith_err (
          arith (checked_mul fee_assets supply) (\<lambda>x.
          arith (checked_div x denominator) (\<lambda>fee_shares.
          arith (try_from fee_shares) Inr)))))))))))))"

text \<open>
  The fee is due once the mark is passed by a vault that has both a fee and a mark, and at most
  once per crystallisation interval; the mark moves with every update that passes it.
\<close>

definition crystallization_due :: "vault \<Rightarrow> i64 \<Rightarrow> bool result" where
  "crystallization_due v timestamp =
     (if v_performance_fee_bps v > 0 \<and> v_high_water_mark v > 0
         \<and> v_performance_fee_crystallization_interval_seconds v > 0
      then
        arith (checked_sub_i64 timestamp (v_last_fee_crystallization_timestamp v)) (\<lambda>elapsed_seconds.
        Inr (\<not> (if sint elapsed_seconds < 0 then 0 else nat (sint elapsed_seconds))
               < unat (v_performance_fee_crystallization_interval_seconds v)))
      else Inr True)"

definition mint_performance_fee_shares ::
  "env \<Rightarrow> world \<Rightarrow> pubkey \<Rightarrow> vault \<Rightarrow> u128 \<Rightarrow> u128 \<Rightarrow> account_info list \<Rightarrow> (ledger \<times> nat) result" where
  "mint_performance_fee_shares E w vault_key v updated_nav previous_high_water_mark remaining_accounts =
     ok_or (get_at remaining_accounts 0) (Vault_Err MissingRequiredAccount) (\<lambda>share_mint_info.
     ok_or (get_at remaining_accounts 1) (Vault_Err MissingRequiredAccount) (\<lambda>fee_recipient_info.
     let protocol_fee_enabled = v_protocol_fee_bps v > 0 in
     try_ok
       (if protocol_fee_enabled
        then
          try_ok (resolve_protocol_fee_recipient E w v (get_at remaining_accounts 2)) (\<lambda>(recipient, consumed).
          let next_account_index = if consumed then 3 else 2 in
          ok_or (get_at remaining_accounts next_account_index) (Vault_Err MissingRequiredAccount) (\<lambda>account.
          Inr (Some (recipient, account), next_account_index + 1)))
        else Inr (None, 2)) (\<lambda>(protocol_fee_account, share_token_program_index).
     ok_or (get_at remaining_accounts share_token_program_index) (Vault_Err MissingRequiredAccount)
       (\<lambda>share_token_program_info.
     require (is_token_program E (ai_key share_token_program_info)) (Vault_Err InvalidShareMint) (
     require (ai_key share_mint_info = v_share_mint v) (Vault_Err InvalidShareMint) (
     require (ai_owner share_mint_info = ai_key share_token_program_info) (Vault_Err InvalidShareMint) (
     try_ok (validate_token_account_mint_and_owner fee_recipient_info (v_share_mint v) (v_fee_recipient v)) (\<lambda>_.
     try_ok (read_mint_supply_and_decimals share_mint_info) (\<lambda>(share_supply, decimals).
     try_ok (calculate_performance_fee_shares updated_nav previous_high_water_mark
       (v_performance_fee_bps v) share_supply decimals) (\<lambda>fee_shares.
     if fee_shares = 0 then Inr (w_ledger w, share_token_program_index + 1)
     else
       try_ok (split_protocol_fee fee_shares (v_protocol_fee_bps v)) (\<lambda>(protocol_fee_shares, fee_recipient_shares).
       try_ok
         (case protocol_fee_account of
            Some (recipient, account) \<Rightarrow>
              validate_token_account_mint_and_owner account (v_share_mint v) recipient
          | None \<Rightarrow> Inr ()) (\<lambda>_.
       let mint_shares = (\<lambda>dst n L.
             signed_by E (signer_seeds v) vault_key
               (mint_to E (ai_key share_token_program_info) (ai_key share_mint_info) dst vault_key n L)) in
       try_ok
         (if fee_recipient_shares > 0
          then mint_shares (ai_key fee_recipient_info) fee_recipient_shares (w_ledger w)
          else Inr (w_ledger w)) (\<lambda>L.
       try_ok
         (if protocol_fee_shares > 0
          then
            ok_or protocol_fee_account (Vault_Err MissingRequiredAccount) (\<lambda>(recipient, account).
            mint_shares (ai_key account) protocol_fee_shares L)
          else Inr L) (\<lambda>L.
       Inr (L, share_token_program_index + 1)))))))))))))))"

definition maybe_crystallize_performance_fee ::
  "env \<Rightarrow> world \<Rightarrow> pubkey \<Rightarrow> vault \<Rightarrow> u128 \<Rightarrow> i64 \<Rightarrow> account_info list \<Rightarrow>
   (vault \<times> ledger \<times> nat) result" where
  "maybe_crystallize_performance_fee E w vault_key v updated_nav timestamp remaining_accounts =
     (if updated_nav \<le> v_high_water_mark v then Inr (v, w_ledger w, 0)
      else
        try_ok (crystallization_due v timestamp) (\<lambda>due.
        if \<not> due then Inr (v, w_ledger w, 0)
        else
          let previous_high_water_mark = v_high_water_mark v;
              v' = v\<lparr>v_high_water_mark := updated_nav,
                     v_last_fee_crystallization_timestamp := timestamp\<rparr> in
          if v_performance_fee_bps v = 0 \<or> previous_high_water_mark = 0
          then Inr (v', w_ledger w, 0)
          else
            try_ok (mint_performance_fee_shares E w vault_key v' updated_nav
              previous_high_water_mark remaining_accounts) (\<lambda>(L, used).
            Inr (v', L, used))))"

subsection \<open>The instruction\<close>

record UpdateVaultNav =
  uvn_authority :: pubkey
  uvn_vault :: pubkey

definition update_nav ::
  "env \<Rightarrow> UpdateVaultNav \<Rightarrow> account_info list \<Rightarrow> u128 \<Rightarrow> world \<Rightarrow> world result" where
  "update_nav E accts remaining_accounts updated_nav w =
     load (w_vaults w) (uvn_vault accts) (\<lambda>v.
     try_ok (Vault_assert_curator_or_fulfiller v (uvn_authority accts)) (\<lambda>_.
     try_ok (Vault_validate_nav_update v updated_nav (env_unix_timestamp E)) (\<lambda>_.
     try_ok (maybe_crystallize_performance_fee E w (uvn_vault accts) v updated_nav
       (env_unix_timestamp E) remaining_accounts) (\<lambda>(v, L, fee_accounts_used).
     try_ok (maybe_apply_tranche_waterfall E (w_tranche_configs w) (uvn_vault accts) v updated_nav
       (env_slot E) (env_unix_timestamp E) (drop fee_accounts_used remaining_accounts)) (\<lambda>tcs.
     arith (checked_add (v_nav_version v) 1) (\<lambda>nav_version.
     let v = v\<lparr>v_nav := updated_nav, v_nav_version := nav_version,
               v_last_nav_update_slot := env_slot E,
               v_last_nav_update_timestamp := env_unix_timestamp E\<rparr> in
     Inr (w\<lparr>w_vaults := (w_vaults w)(uvn_vault accts \<mapsto> v),
            w_ledger := L, w_tranche_configs := tcs\<rparr>)))))))"

subsection \<open>Values as natural numbers\<close>

definition ten_pow :: "u8 \<Rightarrow> nat" where
  "ten_pow decimals = 10 ^ unat decimals"

lemma ten_pow_pos [simp]: "0 < ten_pow d" "ten_pow d \<noteq> 0"
  by (simp_all add: ten_pow_def)

lemma assets_from_nav_Inr:
  assumes "assets_from_nav supply nav d = Inr a"
  shows "unat a = unat supply * unat nav div ten_pow d"
proof (cases "supply = 0 \<or> nav = 0")
  case True
  with assms show ?thesis by (auto simp: assets_from_nav_def)
next
  case False
  with assms show ?thesis
    by (auto simp: assets_from_nav_def res_simps checked_simps ten_pow_def)
qed

lemma nav_from_assets_Inr:
  assumes "nav_from_assets a supply d = Inr n"
  shows "unat n = (if supply = 0 then 0 else unat a * ten_pow d div unat supply)"
  using assms
  by (auto simp: nav_from_assets_def res_simps checked_simps ten_pow_def split: if_splits)

lemma scast_elapsed:
  assumes "0 < sint (e :: i64)"
  shows "unat (scast e :: u128) = nat (sint e)"
proof -
  have bound: "nat (sint e) < 2 ^ LENGTH(128)" using sint_lt [of e] by simp
  have "int (nat (sint e)) = sint e" using assms by simp
  then have "(scast e :: u128) = word_of_int (int (nat (sint e)))"
    by (simp only: scast_eq)
  then have "(scast e :: u128) = word_of_nat (nat (sint e))" by (simp only: of_int_of_nat_eq)
  then show ?thesis by (simp only: unat_of_nat_small [OF bound])
qed

text \<open>The senior accrual over a period, rounded down twice as the source rounds it.\<close>

definition spec_accrual :: "nat \<Rightarrow> nat \<Rightarrow> int \<Rightarrow> nat" where
  "spec_accrual senior bps elapsed =
     (if elapsed \<le> 0 then 0 else senior * bps * nat elapsed div 10000 div 31536000)"

lemma senior_target_accrual_Inr:
  assumes "senior_target_accrual st ps e = Inr x"
  shows "unat x = spec_accrual (unat ps) (unat (tws_senior_target_bps st)) (sint e)"
  using assms
  by (auto simp: senior_target_accrual_def spec_accrual_def res_simps checked_simps scast_elapsed
      MAX_BPS_def SECONDS_PER_YEAR_def split: if_splits)

text \<open>
  The allocation on natural numbers: a gain pays the senior class up to its accrual and the
  junior class the rest; a loss is taken from the junior class first.
\<close>

definition spec_split :: "nat \<Rightarrow> nat \<Rightarrow> nat \<Rightarrow> nat \<Rightarrow> nat \<times> nat" where
  "spec_split senior junior updated accrual =
     (if senior + junior \<le> updated then
        let credit = min (updated - (senior + junior)) accrual
        in (senior + credit, updated - (senior + credit))
      else
        let loss = senior + junior - updated; junior_loss = min loss junior
        in (senior - (loss - junior_loss), junior - junior_loss))"

lemma spec_split_conserves: "spec_split s j u a = (s', j') \<Longrightarrow> s' + j' = u"
  by (auto simp: spec_split_def Let_def min_def split: if_splits)

lemma spec_split_gain:
  assumes "spec_split s j u a = (s', j')" "s + j \<le> u"
  shows "s \<le> s'" "s' \<le> s + a" "j \<le> j'"
  using assms by (auto simp: spec_split_def Let_def min_def split: if_splits)

lemma spec_split_loss:
  assumes "spec_split s j u a = (s', j')" "u < s + j"
  shows "s' < s \<longrightarrow> j' = 0" "s' \<le> s" "j' \<le> j"
  using assms by (auto simp: spec_split_def Let_def min_def split: if_splits)

lemma split_assets_spec:
  assumes "split_assets st ts ps pj pt u = Inr (s, j)" "unat pt = unat ps + unat pj"
  shows "\<exists>elapsed. (unat s, unat j) =
           spec_split (unat ps) (unat pj) (unat u)
             (spec_accrual (unat ps) (unat (tws_senior_target_bps st)) elapsed)
         \<and> (unat ps + unat pj \<le> unat u \<longrightarrow>
              elapsed = sint ts - sint (tws_last_waterfall_timestamp st))"
proof (cases "pt \<le> u")
  case True
  with assms obtain gain e x where *: "checked_sub u pt = Some gain"
    "checked_sub_i64 ts (tws_last_waterfall_timestamp st) = Some e"
    "senior_target_accrual st ps e = Inr x"
    "checked_add ps (min gain x) = Some s" "checked_sub u s = Some j"
    by (auto simp: split_assets_def res_simps Let_def)
  have "unat (min gain x) = min (unat gain) (unat x)"
    by (simp add: min_def word_le_nat_alt)
  moreover have "unat x = spec_accrual (unat ps) (unat (tws_senior_target_bps st))
      (sint ts - sint (tws_last_waterfall_timestamp st))"
    using senior_target_accrual_Inr [OF *(3)] checked_sub_i64_Some [OF *(2)] by simp
  ultimately show ?thesis using *(1,4,5) True assms(2)
    by (intro exI [of _ "sint ts - sint (tws_last_waterfall_timestamp st)"])
      (auto simp: spec_split_def Let_def checked_simps word_le_nat_alt)
next
  case False
  with assms obtain loss sl where *: "checked_sub pt u = Some loss"
    "checked_sub pj (min loss pj) = Some j" "checked_sub loss (min loss pj) = Some sl"
    "checked_sub ps sl = Some s"
    by (auto simp: split_assets_def res_simps Let_def)
  have "unat (min loss pj) = min (unat loss) (unat pj)"
    by (simp add: min_def word_le_nat_alt)
  with * False assms(2) show ?thesis
    by (auto simp: spec_split_def Let_def checked_simps word_le_nat_alt)
qed

subsection \<open>What the waterfall does\<close>

lemma compute_tranche_waterfall_Inr:
  assumes "compute_tranche_waterfall st nav ts se ju = Inr out"
  defines "s \<equiv> unat (tms_supply se) * unat (tws_senior_nav st) div ten_pow (tms_decimals se)"
    and "j \<equiv> unat (tms_supply ju) * unat (tws_junior_nav st) div ten_pow (tms_decimals ju)"
    and "u \<equiv> unat (tms_supply se) * unat nav div ten_pow (tms_decimals se)
              + unat (tms_supply ju) * unat nav div ten_pow (tms_decimals ju)"
  shows "unat (two_updated_total_assets out) = u"
    and "\<exists>elapsed. (unat (two_senior_assets out), unat (two_junior_assets out)) =
           spec_split s j u (spec_accrual s (unat (tws_senior_target_bps st)) elapsed)
         \<and> (s + j \<le> u \<longrightarrow> elapsed = sint ts - sint (tws_last_waterfall_timestamp st))"
    and "nav_from_assets (two_senior_assets out) (tms_supply se) (tms_decimals se) = Inr (two_senior_nav out)"
    and "nav_from_assets (two_junior_assets out) (tms_supply ju) (tms_decimals ju) = Inr (two_junior_nav out)"
proof -
  from assms(1) obtain ps pj pt us uj ut sa ja sn jn where *:
    "assets_from_nav (tms_supply se) (tws_senior_nav st) (tms_decimals se) = Inr ps"
    "assets_from_nav (tms_supply ju) (tws_junior_nav st) (tms_decimals ju) = Inr pj"
    "checked_add ps pj = Some pt"
    "assets_from_nav (tms_supply se) nav (tms_decimals se) = Inr us"
    "assets_from_nav (tms_supply ju) nav (tms_decimals ju) = Inr uj"
    "checked_add us uj = Some ut"
    "split_assets st ts ps pj pt ut = Inr (sa, ja)"
    "nav_from_assets sa (tms_supply se) (tms_decimals se) = Inr sn"
    "nav_from_assets ja (tms_supply ju) (tms_decimals ju) = Inr jn"
    "out = \<lparr>two_updated_total_assets = ut, two_senior_assets = sa, two_junior_assets = ja,
            two_senior_nav = sn, two_junior_nav = jn\<rparr>"
    by (auto simp: compute_tranche_waterfall_def res_simps split: prod.splits)
  have ps: "unat ps = s" and pj: "unat pj = j" and ut: "unat ut = u"
    using assets_from_nav_Inr [OF *(1)] assets_from_nav_Inr [OF *(2)] assets_from_nav_Inr [OF *(4)]
      assets_from_nav_Inr [OF *(5)] *(6)
    by (simp_all add: s_def j_def u_def checked_simps)
  have pt: "unat pt = unat ps + unat pj" using *(3) by (simp add: checked_simps)
  show "unat (two_updated_total_assets out) = u" using *(10) ut by simp
  show "\<exists>elapsed. (unat (two_senior_assets out), unat (two_junior_assets out)) =
           spec_split s j u (spec_accrual s (unat (tws_senior_target_bps st)) elapsed)
         \<and> (s + j \<le> u \<longrightarrow> elapsed = sint ts - sint (tws_last_waterfall_timestamp st))"
    using split_assets_spec [OF *(7) pt] *(10) by (simp add: ps pj ut)
qed (use assms(1) in \<open>auto simp: compute_tranche_waterfall_def res_simps split: prod.splits\<close>)

lemma waterfall_conserves:
  assumes "compute_tranche_waterfall st nav ts se ju = Inr out"
  shows "unat (two_senior_assets out) + unat (two_junior_assets out)
           = unat (two_updated_total_assets out)"
  using compute_tranche_waterfall_Inr(1,2) [OF assms] by (metis spec_split_conserves)

text \<open>
  C7. The waterfall of a tranche vault conserves the assets and respects the seniority: the
  allocations of the two classes add up to the updated total; on a gain no class loses and the
  senior class gains at most its target accrual over the elapsed time; on a loss the senior
  class only loses once the junior class has nothing left.
\<close>

theorem waterfall_respects_seniority:
  assumes "compute_tranche_waterfall st nav ts se ju = Inr out"
    and s: "s = unat (tms_supply se) * unat (tws_senior_nav st) div ten_pow (tms_decimals se)"
    and j: "j = unat (tms_supply ju) * unat (tws_junior_nav st) div ten_pow (tms_decimals ju)"
  shows "unat (two_senior_assets out) + unat (two_junior_assets out)
           = unat (two_updated_total_assets out)
     \<and> (s + j \<le> unat (two_updated_total_assets out) \<longrightarrow>
           s \<le> unat (two_senior_assets out) \<and> j \<le> unat (two_junior_assets out)
           \<and> unat (two_senior_assets out) \<le> s + spec_accrual s (unat (tws_senior_target_bps st))
               (sint ts - sint (tws_last_waterfall_timestamp st)))
     \<and> (unat (two_updated_total_assets out) < s + j \<longrightarrow>
           unat (two_senior_assets out) \<le> s \<and> unat (two_junior_assets out) \<le> j
           \<and> (unat (two_senior_assets out) < s \<longrightarrow> two_junior_assets out = 0))"
proof (intro conjI)
  note w = compute_tranche_waterfall_Inr [OF assms(1), folded s j]
  from w(2) obtain e where split: "spec_split s j (unat (two_updated_total_assets out))
      (spec_accrual s (unat (tws_senior_target_bps st)) e)
      = (unat (two_senior_assets out), unat (two_junior_assets out))"
    and e: "s + j \<le> unat (two_updated_total_assets out) \<longrightarrow>
      e = sint ts - sint (tws_last_waterfall_timestamp st)"
    unfolding w(1) by metis
  show "unat (two_senior_assets out) + unat (two_junior_assets out)
      = unat (two_updated_total_assets out)"
    by (rule waterfall_conserves [OF assms(1)])
  show "s + j \<le> unat (two_updated_total_assets out) \<longrightarrow>
      s \<le> unat (two_senior_assets out) \<and> j \<le> unat (two_junior_assets out)
      \<and> unat (two_senior_assets out) \<le> s + spec_accrual s (unat (tws_senior_target_bps st))
          (sint ts - sint (tws_last_waterfall_timestamp st))"
    using spec_split_gain [OF split] e by blast
  show "unat (two_updated_total_assets out) < s + j \<longrightarrow>
      unat (two_senior_assets out) \<le> s \<and> unat (two_junior_assets out) \<le> j
      \<and> (unat (two_senior_assets out) < s \<longrightarrow> two_junior_assets out = 0)"
    using spec_split_loss [OF split] by simp
qed

definition sample_senior :: TrancheMintSnapshot where
  "sample_senior = \<lparr>tms_supply = 1000000000, tms_decimals = 6\<rparr>"

definition sample_junior :: TrancheMintSnapshot where
  "sample_junior = \<lparr>tms_supply = 500000000, tms_decimals = 6\<rparr>"

definition sample_waterfall :: TrancheWaterfallState where
  "sample_waterfall =
     \<lparr>tws_senior_nav = 1000000, tws_junior_nav = 1000000, tws_senior_target_bps = 500,
      tws_last_waterfall_timestamp = 0\<rparr>"

lemmas waterfall_eval =
  compute_tranche_waterfall_def assets_from_nav_def nav_from_assets_def split_assets_def
  senior_target_accrual_def sample_senior_def sample_junior_def sample_waterfall_def
  checked_pow_def checked_add_def checked_sub_def checked_mul_def checked_div_def try_from_def
  checked_sub_i64_def u_of_nat_def widen_def MAX_BPS_def SECONDS_PER_YEAR_def Let_def

lemma sample_loss:
  "compute_tranche_waterfall sample_waterfall 500000 31536000 sample_senior sample_junior =
     Inr \<lparr>two_updated_total_assets = 750000000, two_senior_assets = 750000000,
          two_junior_assets = 0, two_senior_nav = 750000, two_junior_nav = 0\<rparr>"
  by (simp add: waterfall_eval)

lemma sample_gain:
  "compute_tranche_waterfall sample_waterfall 1100000 31536000 sample_senior sample_junior =
     Inr \<lparr>two_updated_total_assets = 1650000000, two_senior_assets = 1050000000,
          two_junior_assets = 600000000, two_senior_nav = 1050000, two_junior_nav = 1200000\<rparr>"
  by (simp add: waterfall_eval)

theorem waterfall_respects_seniority_witness:
  "\<exists>out. compute_tranche_waterfall sample_waterfall 500000 31536000 sample_senior sample_junior = Inr out
     \<and> two_junior_assets out = 0
     \<and> unat (two_senior_assets out) + unat (two_junior_assets out) = unat (two_updated_total_assets out)"
proof -
  obtain out where out: "compute_tranche_waterfall sample_waterfall 500000 31536000 sample_senior sample_junior = Inr out"
    "two_junior_assets out = 0" using sample_loss by auto
  from waterfall_respects_seniority [OF out(1) refl refl] out show ?thesis by blast
qed

text \<open>
  The NAVs recorded for the classes never value them above their allocation, and undervalue a
  class that has shares by less than the value of one unit of NAV (plus one rounding).
\<close>

lemma div_add_le_Suc: "0 < p \<Longrightarrow> (x + y) div p \<le> x div p + y div p + 1" for x y p :: nat
proof -
  assume p: "0 < p"
  have "x mod p + y mod p < 2 * p"
    using mod_less_divisor [OF p, of x] mod_less_divisor [OF p, of y] by linarith
  then have "(x mod p + y mod p) div p < 2" by (rule less_mult_imp_div_less)
  then show ?thesis by (subst div_add1_eq) simp
qed

lemma recorded_nav_value:
  assumes "nav_from_assets a supply d = Inr n"
  shows "unat supply * unat n div ten_pow d \<le> unat a"
    and "supply \<noteq> 0 \<Longrightarrow>
      unat a \<le> unat supply * unat n div ten_pow d + unat supply div ten_pow d + 1"
proof -
  let ?S = "unat supply" and ?P = "ten_pow d" and ?A = "unat a"
  show "?S * unat n div ?P \<le> ?A"
  proof (cases "supply = 0")
    case False
    have "?S * (?A * ?P div ?S) \<le> ?A * ?P" by simp
    then have "?S * (?A * ?P div ?S) div ?P \<le> ?A * ?P div ?P" by (rule div_le_mono)
    with nav_from_assets_Inr [OF assms] False show ?thesis by simp
  qed simp
  assume nz: "supply \<noteq> 0"
  let ?n = "?A * ?P div ?S"
  have n: "unat n = ?n" using nav_from_assets_Inr [OF assms] nz by simp
  have "?A * ?P mod ?S < ?S" using nz by (simp add: unat_gt_0)
  moreover have "?A * ?P = ?S * ?n + ?A * ?P mod ?S" by simp
  ultimately have "?A * ?P \<le> ?S * ?n + ?S" by linarith
  then have "?A \<le> (?S * ?n + ?S) div ?P"
    by (metis div_le_mono nonzero_mult_div_cancel_right ten_pow_pos(2))
  also have "\<dots> \<le> ?S * ?n div ?P + ?S div ?P + 1"
    by (rule div_add_le_Suc) simp
  finally show "?A \<le> ?S * unat n div ?P + ?S div ?P + 1" by (simp add: n)
qed



subsection \<open>The performance fee\<close>

text \<open>
  The value of the fee shares after they have diluted the supply, in the form
  \<open>shares * total \<le> fee * (supply + shares)\<close>, is at most the fee.
\<close>

lemma dilution_bound:
  fixes fee base total shares :: nat
  assumes "fee < total" "shares = fee * base div (total - fee)"
  shows "shares * total \<le> fee * (base + shares)"
    and "fee * base < (shares + 1) * (total - fee)"
proof -
  have pos: "0 < total - fee" using assms(1) by simp
  have le: "shares * (total - fee) \<le> fee * base" using assms(2) by simp
  have "shares * total = shares * (total - fee) + shares * fee"
    using assms(1) by (simp flip: distrib_left)
  also have "\<dots> \<le> fee * base + shares * fee" using le by simp
  finally show "shares * total \<le> fee * (base + shares)" by (simp add: algebra_simps)
  show "fee * base < (shares + 1) * (total - fee)"
    unfolding assms(2) using dividend_less_div_times [OF pos, of "fee * base"]
    by (simp add: algebra_simps)
qed

lemma calculate_performance_fee_shares_Inr:
  assumes "calculate_performance_fee_shares nav hwm bps supply d = Inr shares" "shares \<noteq> 0"
  defines "fee \<equiv> unat supply * (unat nav - unat hwm) div ten_pow d * unat bps div 10000"
    and "worth \<equiv> unat supply * unat nav div ten_pow d"
  shows "hwm < nav" "fee < worth" "unat shares = fee * unat supply div (worth - fee)"
proof -
  from assms(1,2) obtain p pps x1 g x2 f x3 t dn x4 q where *:
    "hwm < nav" "checked_pow 10 (unat d) = Some (p :: u128)"
    "checked_sub nav hwm = Some pps" "checked_mul (widen supply) pps = Some x1"
    "checked_div x1 p = Some g" "checked_mul g (widen bps) = Some x2"
    "checked_div x2 (widen MAX_BPS) = Some f" "f \<noteq> 0"
    "checked_mul (widen supply) nav = Some x3" "checked_div x3 p = Some t"
    "checked_sub t f = Some dn" "0 < dn" "checked_mul f (widen supply) = Some x4"
    "checked_div x4 dn = Some q" "try_from q = Some shares"
    by (auto simp: calculate_performance_fee_shares_def res_simps Let_def split: if_splits)
  show "hwm < nav" by (rule *(1))
  have f: "unat f = fee"
    using *(2-7) by (simp add: checked_simps fee_def ten_pow_def MAX_BPS_def)
  have t: "unat t = worth"
    using *(2,9,10) by (simp add: checked_simps worth_def ten_pow_def)
  have dn: "unat dn = worth - fee" "0 < unat dn"
    using *(11,12) f t by (simp_all add: checked_simps unat_gt_0)
  then show "fee < worth" by simp
  show "unat shares = fee * unat supply div (worth - fee)"
    using *(13-15) f dn by (simp add: checked_simps)
qed

text \<open>
  C20. The performance fee is bounded by the profit: the fee shares minted for a NAV above the
  high-water mark are, at the diluted supply, worth at most the fee rate times the profit above
  the mark, and one more share would be worth more than the fee.
\<close>

theorem performance_fee_bounded:
  assumes "calculate_performance_fee_shares nav hwm bps supply d = Inr shares" "shares \<noteq> 0"
    and fee: "fee = unat supply * (unat nav - unat hwm) div ten_pow d * unat bps div 10000"
    and worth: "worth = unat supply * unat nav div ten_pow d"
  shows "hwm < nav
         \<and> fee * 10000 * ten_pow d \<le> unat supply * (unat nav - unat hwm) * unat bps
         \<and> unat shares * worth \<le> fee * (unat supply + unat shares)
         \<and> fee * unat supply < (unat shares + 1) * (worth - fee)"
proof -
  note c = calculate_performance_fee_shares_Inr [OF assms(1,2), folded fee worth]
  let ?profit = "unat supply * (unat nav - unat hwm)"
  have "fee * 10000 \<le> ?profit div ten_pow d * unat bps" by (simp add: fee)
  then have "fee * 10000 * ten_pow d \<le> ?profit div ten_pow d * unat bps * ten_pow d" by simp
  also have "\<dots> = ?profit div ten_pow d * ten_pow d * unat bps" by simp
  also have "\<dots> \<le> ?profit * unat bps" by (intro mult_le_mono1) simp
  finally show ?thesis using c dilution_bound [OF c(2,3)] by simp
qed

theorem performance_fee_bounded_witness:
  "calculate_performance_fee_shares 1200000 1000000 2000 1000000000 6 = Inr 34482758
   \<and> (34482758 :: nat) * 1200000000 \<le> 40000000 * (1000000000 + 34482758)"
proof -
  have "calculate_performance_fee_shares 1200000 1000000 2000 1000000000 6 = Inr 34482758"
    by (simp add: calculate_performance_fee_shares_def checked_pow_def checked_sub_def
        checked_mul_def checked_div_def try_from_def u_of_nat_def widen_def MAX_BPS_def Let_def)
  from this performance_fee_bounded [OF this _ refl refl] show ?thesis
    by (simp add: ten_pow_def)
qed

subsection \<open>The instruction as a whole\<close>

lemma Vault_validate_nav_delta_ok:
  assumes "Vault_validate_nav_delta v nav = Inr ()" "v_max_nav_delta_bps v \<noteq> 0" "v_nav v \<noteq> 0"
  shows "unat (abs_diff nav (v_nav v)) * 10000 < (unat (v_max_nav_delta_bps v) + 1) * unat (v_nav v)"
proof -
  from assms obtain x y where "checked_mul (abs_diff nav (v_nav v)) (widen MAX_BPS) = Some x"
    "checked_div x (v_nav v) = Some y" "y \<le> widen (v_max_nav_delta_bps v)"
    by (auto simp: Vault_validate_nav_delta_def Let_def res_simps)
  then have "unat (abs_diff nav (v_nav v)) * 10000 div unat (v_nav v) \<le> unat (v_max_nav_delta_bps v)"
    by (simp add: checked_simps word_le_nat_alt MAX_BPS_def)
  then have "unat (abs_diff nav (v_nav v)) * 10000 div unat (v_nav v) < unat (v_max_nav_delta_bps v) + 1"
    by simp
  then show ?thesis using assms(3) by (simp add: div_less_iff_less_mult unat_gt_0)
qed

lemma maybe_crystallize_performance_fee_Inr:
  assumes "maybe_crystallize_performance_fee E w vk v nav ts ra = Inr (v', L, n)"
  shows "v' = v\<lparr>v_high_water_mark := v_high_water_mark v',
                 v_last_fee_crystallization_timestamp := v_last_fee_crystallization_timestamp v'\<rparr>"
    and "v_high_water_mark v \<le> v_high_water_mark v'"
    and "v_high_water_mark v' = v_high_water_mark v \<or> v_high_water_mark v' = nav"
    and "v_performance_fee_bps v = 0 \<or> v_high_water_mark v = 0 \<or> nav \<le> v_high_water_mark v \<Longrightarrow> L = w_ledger w"
  using assms
  by (auto simp: maybe_crystallize_performance_fee_def Let_def res_simps split: if_splits)

lemma update_nav_Inr:
  assumes "update_nav E accts ra nav w = Inr w'"
  obtains v v1 L n tcs where "w_vaults w (uvn_vault accts) = Some v"
    "Vault_assert_curator_or_fulfiller v (uvn_authority accts) = Inr ()"
    "Vault_validate_nav_update v nav (env_unix_timestamp E) = Inr ()"
    "maybe_crystallize_performance_fee E w (uvn_vault accts) v nav (env_unix_timestamp E) ra = Inr (v1, L, n)"
    "unat (v_nav_version v1) + 1 < 2 ^ 64"
    "w' = w\<lparr>w_vaults := (w_vaults w)(uvn_vault accts \<mapsto>
              v1\<lparr>v_nav := nav, v_nav_version := v_nav_version v1 + 1,
                 v_last_nav_update_slot := env_slot E,
                 v_last_nav_update_timestamp := env_unix_timestamp E\<rparr>),
           w_ledger := L, w_tranche_configs := tcs\<rparr>"
proof -
  have version: "unat x + 1 < 2 ^ 64 \<and> y = x + 1"
    if "checked_add x 1 = Some y" for x y :: u64
  proof
    have "unat y = unat x + 1" using that by (simp add: checked_simps)
    moreover have "unat y < 2 ^ 64" using unat_bound [of y] by simp
    ultimately show "unat x + 1 < 2 ^ 64" by simp
    then show "y = x + 1" using \<open>unat y = unat x + 1\<close> by (simp add: word_unat_eq_iff unat_word_ariths)
  qed
  from assms show thesis
    by (auto simp: update_nav_def Let_def res_simps dest!: version intro: that)
qed

text \<open>
  C16. A NAV update is made by the curator or the fulfiller only, moves the NAV by at most the
  configured number of basis points, stamps the slot and time, advances the NAV version by
  exactly one without wrapping, and never lowers the high-water mark. Nothing else in the vault
  changes but the fee crystallisation time, no other vault changes, and no token moves unless a
  performance fee is due.
\<close>

theorem nav_update_is_guarded:
  assumes "update_nav E accts ra nav w = Inr w'" "w_vaults w (uvn_vault accts) = Some v"
  shows "uvn_authority accts \<in> {v_curator v, v_fulfiller v}
     \<and> (v_max_nav_delta_bps v \<noteq> 0 \<and> v_nav v \<noteq> 0 \<longrightarrow>
           unat (abs_diff nav (v_nav v)) * 10000
             < (unat (v_max_nav_delta_bps v) + 1) * unat (v_nav v))
     \<and> (\<exists>mark time. v_high_water_mark v \<le> mark \<and> mark \<in> {v_high_water_mark v, nav}
           \<and> unat (v_nav_version v + 1) = unat (v_nav_version v) + 1
           \<and> w_vaults w' = (w_vaults w)(uvn_vault accts \<mapsto>
               v\<lparr>v_high_water_mark := mark, v_last_fee_crystallization_timestamp := time,
                 v_nav := nav, v_nav_version := v_nav_version v + 1,
                 v_last_nav_update_slot := env_slot E,
                 v_last_nav_update_timestamp := env_unix_timestamp E\<rparr>))
     \<and> (v_performance_fee_bps v = 0 \<or> v_high_water_mark v = 0 \<or> nav \<le> v_high_water_mark v
           \<longrightarrow> w_ledger w' = w_ledger w)"
proof (intro conjI)
  from assms(1) obtain v1 L n tcs where *:
    "Vault_assert_curator_or_fulfiller v (uvn_authority accts) = Inr ()"
    "Vault_validate_nav_update v nav (env_unix_timestamp E) = Inr ()"
    "maybe_crystallize_performance_fee E w (uvn_vault accts) v nav (env_unix_timestamp E) ra = Inr (v1, L, n)"
    "unat (v_nav_version v1) + 1 < 2 ^ 64"
    "w' = w\<lparr>w_vaults := (w_vaults w)(uvn_vault accts \<mapsto>
              v1\<lparr>v_nav := nav, v_nav_version := v_nav_version v1 + 1,
                 v_last_nav_update_slot := env_slot E,
                 v_last_nav_update_timestamp := env_unix_timestamp E\<rparr>),
           w_ledger := L, w_tranche_configs := tcs\<rparr>"
    using assms(2) by (auto elim!: update_nav_Inr)
  note c = maybe_crystallize_performance_fee_Inr [OF *(3)]
  show "uvn_authority accts \<in> {v_curator v, v_fulfiller v}"
    using *(1) by (simp add: vault_guard_defs res_simps)
  show "v_max_nav_delta_bps v \<noteq> 0 \<and> v_nav v \<noteq> 0 \<longrightarrow>
      unat (abs_diff nav (v_nav v)) * 10000 < (unat (v_max_nav_delta_bps v) + 1) * unat (v_nav v)"
    using *(2) Vault_validate_nav_delta_ok [of v nav]
    by (auto simp: Vault_validate_nav_update_def res_simps)
  obtain mark time where v1: "v1 = v\<lparr>v_high_water_mark := mark,
      v_last_fee_crystallization_timestamp := time\<rparr>" using c(1) by blast
  then have version: "v_nav_version v1 = v_nav_version v" by simp
  show "\<exists>mark time. v_high_water_mark v \<le> mark \<and> mark \<in> {v_high_water_mark v, nav}
      \<and> unat (v_nav_version v + 1) = unat (v_nav_version v) + 1
      \<and> w_vaults w' = (w_vaults w)(uvn_vault accts \<mapsto>
          v\<lparr>v_high_water_mark := mark, v_last_fee_crystallization_timestamp := time,
            v_nav := nav, v_nav_version := v_nav_version v + 1,
            v_last_nav_update_slot := env_slot E,
            v_last_nav_update_timestamp := env_unix_timestamp E\<rparr>)"
  proof (intro exI conjI)
    show "unat (v_nav_version v + 1) = unat (v_nav_version v) + 1"
      using *(4) version by (simp add: unat_word_ariths)
    show "w_vaults w' = (w_vaults w)(uvn_vault accts \<mapsto>
        v\<lparr>v_high_water_mark := mark, v_last_fee_crystallization_timestamp := time,
          v_nav := nav, v_nav_version := v_nav_version v + 1,
          v_last_nav_update_slot := env_slot E,
          v_last_nav_update_timestamp := env_unix_timestamp E\<rparr>)"
      unfolding *(5) v1 by simp
  qed (use c(2,3) v1 in auto)
  show "v_performance_fee_bps v = 0 \<or> v_high_water_mark v = 0 \<or> nav \<le> v_high_water_mark v
      \<longrightarrow> w_ledger w' = w_ledger w"
    using c(4) *(5) by simp
qed

definition sample_nav_update :: UpdateVaultNav where
  "sample_nav_update = \<lparr>uvn_authority = key 14, uvn_vault = key 20\<rparr>"

lemma sample_nav_update_runs:
  "\<exists>w'. update_nav sample_env sample_nav_update [] 2050000 sample_world = Inr w'"
  by (simp add: update_nav_def sample_nav_update_def sample_world_defs vault_guard_defs
      Vault_validate_nav_update_def Vault_validate_nav_delta_def Vault_validate_implied_apy_def
      maybe_crystallize_performance_fee_def crystallization_due_def maybe_apply_tranche_waterfall_def
      checked_eval Let_def)

theorem nav_update_is_guarded_witness:
  "\<exists>w' v'. update_nav sample_env sample_nav_update [] 2050000 sample_world = Inr w'
     \<and> w_vaults w' (key 20) = Some v' \<and> v_nav v' = 2050000 \<and> v_nav_version v' = 2
     \<and> w_ledger w' = w_ledger sample_world"
proof -
  obtain w' where run: "update_nav sample_env sample_nav_update [] 2050000 sample_world = Inr w'"
    using sample_nav_update_runs by blast
  have "w_vaults sample_world (uvn_vault sample_nav_update) = Some sample_vault"
    by (simp add: sample_nav_update_def sample_world_def)
  note g = nav_update_is_guarded [OF run this]
  show ?thesis
    using run g by (auto simp: sample_vault_def sample_nav_update_def)
qed

end
