(* ===== verification/Lifecycle.thy ===== *)
theory Lifecycle
  imports Nav_Update Approval_Books
begin

text \<open>
  Runs of the program: the request instructions and NAV updates of any number of vaults and
  users, at any times and in any order, interleaved with transactions that the vaults do not
  sign. The books of every vault balance in every reachable world, so every pending request is
  counted, every pending deposit is in the cap's reserve, and the escrow always holds enough to
  pay every refund and every approved redemption at once.
\<close>

subsection \<open>Time and the outside world\<close>

text \<open>The clock moves between transactions; the rest of the runtime stays.\<close>

definition at_time :: "env \<Rightarrow> u64 \<times> i64 \<times> u64 \<Rightarrow> env" where
  "at_time E now =
     (case now of (slot, timestamp, epoch) \<Rightarrow>
        E\<lparr>env_slot := slot, env_unix_timestamp := timestamp, env_epoch := epoch\<rparr>)"

lemma at_time_create [simp]:
  "env_create_program_address (at_time E now) = env_create_program_address E"
  by (cases now) (simp add: at_time_def)

lemma at_time_books [simp]: "world_books (at_time E now) w = world_books E w"
  by (simp add: world_books_def books_ok_def)

lemma at_time_wallet [simp]: "is_wallet (at_time E now) k = is_wallet E k"
  by (simp add: is_wallet_def)

text \<open>
  A transaction that no program address signs can move tokens between wallets, pay into any
  account and change mints, but takes nothing from an account a program address owns and does
  not change such an account's owner or mint.
\<close>

definition external :: "env \<Rightarrow> ledger \<Rightarrow> ledger \<Rightarrow> bool" where
  "external E L L' \<longleftrightarrow>
     (\<forall>k p m own. holder L k = Some (p, m, own) \<longrightarrow> \<not> is_wallet E own \<longrightarrow>
        holder L' k = Some (p, m, own) \<and> amount_of L k \<le> amount_of L' k)"

lemma external_books:
  assumes "world_books E w" "external E (w_ledger w) L"
  shows "world_books E (w\<lparr>w_ledger := L\<rparr>)"
proof -
  have "books_ok E (w_requests w) L k v" if v: "w_vaults w k = Some v" for k v
  proof -
    note ok = books_of [OF assms(1) v]
    then obtain p where h: "holder (w_ledger w) (v_pending_vault v) = Some (p, v_asset_mint v, k)"
      by (auto simp: books_ok_def)
    have "\<not> is_wallet E k" using ok by (auto simp: books_ok_def is_wallet_def)
    with assms(2) h have "holder L (v_pending_vault v) = Some (p, v_asset_mint v, k)"
      "amount_of (w_ledger w) (v_pending_vault v) \<le> amount_of L (v_pending_vault v)"
      unfolding external_def by blast+
    with ok show ?thesis by (simp add: books_ok_def)
  qed
  with assms(1) show ?thesis by (simp add: world_books_def)
qed

subsection \<open>NAV updates\<close>

lemma signed_mint_debits:
  assumes "spl_laws E" "signed_by E seeds vk (mint_to E p m d vk n L) = Inr L'"
  shows "debits {} L L'"
  using assms by (auto simp: res_simps intro: mint_debits spl_mint)

lemma mint_performance_fee_shares_debits:
  assumes spl: "spl_laws E" and "mint_performance_fee_shares E w vk v nav mark ra = Inr (L, n)"
  shows "debits {} (w_ledger w) L"
proof -
  note one = signed_mint_debits [OF spl, of "signer_seeds v" vk]
  have own: "debits {} A B"
    if "(if b then signed_by E (signer_seeds v) vk (mint_to E p m d vk k A) else Inr A) = Inr B"
    for A B b p m d k
    using that one by (cases b) (auto intro: debits_refl)
  have protocol: "debits {} A B"
    if "(if b then ok_or a e (\<lambda>(r, acc). signed_by E (signer_seeds v) vk
           (mint_to E p m (ai_key acc) vk k A)) else Inr A) = Inr B"
    for A B b a e p m k and r :: pubkey
    using that one by (cases b) (auto simp: res_simps intro: debits_refl)
  from assms(2) show ?thesis
    apply (clarsimp simp: mint_performance_fee_shares_def Let_def res_simps simp del: if_split)
    subgoal for sm fr a i sp sply dd fee
      by (cases "fee = 0")
        (auto simp: res_simps debits_refl Let_def simp del: if_split dest!: own protocol intro: debits_trans)
    done
qed

lemma update_nav_books:
  assumes run: "update_nav E accts ra nav w = Inr w'" and spl: "spl_laws E" and books: "world_books E w"
  shows "world_books E w'"
  using run
proof (rule update_nav_Inr, goal_cases)
  case (1 v v1 L n tcs)
  obtain mark ts where v1: "v1 = v\<lparr>v_high_water_mark := mark, v_last_fee_crystallization_timestamp := ts\<rparr>"
    using maybe_crystallize_performance_fee_Inr(1) [OF 1(4)] by blast
  have "debits {} (w_ledger w) L"
    using 1(4) mint_performance_fee_shares_debits [OF spl]
    by (auto simp: maybe_crystallize_performance_fee_def Let_def res_simps debits_refl split: if_splits)
  then have L: "holder L = holder (w_ledger w)" "\<And>k. amount_of (w_ledger w) k \<le> amount_of L k"
    by (simp_all add: debits_holder debits_le)
  show ?case
    by (rule books_same_requests [OF books])
      (use 1(1) L in \<open>auto simp: 1(6) v1 identity_eq split: if_splits\<close>)
qed

subsection \<open>Runs\<close>

text \<open>
  One transaction: an instruction at the current time that succeeds, with the user who opens a
  request an account outside the program, or a transaction no program address signs.
\<close>

inductive lifecycle_step :: "env \<Rightarrow> world \<Rightarrow> world \<Rightarrow> bool" for E where
  deposit_requested:
    "create_deposit_request (at_time E now) cdr ra args w = Inr w' \<Longrightarrow> is_wallet E (cdr_user cdr) \<Longrightarrow>
     lifecycle_step E w w'"
| redemption_requested:
    "create_redeem_request (at_time E now) crr ra args w = Inr w' \<Longrightarrow> is_wallet E (crr_user crr) \<Longrightarrow>
     lifecycle_step E w w'"
| operator_set: "set_operator so w = Inr w' \<Longrightarrow> lifecycle_step E w w'"
| approved: "approve_request (at_time E now) ar ra aa w = Inr w' \<Longrightarrow> lifecycle_step E w w'"
| rejected: "reject_request (at_time E now) rr ra aa w = Inr w' \<Longrightarrow> lifecycle_step E w w'"
| claimed: "claim (at_time E now) cl ra w = Inr w' \<Longrightarrow> lifecycle_step E w w'"
| canceled: "cancel_request (at_time E now) ca ra w = Inr w' \<Longrightarrow> lifecycle_step E w w'"
| queued_deposit_canceled:
    "cancel_queued_deposit_request (at_time E now) cqd ra w = Inr w' \<Longrightarrow> lifecycle_step E w w'"
| queued_redemption_canceled:
    "cancel_queued_redemption_request (at_time E now) cqr ra w = Inr w' \<Longrightarrow> lifecycle_step E w w'"
| skipped: "skip_canceled_queue_request (at_time E now) sc ra w = Inr w' \<Longrightarrow> lifecycle_step E w w'"
| nav_updated: "update_nav (at_time E now) un ra nav w = Inr w' \<Longrightarrow> lifecycle_step E w w'"
| outside: "external E (w_ledger w) L \<Longrightarrow> lifecycle_step E w (w\<lparr>w_ledger := L\<rparr>)"

lemma at_time_spl [simp]: "env_spl (at_time E now) = env_spl E"
  by (cases now) (simp add: at_time_def)

lemma at_time_find [simp]: "env_find_program_address (at_time E now) = env_find_program_address E"
  by (cases now) (simp add: at_time_def)

text \<open>The token programs keep their promises at every time.\<close>

definition lawful_runtime :: "env \<Rightarrow> bool" where
  "lawful_runtime E \<longleftrightarrow> (\<forall>now. spl_laws (at_time E now))"

lemma lawful_runtime_at [simp]: "lawful_runtime E \<Longrightarrow> spl_laws (at_time E now)"
  unfolding lawful_runtime_def by blast

lemma lifecycle_step_books:
  assumes "lifecycle_step E w w'" and lawful: "lawful_runtime E" and books: "world_books E w"
  shows "world_books E w'"
  using assms(1)
proof cases
  case (deposit_requested now cdr ra args)
  then show ?thesis using create_deposit_request_books [OF deposit_requested(1)] lawful books by simp
next
  case (redemption_requested now crr ra args)
  then show ?thesis using create_redeem_request_books [OF redemption_requested(1)] lawful books by simp
next
  case (operator_set so)
  then show ?thesis using set_operator_books books by blast
next
  case (approved now ar ra aa)
  then show ?thesis using approve_request_books [OF approved] lawful books by simp
next
  case (rejected now rr ra aa)
  then show ?thesis using reject_request_books [OF rejected] lawful books by simp
next
  case (claimed now cl ra)
  then show ?thesis using claim_books [OF claimed] lawful books by simp
next
  case (canceled now ca ra)
  then show ?thesis using cancel_request_books [OF canceled] lawful books by simp
next
  case (queued_deposit_canceled now cqd ra)
  then show ?thesis using cancel_queued_deposit_request_books [OF queued_deposit_canceled] lawful books by simp
next
  case (queued_redemption_canceled now cqr ra)
  then show ?thesis
    using cancel_queued_redemption_request_books [OF queued_redemption_canceled] lawful books by simp
next
  case (skipped now sc ra)
  then show ?thesis using skip_canceled_queue_request_books [OF skipped] books by simp
next
  case (nav_updated now un ra nav)
  then show ?thesis using update_nav_books [OF nav_updated] lawful books by simp
next
  case (outside L)
  then show ?thesis using external_books [OF books] by simp
qed

inductive reachable :: "env \<Rightarrow> world \<Rightarrow> world \<Rightarrow> bool" for E w0 where
  start: "reachable E w0 w0"
| step: "reachable E w0 w \<Longrightarrow> lifecycle_step E w w' \<Longrightarrow> reachable E w0 w'"

lemma reachable_books:
  assumes "reachable E w0 w" "lawful_runtime E" "world_books E w0"
  shows "world_books E w"
  using assms(1) by induction (use assms(2,3) lifecycle_step_books in blast)+

subsection \<open>What the books say\<close>

lemma weight_count:
  assumes "finite (dom m)"
  shows "weight (\<lambda>r. if P r then 1 else 0) m = card {k. \<exists>r. m k = Some r \<and> P r}"
proof -
  have "weight (\<lambda>r. if P r then 1 else 0) m = card {k \<in> dom m. P (the (m k))}"
    unfolding weight_def using assms by (simp add: sum.If_cases Int_def)
  also have "{k \<in> dom m. P (the (m k))} = {k. \<exists>r. m k = Some r \<and> P r}" by force
  finally show ?thesis .
qed

lemma pending_count_eq:
  "pending_count vk = (\<lambda>r. if req_vault r = vk \<and> req_request_state r = Pending then 1 else 0)"
  by (simp add: pending_count_def fun_eq_iff)

text \<open>
  C3. Balanced books. Whatever the users, fulfillers, curators and strangers do, in any order and
  at any times, a vault's \<open>pending_async_requests\<close> counts its pending requests, its
  \<open>pending_deposit_amount\<close> is the total of its pending deposits of the vault's asset, and its
  escrow token account holds at least the total of what those deposits are refunded on
  cancellation and what approved redemptions can claim.
\<close>
theorem lifecycle_books_balance:
  assumes "reachable E w0 w" and "lawful_runtime E" and "world_books E w0"
    and "w_vaults w vk = Some v"
  shows "unat (v_pending_async_requests v)
        = card {k. \<exists>r. w_requests w k = Some r \<and> req_vault r = vk \<and> req_request_state r = Pending}
    \<and> unat (v_pending_deposit_amount v) = weight (pending_deposit vk (v_asset_mint v)) (w_requests w)
    \<and> weight (escrowed vk (v_asset_mint v)) (w_requests w) \<le> amount_of (w_ledger w) (v_pending_vault v)"
proof -
  note books = reachable_books [OF assms(1-3)]
  then have "books_ok E (w_requests w) (w_ledger w) vk v" "finite (dom (w_requests w))"
    using assms(4) by (auto simp: world_books_def)
  then show ?thesis by (simp add: books_ok_def pending_count_eq weight_count)
qed

text \<open>The owner of the sample's pending deposit cancels it.\<close>

definition sample_cancel :: CancelRequest where
  "sample_cancel =
     \<lparr>ca_user = key 30, ca_asset_mint = key 1, ca_share_mint = key 2, ca_vault = key 20,
      ca_vault_asset = None, ca_request = key 40, ca_user_token_account = Some (key 31),
      ca_asset_pending_vault = Some (key 4), ca_user_share_account = None,
      ca_share_token_program = None, ca_asset_token_program = Some (key 201)\<rparr>"

lemma no_request_extension: "req_tlv r = [] \<Longrightarrow> \<not> has_request_extension X r"
  by (simp add: has_request_extension_def)

lemma sample_cancel_runs:
  "\<exists>w' v'. cancel_request sample_env sample_cancel [] sample_world = Inr w'
     \<and> w_vaults w' (key 20) = Some v' \<and> w_requests w' (key 40) = None"
  by (simp add: cancel_request_def sample_cancel_def sample_world_defs vault_guard_defs
      load_def load_opt_def opt_account_def opt_constraint_defs token_interface_def is_token_program_def
      vault_pda_def seeds_with_bump_def vault_seeds_def token_constraints_def token_constraints_program_def
      validate_request_share_mint_def validate_queue_extension_constraints_def
      refund_deposit_def assert_refund_escrow_def transfer_assets_to_user_def release_pending_deposit_def
      signer_seeds_def cpi_eval checked_eval close_def put_opt_def Let_def
      no_request_extension)

lemma sample_at_time: "at_time sample_env (100, 2000, 1) = sample_env"
  by (simp add: at_time_def sample_env_def)

lemma sample_lawful: "lawful_runtime sample_env"
  by (auto simp: lawful_runtime_def at_time_def sample_env_def intro: reference_spl_laws)

lemma sample_books: "world_books sample_env sample_world"
  by (simp add: world_books_def books_ok_def sample_world_defs weight_def weights signer_seeds_def
      vault_seeds_def holder_def amount_of_def)

theorem lifecycle_books_balance_witness:
  "\<exists>w v. reachable sample_env sample_world w \<and> w_vaults w (key 20) = Some v \<and> w_requests w (key 40) = None
     \<and> unat (v_pending_async_requests v)
       = card {k. \<exists>r. w_requests w k = Some r \<and> req_vault r = key 20 \<and> req_request_state r = Pending}"
proof -
  obtain w v where w: "cancel_request sample_env sample_cancel [] sample_world = Inr w"
    "w_vaults w (key 20) = Some v" "w_requests w (key 40) = None"
    using sample_cancel_runs by blast
  have "lifecycle_step sample_env sample_world w"
    by (rule canceled [of _ "(100, 2000, 1)"]) (use w in \<open>simp add: sample_at_time\<close>)
  then have "reachable sample_env sample_world w" by (blast intro: reachable.intros)
  from this w lifecycle_books_balance [OF this sample_lawful sample_books w(2)] show ?thesis by blast
qed

end
