(* ===== verification/Share_Cover.thy ===== *)
theory Share_Cover
  imports Instant_Books Lifecycle
begin

text \<open>
  Solvency between NAV updates: on a vault without tranches, all shares that exist or are owed,
  valued at the NAV, stay covered by the vault's total assets, whatever requests, approvals,
  rejections, claims, cancellations and instant settlements happen.
\<close>

subsection \<open>Cover\<close>

text \<open>The shares a request can still bring into being: those of a claim, and those a refund mints again.\<close>

definition shares_owed :: "pubkey \<Rightarrow> request \<Rightarrow> nat" where
  "shares_owed vk r =
     (if req_vault r = vk
         \<and> (req_request_state r = Claimable \<and> req_request_type r = Deposit
            \<or> req_request_state r = Pending \<and> req_request_type r = Redeem)
      then unat (req_amount r) else 0)"

definition outstanding :: "pubkey \<Rightarrow> world \<Rightarrow> mint_account \<Rightarrow> nat" where
  "outstanding vk w m = unat (mint_supply m) + weight (shares_owed vk) (w_requests w)"

definition covered :: "world \<Rightarrow> pubkey \<Rightarrow> bool" where
  "covered w vk \<longleftrightarrow>
     finite (dom (w_requests w))
     \<and> (\<exists>v m. w_vaults w vk = Some v \<and> v_tranche_config v = None
          \<and> l_mints (w_ledger w) (v_share_mint v) = Some m
          \<and> outstanding vk w m * unat (v_nav v)
              \<le> unat (v_total_asset_balance v) * 10 ^ unat (mint_decimals m))"

definition pricing :: "vault \<Rightarrow> u128 \<times> pubkey \<times> pubkey option" where
  "pricing v = (v_nav v, v_share_mint v, v_tranche_config v)"

lemma pricing_simps [simp]:
  "pricing (v\<lparr>v_tlv := t\<rparr>) = pricing v"
  "pricing (v\<lparr>v_pending_async_requests := n\<rparr>) = pricing v"
  "pricing (v\<lparr>v_pending_deposit_amount := d\<rparr>) = pricing v"
  "pricing (v\<lparr>v_total_asset_balance := d\<rparr>) = pricing v"
  by (simp_all add: pricing_def)

text \<open>
  What a step does to the supply, against what the request owed before and after and what the
  vault gains or gives up.
\<close>

definition supply_step :: "pubkey \<Rightarrow> ledger \<Rightarrow> ledger \<Rightarrow> (nat \<Rightarrow> nat \<Rightarrow> bool) \<Rightarrow> bool" where
  "supply_step sm L L' P \<longleftrightarrow>
     (\<forall>m. l_mints L sm = Some m \<longrightarrow>
        (\<exists>m'. l_mints L' sm = Some m' \<and> mint_decimals m' = mint_decimals m
           \<and> P (unat (mint_supply m)) (unat (mint_supply m'))))"

lemma supply_step_same: "l_mints L' = l_mints L \<Longrightarrow> (\<And>s. P s s) \<Longrightarrow> supply_step sm L L' P"
  by (simp add: supply_step_def)

lemma cover_step:
  assumes cov: "covered w vk" and v: "w_vaults w vk = Some v" "w_vaults w' vk = Some v'"
    and price: "pricing v' = pricing v"
    and requests: "w_requests w' = (w_requests w)(rk := new)"
    and m: "\<And>m. l_mints (w_ledger w) (v_share_mint v) = Some m \<Longrightarrow>
      \<exists>m'. l_mints (w_ledger w') (v_share_mint v) = Some m' \<and> mint_decimals m' = mint_decimals m
        \<and> (unat (mint_supply m') + opt_weight (shares_owed vk) new) * unat (v_nav v)
            + unat (v_total_asset_balance v) * 10 ^ unat (mint_decimals m)
          \<le> (unat (mint_supply m) + opt_weight (shares_owed vk) (w_requests w rk)) * unat (v_nav v)
            + unat (v_total_asset_balance v') * 10 ^ unat (mint_decimals m)"
  shows "covered w' vk"
proof -
  from cov v(1) obtain m0 where m0: "l_mints (w_ledger w) (v_share_mint v) = Some m0" "v_tranche_config v = None"
    "outstanding vk w m0 * unat (v_nav v) \<le> unat (v_total_asset_balance v) * 10 ^ unat (mint_decimals m0)"
    and fin: "finite (dom (w_requests w))" by (auto simp: covered_def)
  from m [OF m0(1)] obtain m' where m': "l_mints (w_ledger w') (v_share_mint v) = Some m'"
    "mint_decimals m' = mint_decimals m0"
    "(unat (mint_supply m') + opt_weight (shares_owed vk) new) * unat (v_nav v)
            + unat (v_total_asset_balance v) * 10 ^ unat (mint_decimals m0)
          \<le> (unat (mint_supply m0) + opt_weight (shares_owed vk) (w_requests w rk)) * unat (v_nav v)
            + unat (v_total_asset_balance v') * 10 ^ unat (mint_decimals m0)" by blast
  have "(outstanding vk w' m' + (unat (mint_supply m0) + opt_weight (shares_owed vk) (w_requests w rk)))
      = (outstanding vk w m0 + (unat (mint_supply m') + opt_weight (shares_owed vk) new))"
    using weight_update [OF fin, of "shares_owed vk" rk new] by (simp add: outstanding_def requests)
  then have "(outstanding vk w' m' + (unat (mint_supply m0) + opt_weight (shares_owed vk) (w_requests w rk)))
        * unat (v_nav v)
      = (outstanding vk w m0 + (unat (mint_supply m') + opt_weight (shares_owed vk) new)) * unat (v_nav v)"
    by simp
  with m'(3) m0(3) have "outstanding vk w' m' * unat (v_nav v)
      \<le> unat (v_total_asset_balance v') * 10 ^ unat (mint_decimals m0)"
    by (simp add: distrib_right)
  with m' price v(2) m0(2) fin show ?thesis
    by (auto simp: covered_def pricing_def requests dom_fun_upd)
qed

text \<open>The steps that mint or burn no more than what is owed, and leave the vault's total alone.\<close>

lemma cover_kept:
  assumes "covered w vk" "w_vaults w vk = Some v" "w_vaults w' vk = Some v'" "pricing v' = pricing v"
    and "v_total_asset_balance v' = v_total_asset_balance v"
    and "w_requests w' = (w_requests w)(rk := new)"
    and "supply_step (v_share_mint v) (w_ledger w) (w_ledger w')
      (\<lambda>s s'. s' + opt_weight (shares_owed vk) new \<le> s + opt_weight (shares_owed vk) (w_requests w rk))"
  shows "covered w' vk"
  using assms(7) by (intro cover_step [OF assms(1-4,6)]) (auto simp: supply_step_def assms(5))

lemma transfer_supply:
  "transfer_effect E src mint dst n L L' \<Longrightarrow> (\<And>s. P s s) \<Longrightarrow> supply_step sm L L' P"
  by (rule supply_step_same) (simp_all add: transfer_effect_def)

lemma mint_supply_step:
  "spl_laws E \<Longrightarrow> mint_to E p sm dst a n L = Inr L' \<Longrightarrow> (\<And>s. P s (s + unat n)) \<Longrightarrow> supply_step sm L L' P"
  by (fastforce simp: supply_step_def dest: minted_effect(2))

lemma burn_supply_step:
  "spl_laws E \<Longrightarrow> burn E p sm src a n L = Inr L' \<Longrightarrow> (\<And>s. P (s + unat n) s) \<Longrightarrow> supply_step sm L L' P"
  by (fastforce simp: supply_step_def dest: burnt_effect(2))

subsection \<open>Requests, claims and cancellations\<close>

text \<open>On a vault without tranches every share mint an instruction accepts is the vault's.\<close>

lemma untranched:
  "covered w vk \<Longrightarrow> w_vaults w vk = Some v \<Longrightarrow> v_tranche_config v = None"
  by (auto simp: covered_def)

lemma untranched_share_mint:
  assumes "covered w vk" "w_vaults w vk = Some v" "validate_request_share_mint E w v vk sm ra = Inr ctx"
  shows "sm = v_share_mint v" "rsc_tranche_nav ctx = None" "rsc_tranche_info ctx = None"
  using assms(3) untranched [OF assms(1,2)] by (auto simp: validate_request_share_mint_def res_simps)

lemma create_deposit_request_cover:
  assumes run: "create_deposit_request E accts ra args w = Inr w'" and spl: "spl_laws E"
    and cov: "covered w (cdr_vault accts)"
  shows "covered w' (cdr_vault accts)"
  using run
  apply (clarsimp simp: create_deposit_request_def res_simps Let_def)
  apply (drule add_pending_deposit_Inr assign_queue_id_keeps tag_request_keeps)+
  apply clarsimp
  apply (rule cover_kept [OF cov, where rk = "cdr_request accts"], assumption, simp)
     apply (simp_all add: fresh_def shares_owed_def transfer_assets_from_user_to_pending_vault_def)
  apply (erule transfer_supply [OF spl_transfer [OF spl]])
  apply (simp add: shares_owed_def)
  done

lemma create_redeem_request_cover:
  assumes run: "create_redeem_request E accts ra args w = Inr w'" and spl: "spl_laws E"
    and cov: "covered w (crr_vault accts)"
  shows "covered w' (crr_vault accts)"
  using run
  apply (clarsimp simp: create_redeem_request_def res_simps Let_def)
  apply (drule assign_queue_id_keeps tag_request_keeps)+
  apply clarsimp
  apply (frule (1) untranched_share_mint(1) [OF cov])
  apply (rule cover_kept [OF cov, where rk = "crr_request accts"], assumption, simp)
     apply (simp_all add: fresh_def shares_owed_def burn_shares_def)
  apply (erule burn_supply_step [OF spl])
  apply (simp add: shares_owed_def)
  done

lemma set_operator_cover:
  assumes run: "set_operator accts w = Inr w'" and cov: "covered w vk"
  shows "covered w' vk"
proof -
  from run obtain r where r: "w_requests w (so_request accts) = Some r"
    "w' = w\<lparr>w_requests := (w_requests w)(so_request accts \<mapsto> r\<lparr>req_operator := Some (so_operator accts)\<rparr>)\<rparr>"
    by (auto simp: set_operator_def res_simps)
  from cov obtain v where "w_vaults w vk = Some v" by (auto simp: covered_def)
  then show ?thesis
    by (intro cover_kept [OF cov, where rk = "so_request accts"])
      (use r in \<open>auto simp: shares_owed_def intro: supply_step_same\<close>)
qed

text \<open>A refund of a redemption mints what the request owed, one of a deposit mints nothing.\<close>

lemma release_pricing:
  "release_pending_deposit b n v va = Inr (v', va') \<Longrightarrow>
   pricing v' = pricing v \<and> v_total_asset_balance v' = v_total_asset_balance v"
  by (drule release_pending_deposit_Inr) auto

lemma mint_shares_supply:
  "spl_laws E \<Longrightarrow> mint_shares E vk v sm d q n L = Inr L' \<Longrightarrow> (\<And>s. P s (s + unat n)) \<Longrightarrow>
   supply_step sm L L' P"
  by (auto simp: mint_shares_def res_simps intro: mint_supply_step)

lemma refund_supply:
  assumes spl: "spl_laws E"
    and run: "(case t of
      Deposit \<Rightarrow> refund_deposit E vk v m am va p u tp n L
    | Redeem \<Rightarrow> try_ok (mint_shares E vk v sm d q n L) (\<lambda>L. Inr (v, va, L))) = Inr (v', va', L')"
  shows "pricing v' = pricing v" "v_total_asset_balance v' = v_total_asset_balance v"
    "sm = sm' \<Longrightarrow> (\<And>s. P s (s + (if t = Redeem then unat n else 0))) \<Longrightarrow> supply_step sm' L L' P"
proof -
  have "pricing v' = pricing v \<and> v_total_asset_balance v' = v_total_asset_balance v"
    using run by (cases t) (auto simp: refund_deposit_def Let_def res_simps dest: release_pricing split: if_splits)
  then show "pricing v' = pricing v" "v_total_asset_balance v' = v_total_asset_balance v" by simp_all
  assume sm: "sm = sm'" and P: "\<And>s. P s (s + (if t = Redeem then unat n else 0))"
  show "supply_step sm' L L' P"
  proof (cases t)
    case Deposit
    with run obtain q d c where "transfer_checked E q d m c vk n (mint_decimals am) L = Inr L'"
      by (auto simp: refund_deposit_def transfer_assets_to_user_def Let_def res_simps split: if_splits)
    from transfer_supply [OF spl_transfer [OF spl this]] P Deposit show ?thesis by simp
  next
    case Redeem
    with run P sm show ?thesis by (auto simp: res_simps intro: mint_shares_supply [OF spl])
  qed
qed

lemma cancel_request_cover:
  assumes run: "cancel_request E accts ra w = Inr w'" and spl: "spl_laws E"
    and cov: "covered w (ca_vault accts)"
  shows "covered w' (ca_vault accts)"
  using run
  apply (clarsimp simp: cancel_request_def res_simps Let_def)
  apply (frule (1) untranched_share_mint(1) [OF cov])
  apply (frule refund_supply(1) [OF spl])
  apply (frule refund_supply(2) [OF spl])
  apply (rule cover_kept [OF cov, where rk = "ca_request accts"], assumption, simp)
     apply (simp_all add: close_def)
  apply (erule refund_supply(3) [OF spl])
   apply (simp_all add: shares_owed_def)
  done

lemma reject_request_cover:
  assumes run: "reject_request E accts ra args w = Inr w'" and spl: "spl_laws E"
    and cov: "covered w (rr_vault accts)"
  shows "covered w' (rr_vault accts)"
  using run
  apply (clarsimp simp: reject_request_def res_simps Let_def)
  apply (frule (1) untranched_share_mint(1) [OF cov])
  apply (drule check_fifo_ordering_keeps)
  apply clarsimp
  apply (frule refund_supply(1) [OF spl])
  apply (frule refund_supply(2) [OF spl])
  apply (rule cover_kept [OF cov, where rk = "rr_request accts"], assumption, simp)
     apply (simp_all add: close_def)
  apply (erule refund_supply(3) [OF spl])
   apply (simp_all add: shares_owed_def)
  done

lemma cancel_queued_deposit_request_cover:
  assumes run: "cancel_queued_deposit_request E accts ra w = Inr w'" and spl: "spl_laws E"
    and cov: "covered w (cqd_vault accts)"
  shows "covered w' (cqd_vault accts)"
  using run
  apply (clarsimp simp: cancel_queued_deposit_request_def res_simps Let_def)
  apply (drule release_pricing)
  apply (rule cover_kept [OF cov, where rk = "cqd_request accts"], assumption, simp)
     apply simp_all
  apply (erule transfer_supply [OF spl_transfer [OF spl]])
  apply (simp add: shares_owed_def)
  done

lemma cancel_queued_redemption_request_cover:
  assumes run: "cancel_queued_redemption_request E accts ra w = Inr w'" and spl: "spl_laws E"
    and cov: "covered w (cqr_vault accts)"
  shows "covered w' (cqr_vault accts)"
  using run
  apply (clarsimp simp: cancel_queued_redemption_request_def res_simps Let_def)
  apply (frule (1) untranched_share_mint(1) [OF cov])
  apply (rule cover_kept [OF cov, where rk = "cqr_request accts"], assumption, simp)
     apply simp_all
  apply (erule mint_supply_step [OF spl])
  apply (simp add: shares_owed_def)
  done

lemma skip_canceled_queue_request_cover:
  assumes run: "skip_canceled_queue_request E accts ra w = Inr w'" and cov: "covered w (sc_vault accts)"
  shows "covered w' (sc_vault accts)"
  using run
  apply (clarsimp simp: skip_canceled_queue_request_def res_simps Let_def)
  apply (drule check_fifo_ordering_keeps)
  apply clarsimp
  apply (rule cover_kept [OF cov, where rk = "sc_request accts"], assumption, simp)
     apply (simp_all add: close_def)
  apply (rule supply_step_same)
   apply simp_all
  done

lemma claim_cover:
  assumes run: "claim E accts ra w = Inr w'" and spl: "spl_laws E" and cov: "covered w (cl_vault accts)"
  shows "covered w' (cl_vault accts)"
  using run
  apply (clarsimp simp: claim_def res_simps Let_def)
  apply (frule (1) untranched_share_mint(1) [OF cov])
  apply (rule cover_kept [OF cov, where rk = "cl_request accts"], assumption, simp)
     apply (simp_all add: close_def)
  apply (auto simp: transfer_assets_to_user_def res_simps shares_owed_def split: RequestType.splits
      intro: mint_shares_supply [OF spl] transfer_supply [OF spl_transfer [OF spl]])
  done

subsection \<open>Approvals and instant settlement\<close>

lemma pay_settlement_mints:
  assumes spl: "spl_laws E"
    and run: "pay_settlement (transfer_asset_from E vk v p am m src) fee_info fee protocol_info
      protocol_fee dst net L = Inr L'"
  shows "l_mints L' = l_mints L"
proof -
  from run obtain L1 L2 where 1: "(case fee_info of None \<Rightarrow> Inr L
        | Some i \<Rightarrow> transfer_asset_from E vk v p am m src (ai_key i) fee L) = Inr L1"
    and 2: "(case protocol_info of None \<Rightarrow> Inr L1
        | Some i \<Rightarrow> transfer_asset_from E vk v p am m src (ai_key i) protocol_fee L1) = Inr L2"
    and 3: "transfer_asset_from E vk v p am m src dst net L2 = Inr L'"
    by (auto simp: pay_settlement_def res_simps)
  show ?thesis
    using optional_transfer_effect(3) [OF spl 1] optional_transfer_effect(3) [OF spl 2]
      transfer_asset_from_effect [OF spl 3] by (simp add: transfer_effect_def)
qed

lemma shares_cost: "calculate_shares nav d n = Inr s \<Longrightarrow> unat s * unat nav \<le> unat n * 10 ^ unat d"
  by (drule calculate_shares_Inr) simp

lemma assets_worth: "calculate_assets nav d s = Inr a \<Longrightarrow> unat a * 10 ^ unat d \<le> unat s * unat nav"
  by (drule calculate_assets_Inr) simp

lemma approve_request_cover:
  assumes run: "approve_request E accts ra args w = Inr w'" and spl: "spl_laws E"
    and cov: "covered w (ar_vault accts)"
  shows "covered w' (ar_vault accts)"
  using run
proof (rule approve_request_Inr, goal_cases)
  case (1 v va r t_reserve t_pending am sm ctx v1 tcs1 v2 va2 tcs L claimable pa)
  note ctx = untranched_share_mint [OF cov 1(2,10)]
  have nav: "request_nav ctx v = v_nav v" by (simp add: request_nav_def ctx)
  from check_fifo_ordering_keeps [OF 1(8)] obtain tlv where v1: "v1 = v\<lparr>v_tlv := tlv\<rparr>" by blast
  let ?r = "r\<lparr>req_amount := claimable, req_price := request_nav ctx v, req_request_state := Claimable\<rparr>"
  let ?v2 = "v2\<lparr>v_pending_async_requests := pa\<rparr>" and ?p = "10 ^ unat (mint_decimals sm) :: nat"
  have "pricing v2 = pricing v \<and> l_mints L = l_mints (w_ledger w)
      \<and> opt_weight (shares_owed (ar_vault accts)) (Some ?r) * unat (v_nav v) + unat (v_total_asset_balance v) * ?p
        \<le> shares_owed (ar_vault accts) r * unat (v_nav v) + unat (v_total_asset_balance v2) * ?p"
  proof (cases "req_request_type r")
    case Deposit
    with 1(9) obtain delta where
      settle: "settle_deposit_request E w accts am sm v1 tcs1 ctx (request_nav ctx v) (req_amount r)
        (get_at ra 0) (drop (rsc_consumed_accounts ctx) ra) = Inr (tcs, L, claimable, delta)"
      and acct: "account_deposit True delta (req_amount r) v1 va = Inr (v2, va2)"
      by (auto simp: res_simps)
    from settle have "calculate_shares (v_nav v) (mint_decimals sm) delta = Inr claimable"
      by (auto simp: settle_deposit_request_def res_simps nav)
    from shares_cost [OF this] have cost: "unat claimable * unat (v_nav v) \<le> unat delta * ?p" .
    have "l_mints L = l_mints (w_ledger w)"
      using settle by (auto simp: settle_deposit_request_def res_simps dest: pay_settlement_mints [OF spl])
    moreover have "pricing v2 = pricing v" using acct by (auto simp: account_deposit_def res_simps v1)
    ultimately show ?thesis using account_deposit_Inr [OF acct] cost Deposit 1(23)
      by (simp add: shares_owed_def v1 distrib_right)
  next
    case Redeem
    with 1(9) obtain v' delta where
      settle: "settle_redeem_request E w accts am sm v1 tcs1 ctx (request_nav ctx v) (req_amount r)
        (get_at ra 0) (drop (rsc_consumed_accounts ctx) ra) = Inr (v', tcs, L, claimable, delta)"
      and acct: "account_redeem True delta v' va = Inr (v2, va2)"
      by (auto simp: res_simps)
    from settle have "calculate_assets (v_nav v) (mint_decimals sm) (req_amount r) = Inr delta"
      by (auto simp: settle_redeem_request_def res_simps nav)
    from assets_worth [OF this] have worth: "unat delta * ?p \<le> unat (req_amount r) * unat (v_nav v)" .
    have "l_mints L = l_mints (w_ledger w)"
      using settle by (auto simp: settle_redeem_request_def res_simps dest: pay_settlement_mints [OF spl])
    moreover have "Vault_consume_redemption_rolling_limit v1 delta (env_slot E) = Inr v'"
      using settle by (auto simp: settle_redeem_request_def res_simps)
    then have "pricing v' = pricing v" "v_total_asset_balance v' = v_total_asset_balance v"
      using consume_redemption_Inr v1 by (fastforce simp: pricing_def)+
    moreover have "pricing v2 = pricing v'" using acct by (auto simp: account_redeem_def res_simps)
    ultimately show ?thesis using account_redeem_Inr [OF acct] worth Redeem 1(23,24)
      by (simp add: shares_owed_def distrib_right)
  qed
  then show ?case
    by (intro cover_step [OF cov 1(2), where rk = "ar_request accts" and new = "Some ?r" and v' = ?v2])
      (use 1(1,3,5) ctx(1) in \<open>auto simp: distrib_right\<close>)
qed

lemma instant_deposit_cover:
  assumes run: "instant_deposit E accts ra amount w = Inr w'" and spl: "spl_laws E"
    and cov: "covered w (id_vault accts)"
  shows "covered w' (id_vault accts)"
  using run
proof (rule instant_deposit_Inr, goal_cases)
  case (1 v am sm r t settings users fee net shares pf rest L1 L2 L3 total)
  from 1(27) obtain pt where fees: "pay_instant_fees E w v (transfer_user_assets_to E accts am)
      (id_fee_recipient_token_account accts) rest (id_protocol_fee_recipient_token_account accts) pt pf ra
      (w_ledger w) = Inr L1" by auto
  note e = pay_and_transfer_effect(3) [OF transfer_user_assets_effect [OF spl] fees 1(28)]
  obtain s where s: "l_mints L3 (id_share_mint accts) = Some (sm\<lparr>mint_supply := s\<rparr>)"
    "unat s = unat (mint_supply sm) + unat shares"
    using minted_effect(2) [OF spl 1(29)] 1(3) by (auto simp: e)
  have "unat total = unat (v_total_asset_balance v) + unat net" using 1(30) by (simp add: checked_simps)
  with s shares_cost [OF 1(24)] show ?case
    by (intro cover_step [OF cov 1(1), where rk = "[]" and new = "w_requests w []"
          and v' = "v\<lparr>v_total_asset_balance := total\<rparr>"])
      (use 1(3,11) in \<open>auto simp: 1(31) distrib_right\<close>)
qed

lemma instant_redeem_cover:
  assumes run: "instant_redeem E accts ra shares w = Inr w'" and spl: "spl_laws E"
    and cov: "covered w (ir_vault accts)"
  shows "covered w' (ir_vault accts)"
  using run
proof (rule instant_redeem_Inr, goal_cases)
  case (1 v am sm r t settings users gross wfee ifee total_fee net v1 L1 pf rest L2 L3 total)
  from 1(31) obtain pt where fees: "pay_instant_fees E w v1 (transfer_vault_assets_to E accts v1 am)
      (ir_fee_recipient_token_account accts) rest (ir_protocol_fee_recipient_token_account accts) pt pf ra
      L1 = Inr L2" by auto
  note e = pay_and_transfer_effect(3) [OF transfer_vault_assets_effect [OF spl] fees 1(32)]
  obtain s where s: "l_mints L3 (ir_share_mint accts) = Some (sm\<lparr>mint_supply := s\<rparr>)"
    "unat (mint_supply sm) = unat s + unat shares"
    using burnt_effect(2) [OF spl 1(29,3)] by (auto simp: e)
  have v1: "pricing v1 = pricing v" "v_total_asset_balance v1 = v_total_asset_balance v"
    using consume_redemption_Inr [OF 1(28)] by (auto simp: pricing_def)
  have "unat (v_total_asset_balance v) = unat total + unat gross" using 1(33) v1 by (simp add: checked_simps)
  with s assets_worth [OF 1(21)] show ?case
    by (intro cover_step [OF cov 1(1), where rk = "[]" and new = "w_requests w []"
          and v' = "v1\<lparr>v_total_asset_balance := total\<rparr>"])
      (use 1(3,11) in \<open>auto simp: 1(34) v1 distrib_right\<close>)
qed

subsection \<open>Runs between NAV updates\<close>

text \<open>
  Anything else that happens: instructions on other vaults, administration, positions, transfers
  of tokens. The vault's price, share mint and total stay, its requests stay, and nobody else
  mints its shares, which takes the vault's signature.
\<close>

definition elsewhere :: "pubkey \<Rightarrow> world \<Rightarrow> world \<Rightarrow> bool" where
  "elsewhere vk w w' \<longleftrightarrow>
     finite (dom (w_requests w'))
     \<and> (\<forall>k r. req_vault r = vk \<longrightarrow> (w_requests w' k = Some r \<longleftrightarrow> w_requests w k = Some r))
     \<and> (\<forall>v. w_vaults w vk = Some v \<longrightarrow>
          (\<exists>v'. w_vaults w' vk = Some v' \<and> pricing v' = pricing v
             \<and> v_total_asset_balance v' = v_total_asset_balance v)
          \<and> supply_step (v_share_mint v) (w_ledger w) (w_ledger w') (\<lambda>s s'. s' \<le> s))"

lemma shares_owed_elsewhere:
  assumes "finite (dom m)" "finite (dom m')"
    and same: "\<And>k r. req_vault r = vk \<Longrightarrow> m' k = Some r \<longleftrightarrow> m k = Some r"
  shows "weight (shares_owed vk) m' = weight (shares_owed vk) m"
proof -
  let ?own = "\<lambda>m. {k. \<exists>r. m k = Some r \<and> req_vault r = vk}"
  have own: "weight (shares_owed vk) m = (\<Sum>k\<in>?own m. shares_owed vk (the (m k)))" if "finite (dom m)" for m
    unfolding weight_def using that
    by (intro sum.mono_neutral_right) (auto simp: shares_owed_def)
  have "?own m' = ?own m" using same by blast
  moreover have "the (m' k) = the (m k)" if "k \<in> ?own m" for k
  proof -
    from that obtain r where "m k = Some r" "req_vault r = vk" by blast
    with same [of r k] show ?thesis by simp
  qed
  ultimately show ?thesis unfolding own [OF assms(1)] own [OF assms(2)] by (auto intro: sum.cong)
qed

lemma elsewhere_cover:
  assumes cov: "covered w vk" and else_: "elsewhere vk w w'"
  shows "covered w' vk"
proof -
  from cov obtain v m where v: "w_vaults w vk = Some v" "v_tranche_config v = None"
    and m: "l_mints (w_ledger w) (v_share_mint v) = Some m"
      "outstanding vk w m * unat (v_nav v) \<le> unat (v_total_asset_balance v) * 10 ^ unat (mint_decimals m)"
    and fin: "finite (dom (w_requests w))" by (auto simp: covered_def)
  from else_ v(1) obtain v' where v': "w_vaults w' vk = Some v'" "pricing v' = pricing v"
    "v_total_asset_balance v' = v_total_asset_balance v"
    and kept: "supply_step (v_share_mint v) (w_ledger w) (w_ledger w') (\<lambda>s s'. s' \<le> s)"
    unfolding elsewhere_def by blast
  from kept m(1) obtain m' where m': "l_mints (w_ledger w') (v_share_mint v) = Some m'"
    "mint_decimals m' = mint_decimals m" "unat (mint_supply m') \<le> unat (mint_supply m)"
    unfolding supply_step_def by blast
  have fin': "finite (dom (w_requests w'))" using else_ by (simp add: elsewhere_def)
  have "weight (shares_owed vk) (w_requests w') = weight (shares_owed vk) (w_requests w)"
    by (rule shares_owed_elsewhere [OF fin fin']) (use else_ in \<open>simp add: elsewhere_def\<close>)
  with m'(3) have "outstanding vk w' m' \<le> outstanding vk w m" by (simp add: outstanding_def)
  then have "outstanding vk w' m' * unat (v_nav v) \<le> outstanding vk w m * unat (v_nav v)" by (rule mult_le_mono1)
  then have "outstanding vk w' m' * unat (v_nav v) \<le> unat (v_total_asset_balance v) * 10 ^ unat (mint_decimals m)"
    using m(2) by (rule order_trans)
  with m' v v' fin' show ?thesis by (auto simp: covered_def pricing_def)
qed

inductive pricing_step :: "env \<Rightarrow> pubkey \<Rightarrow> world \<Rightarrow> world \<Rightarrow> bool" for E vk where
  deposit_requested: "create_deposit_request (at_time E now) cdr ra args w = Inr w' \<Longrightarrow> cdr_vault cdr = vk \<Longrightarrow>
     pricing_step E vk w w'"
| redemption_requested: "create_redeem_request (at_time E now) crr ra args w = Inr w' \<Longrightarrow> crr_vault crr = vk \<Longrightarrow>
     pricing_step E vk w w'"
| operator_set: "set_operator so w = Inr w' \<Longrightarrow> pricing_step E vk w w'"
| approved: "approve_request (at_time E now) ar ra aa w = Inr w' \<Longrightarrow> ar_vault ar = vk \<Longrightarrow> pricing_step E vk w w'"
| rejected: "reject_request (at_time E now) rr ra aa w = Inr w' \<Longrightarrow> rr_vault rr = vk \<Longrightarrow> pricing_step E vk w w'"
| claimed: "claim (at_time E now) cl ra w = Inr w' \<Longrightarrow> cl_vault cl = vk \<Longrightarrow> pricing_step E vk w w'"
| canceled: "cancel_request (at_time E now) ca ra w = Inr w' \<Longrightarrow> ca_vault ca = vk \<Longrightarrow> pricing_step E vk w w'"
| queued_deposit_canceled: "cancel_queued_deposit_request (at_time E now) cqd ra w = Inr w' \<Longrightarrow>
     cqd_vault cqd = vk \<Longrightarrow> pricing_step E vk w w'"
| queued_redemption_canceled: "cancel_queued_redemption_request (at_time E now) cqr ra w = Inr w' \<Longrightarrow>
     cqr_vault cqr = vk \<Longrightarrow> pricing_step E vk w w'"
| skipped: "skip_canceled_queue_request (at_time E now) sc ra w = Inr w' \<Longrightarrow> sc_vault sc = vk \<Longrightarrow>
     pricing_step E vk w w'"
| instant_deposited: "instant_deposit (at_time E now) ida ra amount w = Inr w' \<Longrightarrow> id_vault ida = vk \<Longrightarrow>
     pricing_step E vk w w'"
| instant_redeemed: "instant_redeem (at_time E now) ira ra shares w = Inr w' \<Longrightarrow> ir_vault ira = vk \<Longrightarrow>
     pricing_step E vk w w'"
| other: "elsewhere vk w w' \<Longrightarrow> pricing_step E vk w w'"

lemma pricing_step_cover:
  assumes "pricing_step E vk w w'" and lawful: "lawful_runtime E" and cov: "covered w vk"
  shows "covered w' vk"
proof -
  have spl: "spl_laws (at_time E now)" for now using lawful by simp
  from assms(1) show ?thesis
    by cases (use cov in \<open>auto intro: create_deposit_request_cover [OF _ spl] create_redeem_request_cover [OF _ spl]
      set_operator_cover approve_request_cover [OF _ spl] reject_request_cover [OF _ spl] claim_cover [OF _ spl]
      cancel_request_cover [OF _ spl] cancel_queued_deposit_request_cover [OF _ spl]
      cancel_queued_redemption_request_cover [OF _ spl] skip_canceled_queue_request_cover
      instant_deposit_cover [OF _ spl] instant_redeem_cover [OF _ spl] elsewhere_cover\<close>)
qed

inductive pricing_run :: "env \<Rightarrow> pubkey \<Rightarrow> world \<Rightarrow> world \<Rightarrow> bool" for E vk w0 where
  pricing_start: "pricing_run E vk w0 w0"
| pricing_next: "pricing_run E vk w0 w \<Longrightarrow> pricing_step E vk w w' \<Longrightarrow> pricing_run E vk w0 w'"

lemma pricing_run_cover:
  assumes "pricing_run E vk w0 w" "lawful_runtime E" "covered w0 vk"
  shows "covered w vk"
  using assms(1) by induction (use assms(2,3) pricing_step_cover in blast)+


text \<open>The sample vault at a NAV of 1: the owner of the pending deposit cancels it.\<close>

definition priced_world :: world where
  "priced_world = sample_world\<lparr>w_vaults := [key 20 \<mapsto> sample_vault\<lparr>v_nav := 1000000\<rparr>]\<rparr>"

lemma priced_cancel_runs:
  "\<exists>w'. cancel_request sample_env sample_cancel [] priced_world = Inr w' \<and> w_requests w' (key 40) = None"
  by (simp add: priced_world_def cancel_request_def sample_cancel_def sample_world_defs vault_guard_defs
      load_def load_opt_def opt_account_def opt_constraint_defs token_interface_def is_token_program_def
      vault_pda_def seeds_with_bump_def vault_seeds_def token_constraints_def token_constraints_program_def
      validate_request_share_mint_def validate_queue_extension_constraints_def
      refund_deposit_def assert_refund_escrow_def transfer_assets_to_user_def release_pending_deposit_def
      signer_seeds_def cpi_eval checked_eval close_def put_opt_def Let_def
      no_request_extension)

lemma priced_world_covered: "covered priced_world (key 20)"
  by (simp add: covered_def outstanding_def priced_world_def sample_world_defs weight_def shares_owed_def)


end
