(* ===== verification/Venues.thy ===== *)
theory Venues
  imports Vault_Admin Rolling_Limit
begin

text \<open>
  Secondary assets, the venue registry, a vault's approved venues and its positions there, and
  the withdrawal of assets to an approved recipient.
\<close>

definition close_account ::
  "env \<Rightarrow> pubkey \<Rightarrow> pubkey \<Rightarrow> pubkey \<Rightarrow> pubkey \<Rightarrow> ledger \<Rightarrow> ledger result" where
  "close_account E = spl_close_account (env_spl E)"

subsection \<open>Secondary assets\<close>

record AddVaultAsset =
  ava_asset_authority :: pubkey
  ava_vault :: pubkey
  ava_asset_mint :: pubkey
  ava_vault_asset :: pubkey
  ava_reserve :: pubkey
  ava_pending_vault :: pubkey
  ava_asset_token_program :: pubkey

definition add_vault_asset :: "env \<Rightarrow> AddVaultAsset \<Rightarrow> u64 \<Rightarrow> world \<Rightarrow> world result" where
  "add_vault_asset E accts deposit_cap w =
     load (w_vaults w) (ava_vault accts) (\<lambda>v.
     load (l_mints (w_ledger w)) (ava_asset_mint accts) (\<lambda>asset_mint.
     token_interface E (ava_asset_token_program accts) (
     seeds_canonical E [ASSET_CONFIG_SEED, ava_vault accts, ava_asset_mint accts] (ava_vault_asset accts) (\<lambda>bump.
     init_account w (ava_vault_asset accts) (
     init_token_account E w [ASSET_RESERVE_SEED, ava_vault accts, ava_asset_mint accts] (ava_reserve accts)
       (ava_asset_mint accts) (ava_vault accts) (ava_asset_token_program accts) (w_ledger w)
       (\<lambda>reserve_bump L.
     init_token_account E w [ASSET_PENDING_SEED, ava_vault accts, ava_asset_mint accts]
       (ava_pending_vault accts) (ava_asset_mint accts) (ava_vault accts) (ava_asset_token_program accts) L
       (\<lambda>pending_vault_bump L.
     require (distinct [ava_vault_asset accts, ava_reserve accts, ava_pending_vault accts])
       (Anchor_Err AccountAlreadyInUse) (
     try_ok (Vault_assert_curator v (ava_asset_authority accts)) (\<lambda>_.
     require (v_timelock_delay_slots v = 0) (Vault_Err TimelockRequired) (
     require (ava_asset_mint accts \<noteq> v_asset_mint v) (Vault_Err AssetAlreadyApproved) (
     require (v_approved_asset_count v < MAX_APPROVED_ASSETS) (Vault_Err MaxApprovedAssetsExceeded) (
     try_ok (validate_asset_mint_extensions E asset_mint) (\<lambda>_.
     arith (checked_add (v_approved_asset_count v) 1) (\<lambda>approved_asset_count.
     Inr (w\<lparr>w_ledger := L,
            w_vaults := (w_vaults w)(ava_vault accts \<mapsto> v\<lparr>v_approved_asset_count := approved_asset_count\<rparr>),
            w_vault_assets := (w_vault_assets w)(ava_vault_asset accts \<mapsto>
              \<lparr>va_vault = ava_vault accts, va_asset_mint = ava_asset_mint accts,
               va_reserve = ava_reserve accts, va_pending_vault = ava_pending_vault accts,
               va_idle_balance = 0, va_deployed_balance = 0, va_pending_deposit_amount = 0,
               va_deposit_cap = deposit_cap, va_manager_window_start_slot = 0,
               va_manager_window_amount = 0, va_reserve_bump = reserve_bump,
               va_pending_vault_bump = pending_vault_bump, va_bump = bump\<rparr>)\<rparr>
     )))))))))))))))"

record RemoveVaultAsset =
  rva_authority :: pubkey
  rva_vault :: pubkey
  rva_asset_mint :: pubkey
  rva_vault_asset :: pubkey
  rva_reserve :: pubkey
  rva_pending_vault :: pubkey
  rva_asset_token_program :: pubkey

definition close_vault_token_account ::
  "env \<Rightarrow> vault \<Rightarrow> pubkey \<Rightarrow> pubkey \<Rightarrow> pubkey \<Rightarrow> pubkey \<Rightarrow> ledger \<Rightarrow> ledger result" where
  "close_vault_token_account E v vault_key program authority account L =
     signed_by E (signer_seeds v) vault_key (close_account E program account authority vault_key L)"

definition remove_vault_asset :: "env \<Rightarrow> RemoveVaultAsset \<Rightarrow> world \<Rightarrow> world result" where
  "remove_vault_asset E accts w =
     load (w_vaults w) (rva_vault accts) (\<lambda>v.
     load (l_mints (w_ledger w)) (rva_asset_mint accts) (\<lambda>asset_mint.
     load (w_vault_assets w) (rva_vault_asset accts) (\<lambda>va.
     load (l_tokens (w_ledger w)) (rva_reserve accts) (\<lambda>reserve.
     load (l_tokens (w_ledger w)) (rva_pending_vault accts) (\<lambda>pending_vault.
     token_interface E (rva_asset_token_program accts) (
     seeds_with_bump E [ASSET_CONFIG_SEED, rva_vault accts, rva_asset_mint accts] (va_bump va)
       (rva_vault_asset accts) (
     require (va_vault va = rva_vault accts) (Vault_Err InvalidVault) (
     require (va_asset_mint va = rva_asset_mint accts) (Vault_Err InvalidAssetMint) (
     seeds_with_bump E [ASSET_RESERVE_SEED, rva_vault accts, rva_asset_mint accts] (va_reserve_bump va)
       (rva_reserve accts) (
     require (va_reserve va = rva_reserve accts) (Vault_Err InvalidVault) (
     token_constraints_program reserve (rva_asset_mint accts) (rva_vault accts)
       (rva_asset_token_program accts) (
     seeds_with_bump E [ASSET_PENDING_SEED, rva_vault accts, rva_asset_mint accts]
       (va_pending_vault_bump va) (rva_pending_vault accts) (
     require (va_pending_vault va = rva_pending_vault accts) (Vault_Err InvalidPendingVault) (
     token_constraints_program pending_vault (rva_asset_mint accts) (rva_vault accts)
       (rva_asset_token_program accts) (
     try_ok (Vault_assert_curator v (rva_authority accts)) (\<lambda>_.
     require (v_timelock_delay_slots v = 0) (Vault_Err TimelockRequired) (
     require (va_idle_balance va = 0 \<and> va_deployed_balance va = 0
         \<and> va_pending_deposit_amount va = 0 \<and> ta_amount reserve = 0 \<and> ta_amount pending_vault = 0)
       (Vault_Err AssetBalanceNonZero) (
     arith (checked_sub (v_approved_asset_count v) 1) (\<lambda>approved_asset_count.
     try_ok (close_vault_token_account E v (rva_vault accts) (rva_asset_token_program accts)
       (rva_authority accts) (rva_reserve accts) (w_ledger w)) (\<lambda>L.
     try_ok (close_vault_token_account E v (rva_vault accts) (rva_asset_token_program accts)
       (rva_authority accts) (rva_pending_vault accts) L) (\<lambda>L.
     Inr (w\<lparr>w_ledger := L,
            w_vaults := (w_vaults w)(rva_vault accts \<mapsto> v\<lparr>v_approved_asset_count := approved_asset_count\<rparr>),
            w_vault_assets := close (w_vault_assets w) (rva_vault_asset accts)\<rparr>
     ))))))))))))))))))))))"

subsection \<open>The venue registry\<close>

record RegisterVenueArgs =
  rv_venue_id :: bytes
  rv_target_program :: pubkey
  rv_allowed_discriminator_count :: u8
  rv_allowed_discriminators :: bytes
  rv_risk_class :: u8
  rv_venue_type :: VenueType
  rv_routine_safe :: bool

record RegisterVenue =
  rv_registry_authority :: pubkey
  rv_venue_entry :: pubkey

definition new_venue_entry :: "RegisterVenue \<Rightarrow> RegisterVenueArgs \<Rightarrow> u8 \<Rightarrow> VenueEntry" where
  "new_venue_entry accts args bump =
     (let active_len = unat (rv_allowed_discriminator_count args) * 8 in
      \<lparr>ve_registry_authority = rv_registry_authority accts, ve_venue_id = rv_venue_id args,
       ve_target_program = rv_target_program args,
       ve_allowed_discriminator_count = rv_allowed_discriminator_count args,
       ve_allowed_discriminators =
         splice (replicate MAX_VENUE_DISCRIMINATOR_BYTES 0) 0
           (take active_len (rv_allowed_discriminators args)),
       ve_risk_class = rv_risk_class args, ve_venue_type = rv_venue_type args,
       ve_routine_safe = rv_routine_safe args, ve_paused = False, ve_bump = bump\<rparr>)"

definition register_venue :: "env \<Rightarrow> RegisterVenue \<Rightarrow> RegisterVenueArgs \<Rightarrow> world \<Rightarrow> world result" where
  "register_venue E accts args w =
     seeds_canonical E [VENUE_ENTRY_SEED, rv_registry_authority accts, rv_venue_id args]
       (rv_venue_entry accts) (\<lambda>bump.
     init_account w (rv_venue_entry accts) (
     let discriminator_count = unat (rv_allowed_discriminator_count args) in
     require (discriminator_count > 0 \<and> discriminator_count \<le> MAX_VENUE_DISCRIMINATORS)
       (Vault_Err InvalidVenueDiscriminatorCount) (
     Inr (w\<lparr>w_venue_entries := (w_venue_entries w)(rv_venue_entry accts \<mapsto>
            new_venue_entry accts args bump)\<rparr>))))"

record SetVenueEntryPaused =
  sve_registry_authority :: pubkey
  sve_venue_entry :: pubkey

definition set_venue_entry_paused :: "env \<Rightarrow> SetVenueEntryPaused \<Rightarrow> bool \<Rightarrow> world \<Rightarrow> world result" where
  "set_venue_entry_paused E accts paused w =
     load (w_venue_entries w) (sve_venue_entry accts) (\<lambda>ve.
     seeds_with_bump E [VENUE_ENTRY_SEED, ve_registry_authority ve, ve_venue_id ve] (ve_bump ve)
       (sve_venue_entry accts) (
     require (ve_registry_authority ve = sve_registry_authority accts) (Vault_Err UnauthorizedSigner) (
     try_ok (VenueEntry_assert_authority ve (sve_registry_authority accts)) (\<lambda>_.
     Inr (w\<lparr>w_venue_entries := (w_venue_entries w)(sve_venue_entry accts \<mapsto>
            ve\<lparr>ve_paused := paused\<rparr>)\<rparr>)))))"

subsection \<open>Approved venues\<close>

record ApproveVaultVenue =
  avv_authority :: pubkey
  avv_vault :: pubkey
  avv_venue_entry :: pubkey
  avv_vault_venue :: pubkey

definition approve_vault_venue :: "env \<Rightarrow> ApproveVaultVenue \<Rightarrow> pubkey \<Rightarrow> world \<Rightarrow> world result" where
  "approve_vault_venue E accts recipient_authority w =
     load (w_vaults w) (avv_vault accts) (\<lambda>v.
     load (w_venue_entries w) (avv_venue_entry accts) (\<lambda>ve.
     seeds_canonical E [VAULT_VENUE_SEED, avv_vault accts, avv_venue_entry accts] (avv_vault_venue accts) (\<lambda>bump.
     init_account w (avv_vault_venue accts) (
     try_ok (Vault_assert_curator v (avv_authority accts)) (\<lambda>_.
     require (recipient_authority \<noteq> Pubkey_default) (Vault_Err InvalidVenueRecipient) (
     require (v_timelock_delay_slots v = 0) (Vault_Err TimelockRequired) (
     try_ok (VenueEntry_assert_active ve) (\<lambda>_.
     Inr (w\<lparr>w_vault_venues := (w_vault_venues w)(avv_vault_venue accts \<mapsto>
            \<lparr>vv_vault = avv_vault accts, vv_venue_entry = avv_venue_entry accts,
             vv_recipient_authority = recipient_authority, vv_target_program = ve_target_program ve,
             vv_routine_safe = ve_routine_safe ve, vv_paused = False, vv_position_count = 0,
             vv_approved_at_slot = env_slot E, vv_bump = bump\<rparr>)\<rparr>)))))))))"

text \<open>The constraints on \<open>vault_venue\<close> that every later instruction repeats.\<close>

definition vault_venue_account ::
  "env \<Rightarrow> world \<Rightarrow> pubkey \<Rightarrow> pubkey \<Rightarrow> pubkey \<Rightarrow> (VaultVenue \<Rightarrow> 'a result) \<Rightarrow> 'a result" where
  "vault_venue_account E w vault_key venue_entry k f =
     load (w_vault_venues w) k (\<lambda>vv.
     seeds_with_bump E [VAULT_VENUE_SEED, vault_key, venue_entry] (vv_bump vv) k (
     require (vv_vault vv = vault_key) (Vault_Err InvalidVault) (
     require (vv_venue_entry vv = venue_entry) (Vault_Err InvalidVenueEntry) (
     f vv))))"

lemma vault_venue_account_Inr [res_simps]:
  "vault_venue_account E w vk ve k f = Inr r \<longleftrightarrow>
     (\<exists>vv. w_vault_venues w k = Some vv
        \<and> env_create_program_address E [VAULT_VENUE_SEED, vk, ve, [vv_bump vv]] = Some k
        \<and> vv_vault vv = vk \<and> vv_venue_entry vv = ve \<and> f vv = Inr r)"
  by (simp add: vault_venue_account_def res_simps)

record RemoveVaultVenue =
  rvv_authority :: pubkey
  rvv_vault :: pubkey
  rvv_venue_entry :: pubkey
  rvv_vault_venue :: pubkey

definition remove_vault_venue :: "env \<Rightarrow> RemoveVaultVenue \<Rightarrow> world \<Rightarrow> world result" where
  "remove_vault_venue E accts w =
     load (w_vaults w) (rvv_vault accts) (\<lambda>v.
     load (w_venue_entries w) (rvv_venue_entry accts) (\<lambda>ve.
     vault_venue_account E w (rvv_vault accts) (rvv_venue_entry accts) (rvv_vault_venue accts) (\<lambda>vv.
     try_ok (Vault_assert_curator v (rvv_authority accts)) (\<lambda>_.
     require (v_timelock_delay_slots v = 0) (Vault_Err TimelockRequired) (
     try_ok (VaultVenue_assert_empty vv) (\<lambda>_.
     Inr (w\<lparr>w_vault_venues := close (w_vault_venues w) (rvv_vault_venue accts)\<rparr>)))))))"

subsection \<open>Positions\<close>

text \<open>The check that an asset other than the primary one is approved.\<close>

definition assert_approved_asset :: "vault \<Rightarrow> pubkey \<Rightarrow> VaultAsset option \<Rightarrow> pubkey \<Rightarrow> unit result" where
  "assert_approved_asset v vault_key vault_asset asset_mint =
     (if \<not> Vault_is_primary_asset v asset_mint then
        ok_or vault_asset (Vault_Err InvalidAssetMint) (\<lambda>va.
        VaultAsset_assert_matches va vault_key asset_mint)
      else Inr ())"

record CreateVenuePosition =
  cvp_authority :: pubkey
  cvp_vault :: pubkey
  cvp_asset_mint :: pubkey
  cvp_vault_asset :: "pubkey option"
  cvp_venue_entry :: pubkey
  cvp_vault_venue :: pubkey
  cvp_position :: pubkey
  cvp_position_token_account :: pubkey
  cvp_asset_token_program :: pubkey

definition create_venue_position :: "env \<Rightarrow> CreateVenuePosition \<Rightarrow> world \<Rightarrow> world result" where
  "create_venue_position E accts w =
     load (w_vaults w) (cvp_vault accts) (\<lambda>v.
     load (l_mints (w_ledger w)) (cvp_asset_mint accts) (\<lambda>asset_mint.
     load_opt (w_vault_assets w) (cvp_vault_asset accts) (\<lambda>vault_asset.
     load (w_venue_entries w) (cvp_venue_entry accts) (\<lambda>ve.
     vault_venue_account E w (cvp_vault accts) (cvp_venue_entry accts) (cvp_vault_venue accts) (\<lambda>vv.
     token_interface E (cvp_asset_token_program accts) (
     seeds_canonical E [POSITION_SEED, cvp_vault accts, cvp_venue_entry accts, cvp_asset_mint accts]
       (cvp_position accts) (\<lambda>bump.
     init_account w (cvp_position accts) (
     init_token_account E w [POSITION_TOKEN_SEED, cvp_vault accts, cvp_venue_entry accts, cvp_asset_mint accts]
       (cvp_position_token_account accts) (cvp_asset_mint accts) (cvp_vault accts)
       (cvp_asset_token_program accts) (w_ledger w) (\<lambda>token_account_bump L.
     require (cvp_position accts \<noteq> cvp_position_token_account accts) (Anchor_Err AccountAlreadyInUse) (
     try_ok (Vault_assert_curator v (cvp_authority accts)) (\<lambda>_.
     require (v_timelock_delay_slots v = 0) (Vault_Err TimelockRequired) (
     try_ok (assert_approved_asset v (cvp_vault accts) vault_asset (cvp_asset_mint accts)) (\<lambda>_.
     try_ok (VenueEntry_assert_active ve) (\<lambda>_.
     try_ok (VaultVenue_assert_active vv) (\<lambda>_.
     arith (checked_add (vv_position_count vv) 1) (\<lambda>position_count.
     Inr (w\<lparr>w_ledger := L,
            w_vault_venues := (w_vault_venues w)(cvp_vault_venue accts \<mapsto>
              vv\<lparr>vv_position_count := position_count\<rparr>),
            w_positions := (w_positions w)(cvp_position accts \<mapsto>
              \<lparr>pos_vault = cvp_vault accts, pos_venue_entry = cvp_venue_entry accts,
               pos_vault_venue = cvp_vault_venue accts, pos_asset_mint = cvp_asset_mint accts,
               pos_token_account = cvp_position_token_account accts, pos_amount = 0,
               pos_token_account_bump = token_account_bump, pos_bump = bump\<rparr>)\<rparr>
     )))))))))))))))))"

text \<open>The accounts of \<open>deploy_venue_position\<close>, \<open>pull_venue_position\<close> and \<open>remove_venue_position\<close>.\<close>

record VenuePosition =
  vp_authority :: pubkey
  vp_asset_mint :: pubkey
  vp_vault :: pubkey
  vp_vault_asset :: "pubkey option"
  vp_venue_entry :: pubkey
  vp_vault_venue :: pubkey
  vp_position :: pubkey
  vp_vault_token_account :: pubkey \<comment> \<open>not in \<open>RemoveVenuePosition\<close>\<close>
  vp_position_token_account :: pubkey
  vp_asset_token_program :: pubkey

definition position_account ::
  "env \<Rightarrow> world \<Rightarrow> VenuePosition \<Rightarrow> (Position \<Rightarrow> 'a result) \<Rightarrow> 'a result" where
  "position_account E w accts f =
     load (w_positions w) (vp_position accts) (\<lambda>p.
     seeds_with_bump E [POSITION_SEED, vp_vault accts, vp_venue_entry accts, vp_asset_mint accts]
       (pos_bump p) (vp_position accts) (
     require (pos_vault p = vp_vault accts) (Vault_Err InvalidVault) (
     require (pos_venue_entry p = vp_venue_entry accts) (Vault_Err InvalidVenueEntry) (
     require (pos_vault_venue p = vp_vault_venue accts) (Vault_Err InvalidVenueEntry) (
     require (pos_asset_mint p = vp_asset_mint accts) (Vault_Err InvalidAssetMint) (
     f p))))))"

definition position_token_account ::
  "env \<Rightarrow> world \<Rightarrow> VenuePosition \<Rightarrow> Position \<Rightarrow> (token_account \<Rightarrow> 'a result) \<Rightarrow> 'a result" where
  "position_token_account E w accts p f =
     load (l_tokens (w_ledger w)) (vp_position_token_account accts) (\<lambda>t.
     seeds_with_bump E [POSITION_TOKEN_SEED, vp_vault accts, vp_venue_entry accts, vp_asset_mint accts]
       (pos_token_account_bump p) (vp_position_token_account accts) (
     token_constraints_program t (vp_asset_mint accts) (vp_vault accts) (vp_asset_token_program accts) (
     require (pos_token_account p = vp_position_token_account accts) (Vault_Err InvalidPosition) (
     f t))))"

text \<open>
  Both movements consume the manager's limit. For the primary asset the vault's bucket is used
  and the vault keeps no ledger of deployed amounts; for a secondary one the asset's bucket and
  its ledger, with the checks of the direction.
\<close>

definition move_primary ::
  "env \<Rightarrow> VenuePosition \<Rightarrow> u64 \<Rightarrow> vault \<Rightarrow> vault result" where
  "move_primary E accts amount v =
     require (v_vault_token_account v = vp_vault_token_account accts) (Vault_Err InvalidVault) (
     Vault_consume_manager_rolling_limit v amount (env_slot E))"

definition move_secondary ::
  "env \<Rightarrow> VenuePosition \<Rightarrow> u64 \<Rightarrow> vault \<Rightarrow> VaultAsset option \<Rightarrow> (VaultAsset \<Rightarrow> bool) \<Rightarrow> AsyncVaultError \<Rightarrow>
   Position \<Rightarrow> (PositionLedger \<Rightarrow> u64 \<Rightarrow> PositionLedger result) \<Rightarrow>
   (VaultAsset \<times> PositionLedger) result" where
  "move_secondary E accts amount v vault_asset enough not_enough p move =
     ok_or vault_asset (Vault_Err InvalidAssetMint) (\<lambda>va.
     try_ok (VaultAsset_assert_matches va (vp_vault accts) (vp_asset_mint accts)) (\<lambda>_.
     try_ok (VaultAsset_assert_reserve va (vp_vault_token_account accts)) (\<lambda>_.
     require (enough va) (Vault_Err not_enough) (
     try_ok (VaultAsset_consume_manager_rolling_limit va amount (env_slot E)
       (v_manager_rolling_limit v) (v_rolling_limit_window_slots v)) (\<lambda>va.
     try_ok (move (PositionLedger_new (pos_amount p) (va_idle_balance va) (va_deployed_balance va))
       amount) (\<lambda>ledger. Inr (va, ledger)))))))"

text \<open>The transfer between two accounts of the vault, and the check of both balances after it.\<close>

definition checked_move ::
  "env \<Rightarrow> VenuePosition \<Rightarrow> vault \<Rightarrow> mint_account \<Rightarrow> pubkey \<Rightarrow> u64 \<Rightarrow> pubkey \<Rightarrow> u64 \<Rightarrow> u64 \<Rightarrow>
   ledger \<Rightarrow> ledger result" where
  "checked_move E accts v asset_mint src src_before dst dst_before amount L =
     try_ok (signed_by E (signer_seeds v) (vp_vault accts)
       (transfer_checked E (vp_asset_token_program accts) src (vp_asset_mint accts) dst
         (vp_vault accts) amount (mint_decimals asset_mint) L)) (\<lambda>L.
     load (l_tokens L) src (\<lambda>src_account.
     load (l_tokens L) dst (\<lambda>dst_account.
     arith (checked_sub src_before amount) (\<lambda>expected_src.
     arith (checked_add dst_before amount) (\<lambda>expected_dst.
     require (ta_amount src_account = expected_src \<and> ta_amount dst_account = expected_dst)
       (Vault_Err InvalidBalanceDelta) (
     Inr L))))))"

definition deploy_venue_position ::
  "env \<Rightarrow> VenuePosition \<Rightarrow> u64 \<Rightarrow> world \<Rightarrow> world result" where
  "deploy_venue_position E accts amount w =
     load (l_mints (w_ledger w)) (vp_asset_mint accts) (\<lambda>asset_mint.
     load (w_vaults w) (vp_vault accts) (\<lambda>v.
     load_opt (w_vault_assets w) (vp_vault_asset accts) (\<lambda>vault_asset.
     load (w_venue_entries w) (vp_venue_entry accts) (\<lambda>ve.
     vault_venue_account E w (vp_vault accts) (vp_venue_entry accts) (vp_vault_venue accts) (\<lambda>vv.
     position_account E w accts (\<lambda>p.
     load (l_tokens (w_ledger w)) (vp_vault_token_account accts) (\<lambda>vault_token.
     token_constraints_program vault_token (vp_asset_mint accts) (vp_vault accts) (vp_asset_token_program accts) (
     position_token_account E w accts p (\<lambda>position_token.
     token_interface E (vp_asset_token_program accts) (
     try_ok (Vault_assert_unpaused_and_initialized v) (\<lambda>_.
     try_ok (VaultVenue_assert_manager_authorized vv v (vp_authority accts)) (\<lambda>_.
     try_ok (VenueEntry_assert_active ve) (\<lambda>_.
     try_ok (VaultVenue_assert_active vv) (\<lambda>_.
     try_ok
       (if Vault_is_primary_asset v (vp_asset_mint accts) then
          try_ok (move_primary E accts amount v) (\<lambda>v. Inr (v, vault_asset, None))
        else
          try_ok (move_secondary E accts amount v vault_asset (\<lambda>va. va_idle_balance va \<ge> amount)
            InsufficientLiquidity p PositionLedger_deploy) (\<lambda>(va, ledger).
          Inr (v, Some va, Some ledger))) (\<lambda>(v, vault_asset, secondary_ledger).
     try_ok (checked_move E accts v asset_mint (vp_vault_token_account accts) (ta_amount vault_token)
       (vp_position_token_account accts) (ta_amount position_token) amount (w_ledger w)) (\<lambda>L.
     try_ok
       (case secondary_ledger of
          Some ledger \<Rightarrow>
            ok_or vault_asset (Vault_Err InvalidAssetMint) (\<lambda>va.
            Inr (p\<lparr>pos_amount := pl_position_amount ledger\<rparr>,
                 Some (va\<lparr>va_idle_balance := pl_idle_balance ledger,
                          va_deployed_balance := pl_deployed_balance ledger\<rparr>)))
        | None \<Rightarrow>
            arith (checked_add (pos_amount p) amount) (\<lambda>n.
            Inr (p\<lparr>pos_amount := n\<rparr>, vault_asset))) (\<lambda>(p, vault_asset).
     Inr (w\<lparr>w_ledger := L,
            w_vaults := (w_vaults w)(vp_vault accts \<mapsto> v),
            w_vault_assets := put_opt (w_vault_assets w) (vp_vault_asset accts) vault_asset,
            w_positions := (w_positions w)(vp_position accts \<mapsto> p)\<rparr>
     ))))))))))))))))))"

definition pull_venue_position ::
  "env \<Rightarrow> VenuePosition \<Rightarrow> u64 \<Rightarrow> world \<Rightarrow> world result" where
  "pull_venue_position E accts amount w =
     load (l_mints (w_ledger w)) (vp_asset_mint accts) (\<lambda>asset_mint.
     load (w_vaults w) (vp_vault accts) (\<lambda>v.
     load_opt (w_vault_assets w) (vp_vault_asset accts) (\<lambda>vault_asset.
     load (w_venue_entries w) (vp_venue_entry accts) (\<lambda>ve.
     vault_venue_account E w (vp_vault accts) (vp_venue_entry accts) (vp_vault_venue accts) (\<lambda>vv.
     position_account E w accts (\<lambda>p.
     load (l_tokens (w_ledger w)) (vp_vault_token_account accts) (\<lambda>vault_token.
     token_constraints_program vault_token (vp_asset_mint accts) (vp_vault accts) (vp_asset_token_program accts) (
     position_token_account E w accts p (\<lambda>position_token.
     token_interface E (vp_asset_token_program accts) (
     try_ok (Vault_assert_unpaused_and_initialized v) (\<lambda>_.
     try_ok (VaultVenue_assert_manager_authorized vv v (vp_authority accts)) (\<lambda>_.
     try_ok (VenueEntry_assert_active ve) (\<lambda>_.
     try_ok (VaultVenue_assert_active vv) (\<lambda>_.
     require (pos_amount p \<ge> amount) (Vault_Err InsufficientPositionBalance) (
     try_ok
       (if Vault_is_primary_asset v (vp_asset_mint accts) then
          try_ok (move_primary E accts amount v) (\<lambda>v. Inr (v, vault_asset, None))
        else
          try_ok (move_secondary E accts amount v vault_asset (\<lambda>va. va_deployed_balance va \<ge> amount)
            InsufficientPositionBalance p PositionLedger_pull) (\<lambda>(va, ledger).
          Inr (v, Some va, Some ledger))) (\<lambda>(v, vault_asset, secondary_ledger).
     try_ok (checked_move E accts v asset_mint (vp_position_token_account accts) (ta_amount position_token)
       (vp_vault_token_account accts) (ta_amount vault_token) amount (w_ledger w)) (\<lambda>L.
     try_ok
       (case secondary_ledger of
          Some ledger \<Rightarrow>
            ok_or vault_asset (Vault_Err InvalidAssetMint) (\<lambda>va.
            Inr (p\<lparr>pos_amount := pl_position_amount ledger\<rparr>,
                 Some (va\<lparr>va_idle_balance := pl_idle_balance ledger,
                          va_deployed_balance := pl_deployed_balance ledger\<rparr>)))
        | None \<Rightarrow>
            arith (checked_sub (pos_amount p) amount) (\<lambda>n.
            Inr (p\<lparr>pos_amount := n\<rparr>, vault_asset))) (\<lambda>(p, vault_asset).
     Inr (w\<lparr>w_ledger := L,
            w_vaults := (w_vaults w)(vp_vault accts \<mapsto> v),
            w_vault_assets := put_opt (w_vault_assets w) (vp_vault_asset accts) vault_asset,
            w_positions := (w_positions w)(vp_position accts \<mapsto> p)\<rparr>
     )))))))))))))))))))"

definition remove_venue_position :: "env \<Rightarrow> VenuePosition \<Rightarrow> world \<Rightarrow> world result" where
  "remove_venue_position E accts w =
     load (l_mints (w_ledger w)) (vp_asset_mint accts) (\<lambda>asset_mint.
     load (w_vaults w) (vp_vault accts) (\<lambda>v.
     load_opt (w_vault_assets w) (vp_vault_asset accts) (\<lambda>vault_asset.
     load (w_venue_entries w) (vp_venue_entry accts) (\<lambda>ve.
     vault_venue_account E w (vp_vault accts) (vp_venue_entry accts) (vp_vault_venue accts) (\<lambda>vv.
     position_account E w accts (\<lambda>p.
     position_token_account E w accts p (\<lambda>position_token.
     token_interface E (vp_asset_token_program accts) (
     try_ok (Vault_assert_curator v (vp_authority accts)) (\<lambda>_.
     require (v_timelock_delay_slots v = 0) (Vault_Err TimelockRequired) (
     try_ok (assert_approved_asset v (vp_vault accts) vault_asset (vp_asset_mint accts)) (\<lambda>_.
     try_ok (Position_assert_empty p) (\<lambda>_.
     require (ta_amount position_token = 0) (Vault_Err PositionBalanceNonZero) (
     arith (checked_sub (vv_position_count vv) 1) (\<lambda>position_count.
     try_ok (close_vault_token_account E v (vp_vault accts) (vp_asset_token_program accts)
       (vp_authority accts) (vp_position_token_account accts) (w_ledger w)) (\<lambda>L.
     Inr (w\<lparr>w_ledger := L,
            w_vault_venues := (w_vault_venues w)(vp_vault_venue accts \<mapsto>
              vv\<lparr>vv_position_count := position_count\<rparr>),
            w_positions := close (w_positions w) (vp_position accts)\<rparr>
     ))))))))))))))))"

subsection \<open>Withdrawal to an approved recipient\<close>

record WithdrawAssets =
  wa_authority :: pubkey
  wa_asset_mint :: pubkey
  wa_vault :: pubkey
  wa_venue_entry :: pubkey
  wa_vault_venue :: pubkey
  wa_vault_token_account :: pubkey
  wa_recipient_token_account :: pubkey
  wa_asset_token_program :: pubkey

definition withdraw_assets :: "env \<Rightarrow> WithdrawAssets \<Rightarrow> u64 \<Rightarrow> world \<Rightarrow> world result" where
  "withdraw_assets E accts amount w =
     load (l_mints (w_ledger w)) (wa_asset_mint accts) (\<lambda>asset_mint.
     load (w_vaults w) (wa_vault accts) (\<lambda>v.
     require (v_asset_mint v = wa_asset_mint accts) (Vault_Err InvalidAssetMint) (
     require (wa_authority accts = v_curator v) (Vault_Err UnauthorizedSigner) (
     load (w_venue_entries w) (wa_venue_entry accts) (\<lambda>ve.
     vault_venue_account E w (wa_vault accts) (wa_venue_entry accts) (wa_vault_venue accts) (\<lambda>vv.
     load (l_tokens (w_ledger w)) (wa_vault_token_account accts) (\<lambda>vault_token.
     token_constraints_program vault_token (wa_asset_mint accts) (wa_vault accts) (wa_asset_token_program accts) (
     require (v_vault_token_account v = wa_vault_token_account accts) (Anchor_Err ConstraintRaw) (
     load (l_tokens (w_ledger w)) (wa_recipient_token_account accts) (\<lambda>recipient_token.
     require (ta_mint recipient_token = wa_asset_mint accts) (Anchor_Err ConstraintTokenMint) (
     require (ta_owner recipient_token = vv_recipient_authority vv) (Vault_Err InvalidVenueRecipient) (
     token_interface E (wa_asset_token_program accts) (
     try_ok (Vault_assert_unpaused_and_initialized v) (\<lambda>_.
     try_ok (assert_externally_managed_withdrawals_enabled v) (\<lambda>_.
     try_ok (VenueEntry_assert_active ve) (\<lambda>_.
     try_ok (VaultVenue_assert_active vv) (\<lambda>_.
     try_ok (Vault_consume_external_withdraw_rolling_limit v amount (env_slot E)) (\<lambda>v.
     try_ok (signed_by E (signer_seeds v) (wa_vault accts)
       (transfer_checked E (wa_asset_token_program accts) (wa_vault_token_account accts)
         (wa_asset_mint accts) (wa_recipient_token_account accts) (wa_vault accts) amount
         (mint_decimals asset_mint) (w_ledger w))) (\<lambda>L.
     Inr (w\<lparr>w_ledger := L, w_vaults := (w_vaults w)(wa_vault accts \<mapsto> v)\<rparr>
     ))))))))))))))))))))"

end
