(* ===== verification/Position_Books.thy ===== *)
theory Position_Books
  imports Venues Request_Books
begin

text \<open>
  The books of the secondary assets: what a vault's asset accounts say is deployed is what its
  positions say they hold, and a venue counts the positions opened in it. The instructions that
  work on venues, positions and secondary assets are one type here, each with the effect its
  success has on the books.
\<close>

subsection \<open>Instructions\<close>

datatype venue_instruction =
    Add_vault_asset AddVaultAsset u64
  | Remove_vault_asset RemoveVaultAsset
  | Register_venue RegisterVenue RegisterVenueArgs
  | Set_venue_entry_paused SetVenueEntryPaused bool
  | Approve_vault_venue ApproveVaultVenue pubkey
  | Remove_vault_venue RemoveVaultVenue
  | Create_venue_position CreateVenuePosition
  | Deploy_venue_position VenuePosition u64
  | Pull_venue_position VenuePosition u64
  | Remove_venue_position VenuePosition
  | Withdraw_assets WithdrawAssets u64

fun exec_venue :: "env \<Rightarrow> venue_instruction \<Rightarrow> world \<Rightarrow> world result" where
  "exec_venue E (Add_vault_asset accts cap) w = add_vault_asset E accts cap w"
| "exec_venue E (Remove_vault_asset accts) w = remove_vault_asset E accts w"
| "exec_venue E (Register_venue accts args) w = register_venue E accts args w"
| "exec_venue E (Set_venue_entry_paused accts paused) w = set_venue_entry_paused E accts paused w"
| "exec_venue E (Approve_vault_venue accts recipient) w = approve_vault_venue E accts recipient w"
| "exec_venue E (Remove_vault_venue accts) w = remove_vault_venue E accts w"
| "exec_venue E (Create_venue_position accts) w = create_venue_position E accts w"
| "exec_venue E (Deploy_venue_position accts amount) w = deploy_venue_position E accts amount w"
| "exec_venue E (Pull_venue_position accts amount) w = pull_venue_position E accts amount w"
| "exec_venue E (Remove_venue_position accts) w = remove_venue_position E accts w"
| "exec_venue E (Withdraw_assets accts amount) w = withdraw_assets E accts amount w"

subsection \<open>The books\<close>

definition deployed_balance :: "pubkey \<Rightarrow> pubkey \<Rightarrow> VaultAsset \<Rightarrow> nat" where
  "deployed_balance vk mint va =
     (if va_vault va = vk \<and> va_asset_mint va = mint then unat (va_deployed_balance va) else 0)"

definition position_amount :: "pubkey \<Rightarrow> pubkey \<Rightarrow> Position \<Rightarrow> nat" where
  "position_amount vk mint p =
     (if pos_vault p = vk \<and> pos_asset_mint p = mint then unat (pos_amount p) else 0)"

definition opened_in :: "pubkey \<Rightarrow> Position \<Rightarrow> nat" where
  "opened_in vvk p = (if pos_vault_venue p = vvk then 1 else 0)"

definition asset_mints :: "world \<Rightarrow> pubkey \<Rightarrow> pubkey option" where
  "asset_mints w = map_option v_asset_mint \<circ> w_vaults w"

definition position_books :: "env \<Rightarrow> world \<Rightarrow> bool" where
  "position_books E w \<longleftrightarrow>
     finite (dom (w_positions w)) \<and> finite (dom (w_vault_assets w))
     \<and> (\<forall>k p. w_positions w k = Some p \<longrightarrow>
          asset_mints w (pos_vault p) \<noteq> None \<and> w_vault_venues w (pos_vault_venue p) \<noteq> None)
     \<and> (\<forall>k va. w_vault_assets w k = Some va \<longrightarrow>
          k = fst (env_find_program_address E [ASSET_CONFIG_SEED, va_vault va, va_asset_mint va])
          \<and> (\<exists>mint. asset_mints w (va_vault va) = Some mint \<and> mint \<noteq> va_asset_mint va))
     \<and> (\<forall>k vv. w_vault_venues w k = Some vv \<longrightarrow>
          unat (vv_position_count vv) = weight (opened_in k) (w_positions w))
     \<and> (\<forall>vk primary mint. asset_mints w vk = Some primary \<longrightarrow> mint \<noteq> primary \<longrightarrow>
          weight (deployed_balance vk mint) (w_vault_assets w)
          = weight (position_amount vk mint) (w_positions w))"

text \<open>What every instruction outside this component leaves alone.\<close>

definition asset_key :: "VaultAsset \<Rightarrow> (pubkey \<times> pubkey \<times> pubkey \<times> pubkey) \<times> u64 \<times> u64" where
  "asset_key va = ((va_vault va, va_asset_mint va, va_reserve va, va_pending_vault va),
     va_idle_balance va, va_deployed_balance va)"

definition asset_ledger ::
  "VaultAsset accounts \<Rightarrow> pubkey \<Rightarrow> ((pubkey \<times> pubkey \<times> pubkey \<times> pubkey) \<times> u64 \<times> u64) option" where
  "asset_ledger m = map_option asset_key \<circ> m"

definition vault_ids :: "world \<Rightarrow> pubkey \<Rightarrow> (pubkey \<times> pubkey \<times> pubkey \<times> pubkey \<times> u8) option" where
  "vault_ids w = map_option identity \<circ> w_vaults w"

definition keeps_positions :: "world \<Rightarrow> world \<Rightarrow> bool" where
  "keeps_positions w w' \<longleftrightarrow>
     w_positions w' = w_positions w \<and> w_vault_venues w' = w_vault_venues w
     \<and> asset_ledger (w_vault_assets w') = asset_ledger (w_vault_assets w)
     \<and> vault_ids w \<subseteq>\<^sub>m vault_ids w'"

lemma vault_ids_mints: "asset_mints w = map_option fst \<circ> vault_ids w"
  by (simp add: asset_mints_def vault_ids_def fun_eq_iff option.map_comp comp_def identity_def)

lemma keeps_asset_mints: "vault_ids w \<subseteq>\<^sub>m vault_ids w' \<Longrightarrow> asset_mints w \<subseteq>\<^sub>m asset_mints w'"
  by (auto simp: vault_ids_mints map_le_def dom_def)

lemma keeps_positions_refl: "keeps_positions w w"
  by (simp add: keeps_positions_def)

lemma asset_ledger_same:
  assumes "asset_ledger m' = asset_ledger m"
  shows "dom m' = dom m" "weight (deployed_balance vk mint) m' = weight (deployed_balance vk mint) m"
    "m' k = Some va' \<Longrightarrow> \<exists>va. m k = Some va \<and> va_vault va = va_vault va'
      \<and> va_asset_mint va = va_asset_mint va' \<and> va_idle_balance va = va_idle_balance va'
      \<and> va_deployed_balance va = va_deployed_balance va'"
proof -
  have same: "map_option asset_key (m' k) = map_option asset_key (m k)" for k
    using fun_cong [OF assms, of k] by (simp add: asset_ledger_def)
  then have "m' k = None \<longleftrightarrow> m k = None" for k using same [of k] by (cases "m' k"; cases "m k") auto
  then show d: "dom m' = dom m" by (auto simp: dom_def)
  have "deployed_balance vk mint (the (m' k)) = deployed_balance vk mint (the (m k))" if "k \<in> dom m" for k
    using same [of k] that by (cases "m' k"; cases "m k") (auto simp: deployed_balance_def asset_key_def)
  then show "weight (deployed_balance vk mint) m' = weight (deployed_balance vk mint) m"
    unfolding weight_def d by (intro sum.cong) auto
  show "\<exists>va. m k = Some va \<and> va_vault va = va_vault va'
      \<and> va_asset_mint va = va_asset_mint va' \<and> va_idle_balance va = va_idle_balance va'
      \<and> va_deployed_balance va = va_deployed_balance va'" if "m' k = Some va'"
    using same [of k] that by (cases "m k") (auto simp: asset_key_def)
qed

lemma position_booksI:
  assumes "finite (dom (w_positions w))" "finite (dom (w_vault_assets w))"
    and "\<And>k p. w_positions w k = Some p \<Longrightarrow> asset_mints w (pos_vault p) \<noteq> None"
    and "\<And>k p. w_positions w k = Some p \<Longrightarrow> w_vault_venues w (pos_vault_venue p) \<noteq> None"
    and "\<And>k va. w_vault_assets w k = Some va \<Longrightarrow>
          k = fst (env_find_program_address E [ASSET_CONFIG_SEED, va_vault va, va_asset_mint va])"
    and "\<And>k va. w_vault_assets w k = Some va \<Longrightarrow>
          \<exists>mint. asset_mints w (va_vault va) = Some mint \<and> mint \<noteq> va_asset_mint va"
    and "\<And>k vv. w_vault_venues w k = Some vv \<Longrightarrow>
          unat (vv_position_count vv) = weight (opened_in k) (w_positions w)"
    and "\<And>vk primary mint. asset_mints w vk = Some primary \<Longrightarrow> mint \<noteq> primary \<Longrightarrow>
          weight (deployed_balance vk mint) (w_vault_assets w)
          = weight (position_amount vk mint) (w_positions w)"
  shows "position_books E w"
  unfolding position_books_def using assms by blast

lemma position_booksD:
  assumes "position_books E w"
  shows "finite (dom (w_positions w))" "finite (dom (w_vault_assets w))"
    and "w_positions w k = Some p \<Longrightarrow> \<exists>mint. asset_mints w (pos_vault p) = Some mint"
    and "w_positions w k = Some p \<Longrightarrow> \<exists>vv. w_vault_venues w (pos_vault_venue p) = Some vv"
    and "w_vault_assets w k = Some va \<Longrightarrow>
          fst (env_find_program_address E [ASSET_CONFIG_SEED, va_vault va, va_asset_mint va]) = k"
    and "w_vault_assets w k = Some va \<Longrightarrow>
          \<exists>mint. asset_mints w (va_vault va) = Some mint \<and> mint \<noteq> va_asset_mint va"
    and "w_vault_venues w k = Some vv \<Longrightarrow>
          unat (vv_position_count vv) = weight (opened_in k) (w_positions w)"
    and "asset_mints w vk = Some primary \<Longrightarrow> mint \<noteq> primary \<Longrightarrow>
          weight (deployed_balance vk mint) (w_vault_assets w)
          = weight (position_amount vk mint) (w_positions w)"
  using assms unfolding position_books_def by blast+

lemma no_positions_of:
  assumes books: "position_books E w" and "asset_mints w vk = None"
  shows "weight (position_amount vk mint) (w_positions w) = 0"
    "weight (deployed_balance vk mint) (w_vault_assets w) = 0"
proof -
  have "pos_vault p \<noteq> vk" if "w_positions w k = Some p" for k p
    using position_booksD(3) [OF books that] assms(2) by auto
  then show "weight (position_amount vk mint) (w_positions w) = 0"
    by (intro weight_zero) (auto simp: position_amount_def)
  have "va_vault va \<noteq> vk" if "w_vault_assets w k = Some va" for k va
    using position_booksD(6) [OF books that] assms(2) by auto
  then show "weight (deployed_balance vk mint) (w_vault_assets w) = 0"
    by (intro weight_zero) (auto simp: deployed_balance_def)
qed

lemma position_books_frame:
  assumes books: "position_books E w" and keeps: "keeps_positions w w'"
  shows "position_books E w'"
proof -
  from keeps have eq: "w_positions w' = w_positions w" "w_vault_venues w' = w_vault_venues w"
    and ledger: "asset_ledger (w_vault_assets w') = asset_ledger (w_vault_assets w)"
    and mints: "asset_mints w \<subseteq>\<^sub>m asset_mints w'"
    by (simp_all add: keeps_positions_def keeps_asset_mints)
  note same = asset_ledger_same [OF ledger] and old = position_booksD [OF books]
  have grow: "asset_mints w k = Some a \<Longrightarrow> asset_mints w' k = Some a" for k a
    using mints unfolding map_le_def by (metis domI)
  show ?thesis
  proof (rule position_booksI, unfold eq same(1))
    show "k = fst (env_find_program_address E [ASSET_CONFIG_SEED, va_vault va, va_asset_mint va])"
      if "w_vault_assets w' k = Some va" for k va
      using same(3) [OF that] old(5) by metis
    show "\<exists>mint. asset_mints w' (va_vault va) = Some mint \<and> mint \<noteq> va_asset_mint va"
      if "w_vault_assets w' k = Some va" for k va
      using same(3) [OF that] old(6) grow by metis
    show "asset_mints w' (pos_vault p) \<noteq> None" if "w_positions w k = Some p" for k p
      using old(3) [OF that] grow by force
    show "weight (deployed_balance vk mint) (w_vault_assets w') = weight (position_amount vk mint) (w_positions w)"
      if "asset_mints w' vk = Some primary" "mint \<noteq> primary" for vk primary mint
    proof (cases "asset_mints w vk")
      case None
      then show ?thesis using no_positions_of [OF books] by (simp add: same)
    next
      case (Some a)
      with grow that(1) have "asset_mints w vk = Some primary" by fastforce
      from old(8) [OF this that(2)] show ?thesis by (simp add: same)
    qed
  qed (use old in \<open>force+\<close>)
qed

text \<open>
  One instruction changes at most one position, one asset account and one venue of a vault; the
  sums follow.
\<close>

lemma position_books_step:
  assumes books: "position_books E w"
    and positions: "w_positions w' = (w_positions w)(pk := np)"
    and assets: "w_vault_assets w' = (w_vault_assets w)(ak := na)"
    and mints: "asset_mints w' = asset_mints w"
    and np: "\<And>p. np = Some p \<Longrightarrow> asset_mints w (pos_vault p) \<noteq> None"
    and venues: "\<And>k p. w_positions w' k = Some p \<Longrightarrow> w_vault_venues w' (pos_vault_venue p) \<noteq> None"
    and na: "\<And>va. na = Some va \<Longrightarrow>
      ak = fst (env_find_program_address E [ASSET_CONFIG_SEED, va_vault va, va_asset_mint va])
      \<and> (\<exists>mint. asset_mints w (va_vault va) = Some mint \<and> mint \<noteq> va_asset_mint va)"
    and count: "\<And>k vv. w_vault_venues w' k = Some vv \<Longrightarrow>
      unat (vv_position_count vv) + opt_weight (opened_in k) (w_positions w pk)
      = weight (opened_in k) (w_positions w) + opt_weight (opened_in k) np"
    and amounts: "\<And>vk primary mint. asset_mints w vk = Some primary \<Longrightarrow> mint \<noteq> primary \<Longrightarrow>
      opt_weight (deployed_balance vk mint) na + opt_weight (position_amount vk mint) (w_positions w pk)
      = opt_weight (deployed_balance vk mint) (w_vault_assets w ak) + opt_weight (position_amount vk mint) np"
  shows "position_books E w'"
proof -
  note old = position_booksD [OF books]
  note pw = weight_update [OF old(1)] and aw = weight_update [OF old(2)]
  show ?thesis
  proof (rule position_booksI, unfold mints)
    show "finite (dom (w_positions w'))" "finite (dom (w_vault_assets w'))"
      using old(1,2) by (simp_all add: positions assets dom_fun_upd)
    show "asset_mints w (pos_vault p) \<noteq> None" if "w_positions w' k = Some p" for k p
      using that np old(3) by (fastforce simp: positions split: if_splits)
    show "w_vault_venues w' (pos_vault_venue p) \<noteq> None" if "w_positions w' k = Some p" for k p
      using venues [OF that] .
    show "k = fst (env_find_program_address E [ASSET_CONFIG_SEED, va_vault va, va_asset_mint va])"
      if "w_vault_assets w' k = Some va" for k va
      using that na old(5) by (auto simp: assets split: if_splits)
    show "\<exists>mint. asset_mints w (va_vault va) = Some mint \<and> mint \<noteq> va_asset_mint va"
      if "w_vault_assets w' k = Some va" for k va
      using that na old(6) by (auto simp: assets split: if_splits)
    show "unat (vv_position_count vv) = weight (opened_in k) (w_positions w')"
      if "w_vault_venues w' k = Some vv" for k vv
      using count [OF that] pw [of "opened_in k" pk np] by (simp add: positions)
    show "weight (deployed_balance vk mint) (w_vault_assets w') = weight (position_amount vk mint) (w_positions w')"
      if "asset_mints w vk = Some primary" "mint \<noteq> primary" for vk primary mint
      using amounts [OF that] old(8) [OF that] pw [of "position_amount vk mint" pk np]
        aw [of "deployed_balance vk mint" ak na] by (simp add: positions assets)
  qed
qed

lemma asset_mints_update:
  "w_vaults w k = Some v \<Longrightarrow> v_asset_mint v' = v_asset_mint v \<Longrightarrow> w_vaults w' = (w_vaults w)(k \<mapsto> v') \<Longrightarrow>
   asset_mints w' = asset_mints w"
  by (simp add: asset_mints_def fun_eq_iff)

lemma asset_mints_same: "w_vaults w' = w_vaults w \<Longrightarrow> asset_mints w' = asset_mints w"
  by (simp add: asset_mints_def)

lemma asset_mints_of: "w_vaults w k = Some v \<Longrightarrow> asset_mints w k = Some (v_asset_mint v)"
  by (simp add: asset_mints_def)

subsection \<open>The effects of the instructions\<close>

text \<open>The steps that change assets only, and those that change a venue and its positions.\<close>

lemma position_books_asset_step:
  assumes books: "position_books E w"
    and eq: "w_positions w' = w_positions w" "w_vault_venues w' = w_vault_venues w"
      "w_vault_assets w' = (w_vault_assets w)(ak := na)" "asset_mints w' = asset_mints w"
    and na: "\<And>va. na = Some va \<Longrightarrow>
      ak = fst (env_find_program_address E [ASSET_CONFIG_SEED, va_vault va, va_asset_mint va])
      \<and> (\<exists>mint. asset_mints w (va_vault va) = Some mint \<and> mint \<noteq> va_asset_mint va)"
    and same: "\<And>vk mint. opt_weight (deployed_balance vk mint) na
      = opt_weight (deployed_balance vk mint) (w_vault_assets w ak)"
  shows "position_books E w'"
proof -
  note old = position_booksD [OF books]
  show ?thesis
  proof (rule position_books_step [OF books, where pk = "[]" and np = "w_positions w []" and ak = ak and na = na])
    show "w_vault_venues w' (pos_vault_venue p) \<noteq> None" if "w_positions w' k = Some p" for k p
      using old(4) that by (auto simp: eq)
    show "asset_mints w (pos_vault p) \<noteq> None" if "w_positions w [] = Some p" for p
      using old(3) [OF that] by auto
  qed (use na same old(7) in \<open>simp_all add: eq\<close>)
qed

lemma position_books_venue_step:
  assumes books: "position_books E w"
    and eq: "w_vault_assets w' = w_vault_assets w" "asset_mints w' = asset_mints w"
      "w_positions w' = (w_positions w)(pk := np)"
    and np: "\<And>p. np = Some p \<Longrightarrow> asset_mints w (pos_vault p) \<noteq> None"
    and venues: "\<And>k p. w_positions w' k = Some p \<Longrightarrow> w_vault_venues w' (pos_vault_venue p) \<noteq> None"
    and count: "\<And>k vv. w_vault_venues w' k = Some vv \<Longrightarrow>
      unat (vv_position_count vv) + opt_weight (opened_in k) (w_positions w pk)
      = weight (opened_in k) (w_positions w) + opt_weight (opened_in k) np"
    and same: "\<And>vk mint. opt_weight (position_amount vk mint) (w_positions w pk)
      = opt_weight (position_amount vk mint) np"
  shows "position_books E w'"
proof -
  note old = position_booksD [OF books]
  show ?thesis
  proof (rule position_books_step [OF books eq(3), where ak = "[]" and na = "w_vault_assets w []"])
    show "[] = fst (env_find_program_address E [ASSET_CONFIG_SEED, va_vault va, va_asset_mint va])
        \<and> (\<exists>mint. asset_mints w (va_vault va) = Some mint \<and> mint \<noteq> va_asset_mint va)"
      if "w_vault_assets w [] = Some va" for va
      using old(5,6) [OF that] by simp
  qed (use np venues count same in \<open>simp_all add: eq\<close>)
qed

text \<open>A venue nothing is open in may be approved, or removed.\<close>

lemma no_open_positions:
  assumes "position_books E w" "w_vault_venues w k = None"
  shows "weight (opened_in k) (w_positions w) = 0"
  using position_booksD(4) [OF assms(1)] assms(2) by (intro weight_zero) (force simp: opened_in_def)

lemma position_books_empty_venue:
  assumes books: "position_books E w"
    and eq: "w_vault_assets w' = w_vault_assets w" "asset_mints w' = asset_mints w"
      "w_positions w' = w_positions w" "w_vault_venues w' = (w_vault_venues w)(vvk := nv)"
    and empty: "weight (opened_in vvk) (w_positions w) = 0"
    and nv: "\<And>vv. nv = Some vv \<Longrightarrow> vv_position_count vv = 0"
  shows "position_books E w'"
proof -
  note old = position_booksD [OF books]
  have ne: "pos_vault_venue p \<noteq> vvk" if "w_positions w k = Some p" for k p
    using weight_member [OF old(1) that, of "opened_in vvk"] empty by (auto simp: opened_in_def)
  show ?thesis
  proof (rule position_books_venue_step [OF books eq(1,2), where pk = "[]" and np = "w_positions w []"])
    show "asset_mints w (pos_vault p) \<noteq> None" if "w_positions w [] = Some p" for p
      using old(3) [OF that] by auto
    show "w_vault_venues w' (pos_vault_venue p) \<noteq> None" if "w_positions w' k = Some p" for k p
      using that ne old(4) by (auto simp: eq)
    show "unat (vv_position_count vv) + opt_weight (opened_in k) (w_positions w [])
        = weight (opened_in k) (w_positions w) + opt_weight (opened_in k) (w_positions w [])"
      if "w_vault_venues w' k = Some vv" for k vv
      using that nv empty old(7) by (auto simp: eq split: if_splits)
  qed (simp_all add: eq)
qed

lemma add_vault_asset_books:
  assumes run: "add_vault_asset E accts cap w = Inr w'" and books: "position_books E w"
  shows "position_books E w'"
  using run
  apply (clarsimp simp: add_vault_asset_def init_token_account_def res_simps)
  apply (rule position_books_asset_step [OF books, where ak = "ava_vault_asset accts"])
       apply (auto simp: fresh_def deployed_balance_def asset_mints_def)
  done

lemma remove_vault_asset_books:
  assumes run: "remove_vault_asset E accts w = Inr w'" and books: "position_books E w"
  shows "position_books E w'"
  using run
  apply (clarsimp simp: remove_vault_asset_def res_simps)
  apply (rule position_books_asset_step [OF books, where ak = "rva_vault_asset accts"])
       apply (auto simp: deployed_balance_def asset_mints_def close_def)
  done

lemma approve_vault_venue_books:
  assumes run: "approve_vault_venue E accts recipient w = Inr w'" and books: "position_books E w"
  shows "position_books E w'"
  using run
  apply (clarsimp simp: approve_vault_venue_def res_simps fresh_def)
  apply (rule position_books_empty_venue [OF books, where vvk = "avv_vault_venue accts"])
       apply (auto simp: asset_mints_def intro: no_open_positions [OF books])
  done

lemma remove_vault_venue_books:
  assumes run: "remove_vault_venue E accts w = Inr w'" and books: "position_books E w"
  shows "position_books E w'"
  using run
  apply (clarsimp simp: remove_vault_venue_def res_simps venue_guard_defs)
  apply (drule position_booksD(7) [OF books])
  apply (rule position_books_empty_venue [OF books, where vvk = "rvv_vault_venue accts"])
       apply (auto simp: asset_mints_def close_def)
  done

lemma create_venue_position_books:
  assumes run: "create_venue_position E accts w = Inr w'" and books: "position_books E w"
  shows "position_books E w'"
  using run
  apply (clarsimp simp: create_venue_position_def init_token_account_def res_simps fresh_def)
  apply (rule position_books_venue_step [OF books, where pk = "cvp_position accts"])
       apply (auto simp: asset_mints_def opened_in_def position_amount_def checked_simps
      dest: position_booksD(4) [OF books] position_booksD(7) [OF books] split: if_splits)
  done

lemma remove_venue_position_books:
  assumes run: "remove_venue_position E accts w = Inr w'" and books: "position_books E w"
  shows "position_books E w'"
  using run
  apply (clarsimp simp: remove_venue_position_def position_account_def position_token_account_def
      venue_guard_defs res_simps)
  apply (rule position_books_venue_step [OF books, where pk = "vp_position accts" and np = None])
       apply (auto simp: asset_mints_def opened_in_def position_amount_def checked_simps close_def
      dest: position_booksD(4) [OF books] position_booksD(7) [OF books] split: if_splits)
  done

text \<open>
  A deployment and a pull have one shape: the position's amount, the primary asset's bucket or
  the secondary asset's ledger, and a checked transfer between two of the vault's accounts.
\<close>

definition position_move ::
  "VenuePosition \<Rightarrow> world \<Rightarrow> world \<Rightarrow> vault \<Rightarrow> vault \<Rightarrow> Position \<Rightarrow> u64 \<Rightarrow> bool" where
  "position_move accts w w' v v' p n \<longleftrightarrow>
     w_vaults w (vp_vault accts) = Some v \<and> w_vaults w' = (w_vaults w)(vp_vault accts \<mapsto> v')
     \<and> w_positions w (vp_position accts) = Some p
     \<and> w_positions w' = (w_positions w)(vp_position accts \<mapsto> p\<lparr>pos_amount := n\<rparr>)
     \<and> pos_vault p = vp_vault accts \<and> pos_asset_mint p = vp_asset_mint accts
     \<and> pos_token_account p = vp_position_token_account accts
     \<and> w_vault_venues w' = w_vault_venues w \<and> w_requests w' = w_requests w
     \<and> w_policies w' = w_policies w"

definition asset_move :: "VaultAsset \<Rightarrow> VaultAsset \<Rightarrow> nat \<Rightarrow> nat \<Rightarrow> bool" where
  "asset_move va va' deployed pulled \<longleftrightarrow>
     va_vault va' = va_vault va \<and> va_asset_mint va' = va_asset_mint va
     \<and> va_reserve va' = va_reserve va \<and> va_pending_vault va' = va_pending_vault va
     \<and> unat (va_idle_balance va') + deployed = unat (va_idle_balance va) + pulled
     \<and> unat (va_deployed_balance va') + pulled = unat (va_deployed_balance va) + deployed"

lemma consume_manager_identity:
  "Vault_consume_manager_rolling_limit v n s = Inr v' \<Longrightarrow>
     identity v' = identity v \<and> v_pending_async_requests v' = v_pending_async_requests v
     \<and> v_pending_deposit_amount v' = v_pending_deposit_amount v"
  by (auto simp: Vault_consume_manager_rolling_limit_def res_simps identity_eq)

lemma put_opt_loaded: "opt_account m ko x \<Longrightarrow> put_opt m ko x = m"
  by (auto simp: opt_account_def put_opt_def split: option.splits)

text \<open>The accounts after the movement: the position's amount, and the vault's or the asset's books.\<close>

definition books_moved ::
  "VenuePosition \<Rightarrow> VaultAsset accounts \<Rightarrow> VaultAsset accounts \<Rightarrow> vault \<Rightarrow> vault \<Rightarrow> nat \<Rightarrow> nat \<Rightarrow> bool" where
  "books_moved accts assets assets' v v' deployed pulled \<longleftrightarrow>
     identity v' = identity v \<and> v_pending_async_requests v' = v_pending_async_requests v
     \<and> v_pending_deposit_amount v' = v_pending_deposit_amount v
     \<and> (vp_asset_mint accts = v_asset_mint v \<and> assets' = assets
          \<and> v_vault_token_account v = vp_vault_token_account accts
        \<or> vp_asset_mint accts \<noteq> v_asset_mint v
          \<and> (\<exists>k va va'. vp_vault_asset accts = Some k \<and> assets k = Some va \<and> assets' = assets(k \<mapsto> va')
               \<and> va_vault va = vp_vault accts \<and> va_asset_mint va = vp_asset_mint accts
               \<and> va_reserve va = vp_vault_token_account accts \<and> asset_move va va' deployed pulled))"

lemma move_primary_Inr:
  "move_primary E accts amount v = Inr v' \<Longrightarrow> vp_asset_mint accts = v_asset_mint v \<Longrightarrow>
   books_moved accts m m v v' d p"
  by (auto simp: move_primary_def res_simps books_moved_def dest: consume_manager_identity)

lemma consume_asset_limit:
  "VaultAsset_consume_manager_rolling_limit va n s l r = Inr va' \<Longrightarrow>
   va_vault va' = va_vault va \<and> va_asset_mint va' = va_asset_mint va
   \<and> va_reserve va' = va_reserve va \<and> va_pending_vault va' = va_pending_vault va
   \<and> va_idle_balance va' = va_idle_balance va \<and> va_deployed_balance va' = va_deployed_balance va"
  by (auto simp: VaultAsset_consume_manager_rolling_limit_def res_simps)

lemma move_secondary_Inr:
  assumes "move_secondary E accts amount v x enough err p move = Inr (va', l)"
    and "opt_account m ko x"
  shows "\<exists>k va. ko = Some k \<and> m k = Some va \<and> va_vault va = vp_vault accts
    \<and> va_asset_mint va = vp_asset_mint accts \<and> va_reserve va = vp_vault_token_account accts
    \<and> va_vault va' = va_vault va \<and> va_asset_mint va' = va_asset_mint va
    \<and> va_reserve va' = va_reserve va \<and> va_pending_vault va' = va_pending_vault va
    \<and> move (PositionLedger_new (pos_amount p) (va_idle_balance va) (va_deployed_balance va)) amount = Inr l"
  using assms
  by (cases ko)
    (auto simp: move_secondary_def asset_guard_defs res_simps opt_account_def dest!: consume_asset_limit)

text \<open>
  What a direction of the movement owes the books: its counter of the position's amount and its
  step of the \<open>PositionLedger\<close> agree on what is deployed and what is pulled.
\<close>

locale position_movement =
  fixes counter :: "u64 \<Rightarrow> u64 \<Rightarrow> u64 option"
    and ledger_step :: "PositionLedger \<Rightarrow> u64 \<Rightarrow> PositionLedger result"
    and deployed pulled :: "u64 \<Rightarrow> nat"
  assumes counter_law: "counter a n = Some b \<Longrightarrow> unat b + pulled n = unat a + deployed n"
    and position_law: "ledger_step (PositionLedger_new p i d) n = Inr l \<Longrightarrow>
      unat (pl_position_amount l) + pulled n = unat p + deployed n"
    and idle_law: "ledger_step (PositionLedger_new p i d) n = Inr l \<Longrightarrow>
      unat (pl_idle_balance l) + deployed n = unat i + pulled n"
    and deployed_law: "ledger_step (PositionLedger_new p i d) n = Inr l \<Longrightarrow>
      unat (pl_deployed_balance l) + pulled n = unat d + deployed n"
begin

lemma accounts_moved:
  assumes x: "opt_account m (vp_vault_asset accts) x"
    and move: "(if Vault_is_primary_asset v (vp_asset_mint accts) then
          try_ok (move_primary E accts amount v) (\<lambda>v. Inr (v, x, None))
        else
          try_ok (move_secondary E accts amount v x enough err p ledger_step) (\<lambda>(va, ledger).
          Inr (v, Some va, Some ledger))) = Inr (v', x', ledger)"
    and upd: "(case ledger of
          Some ledger \<Rightarrow>
            ok_or x' (Vault_Err InvalidAssetMint) (\<lambda>va.
            Inr (p\<lparr>pos_amount := pl_position_amount ledger\<rparr>,
                 Some (va\<lparr>va_idle_balance := pl_idle_balance ledger,
                          va_deployed_balance := pl_deployed_balance ledger\<rparr>)))
        | None \<Rightarrow>
            arith (counter (pos_amount p) amount) (\<lambda>n.
            Inr (p\<lparr>pos_amount := n\<rparr>, x'))) = Inr (p', x'')"
  shows "\<exists>n. p' = p\<lparr>pos_amount := n\<rparr> \<and> unat n + pulled amount = unat (pos_amount p) + deployed amount
    \<and> books_moved accts m (put_opt m (vp_vault_asset accts) x'') v v' (deployed amount) (pulled amount)"
proof (cases "vp_asset_mint accts = v_asset_mint v")
  case True
  with assms show ?thesis
    by (fastforce simp: Vault_is_primary_asset_def res_simps put_opt_loaded
        intro: move_primary_Inr dest: counter_law)
next
  case False
  with move obtain va' l where s: "move_secondary E accts amount v x enough err p ledger_step = Inr (va', l)"
    and eq: "v' = v" "x' = Some va'" "ledger = Some l"
    by (auto simp: Vault_is_primary_asset_def res_simps)
  from move_secondary_Inr [OF s x] obtain k va where k: "vp_vault_asset accts = Some k" "m k = Some va"
    "va_vault va = vp_vault accts" "va_asset_mint va = vp_asset_mint accts"
    "va_reserve va = vp_vault_token_account accts" "va_vault va' = va_vault va"
    "va_asset_mint va' = va_asset_mint va" "va_reserve va' = va_reserve va"
    "va_pending_vault va' = va_pending_vault va"
    and l: "ledger_step (PositionLedger_new (pos_amount p) (va_idle_balance va)
      (va_deployed_balance va)) amount = Inr l" by blast
  let ?va = "va'\<lparr>va_idle_balance := pl_idle_balance l, va_deployed_balance := pl_deployed_balance l\<rparr>"
  from upd have eqs: "p' = p\<lparr>pos_amount := pl_position_amount l\<rparr>" "x'' = Some ?va" by (simp_all add: eq)
  have "asset_move va ?va (deployed amount) (pulled amount)"
    using idle_law [OF l] deployed_law [OF l] k by (simp add: asset_move_def)
  moreover have "put_opt m (vp_vault_asset accts) x'' = m(k \<mapsto> ?va)" by (simp add: eqs k put_opt_def)
  ultimately have "books_moved accts m (put_opt m (vp_vault_asset accts) x'') v v' (deployed amount) (pulled amount)"
    using False k unfolding books_moved_def eq by blast
  then show ?thesis using position_law [OF l] eqs by blast
qed

end

lemmas position_ledger_defs =
  PositionLedger_deploy_def PositionLedger_pull_def PositionLedger_new_def

interpretation deployment: position_movement checked_add PositionLedger_deploy unat "\<lambda>_. 0"
  by unfold_locales (auto simp: position_ledger_defs res_simps checked_simps)

interpretation pull: position_movement checked_sub PositionLedger_pull "\<lambda>_. 0" unat
  by unfold_locales (auto simp: position_ledger_defs res_simps checked_simps)

text \<open>The token accounts of a movement, both the vault's and of the asset.\<close>

definition token_move ::
  "env \<Rightarrow> VenuePosition \<Rightarrow> vault \<Rightarrow> pubkey \<Rightarrow> pubkey \<Rightarrow> u64 \<Rightarrow> ledger \<Rightarrow> ledger \<Rightarrow> bool" where
  "token_move E accts v src dst amount L L' \<longleftrightarrow>
     (\<exists>m s t. l_tokens L src = Some s \<and> l_tokens L dst = Some t
        \<and> ta_owner s = vp_vault accts \<and> ta_mint s = vp_asset_mint accts
        \<and> ta_owner t = vp_vault accts \<and> ta_mint t = vp_asset_mint accts
        \<and> checked_move E accts v m src (ta_amount s) dst (ta_amount t) amount L = Inr L')"

lemma deploy_venue_position_Inr:
  assumes "deploy_venue_position E accts amount w = Inr w'"
  shows "\<exists>v v' p n. position_move accts w w' v v' p n
    \<and> books_moved accts (w_vault_assets w) (w_vault_assets w') v v' (unat amount) 0
    \<and> unat n = unat (pos_amount p) + unat amount
    \<and> token_move E accts v' (vp_vault_token_account accts) (vp_position_token_account accts) amount
        (w_ledger w) (w_ledger w')"
  using assms
  apply (clarsimp simp: deploy_venue_position_def position_account_def position_token_account_def
      res_simps position_move_def token_move_def)
  apply (drule (2) deployment.accounts_moved)
  apply auto
  done

lemma pull_venue_position_Inr:
  assumes "pull_venue_position E accts amount w = Inr w'"
  shows "\<exists>v v' p n. position_move accts w w' v v' p n
    \<and> books_moved accts (w_vault_assets w) (w_vault_assets w') v v' 0 (unat amount)
    \<and> unat n + unat amount = unat (pos_amount p)
    \<and> token_move E accts v' (vp_position_token_account accts) (vp_vault_token_account accts) amount
        (w_ledger w) (w_ledger w')"
  using assms
  apply (clarsimp simp: pull_venue_position_def position_account_def position_token_account_def
      res_simps position_move_def token_move_def)
  apply (drule (2) pull.accounts_moved)
  apply auto
  done

lemma position_move_books:
  assumes books: "position_books E w" and move: "position_move accts w w' v v' p n"
    and assets: "books_moved accts (w_vault_assets w) (w_vault_assets w') v v' d q"
    and n: "unat n + q = unat (pos_amount p) + d"
  shows "position_books E w'"
proof -
  note old = position_booksD [OF books]
  from move have p: "w_positions w (vp_position accts) = Some p" "pos_vault p = vp_vault accts"
    "pos_asset_mint p = vp_asset_mint accts"
    and eq: "w_positions w' = (w_positions w)(vp_position accts \<mapsto> p\<lparr>pos_amount := n\<rparr>)"
      "w_vault_venues w' = w_vault_venues w"
    and v: "w_vaults w (vp_vault accts) = Some v" "w_vaults w' = (w_vaults w)(vp_vault accts \<mapsto> v')"
    by (simp_all add: position_move_def)
  have mints: "asset_mints w' = asset_mints w"
    by (rule asset_mints_update [OF v(1) _ v(2)]) (use assets in \<open>simp add: books_moved_def identity_eq\<close>)
  note venue = old(4) [OF p(1)]
  have step: "position_books E w'"
    if upd: "w_vault_assets w' = (w_vault_assets w)(k := na)"
      and na: "\<And>va. na = Some va \<Longrightarrow>
        k = fst (env_find_program_address E [ASSET_CONFIG_SEED, va_vault va, va_asset_mint va])
        \<and> (\<exists>mint. asset_mints w (va_vault va) = Some mint \<and> mint \<noteq> va_asset_mint va)"
      and sums: "\<And>vk primary mint. asset_mints w vk = Some primary \<Longrightarrow> mint \<noteq> primary \<Longrightarrow>
        opt_weight (deployed_balance vk mint) na + position_amount vk mint p
        = opt_weight (deployed_balance vk mint) (w_vault_assets w k)
          + position_amount vk mint (p\<lparr>pos_amount := n\<rparr>)" for k na
  proof (rule position_books_step [OF books eq(1) upd mints _ _ na])
    show "asset_mints w (pos_vault q) \<noteq> None" if "Some (p\<lparr>pos_amount := n\<rparr>) = Some q" for q
      using that old(3) [OF p(1)] by auto
    show "w_vault_venues w' (pos_vault_venue q) \<noteq> None" if "w_positions w' k = Some q" for k q
      using that old(4) venue by (auto simp: eq split: if_splits)
    show "unat (vv_position_count vv) + opt_weight (opened_in k) (w_positions w (vp_position accts))
        = weight (opened_in k) (w_positions w) + opt_weight (opened_in k) (Some (p\<lparr>pos_amount := n\<rparr>))"
      if "w_vault_venues w' k = Some vv" for k vv
      using that old(7) by (simp add: eq p opened_in_def)
  qed (use sums in \<open>simp_all add: p\<close>)
  from assets consider (primary) "vp_asset_mint accts = v_asset_mint v" "w_vault_assets w' = w_vault_assets w"
    | (secondary) k va va' where "vp_asset_mint accts \<noteq> v_asset_mint v"
      "w_vault_assets w k = Some va" "w_vault_assets w' = (w_vault_assets w)(k \<mapsto> va')"
      "va_vault va = vp_vault accts" "va_asset_mint va = vp_asset_mint accts" "asset_move va va' d q"
    unfolding books_moved_def by blast
  then show ?thesis
  proof cases
    case primary
    show ?thesis
      by (rule step [of "[]" "w_vault_assets w []"])
        (use primary asset_mints_of [OF v(1)] old(5,6) in \<open>auto simp: position_amount_def p\<close>)
  next
    case secondary
    show ?thesis
      by (rule step [OF secondary(3)])
        (use secondary old(5,6) [OF secondary(2)] n in
          \<open>auto simp: position_amount_def deployed_balance_def p asset_move_def\<close>)
  qed
qed

lemma deploy_venue_position_books:
  assumes "deploy_venue_position E accts amount w = Inr w'" "position_books E w"
  shows "position_books E w'"
  using deploy_venue_position_Inr [OF assms(1)] position_move_books [OF assms(2)] by fastforce

lemma pull_venue_position_books:
  assumes "pull_venue_position E accts amount w = Inr w'" "position_books E w"
  shows "position_books E w'"
  using pull_venue_position_Inr [OF assms(1)] position_move_books [OF assms(2)] by fastforce

lemma register_venue_keeps:
  "register_venue E accts args w = Inr w' \<Longrightarrow> keeps_positions w w'"
  "set_venue_entry_paused E accts2 b w = Inr w' \<Longrightarrow> keeps_positions w w'"
  by (auto simp: register_venue_def set_venue_entry_paused_def res_simps Let_def keeps_positions_def vault_ids_def)

lemma withdraw_assets_keeps:
  "withdraw_assets E accts amount w = Inr w' \<Longrightarrow> keeps_positions w w'"
  by (auto simp: withdraw_assets_def res_simps keeps_positions_def vault_ids_def map_le_def identity_eq
      Vault_consume_external_withdraw_rolling_limit_def)

lemma exec_venue_position_books:
  assumes "exec_venue E i w = Inr w'" "position_books E w"
  shows "position_books E w'"
  using assms
  by (cases i)
    (auto intro: add_vault_asset_books remove_vault_asset_books approve_vault_venue_books
      remove_vault_venue_books create_venue_position_books remove_venue_position_books
      deploy_venue_position_books pull_venue_position_books
      position_books_frame dest: register_venue_keeps withdraw_assets_keeps)

end
