(* ===== verification/Timelocked_Updates.thy ===== *)
theory Timelocked_Updates
  imports Vault_Admin
begin

text \<open>
  The queued updates of a vault's configuration, fees and extensions: queueing by the curator,
  execution by anyone from the eta slot on, and cancellation by the curator. Each kind has its own
  account type and its own three instructions.
\<close>

subsection \<open>Vault updates\<close>

record QueueVaultUpdate =
  qvu_authority :: pubkey
  qvu_share_mint :: pubkey
  qvu_vault :: pubkey
  qvu_pending_update :: pubkey

definition queue_vault_update ::
  "env \<Rightarrow> QueueVaultUpdate \<Rightarrow> UpdateVaultArgs \<Rightarrow> world \<Rightarrow> world result" where
  "queue_vault_update E accts args w =
     load (l_mints (w_ledger w)) (qvu_share_mint accts) (\<lambda>_.
     load (w_vaults w) (qvu_vault accts) (\<lambda>v.
     seeds_with_bump E [VAULT_CONFIG_SEED, qvu_share_mint accts] (v_bump v) (qvu_vault accts) (
     init_account w (qvu_pending_update accts) (
     try_ok (Vault_assert_curator v (qvu_authority accts)) (\<lambda>_.
     require (v_timelock_delay_slots v > 0) (Vault_Err TimelockNotConfigured) (
     try_ok (validate_queued_vault_update v args) (\<lambda>_.
     arith (checked_add (env_slot E) (v_timelock_delay_slots v)) (\<lambda>eta_slot.
     Inr (w\<lparr>w_pending_vault_updates := (w_pending_vault_updates w)(qvu_pending_update accts \<mapsto>
            \<lparr>pu_vault = qvu_vault accts, pu_queued_by = qvu_authority accts,
             pu_created_slot = env_slot E, pu_eta_slot = eta_slot, pu_args = args\<rparr>)\<rparr>)))))))))"

record ExecuteVaultUpdate =
  evu_pending_update :: pubkey
  evu_vault :: pubkey

definition execute_vault_update :: "env \<Rightarrow> ExecuteVaultUpdate \<Rightarrow> world \<Rightarrow> world result" where
  "execute_vault_update E accts w =
     load (w_pending_vault_updates w) (evu_pending_update accts) (\<lambda>p.
     load (w_vaults w) (evu_vault accts) (\<lambda>v.
     require (pu_vault p = evu_vault accts) (Vault_Err InvalidTimelockChange) (
     require (env_slot E \<ge> pu_eta_slot p) (Vault_Err TimelockNotReady) (
     require (pu_queued_by p = v_curator v) (Vault_Err StaleTimelockAuthority) (
     try_ok (validate_queued_vault_update v (pu_args p)) (\<lambda>_.
     try_ok (apply_vault_update v (pu_args p)) (\<lambda>v.
     Inr (w\<lparr>w_vaults := (w_vaults w)(evu_vault accts \<mapsto> v),
            w_pending_vault_updates := close (w_pending_vault_updates w) (evu_pending_update accts)\<rparr>
     ))))))))"

record CancelVaultUpdate =
  cvu_authority :: pubkey
  cvu_pending_update :: pubkey
  cvu_vault :: pubkey

definition cancel_vault_update :: "CancelVaultUpdate \<Rightarrow> world \<Rightarrow> world result" where
  "cancel_vault_update accts w =
     load (w_pending_vault_updates w) (cvu_pending_update accts) (\<lambda>p.
     load (w_vaults w) (cvu_vault accts) (\<lambda>v.
     require (pu_vault p = cvu_vault accts) (Vault_Err InvalidTimelockChange) (
     try_ok (Vault_assert_curator v (cvu_authority accts)) (\<lambda>_.
     Inr (w\<lparr>w_pending_vault_updates :=
            close (w_pending_vault_updates w) (cvu_pending_update accts)\<rparr>)))))"

subsection \<open>Fee updates\<close>

definition validate_fee_update :: "FeeUpdateArgs \<Rightarrow> unit result" where
  "validate_fee_update args = map_math_err (FeeType_validate (fua_fee args))"

definition apply_fee_update :: "vault \<Rightarrow> FeeUpdateArgs \<Rightarrow> vault result" where
  "apply_fee_update v args =
     try_ok (validate_fee_update args) (\<lambda>_.
     case fua_kind args of
       DepositFeeKind \<Rightarrow> update_vault_extension DepositFee_ext v (FeeData_from_fee_type (fua_fee args))
     | WithdrawalFeeKind \<Rightarrow>
         update_vault_extension WithdrawalFee_ext v (FeeData_from_fee_type (fua_fee args)))"

record QueueFeeUpdate =
  qfu_authority :: pubkey
  qfu_vault :: pubkey
  qfu_pending_fee_update :: pubkey

definition queue_fee_update :: "env \<Rightarrow> QueueFeeUpdate \<Rightarrow> FeeUpdateArgs \<Rightarrow> world \<Rightarrow> world result" where
  "queue_fee_update E accts args w =
     load (w_vaults w) (qfu_vault accts) (\<lambda>v.
     init_account w (qfu_pending_fee_update accts) (
     try_ok (Vault_assert_curator v (qfu_authority accts)) (\<lambda>_.
     require (v_timelock_delay_slots v > 0) (Vault_Err TimelockNotConfigured) (
     try_ok (validate_fee_update args) (\<lambda>_.
     arith (checked_add (env_slot E) (v_timelock_delay_slots v)) (\<lambda>eta_slot.
     Inr (w\<lparr>w_pending_fee_updates := (w_pending_fee_updates w)(qfu_pending_fee_update accts \<mapsto>
            \<lparr>pu_vault = qfu_vault accts, pu_queued_by = qfu_authority accts,
             pu_created_slot = env_slot E, pu_eta_slot = eta_slot, pu_args = args\<rparr>)\<rparr>)))))))"

record ExecuteFeeUpdate =
  efu_pending_fee_update :: pubkey
  efu_vault :: pubkey

definition execute_fee_update :: "env \<Rightarrow> ExecuteFeeUpdate \<Rightarrow> world \<Rightarrow> world result" where
  "execute_fee_update E accts w =
     load (w_pending_fee_updates w) (efu_pending_fee_update accts) (\<lambda>p.
     load (w_vaults w) (efu_vault accts) (\<lambda>v.
     require (pu_vault p = efu_vault accts) (Vault_Err InvalidTimelockChange) (
     require (env_slot E \<ge> pu_eta_slot p) (Vault_Err TimelockNotReady) (
     require (pu_queued_by p = v_curator v) (Vault_Err StaleTimelockAuthority) (
     try_ok (apply_fee_update v (pu_args p)) (\<lambda>v.
     Inr (w\<lparr>w_vaults := (w_vaults w)(efu_vault accts \<mapsto> v),
            w_pending_fee_updates := close (w_pending_fee_updates w) (efu_pending_fee_update accts)\<rparr>
     )))))))"

record CancelFeeUpdate =
  cfu_authority :: pubkey
  cfu_pending_fee_update :: pubkey
  cfu_vault :: pubkey

definition cancel_fee_update :: "CancelFeeUpdate \<Rightarrow> world \<Rightarrow> world result" where
  "cancel_fee_update accts w =
     load (w_pending_fee_updates w) (cfu_pending_fee_update accts) (\<lambda>p.
     load (w_vaults w) (cfu_vault accts) (\<lambda>v.
     require (pu_vault p = cfu_vault accts) (Vault_Err InvalidTimelockChange) (
     try_ok (Vault_assert_curator v (cfu_authority accts)) (\<lambda>_.
     Inr (w\<lparr>w_pending_fee_updates :=
            close (w_pending_fee_updates w) (cfu_pending_fee_update accts)\<rparr>)))))"

subsection \<open>Extension updates\<close>

fun ExtensionUpdateKind_extension_type :: "ExtensionUpdateKind \<Rightarrow> ExtensionType" where
  "ExtensionUpdateKind_extension_type MinSubscriptionKind = MinSubscription"
| "ExtensionUpdateKind_extension_type MinRedemptionKind = MinRedemption"
| "ExtensionUpdateKind_extension_type PausableSubscriptionsKind = PausableSubscriptions"
| "ExtensionUpdateKind_extension_type PausableRedemptionsKind = PausableRedemptions"

definition validate_extension_update :: "ExtensionUpdateArgs \<Rightarrow> unit result" where
  "validate_extension_update args =
     (if eua_kind args \<in> {MinSubscriptionKind, MinRedemptionKind}
      then require (\<not> eua_paused args) (Vault_Err InvalidExtensionData) (Inr ())
      else require (eua_threshold args = 0) (Vault_Err InvalidExtensionData) (Inr ()))"

definition apply_extension_update :: "vault \<Rightarrow> ExtensionUpdateArgs \<Rightarrow> vault result" where
  "apply_extension_update v args =
     try_ok (validate_extension_update args) (\<lambda>_.
     case eua_kind args of
       MinSubscriptionKind \<Rightarrow> update_vault_extension MinSubscription_ext v (eua_threshold args)
     | MinRedemptionKind \<Rightarrow> update_vault_extension MinRedemption_ext v (eua_threshold args)
     | PausableSubscriptionsKind \<Rightarrow>
         update_vault_extension PausableSubscription_ext v (bool_as_u8 (eua_paused args))
     | PausableRedemptionsKind \<Rightarrow>
         update_vault_extension PausableRedemption_ext v (bool_as_u8 (eua_paused args)))"

definition require_extension_exists :: "vault \<Rightarrow> ExtensionType \<Rightarrow> unit result" where
  "require_extension_exists v extension_type =
     require (length (v_tlv v) > 0) (Vault_Err UninitializedExtension) (
     require (has_extension (v_tlv v) extension_type) (Vault_Err UninitializedExtension) (
     Inr ()))"

record QueueExtensionUpdate =
  qeu_authority :: pubkey
  qeu_vault :: pubkey
  qeu_pending_extension_update :: pubkey

definition queue_extension_update ::
  "env \<Rightarrow> QueueExtensionUpdate \<Rightarrow> ExtensionUpdateArgs \<Rightarrow> world \<Rightarrow> world result" where
  "queue_extension_update E accts args w =
     load (w_vaults w) (qeu_vault accts) (\<lambda>v.
     init_account w (qeu_pending_extension_update accts) (
     try_ok (Vault_assert_curator v (qeu_authority accts)) (\<lambda>_.
     require (v_timelock_delay_slots v > 0) (Vault_Err TimelockNotConfigured) (
     try_ok (validate_extension_update args) (\<lambda>_.
     try_ok (require_extension_exists v (ExtensionUpdateKind_extension_type (eua_kind args))) (\<lambda>_.
     arith (checked_add (env_slot E) (v_timelock_delay_slots v)) (\<lambda>eta_slot.
     Inr (w\<lparr>w_pending_extension_updates :=
            (w_pending_extension_updates w)(qeu_pending_extension_update accts \<mapsto>
              \<lparr>pu_vault = qeu_vault accts, pu_queued_by = qeu_authority accts,
               pu_created_slot = env_slot E, pu_eta_slot = eta_slot, pu_args = args\<rparr>)\<rparr>))))))))"

record ExecuteExtensionUpdate =
  eeu_pending_extension_update :: pubkey
  eeu_vault :: pubkey

definition execute_extension_update :: "env \<Rightarrow> ExecuteExtensionUpdate \<Rightarrow> world \<Rightarrow> world result" where
  "execute_extension_update E accts w =
     load (w_pending_extension_updates w) (eeu_pending_extension_update accts) (\<lambda>p.
     load (w_vaults w) (eeu_vault accts) (\<lambda>v.
     require (pu_vault p = eeu_vault accts) (Vault_Err InvalidTimelockChange) (
     require (env_slot E \<ge> pu_eta_slot p) (Vault_Err TimelockNotReady) (
     require (pu_queued_by p = v_curator v) (Vault_Err StaleTimelockAuthority) (
     try_ok (apply_extension_update v (pu_args p)) (\<lambda>v.
     Inr (w\<lparr>w_vaults := (w_vaults w)(eeu_vault accts \<mapsto> v),
            w_pending_extension_updates :=
              close (w_pending_extension_updates w) (eeu_pending_extension_update accts)\<rparr>)))))))"

record CancelExtensionUpdate =
  ceu_authority :: pubkey
  ceu_pending_extension_update :: pubkey
  ceu_vault :: pubkey

definition cancel_extension_update :: "CancelExtensionUpdate \<Rightarrow> world \<Rightarrow> world result" where
  "cancel_extension_update accts w =
     load (w_pending_extension_updates w) (ceu_pending_extension_update accts) (\<lambda>p.
     load (w_vaults w) (ceu_vault accts) (\<lambda>v.
     require (pu_vault p = ceu_vault accts) (Vault_Err InvalidTimelockChange) (
     try_ok (Vault_assert_curator v (ceu_authority accts)) (\<lambda>_.
     Inr (w\<lparr>w_pending_extension_updates :=
            close (w_pending_extension_updates w) (ceu_pending_extension_update accts)\<rparr>)))))"

end
