(* ===== verification/Strategy_Policy.thy ===== *)
theory Strategy_Policy
  imports Vault_Admin
begin

text \<open>
  The life of a strategy policy: initialised paused and empty by the curator, updated directly or
  through the timelock, paused by the curator or the breaker, closed by the curator. Every change
  of a policy moves its version, which the leaves and the queued updates name.
\<close>

definition policy_seeds :: "pubkey \<Rightarrow> pubkey \<Rightarrow> bytes list" where
  "policy_seeds vault_key strategist = [STRATEGY_POLICY_SEED, vault_key, strategist]"

text \<open>The constraints on an existing policy account.\<close>

definition policy_account ::
  "env \<Rightarrow> world \<Rightarrow> pubkey \<Rightarrow> pubkey \<Rightarrow> (StrategyPolicy \<Rightarrow> 'a result) \<Rightarrow> 'a result" where
  "policy_account E w vault_key k f =
     load (w_policies w) k (\<lambda>sp.
     seeds_with_bump E (policy_seeds vault_key (sp_strategist sp)) (sp_bump sp) k (
     require (sp_vault sp = vault_key) (Vault_Err InvalidStrategyPolicy) (
     f sp)))"

lemma policy_account_Inr [res_simps]:
  "policy_account E w vk k f = Inr r \<longleftrightarrow>
     (\<exists>sp. w_policies w k = Some sp
        \<and> env_create_program_address E (policy_seeds vk (sp_strategist sp) @ [[sp_bump sp]]) = Some k
        \<and> sp_vault sp = vk \<and> f sp = Inr r)"
  by (simp add: policy_account_def res_simps)

subsection \<open>Initialisation and direct updates\<close>

record InitializeStrategyPolicy =
  isp_authority :: pubkey
  isp_vault :: pubkey
  isp_strategy_policy :: pubkey

definition initialize_strategy_policy ::
  "env \<Rightarrow> InitializeStrategyPolicy \<Rightarrow> pubkey \<Rightarrow> world \<Rightarrow> world result" where
  "initialize_strategy_policy E accts strategist w =
     load (w_vaults w) (isp_vault accts) (\<lambda>v.
     seeds_canonical E (policy_seeds (isp_vault accts) strategist) (isp_strategy_policy accts) (\<lambda>bump.
     init_account w (isp_strategy_policy accts) (
     try_ok (Vault_assert_curator v (isp_authority accts)) (\<lambda>_.
     require (strategist \<noteq> Pubkey_default) (Vault_Err InvalidStrategyPolicy) (
     Inr (w\<lparr>w_policies := (w_policies w)(isp_strategy_policy accts \<mapsto>
            \<lparr>sp_vault = isp_vault accts, sp_strategist = strategist,
             sp_merkle_root = replicate 32 0, sp_version = 0, sp_paused = True,
             sp_executing = False, sp_bump = bump\<rparr>)\<rparr>))))))"

definition validate_strategy_policy_update :: "StrategyPolicyUpdateArgs \<Rightarrow> unit result" where
  "validate_strategy_policy_update args =
     (if \<not> sua_paused args
      then require (sua_merkle_root args \<noteq> replicate 32 0) (Vault_Err EmptyMerkleRoot) (Inr ())
      else Inr ())"

definition apply_strategy_policy_update ::
  "StrategyPolicy \<Rightarrow> StrategyPolicyUpdateArgs \<Rightarrow> StrategyPolicy result" where
  "apply_strategy_policy_update sp args =
     try_ok (StrategyPolicy_assert_not_executing sp) (\<lambda>_.
     try_ok (validate_strategy_policy_update args) (\<lambda>_.
     arith (checked_add (sp_version sp) 1) (\<lambda>version.
     Inr (sp\<lparr>sp_merkle_root := sua_merkle_root args, sp_paused := sua_paused args,
             sp_version := version\<rparr>))))"

record UpdateStrategyPolicy =
  usp_authority :: pubkey
  usp_vault :: pubkey
  usp_strategy_policy :: pubkey

definition update_strategy_policy ::
  "env \<Rightarrow> UpdateStrategyPolicy \<Rightarrow> StrategyPolicyUpdateArgs \<Rightarrow> world \<Rightarrow> world result" where
  "update_strategy_policy E accts args w =
     load (w_vaults w) (usp_vault accts) (\<lambda>v.
     policy_account E w (usp_vault accts) (usp_strategy_policy accts) (\<lambda>sp.
     try_ok (Vault_assert_curator v (usp_authority accts)) (\<lambda>_.
     require (v_timelock_delay_slots v = 0) (Vault_Err TimelockRequired) (
     try_ok (apply_strategy_policy_update sp args) (\<lambda>sp.
     Inr (w\<lparr>w_policies := (w_policies w)(usp_strategy_policy accts \<mapsto> sp)\<rparr>))))))"

record PauseStrategyPolicy =
  psp_authority :: pubkey
  psp_vault :: pubkey
  psp_strategy_policy :: pubkey

definition pause_strategy_policy :: "env \<Rightarrow> PauseStrategyPolicy \<Rightarrow> world \<Rightarrow> world result" where
  "pause_strategy_policy E accts w =
     load (w_vaults w) (psp_vault accts) (\<lambda>v.
     policy_account E w (psp_vault accts) (psp_strategy_policy accts) (\<lambda>sp.
     require (psp_authority accts = v_curator v \<or> psp_authority accts = v_breaker v)
       (Vault_Err UnauthorizedSigner) (
     try_ok (StrategyPolicy_assert_not_executing sp) (\<lambda>_.
     arith (checked_add (sp_version sp) 1) (\<lambda>version.
     Inr (w\<lparr>w_policies := (w_policies w)(psp_strategy_policy accts \<mapsto>
            sp\<lparr>sp_paused := True, sp_version := version\<rparr>)\<rparr>))))))"

record CloseStrategyPolicy =
  csp_authority :: pubkey
  csp_vault :: pubkey
  csp_strategy_policy :: pubkey

definition close_strategy_policy :: "env \<Rightarrow> CloseStrategyPolicy \<Rightarrow> world \<Rightarrow> world result" where
  "close_strategy_policy E accts w =
     load (w_vaults w) (csp_vault accts) (\<lambda>v.
     policy_account E w (csp_vault accts) (csp_strategy_policy accts) (\<lambda>sp.
     try_ok (Vault_assert_curator v (csp_authority accts)) (\<lambda>_.
     try_ok (StrategyPolicy_assert_not_executing sp) (\<lambda>_.
     Inr (w\<lparr>w_policies := close (w_policies w) (csp_strategy_policy accts)\<rparr>)))))"

subsection \<open>Queued updates\<close>

record QueueStrategyPolicyUpdate =
  qsp_authority :: pubkey
  qsp_vault :: pubkey
  qsp_strategy_policy :: pubkey
  qsp_pending_update :: pubkey

definition queue_strategy_policy_update ::
  "env \<Rightarrow> QueueStrategyPolicyUpdate \<Rightarrow> StrategyPolicyUpdateArgs \<Rightarrow> world \<Rightarrow> world result" where
  "queue_strategy_policy_update E accts args w =
     load (w_vaults w) (qsp_vault accts) (\<lambda>v.
     policy_account E w (qsp_vault accts) (qsp_strategy_policy accts) (\<lambda>sp.
     init_account w (qsp_pending_update accts) (
     try_ok (Vault_assert_curator v (qsp_authority accts)) (\<lambda>_.
     require (v_timelock_delay_slots v > 0) (Vault_Err TimelockNotConfigured) (
     try_ok (validate_strategy_policy_update args) (\<lambda>_.
     arith (checked_add (env_slot E) (v_timelock_delay_slots v)) (\<lambda>eta_slot.
     Inr (w\<lparr>w_pending_policy_updates := (w_pending_policy_updates w)(qsp_pending_update accts \<mapsto>
            \<lparr>pu_vault = qsp_vault accts, pu_queued_by = qsp_authority accts,
             pu_created_slot = env_slot E, pu_eta_slot = eta_slot, pu_args = args,
             pspu_strategy_policy = qsp_strategy_policy accts,
             pspu_expected_version = sp_version sp\<rparr>)\<rparr>))))))))"

record ExecuteStrategyPolicyUpdate =
  esp_vault :: pubkey
  esp_strategy_policy :: pubkey
  esp_pending_update :: pubkey

definition execute_strategy_policy_update ::
  "env \<Rightarrow> ExecuteStrategyPolicyUpdate \<Rightarrow> world \<Rightarrow> world result" where
  "execute_strategy_policy_update E accts w =
     load (w_vaults w) (esp_vault accts) (\<lambda>v.
     policy_account E w (esp_vault accts) (esp_strategy_policy accts) (\<lambda>sp.
     load (w_pending_policy_updates w) (esp_pending_update accts) (\<lambda>p.
     require (pu_vault p = esp_vault accts) (Vault_Err InvalidTimelockChange) (
     require (pspu_strategy_policy p = esp_strategy_policy accts) (Vault_Err InvalidTimelockChange) (
     require (env_slot E \<ge> pu_eta_slot p) (Vault_Err TimelockNotReady) (
     require (pu_queued_by p = v_curator v) (Vault_Err StaleTimelockAuthority) (
     require (sp_version sp = pspu_expected_version p) (Vault_Err StaleStrategyPolicyVersion) (
     try_ok (apply_strategy_policy_update sp (pu_args p)) (\<lambda>sp.
     Inr (w\<lparr>w_policies := (w_policies w)(esp_strategy_policy accts \<mapsto> sp),
            w_pending_policy_updates := close (w_pending_policy_updates w) (esp_pending_update accts)\<rparr>
     ))))))))))"

record CancelStrategyPolicyUpdate =
  csu_authority :: pubkey
  csu_vault :: pubkey
  csu_pending_update :: pubkey

definition cancel_strategy_policy_update :: "CancelStrategyPolicyUpdate \<Rightarrow> world \<Rightarrow> world result" where
  "cancel_strategy_policy_update accts w =
     load (w_vaults w) (csu_vault accts) (\<lambda>v.
     load (w_pending_policy_updates w) (csu_pending_update accts) (\<lambda>p.
     require (pu_vault p = csu_vault accts) (Vault_Err InvalidTimelockChange) (
     try_ok (Vault_assert_curator v (csu_authority accts)) (\<lambda>_.
     Inr (w\<lparr>w_pending_policy_updates :=
            close (w_pending_policy_updates w) (csu_pending_update accts)\<rparr>)))))"

end
