(* ===== verification/Administration.thy ===== *)
theory Administration
  imports Timelocked_Updates Strategy_Policy
begin

text \<open>
  Every instruction that configures a vault or a policy, as one type, with the rule of the
  timelock as a contract: the locale \<open>timelock\<close> says what queueing, executing and cancelling an
  update owe each other, and the four kinds of queued update are its instances.
\<close>

subsection \<open>Instructions\<close>

datatype admin_instruction =
    Create_vault CreateVault AsyncVaultArgs
  | Initialize_tranches InitializeTranches InitializeTranchesArgs
  | Initialize_vault InitializeVault
  | Pause_vault PauseVault
  | Update_vault UpdateVault UpdateVaultArgs
  | Invite_new_authority InviteNewAuthority pubkey
  | Accept_authority_invitation AcceptAuthorityInvitation
  | Configure_extension pubkey pubkey extension_instruction \<comment> \<open>vault, signer\<close>
  | Queue_vault_update QueueVaultUpdate UpdateVaultArgs
  | Execute_vault_update ExecuteVaultUpdate
  | Cancel_vault_update CancelVaultUpdate
  | Queue_fee_update QueueFeeUpdate FeeUpdateArgs
  | Execute_fee_update ExecuteFeeUpdate
  | Cancel_fee_update CancelFeeUpdate
  | Queue_extension_update QueueExtensionUpdate ExtensionUpdateArgs
  | Execute_extension_update ExecuteExtensionUpdate
  | Cancel_extension_update CancelExtensionUpdate
  | Initialize_strategy_policy InitializeStrategyPolicy pubkey
  | Update_strategy_policy UpdateStrategyPolicy StrategyPolicyUpdateArgs
  | Pause_strategy_policy PauseStrategyPolicy
  | Close_strategy_policy CloseStrategyPolicy
  | Queue_strategy_policy_update QueueStrategyPolicyUpdate StrategyPolicyUpdateArgs
  | Execute_strategy_policy_update ExecuteStrategyPolicyUpdate
  | Cancel_strategy_policy_update CancelStrategyPolicyUpdate
  | Initialize_protocol_fee_config InitializeProtocolFeeConfig pubkey
  | Update_protocol_fee_config UpdateProtocolFeeConfig pubkey

definition configure_extension ::
  "pubkey \<Rightarrow> pubkey \<Rightarrow> extension_instruction \<Rightarrow> world \<Rightarrow> world result" where
  "configure_extension vault_key authority i w =
     load (w_vaults w) vault_key (\<lambda>v.
     try_ok (exec_extension authority i v) (\<lambda>v.
     Inr (w\<lparr>w_vaults := (w_vaults w)(vault_key \<mapsto> v)\<rparr>)))"

fun exec_admin :: "env \<Rightarrow> admin_instruction \<Rightarrow> world \<Rightarrow> world result" where
  "exec_admin E (Create_vault accts args) w = create_vault E accts args w"
| "exec_admin E (Initialize_tranches accts args) w = initialize_tranches E accts args w"
| "exec_admin E (Initialize_vault accts) w = initialize_vault accts w"
| "exec_admin E (Pause_vault accts) w = pause_vault E accts w"
| "exec_admin E (Update_vault accts args) w = update_vault E accts args w"
| "exec_admin E (Invite_new_authority accts k) w = invite_new_authority accts k w"
| "exec_admin E (Accept_authority_invitation accts) w = accept_authority_invitation accts w"
| "exec_admin E (Configure_extension vk a i) w = configure_extension vk a i w"
| "exec_admin E (Queue_vault_update accts args) w = queue_vault_update E accts args w"
| "exec_admin E (Execute_vault_update accts) w = execute_vault_update E accts w"
| "exec_admin E (Cancel_vault_update accts) w = cancel_vault_update accts w"
| "exec_admin E (Queue_fee_update accts args) w = queue_fee_update E accts args w"
| "exec_admin E (Execute_fee_update accts) w = execute_fee_update E accts w"
| "exec_admin E (Cancel_fee_update accts) w = cancel_fee_update accts w"
| "exec_admin E (Queue_extension_update accts args) w = queue_extension_update E accts args w"
| "exec_admin E (Execute_extension_update accts) w = execute_extension_update E accts w"
| "exec_admin E (Cancel_extension_update accts) w = cancel_extension_update accts w"
| "exec_admin E (Initialize_strategy_policy accts k) w = initialize_strategy_policy E accts k w"
| "exec_admin E (Update_strategy_policy accts args) w = update_strategy_policy E accts args w"
| "exec_admin E (Pause_strategy_policy accts) w = pause_strategy_policy E accts w"
| "exec_admin E (Close_strategy_policy accts) w = close_strategy_policy E accts w"
| "exec_admin E (Queue_strategy_policy_update accts args) w = queue_strategy_policy_update E accts args w"
| "exec_admin E (Execute_strategy_policy_update accts) w = execute_strategy_policy_update E accts w"
| "exec_admin E (Cancel_strategy_policy_update accts) w = cancel_strategy_policy_update accts w"
| "exec_admin E (Initialize_protocol_fee_config accts k) w = initialize_protocol_fee_config E accts k w"
| "exec_admin E (Update_protocol_fee_config accts k) w = update_protocol_fee_config E accts k w"

lemmas setup_defs =
  create_vault_def initialize_tranches_def initialize_vault_def pause_vault_def update_vault_def
  invite_new_authority_def accept_authority_invitation_def configure_extension_def
  initialize_protocol_fee_config_def update_protocol_fee_config_def init_token_account_def

lemmas queued_update_defs =
  queue_vault_update_def execute_vault_update_def cancel_vault_update_def
  queue_fee_update_def execute_fee_update_def cancel_fee_update_def
  queue_extension_update_def execute_extension_update_def cancel_extension_update_def

lemmas policy_defs =
  initialize_strategy_policy_def update_strategy_policy_def pause_strategy_policy_def
  close_strategy_policy_def queue_strategy_policy_update_def execute_strategy_policy_update_def
  cancel_strategy_policy_update_def

subsection \<open>What the other instructions leave alone\<close>

text \<open>
  The settings of a vault that \<open>UpdateVaultArgs::has_timelocked_fields\<close> lists, and the part of
  the world that only the instructions above change.
\<close>

definition timelocked_settings where
  "timelocked_settings v =
     (v_fee_recipient v, v_manager v, v_hot_manager v, v_fulfiller v, v_nav_mode v,
      v_require_fresh_nav v, v_max_nav_delta_bps v, v_max_implied_apy_bps v,
      v_max_nav_staleness_slots v, v_deposit_cap v, v_rolling_limit_window_slots v,
      v_manager_rolling_limit v, v_external_withdraw_rolling_limit v, v_redemption_rolling_limit v,
      v_timelock_delay_slots v, v_performance_fee_bps v,
      v_performance_fee_crystallization_interval_seconds v, v_protocol_fee_bps v,
      v_protocol_fee_recipient v, v_instant_redemption_fee_bps v)"

definition admin_state where
  "admin_state w =
     (w_pending_vault_updates w, w_pending_fee_updates w, w_pending_extension_updates w,
      w_pending_policy_updates w, w_policies w,
      \<lambda>k. map_option (\<lambda>v. (timelocked_settings v, v_curator v, v_breaker v, v_tranche_config v))
           (w_vaults w k))"

subsection \<open>The contract of the timelock\<close>

text \<open>
  An update that instruction \<open>i\<close> queues is recorded with its vault, the signing curator, its
  arguments, what else the account records, and a slot that is the vault's delay away. It can be executed from that slot on and
  only while the same curator is in office; execution and cancellation remove it; nothing else
  creates or changes it.
\<close>

definition queued_by_curator :: "env \<Rightarrow> world \<Rightarrow> ('a, 'z) pending_update_scheme \<Rightarrow> bool" where
  "queued_by_curator E w p \<longleftrightarrow>
     (\<exists>v. w_vaults w (pu_vault p) = Some v \<and> pu_queued_by p = v_curator v
        \<and> 0 < v_timelock_delay_slots v \<and> pu_created_slot p = env_slot E
        \<and> unat (pu_eta_slot p) = unat (env_slot E) + unat (v_timelock_delay_slots v))"

definition ripe :: "env \<Rightarrow> world \<Rightarrow> ('a, 'z) pending_update_scheme \<Rightarrow> bool" where
  "ripe E w p \<longleftrightarrow>
     (\<exists>v. w_vaults w (pu_vault p) = Some v \<and> pu_queued_by p = v_curator v)
     \<and> pu_eta_slot p \<le> env_slot E"

locale timelock =
  fixes pending :: "world \<Rightarrow> pubkey \<Rightarrow> ('a, 'z) pending_update_scheme option"
    and queues :: "admin_instruction \<Rightarrow> (pubkey \<times> pubkey \<times> 'a) option" \<comment> \<open>account, vault, arguments\<close>
    and executes :: "admin_instruction \<Rightarrow> pubkey option"
    and cancels :: "admin_instruction \<Rightarrow> pubkey option"
    and records :: "world \<Rightarrow> admin_instruction \<Rightarrow> ('a, 'z) pending_update_scheme \<Rightarrow> bool"
  assumes queue_law:
      "exec_admin E i w = Inr w' \<Longrightarrow> queues i = Some (k, vk, args) \<Longrightarrow>
       \<exists>p. pending w k = None \<and> pending w' = (pending w)(k \<mapsto> p)
         \<and> pu_vault p = vk \<and> pu_args p = args \<and> queued_by_curator E w p \<and> records w i p"
    and execute_law:
      "exec_admin E i w = Inr w' \<Longrightarrow> executes i = Some k \<Longrightarrow>
       \<exists>p. pending w k = Some p \<and> pending w' = (pending w)(k := None) \<and> ripe E w p"
    and cancel_law:
      "exec_admin E i w = Inr w' \<Longrightarrow> cancels i = Some k \<Longrightarrow> pending w' = (pending w)(k := None)"
    and frame_law:
      "exec_admin E i w = Inr w' \<Longrightarrow> queues i = None \<Longrightarrow> executes i = None \<Longrightarrow> cancels i = None \<Longrightarrow>
       pending w' = pending w"
    and quiet_law: "admin_state w' = admin_state w \<Longrightarrow> pending w' = pending w"
begin

definition touches :: "admin_instruction \<Rightarrow> pubkey \<Rightarrow> bool" where
  "touches i k \<longleftrightarrow>
     executes i = Some k \<or> cancels i = Some k \<or> (\<exists>vk args. queues i = Some (k, vk, args))"

lemma untouched:
  assumes "exec_admin E i w = Inr w'" "\<not> touches i k"
  shows "pending w' k = pending w k"
proof (cases "queues i")
  case (Some q)
  obtain k' vk args where "queues i = Some (k', vk, args)" using Some by (cases q) auto
  with queue_law [OF assms(1) this] assms(2) show ?thesis by (auto simp: touches_def)
next
  case None
  consider (executes) k' where "executes i = Some k'" | (cancels) k' where "cancels i = Some k'"
    | (neither) "executes i = None" "cancels i = None" by (cases "executes i"; cases "cancels i") auto
  then show ?thesis
    by cases (use None assms execute_law [OF assms(1)] cancel_law [OF assms(1)] frame_law [OF assms(1)] in
        \<open>fastforce simp: touches_def\<close>)+
qed

lemma present_after_touch:
  assumes "exec_admin E i w = Inr w'" "touches i k" "pending w' k = Some p"
  shows "queues i = Some (k, pu_vault p, pu_args p) \<and> queued_by_curator E w p \<and> records w i p"
  using assms execute_law [OF assms(1)] cancel_law [OF assms(1)] queue_law [OF assms(1)]
  by (fastforce simp: touches_def)

end

subsection \<open>The four queues\<close>

definition vault_update_queues :: "admin_instruction \<Rightarrow> (pubkey \<times> pubkey \<times> UpdateVaultArgs) option" where
  "vault_update_queues i =
     (case i of Queue_vault_update a args \<Rightarrow> Some (qvu_pending_update a, qvu_vault a, args) | _ \<Rightarrow> None)"

definition vault_update_executes :: "admin_instruction \<Rightarrow> pubkey option" where
  "vault_update_executes i =
     (case i of Execute_vault_update a \<Rightarrow> Some (evu_pending_update a) | _ \<Rightarrow> None)"

definition vault_update_cancels :: "admin_instruction \<Rightarrow> pubkey option" where
  "vault_update_cancels i =
     (case i of Cancel_vault_update a \<Rightarrow> Some (cvu_pending_update a) | _ \<Rightarrow> None)"

definition fee_update_queues :: "admin_instruction \<Rightarrow> (pubkey \<times> pubkey \<times> FeeUpdateArgs) option" where
  "fee_update_queues i =
     (case i of Queue_fee_update a args \<Rightarrow> Some (qfu_pending_fee_update a, qfu_vault a, args) | _ \<Rightarrow> None)"

definition fee_update_executes :: "admin_instruction \<Rightarrow> pubkey option" where
  "fee_update_executes i =
     (case i of Execute_fee_update a \<Rightarrow> Some (efu_pending_fee_update a) | _ \<Rightarrow> None)"

definition fee_update_cancels :: "admin_instruction \<Rightarrow> pubkey option" where
  "fee_update_cancels i =
     (case i of Cancel_fee_update a \<Rightarrow> Some (cfu_pending_fee_update a) | _ \<Rightarrow> None)"

definition extension_update_queues ::
  "admin_instruction \<Rightarrow> (pubkey \<times> pubkey \<times> ExtensionUpdateArgs) option" where
  "extension_update_queues i =
     (case i of
        Queue_extension_update a args \<Rightarrow> Some (qeu_pending_extension_update a, qeu_vault a, args)
      | _ \<Rightarrow> None)"

definition extension_update_executes :: "admin_instruction \<Rightarrow> pubkey option" where
  "extension_update_executes i =
     (case i of Execute_extension_update a \<Rightarrow> Some (eeu_pending_extension_update a) | _ \<Rightarrow> None)"

definition extension_update_cancels :: "admin_instruction \<Rightarrow> pubkey option" where
  "extension_update_cancels i =
     (case i of Cancel_extension_update a \<Rightarrow> Some (ceu_pending_extension_update a) | _ \<Rightarrow> None)"

definition policy_update_queues ::
  "admin_instruction \<Rightarrow> (pubkey \<times> pubkey \<times> StrategyPolicyUpdateArgs) option" where
  "policy_update_queues i =
     (case i of
        Queue_strategy_policy_update a args \<Rightarrow> Some (qsp_pending_update a, qsp_vault a, args)
      | _ \<Rightarrow> None)"

definition policy_update_executes :: "admin_instruction \<Rightarrow> pubkey option" where
  "policy_update_executes i =
     (case i of Execute_strategy_policy_update a \<Rightarrow> Some (esp_pending_update a) | _ \<Rightarrow> None)"

definition policy_update_cancels :: "admin_instruction \<Rightarrow> pubkey option" where
  "policy_update_cancels i =
     (case i of Cancel_strategy_policy_update a \<Rightarrow> Some (csu_pending_update a) | _ \<Rightarrow> None)"

text \<open>A queued policy update names the policy and the version it had then.\<close>

definition policy_update_records ::
  "world \<Rightarrow> admin_instruction \<Rightarrow> PendingStrategyPolicyUpdate \<Rightarrow> bool" where
  "policy_update_records w i p \<longleftrightarrow>
     (case i of
        Queue_strategy_policy_update a args \<Rightarrow>
          pspu_strategy_policy p = qsp_strategy_policy a
          \<and> (case w_policies w (qsp_strategy_policy a) of
               None \<Rightarrow> False | Some sp \<Rightarrow> sp_version sp = pspu_expected_version p)
      | _ \<Rightarrow> False)"

lemmas queue_event_defs =
  vault_update_queues_def vault_update_executes_def vault_update_cancels_def
  fee_update_queues_def fee_update_executes_def fee_update_cancels_def
  extension_update_queues_def extension_update_executes_def extension_update_cancels_def
  policy_update_queues_def policy_update_executes_def policy_update_cancels_def
  policy_update_records_def

lemma setup_keeps_queues:
  assumes "exec_admin E i w = Inr w'"
  shows "vault_update_queues i = None \<Longrightarrow> vault_update_executes i = None \<Longrightarrow> vault_update_cancels i = None \<Longrightarrow>
      w_pending_vault_updates w' = w_pending_vault_updates w"
    and "fee_update_queues i = None \<Longrightarrow> fee_update_executes i = None \<Longrightarrow> fee_update_cancels i = None \<Longrightarrow>
      w_pending_fee_updates w' = w_pending_fee_updates w"
    and "extension_update_queues i = None \<Longrightarrow> extension_update_executes i = None \<Longrightarrow>
      extension_update_cancels i = None \<Longrightarrow> w_pending_extension_updates w' = w_pending_extension_updates w"
    and "policy_update_queues i = None \<Longrightarrow> policy_update_executes i = None \<Longrightarrow>
      policy_update_cancels i = None \<Longrightarrow> w_pending_policy_updates w' = w_pending_policy_updates w"
  using assms
  by (cases i; force simp: queue_event_defs setup_defs queued_update_defs policy_defs res_simps Let_def
      split: if_splits)+

lemmas timelock_simps = queued_by_curator_def ripe_def vault_guard_defs checked_simps close_def fresh_def

interpretation vault_updates: timelock w_pending_vault_updates
  vault_update_queues vault_update_executes vault_update_cancels "\<lambda>w i p. True"
proof (unfold_locales, goal_cases)
  case (1 E i w w' k vk args)
  then show ?case
    by (cases i) (auto simp: queue_event_defs queue_vault_update_def timelock_simps res_simps)
next
  case (2 E i w w' k)
  then show ?case
    by (cases i) (auto simp: queue_event_defs execute_vault_update_def timelock_simps res_simps)
next
  case (3 E i w w' k)
  then show ?case
    by (cases i) (auto simp: queue_event_defs cancel_vault_update_def timelock_simps res_simps)
qed (use setup_keeps_queues(1) in \<open>auto simp: admin_state_def\<close>)

interpretation fee_updates: timelock w_pending_fee_updates
  fee_update_queues fee_update_executes fee_update_cancels "\<lambda>w i p. True"
proof (unfold_locales, goal_cases)
  case (1 E i w w' k vk args)
  then show ?case
    by (cases i) (auto simp: queue_event_defs queue_fee_update_def timelock_simps res_simps)
next
  case (2 E i w w' k)
  then show ?case
    by (cases i) (auto simp: queue_event_defs execute_fee_update_def timelock_simps res_simps)
next
  case (3 E i w w' k)
  then show ?case
    by (cases i) (auto simp: queue_event_defs cancel_fee_update_def timelock_simps res_simps)
qed (use setup_keeps_queues(2) in \<open>auto simp: admin_state_def\<close>)

interpretation extension_updates: timelock w_pending_extension_updates
  extension_update_queues extension_update_executes extension_update_cancels "\<lambda>w i p. True"
proof (unfold_locales, goal_cases)
  case (1 E i w w' k vk args)
  then show ?case
    by (cases i) (auto simp: queue_event_defs queue_extension_update_def timelock_simps res_simps)
next
  case (2 E i w w' k)
  then show ?case
    by (cases i) (auto simp: queue_event_defs execute_extension_update_def timelock_simps res_simps)
next
  case (3 E i w w' k)
  then show ?case
    by (cases i) (auto simp: queue_event_defs cancel_extension_update_def timelock_simps res_simps)
qed (use setup_keeps_queues(3) in \<open>auto simp: admin_state_def\<close>)

interpretation policy_updates: timelock w_pending_policy_updates
  policy_update_queues policy_update_executes policy_update_cancels policy_update_records
proof (unfold_locales, goal_cases)
  case (1 E i w w' k vk args)
  then show ?case
    by (cases i) (auto simp: queue_event_defs queue_strategy_policy_update_def timelock_simps res_simps)
next
  case (2 E i w w' k)
  then show ?case
    by (cases i) (auto simp: queue_event_defs execute_strategy_policy_update_def timelock_simps res_simps)
next
  case (3 E i w w' k)
  then show ?case
    by (cases i) (auto simp: queue_event_defs cancel_strategy_policy_update_def timelock_simps res_simps)
qed (use setup_keeps_queues(4) in \<open>auto simp: admin_state_def\<close>)

subsection \<open>Settings\<close>

lemma updated_vault_untimelocked:
  "\<not> UpdateVaultArgs_has_timelocked_fields a \<Longrightarrow>
   timelocked_settings (updated_vault a v) = timelocked_settings v"
  by (simp add: UpdateVaultArgs_has_timelocked_fields_def timelocked_settings_def updated_vault_def)

lemma updated_vault_simps [simp]:
  "v_tlv (updated_vault a v) = v_tlv v"
  "v_curator (updated_vault a v) = v_curator v"
  "v_authority (updated_vault a v) = v_authority v"
  "v_breaker (updated_vault a v) = unwrap_or (uva_breaker a) (v_breaker v)"
  "v_tranche_config (updated_vault a v) = v_tranche_config v"
  "v_initialized (updated_vault a v) = v_initialized v"
  by (simp_all add: updated_vault_def)

lemma apply_vault_update_Inr [res_simps]:
  "apply_vault_update v args = Inr v' \<longleftrightarrow>
     v' = updated_vault args v \<and> Vault_validate_config (updated_vault args v) = Inr ()"
  by (auto simp: apply_vault_update_def Let_def res_simps)

lemma timelocked_settings_simps [simp]:
  "timelocked_settings (v\<lparr>v_tlv := t\<rparr>) = timelocked_settings v"
  "timelocked_settings (v\<lparr>v_initialized := b\<rparr>) = timelocked_settings v"
  "timelocked_settings (v\<lparr>v_paused := b\<rparr>) = timelocked_settings v"
  "timelocked_settings (v\<lparr>v_pending_authority := a\<rparr>) = timelocked_settings v"
  "timelocked_settings (v\<lparr>v_tranche_config := c\<rparr>) = timelocked_settings v"
  by (simp_all add: timelocked_settings_def)

lemma init_vault_extension_tlv:
  "init_vault_extension X v e = Inr v' \<Longrightarrow> \<exists>t. v' = v\<lparr>v_tlv := t\<rparr>"
  by (auto simp: init_vault_extension_def Let_def res_simps split: if_splits)

lemma update_vault_extension_tlv:
  "update_vault_extension X v e = Inr v' \<Longrightarrow> \<exists>t. v' = v\<lparr>v_tlv := t\<rparr>"
  by (auto simp: update_vault_extension_def Let_def res_simps split: if_splits)

text \<open>The account of the queue an instruction works on.\<close>

datatype update_queue = Vault_queue | Fee_queue | Extension_queue | Policy_queue

definition queue_account :: "admin_instruction \<Rightarrow> (update_queue \<times> pubkey) option" where
  "queue_account i =
     (case i of
        Queue_vault_update a args \<Rightarrow> Some (Vault_queue, qvu_pending_update a)
      | Execute_vault_update a \<Rightarrow> Some (Vault_queue, evu_pending_update a)
      | Cancel_vault_update a \<Rightarrow> Some (Vault_queue, cvu_pending_update a)
      | Queue_fee_update a args \<Rightarrow> Some (Fee_queue, qfu_pending_fee_update a)
      | Execute_fee_update a \<Rightarrow> Some (Fee_queue, efu_pending_fee_update a)
      | Cancel_fee_update a \<Rightarrow> Some (Fee_queue, cfu_pending_fee_update a)
      | Queue_extension_update a args \<Rightarrow> Some (Extension_queue, qeu_pending_extension_update a)
      | Execute_extension_update a \<Rightarrow> Some (Extension_queue, eeu_pending_extension_update a)
      | Cancel_extension_update a \<Rightarrow> Some (Extension_queue, ceu_pending_extension_update a)
      | Queue_strategy_policy_update a args \<Rightarrow> Some (Policy_queue, qsp_pending_update a)
      | Execute_strategy_policy_update a \<Rightarrow> Some (Policy_queue, esp_pending_update a)
      | Cancel_strategy_policy_update a \<Rightarrow> Some (Policy_queue, csu_pending_update a)
      | _ \<Rightarrow> None)"

lemma touches_queue_account:
  "vault_updates.touches i k \<longleftrightarrow> queue_account i = Some (Vault_queue, k)"
  "fee_updates.touches i k \<longleftrightarrow> queue_account i = Some (Fee_queue, k)"
  "extension_updates.touches i k \<longleftrightarrow> queue_account i = Some (Extension_queue, k)"
  "policy_updates.touches i k \<longleftrightarrow> queue_account i = Some (Policy_queue, k)"
  by (cases i; simp add: vault_updates.touches_def fee_updates.touches_def
      extension_updates.touches_def policy_updates.touches_def queue_event_defs queue_account_def)+

text \<open>The change of a vault that an instruction executes, as its queue account has it.\<close>

definition executes_on :: "world \<Rightarrow> admin_instruction \<Rightarrow> (pubkey \<times> (vault \<Rightarrow> vault result)) option" where
  "executes_on w i =
     (case i of
        Execute_vault_update a \<Rightarrow>
          map_option (\<lambda>p. (pu_vault p, \<lambda>v. apply_vault_update v (pu_args p)))
            (w_pending_vault_updates w (evu_pending_update a))
      | Execute_fee_update a \<Rightarrow>
          map_option (\<lambda>p. (pu_vault p, \<lambda>v. apply_fee_update v (pu_args p)))
            (w_pending_fee_updates w (efu_pending_fee_update a))
      | Execute_extension_update a \<Rightarrow>
          map_option (\<lambda>p. (pu_vault p, \<lambda>v. apply_extension_update v (pu_args p)))
            (w_pending_extension_updates w (eeu_pending_extension_update a))
      | _ \<Rightarrow> None)"

lemma active_extension_is_closed:
  "v_initialized v \<Longrightarrow> 0 < v_timelock_delay_slots v \<Longrightarrow> exec_extension a i v \<noteq> Inr v'"
  by (cases i) (auto simp: extension_handler_defs initialize_instant_settlement_def
      init_vault_extension_def realloc_def vault_guard_defs res_simps)

lemma exec_admin_settings:
  assumes run: "exec_admin E i w = Inr w'" and v: "w_vaults w k = Some v"
    and active: "v_initialized v" "0 < v_timelock_delay_slots v"
  shows "\<exists>v'. w_vaults w' k = Some v'
    \<and> ((timelocked_settings v', v_tlv v') = (timelocked_settings v, v_tlv v)
       \<or> (\<exists>a. i = Accept_authority_invitation a \<and> aai_vault a = k)
       \<or> (\<exists>f. executes_on w i = Some (k, f) \<and> f v = Inr v'))"
proof (cases i)
  case (Configure_extension vk a x)
  with run v active_extension_is_closed [OF active] show ?thesis
    by (cases "vk = k") (auto simp: configure_extension_def res_simps)
next
  case (Update_vault a args)
  with run v active show ?thesis
    by (cases "uv_vault a = k")
      (auto simp: update_vault_def res_simps updated_vault_untimelocked split: if_splits)
qed (use run v active in \<open>fastforce simp: setup_defs queued_update_defs policy_defs res_simps
      executes_on_def fresh_def vault_guard_defs Let_def split: if_splits\<close>)+

subsection \<open>Valid configurations\<close>

lemma Vault_validate_config_ok:
  "Vault_validate_config v = Inr () \<longleftrightarrow>
     v_max_nav_delta_bps v \<le> MAX_BPS \<and> v_performance_fee_bps v \<le> MAX_BPS
     \<and> v_protocol_fee_bps v \<le> MAX_BPS \<and> v_instant_redemption_fee_bps v \<le> MAX_BPS
     \<and> v_nav_mode v = AuthoritySigned
     \<and> (v_tranche_config v = None \<or> v_performance_fee_bps v = 0)
     \<and> (0 < v_protocol_fee_bps v \<longrightarrow> v_protocol_fee_recipient v \<noteq> Pubkey_default)
     \<and> (0 < v_rolling_limit_window_slots v
        \<or> v_manager_rolling_limit v = 0 \<and> v_external_withdraw_rolling_limit v = 0
          \<and> v_redemption_rolling_limit v = 0)"
  by (simp add: Vault_validate_config_def res_simps)

lemma Vault_validate_config_cong:
  "timelocked_settings v' = timelocked_settings v \<Longrightarrow> v_tranche_config v' = v_tranche_config v \<Longrightarrow>
   Vault_validate_config v' = Inr () \<longleftrightarrow> Vault_validate_config v = Inr ()"
  by (simp add: Vault_validate_config_ok timelocked_settings_def)

definition valid_configs :: "world \<Rightarrow> bool" where
  "valid_configs w \<longleftrightarrow> (\<forall>k v. w_vaults w k = Some v \<longrightarrow> Vault_validate_config v = Inr ())"

lemma valid_configs_update:
  assumes "valid_configs w" "w_vaults w' = (w_vaults w)(k \<mapsto> v)" "Vault_validate_config v = Inr ()"
  shows "valid_configs w'"
  using assms by (auto simp: valid_configs_def)

lemma valid_configs_same: "valid_configs w \<Longrightarrow> w_vaults w' = w_vaults w \<Longrightarrow> valid_configs w'"
  by (simp add: valid_configs_def)

lemma valid_configs_of: "valid_configs w \<Longrightarrow> w_vaults w k = Some v \<Longrightarrow> Vault_validate_config v = Inr ()"
  by (simp add: valid_configs_def)

lemma new_vault_valid: "Vault_validate_config (new_vault accts args b1 b2 b3) = Inr ()"
  by (simp add: Vault_validate_config_ok new_vault_def MAX_BPS_def)

lemma validate_config_simps [simp]:
  "Vault_validate_config (v\<lparr>v_tlv := t\<rparr>) = Vault_validate_config v"
  "Vault_validate_config (v\<lparr>v_initialized := b\<rparr>) = Vault_validate_config v"
  "Vault_validate_config (v\<lparr>v_paused := b\<rparr>) = Vault_validate_config v"
  "Vault_validate_config (v\<lparr>v_pending_authority := a\<rparr>) = Vault_validate_config v"
  "Vault_validate_config (take_over k v) = Vault_validate_config v"
  by (simp_all add: Vault_validate_config_def take_over_def Let_def)

lemma validate_config_tranche:
  "Vault_validate_config v = Inr () \<Longrightarrow> v_performance_fee_bps v = 0 \<Longrightarrow>
   Vault_validate_config (v\<lparr>v_tranche_config := c\<rparr>) = Inr ()"
  by (simp add: Vault_validate_config_ok)

text \<open>An extension instruction changes the region and, in one case, the instant redemption fee.\<close>

lemma exec_extension_changes:
  assumes run: "exec_extension a i v = Inr v'"
  shows "\<exists>t fee. v' = v\<lparr>v_tlv := t, v_instant_redemption_fee_bps := fee\<rparr>
    \<and> (fee = v_instant_redemption_fee_bps v \<or> fee \<le> MAX_BPS)"
proof (cases "\<exists>args. i = InitializeInstantSettlement args")
  case True
  then obtain args where "i = InitializeInstantSettlement args" by blast
  with run obtain t where "v' = v\<lparr>v_tlv := t,
      v_instant_redemption_fee_bps := iis_instant_redemption_fee_bps args\<rparr>"
    "iis_instant_redemption_fee_bps args \<le> MAX_BPS"
    by (auto simp: initialize_instant_settlement_def InitExtension_accounts_def realloc_def res_simps
        dest!: init_vault_extension_tlv)
  then show ?thesis by blast
next
  case False
  then have "\<exists>t. v' = v\<lparr>v_tlv := t\<rparr>"
    using run by (cases i) (auto simp: extension_handler_defs realloc_def res_simps
        dest!: init_vault_extension_tlv update_vault_extension_tlv)
  then obtain t where "v' = v\<lparr>v_tlv := t\<rparr>" by blast
  then have "v' = v\<lparr>v_tlv := t, v_instant_redemption_fee_bps := v_instant_redemption_fee_bps v\<rparr>" by simp
  then show ?thesis by blast
qed

lemma exec_extension_valid:
  assumes run: "exec_extension a i v = Inr v'" and valid: "Vault_validate_config v = Inr ()"
  shows "Vault_validate_config v' = Inr ()"
proof -
  obtain t fee where "v' = v\<lparr>v_tlv := t, v_instant_redemption_fee_bps := fee\<rparr>"
    "fee = v_instant_redemption_fee_bps v \<or> fee \<le> MAX_BPS"
    using exec_extension_changes [OF run] by blast
  with valid show ?thesis by (auto simp: Vault_validate_config_ok)
qed

lemma apply_fee_update_tlv: "apply_fee_update v args = Inr v' \<Longrightarrow> \<exists>t. v' = v\<lparr>v_tlv := t\<rparr>"
  by (cases "fua_kind args")
    (auto simp: apply_fee_update_def res_simps dest: update_vault_extension_tlv)

lemma apply_extension_update_tlv: "apply_extension_update v args = Inr v' \<Longrightarrow> \<exists>t. v' = v\<lparr>v_tlv := t\<rparr>"
  by (cases "eua_kind args")
    (auto simp: apply_extension_update_def res_simps dest: update_vault_extension_tlv)

text \<open>What an instruction makes of the configuration of a vault it changes.\<close>

lemma exec_admin_valid_configs:
  assumes run: "exec_admin E i w = Inr w'" and valid: "valid_configs w"
  shows "valid_configs w'"
proof -
  note ok = valid_configs_of [OF valid]
  have kept: "Vault_validate_config v' = Inr ()"
    if "\<exists>v. w_vaults w k = Some v \<and> Vault_validate_config v' = Vault_validate_config v" for k v'
    using that ok by metis
  have "Vault_validate_config v' = Inr ()" if v': "w_vaults w' k = Some v'" for k v'
  proof (cases i)
    case (Create_vault a args)
    with run v' show ?thesis
      by (cases "cv_vault a = k") (auto simp: create_vault_def init_token_account_def res_simps
          intro: new_vault_valid elim: ok)
  next
    case (Initialize_tranches a args)
    with run v' have "\<exists>v. w_vaults w k = Some v
        \<and> (v' = v \<or> v_performance_fee_bps v = 0 \<and> (\<exists>c. v' = v\<lparr>v_tranche_config := c\<rparr>))"
      by (cases "it_vault a = k") (auto simp: initialize_tranches_def res_simps)
    then show ?thesis using ok validate_config_tranche by blast
  next
    case (Configure_extension vk a x)
    with run v' show ?thesis
      by (cases "vk = k") (auto simp: configure_extension_def res_simps intro: exec_extension_valid elim: ok)
  next
    case (Execute_fee_update a)
    with run v' have "\<exists>v. w_vaults w k = Some v \<and> (\<exists>t. v' = v \<or> v' = v\<lparr>v_tlv := t\<rparr>)"
      by (cases "efu_vault a = k") (auto simp: execute_fee_update_def res_simps dest!: apply_fee_update_tlv)
    then show ?thesis using ok by auto
  next
    case (Execute_extension_update a)
    with run v' have "\<exists>v. w_vaults w k = Some v \<and> (\<exists>t. v' = v \<or> v' = v\<lparr>v_tlv := t\<rparr>)"
      by (cases "eeu_vault a = k") (auto simp: execute_extension_update_def res_simps dest!: apply_extension_update_tlv)
    then show ?thesis using ok by auto
  next
    case (Update_vault a args)
    with run v' show ?thesis
      by (cases "uv_vault a = k") (auto simp: update_vault_def res_simps elim: ok split: if_splits)
  next
    case (Execute_vault_update a)
    with run v' show ?thesis
      by (cases "evu_vault a = k") (auto simp: execute_vault_update_def res_simps elim: ok)
  next
    case (Accept_authority_invitation a)
    with run v' show ?thesis
      by (intro kept [of k]) (cases "aai_vault a = k"; auto simp: accept_authority_invitation_def res_simps)
  next
    case (Initialize_vault a)
    with run v' show ?thesis
      by (intro kept [of k]) (cases "iv_vault a = k"; auto simp: initialize_vault_def res_simps)
  next
    case (Pause_vault a)
    with run v' show ?thesis
      by (intro kept [of k]) (cases "pv_vault a = k"; auto simp: pause_vault_def res_simps)
  next
    case (Invite_new_authority a new)
    with run v' show ?thesis
      by (intro kept [of k]) (cases "ina_vault a = k"; auto simp: invite_new_authority_def res_simps)
  qed (use run v' in \<open>auto simp: setup_defs queued_update_defs policy_defs res_simps Let_def elim: ok\<close>)
  then show ?thesis by (simp add: valid_configs_def)
qed

end
