(* ===== verification/Program_Runs.thy ===== *)
theory Program_Runs
  imports Lifecycle Administration
begin

text \<open>
  Runs of the whole program: administration interleaved with requests, settlement, NAV updates
  and transactions from outside. The request side leaves the administration alone, so what the
  timelock promises of single instructions holds of runs: no setting of an active vault with a
  timelock changes but by an update its curator announced at least the delay earlier.
\<close>

subsection \<open>Requests, settlement and NAV updates leave the administration alone\<close>

text \<open>The part of a vault in \<open>admin_state\<close>.\<close>

definition same_admin :: "vault \<Rightarrow> vault \<Rightarrow> bool" where
  "same_admin v' v \<longleftrightarrow>
     timelocked_settings v' = timelocked_settings v \<and> v_curator v' = v_curator v
     \<and> v_breaker v' = v_breaker v \<and> v_tranche_config v' = v_tranche_config v"

lemma same_admin_simps [simp]:
  "same_admin v v"
  "same_admin (v'\<lparr>v_tlv := t\<rparr>) v = same_admin v' v"
  "same_admin v' (v\<lparr>v_tlv := t\<rparr>) = same_admin v' v"
  "same_admin (v'\<lparr>v_pending_async_requests := n\<rparr>) v = same_admin v' v"
  "same_admin (v'\<lparr>v_pending_deposit_amount := a\<rparr>) v = same_admin v' v"
  "same_admin (v'\<lparr>v_total_asset_balance := a\<rparr>) v = same_admin v' v"
  by (simp_all add: same_admin_def timelocked_settings_def)

lemma admin_state_vault:
  assumes "w_vaults w k = Some v" "same_admin v' v" "w_vaults w' = (w_vaults w)(k \<mapsto> v')"
    and "w_pending_vault_updates w' = w_pending_vault_updates w"
    and "w_pending_fee_updates w' = w_pending_fee_updates w"
    and "w_pending_extension_updates w' = w_pending_extension_updates w"
    and "w_pending_policy_updates w' = w_pending_policy_updates w" "w_policies w' = w_policies w"
  shows "admin_state w' = admin_state w"
  using assms by (simp add: admin_state_def same_admin_def fun_eq_iff)

lemma create_deposit_request_quiet:
  "create_deposit_request E accts ra args w = Inr w' \<Longrightarrow> admin_state w' = admin_state w"
  apply (clarsimp simp: create_deposit_request_def res_simps Let_def)
  apply (drule add_pending_deposit_Inr assign_queue_id_keeps tag_request_keeps)+
  apply clarsimp
  apply (rule admin_state_vault, assumption)
  apply simp_all
  done

lemma create_redeem_request_quiet:
  "create_redeem_request E accts ra args w = Inr w' \<Longrightarrow> admin_state w' = admin_state w"
  apply (clarsimp simp: create_redeem_request_def res_simps Let_def)
  apply (drule assign_queue_id_keeps tag_request_keeps)+
  apply clarsimp
  apply (rule admin_state_vault, assumption)
  apply simp_all
  done

lemma set_operator_quiet: "set_operator so w = Inr w' \<Longrightarrow> admin_state w' = admin_state w"
  by (auto simp: set_operator_def res_simps admin_state_def)

lemma refund_deposit_keeps:
  "refund_deposit E vk v m am va p u tp n L = Inr (v', va', L') \<Longrightarrow> same_admin v' v"
  by (auto simp: refund_deposit_def Let_def res_simps dest!: release_pending_deposit_Inr split: if_splits)

text \<open>A refund of either kind.\<close>

lemma refund_keeps:
  "(case t of
      Deposit \<Rightarrow> refund_deposit E vk v m am va p u tp n L
    | Redeem \<Rightarrow> try_ok x (\<lambda>L. Inr (v, va, L))) = Inr (v', va', L') \<Longrightarrow> same_admin v' v"
  by (auto simp: res_simps dest: refund_deposit_keeps split: RequestType.splits)

lemma cancel_request_quiet:
  "cancel_request E accts ra w = Inr w' \<Longrightarrow> admin_state w' = admin_state w"
  apply (clarsimp simp: cancel_request_def res_simps Let_def)
  apply (drule refund_keeps)
  apply (rule admin_state_vault, assumption)
  apply simp_all
  done

lemma reject_request_quiet:
  "reject_request E accts ra args w = Inr w' \<Longrightarrow> admin_state w' = admin_state w"
  apply (clarsimp simp: reject_request_def res_simps Let_def)
  apply (drule check_fifo_ordering_keeps refund_keeps)+
  apply clarsimp
  apply (rule admin_state_vault, assumption)
  apply simp_all
  done

lemma cancel_queued_deposit_request_quiet:
  "cancel_queued_deposit_request E accts ra w = Inr w' \<Longrightarrow> admin_state w' = admin_state w"
  apply (clarsimp simp: cancel_queued_deposit_request_def res_simps Let_def)
  apply (drule release_pending_deposit_Inr)
  apply clarsimp
  apply (rule admin_state_vault, assumption)
  apply simp_all
  done

lemma cancel_queued_redemption_request_quiet:
  "cancel_queued_redemption_request E accts ra w = Inr w' \<Longrightarrow> admin_state w' = admin_state w"
  apply (clarsimp simp: cancel_queued_redemption_request_def res_simps Let_def)
  apply (rule admin_state_vault, assumption)
  apply simp_all
  done

lemma skip_canceled_queue_request_quiet:
  "skip_canceled_queue_request E accts ra w = Inr w' \<Longrightarrow> admin_state w' = admin_state w"
  apply (clarsimp simp: skip_canceled_queue_request_def res_simps Let_def)
  apply (drule check_fifo_ordering_keeps)
  apply clarsimp
  apply (rule admin_state_vault, assumption)
  apply simp_all
  done

lemma claim_quiet: "claim E accts ra w = Inr w' \<Longrightarrow> admin_state w' = admin_state w"
  by (auto simp: claim_def res_simps admin_state_def)

lemma update_nav_quiet:
  assumes "update_nav E accts ra nav w = Inr w'"
  shows "admin_state w' = admin_state w"
  using assms
proof (rule update_nav_Inr, goal_cases)
  case (1 v v1 L n tcs)
  obtain mark ts where "v1 = v\<lparr>v_high_water_mark := mark, v_last_fee_crystallization_timestamp := ts\<rparr>"
    using maybe_crystallize_performance_fee_Inr(1) [OF 1(4)] by blast
  with 1 show ?case by (simp add: admin_state_def timelocked_settings_def fun_eq_iff)
qed

lemma approve_request_quiet:
  assumes "approve_request E accts ra args w = Inr w'"
  shows "admin_state w' = admin_state w"
  using assms
proof (rule approve_request_Inr, goal_cases)
  case (1 v va r t1 t2 am sm ctx v1 tcs1 v2 va2 tcs L claimable pa)
  obtain t where v1: "v1 = v\<lparr>v_tlv := t\<rparr>" using check_fifo_ordering_keeps [OF 1(8)] by blast
  have "same_admin v2 v1"
  proof (cases "req_request_type r")
    case Deposit
    with 1(9) show ?thesis
      by (auto simp: res_simps account_deposit_def same_admin_def timelocked_settings_def)
  next
    case Redeem
    with 1(9) show ?thesis
      by (auto simp: res_simps account_redeem_def same_admin_def timelocked_settings_def
          settle_redeem_request_def Vault_consume_redemption_rolling_limit_def Let_def)
  qed
  with 1(1,2) v1 show ?case by (intro admin_state_vault [OF 1(2)]) auto
qed

lemmas lifecycle_quiet =
  create_deposit_request_quiet create_redeem_request_quiet set_operator_quiet
  approve_request_quiet reject_request_quiet claim_quiet cancel_request_quiet
  cancel_queued_deposit_request_quiet cancel_queued_redemption_request_quiet
  skip_canceled_queue_request_quiet update_nav_quiet

lemma lifecycle_step_quiet: "lifecycle_step E w w' \<Longrightarrow> admin_state w' = admin_state w"
  by (erule lifecycle_step.cases) (simp_all only: lifecycle_quiet, simp add: admin_state_def)

subsection \<open>Runs with a history\<close>

text \<open>
  A run records, for every transaction, the world it started in, the time, and the
  administrative instruction if it is one.
\<close>

type_synonym event = "world \<times> (u64 \<times> i64 \<times> u64) \<times> admin_instruction option"

inductive program_run :: "env \<Rightarrow> world \<Rightarrow> event list \<Rightarrow> world \<Rightarrow> bool" for E w0 where
  start: "program_run E w0 [] w0"
| admin: "program_run E w0 tr w \<Longrightarrow> exec_admin (at_time E now) i w = Inr w' \<Longrightarrow>
    program_run E w0 (tr @ [(w, now, Some i)]) w'"
| other: "program_run E w0 tr w \<Longrightarrow> lifecycle_step E w w' \<Longrightarrow>
    program_run E w0 (tr @ [(w, now, None)]) w'"

context timelock begin

definition untouched_by :: "pubkey \<Rightarrow> event \<Rightarrow> bool" where
  "untouched_by k ev \<longleftrightarrow> (case ev of (w, now, l) \<Rightarrow> \<forall>i. l = Some i \<longrightarrow> \<not> touches i k)"

text \<open>A waiting update was queued by the curator and its account left alone since.\<close>

lemma waiting_was_queued:
  assumes "program_run E w0 tr w" "pending w0 k = None" "pending w k = Some p"
  shows "\<exists>tr1 w1 now j tr2. tr = tr1 @ (w1, now, Some j) # tr2
    \<and> queues j = Some (k, pu_vault p, pu_args p) \<and> queued_by_curator (at_time E now) w1 p
    \<and> records w1 j p \<and> list_all (untouched_by k) tr2"
  using assms
proof (induction arbitrary: p)
  case (admin tr w now i w')
  show ?case
  proof (cases "touches i k")
    case True
    from present_after_touch [OF admin.hyps(2) True admin.prems(2)]
    show ?thesis by (intro exI [of _ tr] exI [of _ w] exI [of _ now] exI [of _ i] exI [of _ "[]"]) simp
  next
    case False
    with untouched [OF admin.hyps(2)] admin.prems(2) have "pending w k = Some p" by simp
    from admin.IH [OF admin.prems(1) this] obtain tr1 w1 n1 j tr2
      where "tr = tr1 @ (w1, n1, Some j) # tr2" "queues j = Some (k, pu_vault p, pu_args p)"
        "queued_by_curator (at_time E n1) w1 p" "records w1 j p" "list_all (untouched_by k) tr2" by blast
    moreover from this False have "list_all (untouched_by k) (tr2 @ [(w, now, Some i)])"
      "tr @ [(w, now, Some i)] = tr1 @ (w1, n1, Some j) # tr2 @ [(w, now, Some i)]"
      by (simp_all add: untouched_by_def)
    ultimately show ?thesis by blast
  qed
next
  case (other tr w w' now)
  then have "pending w k = Some p" using quiet_law [OF lifecycle_step_quiet] by metis
  from other.IH [OF other.prems(1) this] obtain tr1 w1 n1 j tr2
    where "tr = tr1 @ (w1, n1, Some j) # tr2" "queues j = Some (k, pu_vault p, pu_args p)"
      "queued_by_curator (at_time E n1) w1 p" "records w1 j p" "list_all (untouched_by k) tr2" by blast
  moreover from this have "list_all (untouched_by k) (tr2 @ [(w, now, None)])"
    "tr @ [(w, now, None)] = tr1 @ (w1, n1, Some j) # tr2 @ [(w, now, None)]"
    by (simp_all add: untouched_by_def)
  ultimately show ?case by blast
qed simp

text \<open>An executed update was announced by the curator still in office, at least the delay earlier.\<close>

lemma executed_was_announced:
  assumes "program_run E w0 tr w" "pending w0 k = None"
    and "exec_admin (at_time E now) i w = Inr w'" "executes i = Some k"
  shows "\<exists>p tr1 w1 now1 j tr2 v1 v. tr = tr1 @ (w1, now1, Some j) # tr2
    \<and> pending w k = Some p \<and> queues j = Some (k, pu_vault p, pu_args p)
    \<and> w_vaults w1 (pu_vault p) = Some v1 \<and> w_vaults w (pu_vault p) = Some v
    \<and> pu_queued_by p = v_curator v1 \<and> v_curator v1 = v_curator v
    \<and> 0 < v_timelock_delay_slots v1
    \<and> unat (fst now1) + unat (v_timelock_delay_slots v1) \<le> unat (fst now)
    \<and> records w1 j p \<and> list_all (untouched_by k) tr2"
proof -
  obtain p v where p: "pending w k = Some p" "w_vaults w (pu_vault p) = Some v"
    "pu_queued_by p = v_curator v" "pu_eta_slot p \<le> env_slot (at_time E now)"
    using execute_law [OF assms(3,4)] by (auto simp: ripe_def)
  obtain tr1 w1 now1 j tr2 where tr: "tr = tr1 @ (w1, now1, Some j) # tr2"
    "queues j = Some (k, pu_vault p, pu_args p)" "queued_by_curator (at_time E now1) w1 p"
    "records w1 j p" "list_all (untouched_by k) tr2"
    using waiting_was_queued [OF assms(1,2) p(1)] by blast
  have slot: "env_slot (at_time E n) = fst n" for n by (cases n) (simp add: at_time_def)
  obtain v1 where "w_vaults w1 (pu_vault p) = Some v1" "pu_queued_by p = v_curator v1"
    "0 < v_timelock_delay_slots v1"
    "unat (pu_eta_slot p) = unat (fst now1) + unat (v_timelock_delay_slots v1)"
    using tr(3) by (auto simp: queued_by_curator_def slot)
  moreover from this p have "unat (fst now1) + unat (v_timelock_delay_slots v1) \<le> unat (fst now)"
    "v_curator v1 = v_curator v"
    by (simp_all add: slot word_le_nat_alt)
  ultimately show ?thesis using p tr by blast
qed

end

subsection \<open>Settings change by announced updates only\<close>

text \<open>The change of a vault that an instruction announces, and who signs it.\<close>

definition announces :: "admin_instruction \<Rightarrow> (pubkey \<times> (vault \<Rightarrow> vault result)) option" where
  "announces i =
     (case i of
        Queue_vault_update a args \<Rightarrow> Some (qvu_vault a, \<lambda>v. apply_vault_update v args)
      | Queue_fee_update a args \<Rightarrow> Some (qfu_vault a, \<lambda>v. apply_fee_update v args)
      | Queue_extension_update a args \<Rightarrow> Some (qeu_vault a, \<lambda>v. apply_extension_update v args)
      | _ \<Rightarrow> None)"

text \<open>No instruction of the list works on the queue account \<open>q\<close>.\<close>

definition unused :: "update_queue \<times> pubkey \<Rightarrow> event list \<Rightarrow> bool" where
  "unused q tr \<longleftrightarrow> list_all (\<lambda>(w, now, l). case l of None \<Rightarrow> True | Some i \<Rightarrow> queue_account i \<noteq> Some q) tr"

lemma unused_simps:
  "list_all (vault_updates.untouched_by k) tr \<longleftrightarrow> unused (Vault_queue, k) tr"
  "list_all (fee_updates.untouched_by k) tr \<longleftrightarrow> unused (Fee_queue, k) tr"
  "list_all (extension_updates.untouched_by k) tr \<longleftrightarrow> unused (Extension_queue, k) tr"
  "list_all (policy_updates.untouched_by k) tr \<longleftrightarrow> unused (Policy_queue, k) tr"
  by (auto simp: unused_def list_all_iff vault_updates.untouched_by_def fee_updates.untouched_by_def
      extension_updates.untouched_by_def policy_updates.untouched_by_def touches_queue_account
      split: option.splits)

definition accepts_authority :: "admin_instruction \<Rightarrow> bool" where
  "accepts_authority i \<longleftrightarrow> (case i of Accept_authority_invitation a \<Rightarrow> True | _ \<Rightarrow> False)"

definition no_queued_updates :: "world \<Rightarrow> bool" where
  "no_queued_updates w \<longleftrightarrow>
     w_pending_vault_updates w = Map.empty \<and> w_pending_fee_updates w = Map.empty
     \<and> w_pending_extension_updates w = Map.empty \<and> w_pending_policy_updates w = Map.empty"

text \<open>A queue whose updates change a vault, by \<open>apply_args\<close>.\<close>

locale vault_timelock = timelock +
  fixes apply_args :: "'a \<Rightarrow> vault \<Rightarrow> vault result" and Q :: update_queue
  assumes executes_on_law:
      "executes i = Some q \<Longrightarrow> executes_on w i = map_option (\<lambda>p. (pu_vault p, apply_args (pu_args p))) (pending w q)"
    and announces_law: "queues i = Some (q, vk, args) \<Longrightarrow> announces i = Some (vk, apply_args args)"
    and touches_law: "touches i q \<longleftrightarrow> queue_account i = Some (Q, q)"
begin

lemma list_all_untouched: "list_all (untouched_by q) tr \<longleftrightarrow> unused (Q, q) tr"
  by (auto simp: unused_def list_all_iff untouched_by_def touches_law split: option.splits)

lemma executed_change_was_announced:
  assumes "program_run E w0 tr w" "pending w0 q = None"
    and i: "exec_admin (at_time E now) i w = Inr w'" "executes i = Some q" "executes_on w i = Some (k, f)"
    and v: "w_vaults w k = Some v"
  shows "\<exists>tr1 w1 now1 j tr2 v1. tr = tr1 @ (w1, now1, Some j) # tr2
    \<and> announces j = Some (k, f) \<and> queue_account j = queue_account i
    \<and> (\<exists>q. queue_account i = Some q \<and> unused q tr2)
    \<and> w_vaults w1 k = Some v1 \<and> v_curator v1 = v_curator v \<and> 0 < v_timelock_delay_slots v1
    \<and> unat (fst now1) + unat (v_timelock_delay_slots v1) \<le> unat (fst now)"
proof -
  obtain p tr1 w1 now1 j tr2 v1 v' where *: "tr = tr1 @ (w1, now1, Some j) # tr2"
    "pending w q = Some p" "queues j = Some (q, pu_vault p, pu_args p)"
    "w_vaults w1 (pu_vault p) = Some v1" "w_vaults w (pu_vault p) = Some v'"
    "v_curator v1 = v_curator v'" "0 < v_timelock_delay_slots v1"
    "unat (fst now1) + unat (v_timelock_delay_slots v1) \<le> unat (fst now)"
    "list_all (untouched_by q) tr2"
    using executed_was_announced [OF assms(1,2) i(1,2)] by blast
  have p: "pu_vault p = k" "f = apply_args (pu_args p)" using executes_on_law [OF i(2)] i(3) *(2) by auto
  then have "announces j = Some (k, f)" using announces_law [OF *(3)] by simp
  moreover have "queue_account i = Some (Q, q)" "queue_account j = Some (Q, q)"
    using touches_law i(2) *(3) by (auto simp: touches_def)
  ultimately show ?thesis using * p v list_all_untouched by (metis option.inject)
qed

end

interpretation vault_updates: vault_timelock w_pending_vault_updates
  vault_update_queues vault_update_executes vault_update_cancels "\<lambda>w i p. True"
  "\<lambda>args v. apply_vault_update v args" Vault_queue
  by unfold_locales
    (auto simp: queue_event_defs executes_on_def announces_def touches_queue_account
      split: admin_instruction.splits)

interpretation fee_updates: vault_timelock w_pending_fee_updates
  fee_update_queues fee_update_executes fee_update_cancels "\<lambda>w i p. True"
  "\<lambda>args v. apply_fee_update v args" Fee_queue
  by unfold_locales
    (auto simp: queue_event_defs executes_on_def announces_def touches_queue_account
      split: admin_instruction.splits)

interpretation extension_updates: vault_timelock w_pending_extension_updates
  extension_update_queues extension_update_executes extension_update_cancels "\<lambda>w i p. True"
  "\<lambda>args v. apply_extension_update v args" Extension_queue
  by unfold_locales
    (auto simp: queue_event_defs executes_on_def announces_def touches_queue_account
      split: admin_instruction.splits)

lemma executes_on_cases:
  assumes "executes_on w i = Some x"
  obtains q where "vault_update_executes i = Some q" | q where "fee_update_executes i = Some q"
    | q where "extension_update_executes i = Some q"
  using assms by (cases i) (auto simp: executes_on_def queue_event_defs)


subsection \<open>Policies change by announced updates only\<close>

lemma exec_admin_policies:
  assumes run: "exec_admin E i w = Inr w'" and sp: "w_policies w k = Some sp" "w_policies w' k = Some sp'"
    and v: "w_vaults w (sp_vault sp) = Some v" "0 < v_timelock_delay_slots v"
  shows "sp' = sp
    \<or> (\<exists>a. i = Pause_strategy_policy a \<and> psp_strategy_policy a = k
         \<and> (psp_authority a = v_curator v \<or> psp_authority a = v_breaker v)
         \<and> sp' = sp\<lparr>sp_paused := True, sp_version := sp_version sp'\<rparr>
         \<and> unat (sp_version sp') = unat (sp_version sp) + 1)
    \<or> (\<exists>a p. i = Execute_strategy_policy_update a \<and> esp_strategy_policy a = k
         \<and> w_pending_policy_updates w (esp_pending_update a) = Some p
         \<and> pspu_strategy_policy p = k \<and> pu_vault p = sp_vault sp
         \<and> pspu_expected_version p = sp_version sp
         \<and> apply_strategy_policy_update sp (pu_args p) = Inr sp')"
proof (cases i)
  case (Pause_strategy_policy a)
  with run sp v show ?thesis
    by (cases "psp_strategy_policy a = k")
      (auto simp: pause_strategy_policy_def res_simps policy_guard_defs checked_simps)
next
  case (Execute_strategy_policy_update a)
  with run sp v show ?thesis
    by (cases "esp_strategy_policy a = k") (auto simp: execute_strategy_policy_update_def res_simps)
next
  case (Update_strategy_policy a args)
  with run sp v show ?thesis
    by (cases "usp_strategy_policy a = k") (auto simp: update_strategy_policy_def res_simps)
next
  case (Close_strategy_policy a)
  with run sp v show ?thesis
    by (cases "csp_strategy_policy a = k") (auto simp: close_strategy_policy_def res_simps)
next
  case (Initialize_strategy_policy a s)
  with run sp v show ?thesis
    by (cases "isp_strategy_policy a = k") (auto simp: initialize_strategy_policy_def res_simps fresh_def)
qed (use run sp in \<open>force simp: setup_defs queued_update_defs res_simps
      queue_strategy_policy_update_def cancel_strategy_policy_update_def Let_def split: if_splits\<close>)+


subsection \<open>Configurations stay valid\<close>

lemma same_admin_vaults:
  assumes "admin_state w' = admin_state w" "w_vaults w' k = Some v'"
  obtains v where "w_vaults w k = Some v" "same_admin v' v"
proof -
  from assms(1) have "map_option (\<lambda>v. (timelocked_settings v, v_curator v, v_breaker v, v_tranche_config v))
      (w_vaults w' k) = map_option (\<lambda>v. (timelocked_settings v, v_curator v, v_breaker v, v_tranche_config v))
      (w_vaults w k)"
    unfolding admin_state_def prod.inject by meson
  with assms(2) that show thesis by (cases "w_vaults w k") (auto simp: same_admin_def)
qed

lemma lifecycle_step_valid_configs:
  assumes "lifecycle_step E w w'" "valid_configs w"
  shows "valid_configs w'"
  unfolding valid_configs_def
proof (intro allI impI)
  fix k v' assume "w_vaults w' k = Some v'"
  then obtain v where "w_vaults w k = Some v" "same_admin v' v"
    using same_admin_vaults [OF lifecycle_step_quiet [OF assms(1)]] by blast
  then show "Vault_validate_config v' = Inr ()"
    using Vault_validate_config_cong [of v' v] valid_configs_of [OF assms(2)] by (simp add: same_admin_def)
qed


subsection \<open>The office of the curator\<close>


subsection \<open>A run\<close>

text \<open>
  A vault with a timelock of 50 slots and a paused policy. At slot 100 the curator \<open>key 11\<close>
  queues a deposit cap and a root for the policy; from slot 150 on anyone may execute both.
\<close>

definition sample_policy :: StrategyPolicy where
  "sample_policy =
     \<lparr>sp_vault = key 20, sp_strategist = key 12, sp_merkle_root = replicate 32 0, sp_version = 0,
      sp_paused = True, sp_executing = False, sp_bump = 250\<rparr>"

definition timelock_world :: world where
  "timelock_world = sample_world
     \<lparr>w_vaults := [key 20 \<mapsto> sample_vault\<lparr>v_timelock_delay_slots := 50\<rparr>],
      w_policies := [key 23 \<mapsto> sample_policy]\<rparr>"

definition cap_update :: UpdateVaultArgs where
  "cap_update =
     \<lparr>uva_paused = None, uva_fee_recipient = None, uva_manager = None, uva_hot_manager = None,
      uva_fulfiller = None, uva_breaker = None, uva_nav_mode = None, uva_require_fresh_nav = None,
      uva_max_nav_delta_bps = None, uva_max_implied_apy_bps = None,
      uva_max_nav_staleness_slots = None, uva_deposit_cap = Some 9000000,
      uva_rolling_limit_window_slots = None, uva_manager_rolling_limit = None,
      uva_external_withdraw_rolling_limit = None, uva_redemption_rolling_limit = None,
      uva_timelock_delay_slots = None, uva_performance_fee_bps = None,
      uva_performance_fee_crystallization_interval_seconds = None, uva_protocol_fee_bps = None,
      uva_protocol_fee_recipient = None, uva_instant_redemption_fee_bps = None\<rparr>"

definition queue_cap :: admin_instruction where
  "queue_cap = Queue_vault_update
     \<lparr>qvu_authority = key 11, qvu_share_mint = key 2, qvu_vault = key 20, qvu_pending_update = key 60\<rparr>
     cap_update"

definition execute_cap :: admin_instruction where
  "execute_cap = Execute_vault_update \<lparr>evu_pending_update = key 60, evu_vault = key 20\<rparr>"

definition root_update :: StrategyPolicyUpdateArgs where
  "root_update = \<lparr>sua_merkle_root = key 77, sua_paused = False\<rparr>"

definition queue_root :: admin_instruction where
  "queue_root = Queue_strategy_policy_update
     \<lparr>qsp_authority = key 11, qsp_vault = key 20, qsp_strategy_policy = key 23, qsp_pending_update = key 61\<rparr>
     root_update"

definition execute_root :: admin_instruction where
  "execute_root = Execute_strategy_policy_update
     \<lparr>esp_vault = key 20, esp_strategy_policy = key 23, esp_pending_update = key 61\<rparr>"

definition queued_world :: world where
  "queued_world = timelock_world
     \<lparr>w_pending_vault_updates := [key 60 \<mapsto>
        \<lparr>pu_vault = key 20, pu_queued_by = key 11, pu_created_slot = 100, pu_eta_slot = 150,
         pu_args = cap_update\<rparr>],
      w_pending_policy_updates := [key 61 \<mapsto>
        \<lparr>pu_vault = key 20, pu_queued_by = key 11, pu_created_slot = 100, pu_eta_slot = 150,
         pu_args = root_update, pspu_strategy_policy = key 23, pspu_expected_version = 0\<rparr>]\<rparr>"

lemmas admin_eval =
  timelock_world_def queued_world_def sample_policy_def cap_update_def root_update_def
  queue_cap_def execute_cap_def queue_root_def execute_root_def at_time_def sample_world_defs
  vault_guard_defs load_def checked_eval init_account_def fresh_def seeds_with_bump_def close_def

definition slot_100 :: "u64 \<times> i64 \<times> u64" where "slot_100 = (100, 2000, 1)"
definition slot_150 :: "u64 \<times> i64 \<times> u64" where "slot_150 = (150, 2100, 1)"

lemma sample_queue_cap:
  "exec_admin (at_time sample_env slot_100) queue_cap timelock_world =
     Inr (queued_world\<lparr>w_pending_policy_updates := Map.empty\<rparr>)"
  by (simp add: admin_eval slot_100_def queue_vault_update_def validate_queued_vault_update_def
      validate_update_args_supported_def UpdateVaultArgs_has_timelocked_fields_def
      UpdateVaultArgs_has_pause_change_def require_some_def)

lemma key_zero: "key b = replicate 32 0 \<longleftrightarrow> b = 0" "replicate 32 0 = key b \<longleftrightarrow> b = 0"
  using key_default [of b] by (simp_all add: Pubkey_default_def)

lemma sample_queue_root:
  "exec_admin (at_time sample_env slot_100) queue_root (queued_world\<lparr>w_pending_policy_updates := Map.empty\<rparr>) =
     Inr queued_world"
  by (simp add: admin_eval slot_100_def queue_strategy_policy_update_def policy_account_def
      policy_seeds_def validate_strategy_policy_update_def key_zero)

lemma sample_execute_cap:
  "exec_admin (at_time sample_env slot_150) execute_cap queued_world =
     Inr (queued_world\<lparr>w_vaults := [key 20 \<mapsto> sample_vault\<lparr>v_timelock_delay_slots := 50, v_deposit_cap := 9000000\<rparr>],
       w_pending_vault_updates := Map.empty\<rparr>)"
  by (simp add: admin_eval slot_150_def execute_vault_update_def validate_queued_vault_update_def
      validate_update_args_supported_def UpdateVaultArgs_has_timelocked_fields_def
      UpdateVaultArgs_has_pause_change_def require_some_def apply_vault_update_def updated_vault_def
      Vault_validate_config_def Let_def)

lemma sample_execute_root:
  "exec_admin (at_time sample_env slot_150) execute_root queued_world =
     Inr (queued_world\<lparr>w_policies := [key 23 \<mapsto> sample_policy\<lparr>sp_merkle_root := key 77, sp_paused := False,
         sp_version := 1\<rparr>], w_pending_policy_updates := Map.empty\<rparr>)"
  by (simp add: admin_eval slot_150_def execute_strategy_policy_update_def policy_account_def
      policy_seeds_def validate_strategy_policy_update_def apply_strategy_policy_update_def
      policy_guard_defs key_zero)

definition sample_run :: "event list" where
  "sample_run =
     [(timelock_world, slot_100, Some queue_cap),
      (queued_world\<lparr>w_pending_policy_updates := Map.empty\<rparr>, slot_100, Some queue_root)]"

lemma sample_run: "program_run sample_env timelock_world sample_run queued_world"
  using program_run.admin [OF program_run.admin [OF program_run.start sample_queue_cap] sample_queue_root]
  by (simp add: sample_run_def)

lemma sample_run_starts_clean: "no_queued_updates timelock_world"
  by (simp add: no_queued_updates_def admin_eval)



lemma timelock_world_valid: "valid_configs timelock_world"
  by (simp add: valid_configs_def timelock_world_def Vault_validate_config_ok sample_vault_def MAX_BPS_def)



end
