(* ===== verification/Position_Frames.thy ===== *)
theory Position_Frames
  imports Position_Books Program_Runs Instant_Settlement
begin

text \<open>
  Requests, settlement, NAV updates, administration and instant settlement leave the positions
  and what the assets have deployed alone: one frame lemma per instruction, for the runs of the
  whole program.
\<close>

subsection \<open>Updates that keep the books of the positions\<close>

lemma identity_simps [simp]:
  "identity (v\<lparr>v_tlv := t\<rparr>) = identity v"
  "identity (v\<lparr>v_pending_async_requests := n\<rparr>) = identity v"
  "identity (v\<lparr>v_pending_deposit_amount := d\<rparr>) = identity v"
  "identity (v\<lparr>v_total_asset_balance := d\<rparr>) = identity v"
  "identity (v\<lparr>v_redemption_window_start_slot := s, v_redemption_window_amount := d\<rparr>) = identity v"
  "identity (v\<lparr>v_high_water_mark := m, v_last_fee_crystallization_timestamp := ts\<rparr>) = identity v"
  by (simp_all add: identity_eq)

lemma asset_ledger_put_opt:
  "opt_account m ko x \<Longrightarrow> map_option asset_key x' = map_option asset_key x \<Longrightarrow>
   asset_ledger (put_opt m ko x') = asset_ledger m"
  by (cases ko; cases x; cases x')
    (auto simp: asset_ledger_def put_opt_def opt_account_def asset_key_def fun_eq_iff)

lemma keeps_positions_vault:
  assumes "w_vaults w k = Some v" "identity v' = identity v" "w_vaults w' = (w_vaults w)(k \<mapsto> v')"
    and "w_positions w' = w_positions w" "w_vault_venues w' = w_vault_venues w"
    and "asset_ledger (w_vault_assets w') = asset_ledger (w_vault_assets w)"
  shows "keeps_positions w w'"
  using assms by (auto simp: keeps_positions_def vault_ids_def map_le_def)

lemma add_pending_deposit_asset:
  "add_pending_deposit b n v va = Inr (v', va') \<Longrightarrow>
     identity v' = identity v \<and> map_option asset_key va' = map_option asset_key va"
  by (auto simp: add_pending_deposit_def res_simps asset_key_def split: if_splits)

lemma release_pending_deposit_asset:
  "release_pending_deposit b n v va = Inr (v', va') \<Longrightarrow>
     identity v' = identity v \<and> map_option asset_key va' = map_option asset_key va"
  by (auto simp: release_pending_deposit_def res_simps asset_key_def split: if_splits)

lemma refund_deposit_asset:
  "refund_deposit E vk v m am va p u tp n L = Inr (v', va', L') \<Longrightarrow>
     identity v' = identity v \<and> map_option asset_key va' = map_option asset_key va"
  by (auto simp: refund_deposit_def Let_def res_simps dest!: release_pending_deposit_asset split: if_splits)

lemma refund_asset:
  "(case t of
      Deposit \<Rightarrow> refund_deposit E vk v m am va p u tp n L
    | Redeem \<Rightarrow> try_ok x (\<lambda>L. Inr (v, va, L))) = Inr (v', va', L') \<Longrightarrow>
   identity v' = identity v \<and> map_option asset_key va' = map_option asset_key va"
  by (auto simp: res_simps dest: refund_deposit_asset split: RequestType.splits)

lemma settle_asset:
  "account_deposit True d n v va = Inr (v', va') \<Longrightarrow> identity v' = identity v \<and> va' = va"
  "account_redeem True d v va = Inr (v', va') \<Longrightarrow> identity v' = identity v \<and> va' = va"
  by (auto simp: account_deposit_def account_redeem_def res_simps)

text \<open>Approvals of secondary assets fail.\<close>

lemma approval_is_primary:
  "assert_approval_accounts v va accts = Inr u \<Longrightarrow> Vault_is_primary_asset v (ar_asset_mint accts)"
  by (auto simp: assert_approval_accounts_def res_simps split: if_splits)

subsection \<open>Requests\<close>

lemma create_deposit_request_keeps:
  "create_deposit_request E accts ra args w = Inr w' \<Longrightarrow> keeps_positions w w'"
  apply (clarsimp simp: create_deposit_request_def res_simps Let_def)
  apply (drule add_pending_deposit_asset assign_queue_id_keeps tag_request_keeps)+
  apply clarsimp
  apply (rule keeps_positions_vault, assumption)
  apply (simp_all add: asset_ledger_put_opt)
  done

lemma create_redeem_request_keeps:
  "create_redeem_request E accts ra args w = Inr w' \<Longrightarrow> keeps_positions w w'"
  apply (clarsimp simp: create_redeem_request_def res_simps Let_def)
  apply (drule assign_queue_id_keeps tag_request_keeps)+
  apply clarsimp
  apply (rule keeps_positions_vault, assumption)
  apply (simp_all add: asset_ledger_put_opt)
  done

lemma cancel_request_keeps:
  "cancel_request E accts ra w = Inr w' \<Longrightarrow> keeps_positions w w'"
  apply (clarsimp simp: cancel_request_def res_simps Let_def)
  apply (drule refund_asset)
  apply (rule keeps_positions_vault, assumption)
  apply (simp_all add: asset_ledger_put_opt)
  done

lemma reject_request_keeps:
  "reject_request E accts ra args w = Inr w' \<Longrightarrow> keeps_positions w w'"
  apply (clarsimp simp: reject_request_def res_simps Let_def)
  apply (drule check_fifo_ordering_keeps refund_asset)+
  apply clarsimp
  apply (rule keeps_positions_vault, assumption)
  apply (simp_all add: asset_ledger_put_opt)
  done

lemma cancel_queued_deposit_request_keeps:
  "cancel_queued_deposit_request E accts ra w = Inr w' \<Longrightarrow> keeps_positions w w'"
  apply (clarsimp simp: cancel_queued_deposit_request_def res_simps Let_def)
  apply (drule release_pending_deposit_asset)
  apply (rule keeps_positions_vault, assumption)
  apply (simp_all add: asset_ledger_put_opt)
  done

lemma cancel_queued_redemption_request_keeps:
  "cancel_queued_redemption_request E accts ra w = Inr w' \<Longrightarrow> keeps_positions w w'"
  apply (clarsimp simp: cancel_queued_redemption_request_def res_simps Let_def)
  apply (rule keeps_positions_vault, assumption)
  apply (simp_all add: asset_ledger_put_opt)
  done

lemma skip_canceled_queue_request_keeps:
  "skip_canceled_queue_request E accts ra w = Inr w' \<Longrightarrow> keeps_positions w w'"
  apply (clarsimp simp: skip_canceled_queue_request_def res_simps Let_def)
  apply (drule check_fifo_ordering_keeps)
  apply clarsimp
  apply (rule keeps_positions_vault, assumption)
  apply (simp_all add: asset_ledger_put_opt)
  done

lemma claim_keeps: "claim E accts ra w = Inr w' \<Longrightarrow> keeps_positions w w'"
  by (auto simp: claim_def res_simps keeps_positions_def vault_ids_def)

lemma set_operator_keeps: "set_operator so w = Inr w' \<Longrightarrow> keeps_positions w w'"
  by (auto simp: set_operator_def res_simps keeps_positions_def vault_ids_def)

lemma update_nav_keeps:
  assumes "update_nav E accts ra nav w = Inr w'"
  shows "keeps_positions w w'"
  using assms
proof (rule update_nav_Inr, goal_cases)
  case (1 v v1 L n tcs)
  obtain mark ts where "v1 = v\<lparr>v_high_water_mark := mark, v_last_fee_crystallization_timestamp := ts\<rparr>"
    using maybe_crystallize_performance_fee_Inr(1) [OF 1(4)] by blast
  with 1 show ?case by (intro keeps_positions_vault [OF 1(1)]) (auto simp: identity_eq)
qed

lemma approve_request_keeps:
  "approve_request E accts ra args w = Inr w' \<Longrightarrow> keeps_positions w w'"
  apply (clarsimp simp: approve_request_def res_simps Let_def)
  apply (drule check_fifo_ordering_keeps approval_is_primary)+
  apply clarsimp
  apply (rule keeps_positions_vault, assumption)
  apply (auto simp: res_simps settle_redeem_request_def Vault_consume_redemption_rolling_limit_def Let_def
      intro!: asset_ledger_put_opt dest!: settle_asset split: RequestType.splits)
  done

lemmas lifecycle_keeps =
  create_deposit_request_keeps create_redeem_request_keeps set_operator_keeps
  approve_request_keeps reject_request_keeps claim_keeps cancel_request_keeps
  cancel_queued_deposit_request_keeps cancel_queued_redemption_request_keeps
  skip_canceled_queue_request_keeps update_nav_keeps

lemma lifecycle_step_keeps: "lifecycle_step E w w' \<Longrightarrow> keeps_positions w w'"
  by (erule lifecycle_step.cases; hypsubst; (erule lifecycle_keeps)?)
    (simp add: keeps_positions_def vault_ids_def)

subsection \<open>Instant settlement\<close>

lemma instant_deposit_keeps: "instant_deposit E accts ra amount w = Inr w' \<Longrightarrow> keeps_positions w w'"
  apply (clarsimp simp: instant_deposit_def res_simps)
  apply (rule keeps_positions_vault, assumption)
  apply simp_all
  done

lemma instant_redeem_keeps: "instant_redeem E accts ra shares w = Inr w' \<Longrightarrow> keeps_positions w w'"
  apply (clarsimp simp: instant_redeem_def res_simps)
  apply (rule keeps_positions_vault, assumption)
  apply (auto simp: Vault_consume_redemption_rolling_limit_def res_simps)
  done

subsection \<open>Administration\<close>

text \<open>What the books of requests and positions read of a vault.\<close>

definition books_part :: "vault \<Rightarrow> (pubkey \<times> pubkey \<times> pubkey \<times> pubkey \<times> u8) \<times> u16 \<times> u64" where
  "books_part v = (identity v, v_pending_async_requests v, v_pending_deposit_amount v)"

lemma books_part_simps [simp]:
  "books_part (v\<lparr>v_tlv := t\<rparr>) = books_part v"
  "books_part (v\<lparr>v_tlv := t, v_instant_redemption_fee_bps := fee\<rparr>) = books_part v"
  "books_part (v\<lparr>v_initialized := b\<rparr>) = books_part v"
  "books_part (v\<lparr>v_paused := b\<rparr>) = books_part v"
  "books_part (v\<lparr>v_pending_authority := a\<rparr>) = books_part v"
  "books_part (v\<lparr>v_tranche_config := c\<rparr>) = books_part v"
  "books_part (take_over new v) = books_part v"
  by (simp_all add: books_part_def identity_eq take_over_def Let_def)

lemma exec_extension_part: "exec_extension a i v = Inr v' \<Longrightarrow> books_part v' = books_part v"
  using exec_extension_changes by fastforce

lemma apply_update_part:
  "apply_fee_update v fargs = Inr v' \<Longrightarrow> books_part v' = books_part v"
  "apply_extension_update v eargs = Inr v' \<Longrightarrow> books_part v' = books_part v"
  "books_part (updated_vault vargs v) = books_part v"
  by (auto dest!: apply_fee_update_tlv apply_extension_update_tlv)
    (simp add: books_part_def identity_eq updated_vault_def)

lemma exec_admin_frame:
  assumes "exec_admin E i w = Inr w'"
  shows "w_requests w' = w_requests w \<and> w_positions w' = w_positions w
    \<and> w_vault_venues w' = w_vault_venues w \<and> w_vault_assets w' = w_vault_assets w"
  using assms
  by (cases i) (auto simp: setup_defs queued_update_defs policy_defs res_simps Let_def split: if_splits)

lemma exec_admin_part:
  assumes run: "exec_admin E i w = Inr w'" and v: "w_vaults w k = Some v"
  shows "\<exists>v'. w_vaults w' k = Some v' \<and> books_part v' = books_part v"
proof (cases i)
  case (Configure_extension vk a x)
  with run obtain v0 v1 where "w_vaults w vk = Some v0" "exec_extension a x v0 = Inr v1"
    "w_vaults w' = (w_vaults w)(vk \<mapsto> v1)" by (auto simp: configure_extension_def res_simps)
  with v exec_extension_part show ?thesis by (cases "vk = k") auto
next
  case (Execute_fee_update a)
  with run obtain v0 v1 args where "w_vaults w (efu_vault a) = Some v0" "apply_fee_update v0 args = Inr v1"
    "w_vaults w' = (w_vaults w)(efu_vault a \<mapsto> v1)" by (auto simp: execute_fee_update_def res_simps)
  with v apply_update_part show ?thesis by (cases "efu_vault a = k") auto
next
  case (Execute_extension_update a)
  with run obtain v0 v1 args where "w_vaults w (eeu_vault a) = Some v0" "apply_extension_update v0 args = Inr v1"
    "w_vaults w' = (w_vaults w)(eeu_vault a \<mapsto> v1)" by (auto simp: execute_extension_update_def res_simps)
  with v apply_update_part show ?thesis by (cases "eeu_vault a = k") auto
next
  case (Execute_vault_update a)
  with run v show ?thesis
    by (cases "evu_vault a = k") (auto simp: execute_vault_update_def res_simps apply_update_part)
next
  case (Update_vault a args)
  with run v show ?thesis
    by (cases "uv_vault a = k") (auto simp: update_vault_def res_simps apply_update_part split: if_splits)
next
  case (Accept_authority_invitation a)
  with run v show ?thesis
    by (cases "aai_vault a = k")
      (auto simp: accept_authority_invitation_def res_simps)
qed (use run v in \<open>auto simp: setup_defs queued_update_defs policy_defs res_simps Let_def fresh_def\<close>)

lemma exec_admin_keeps:
  assumes run: "exec_admin E i w = Inr w'"
  shows "keeps_positions w w'"
proof -
  have "vault_ids w' k = vault_ids w k" if "k \<in> dom (vault_ids w)" for k
    using that exec_admin_part [OF run]
    by (fastforce simp: vault_ids_def books_part_def)
  then show ?thesis using exec_admin_frame [OF run] by (simp add: keeps_positions_def map_le_def)
qed

end
