(* ===== verification/Merkle.thy ===== *)
theory Merkle
  imports Vault_State "HOL-Library.List_Lexorder" "HOL-Library.Char_ord"
begin

text \<open>
  Strategy policies as Merkle trees: the leaf and node hashes and the proof check of the program
  (\<open>utils/merkle.rs\<close>), and the hashes, the tree and the proofs of the Rust client
  (\<open>clients/rust/async_vault_v2/src/merkle_strategy_policy.rs\<close>). SHA-256 is an argument,
  \<open>hash\<close>; what is proved about forgery assumes that it has no collision on the strings that
  occur. Hashes and keys are lists of 32 bytes, ordered lexicographically as Rust orders arrays.
\<close>

definition STRATEGY_LEAF_DOMAIN :: bytes where
  "STRATEGY_LEAF_DOMAIN = ascii ''async-vault-v2/strategy-policy-leaf/v1''"

definition STRATEGY_NODE_DOMAIN :: bytes where
  "STRATEGY_NODE_DOMAIN = ascii ''async-vault-v2/strategy-policy-node/v1''"

definition MAX_MERKLE_PROOF_DEPTH :: nat where "MAX_MERKLE_PROOF_DEPTH = 12"
definition MAX_POLICY_OPERATORS :: nat where "MAX_POLICY_OPERATORS = 32"
definition MAX_POLICY_INGESTED_INSTRUCTION_BYTES :: nat where
  "MAX_POLICY_INGESTED_INSTRUCTION_BYTES = 2048"
definition MAX_MANAGE_CPI_ACCOUNTS :: nat where "MAX_MANAGE_CPI_ACCOUNTS = 64"
definition MAX_MANAGE_IX_DATA_LEN :: nat where "MAX_MANAGE_IX_DATA_LEN = 1024"
definition MAX_POLICY_LEAVES :: nat where "MAX_POLICY_LEAVES = 2 ^ 12"

subsection \<open>Leaves\<close>

datatype PolicyOperator =
    IngestInstruction u16 u16 \<comment> \<open>offset, length\<close>
  | IngestAccount u8 \<comment> \<open>index\<close>
  | ManagerLimitAmount u16 \<comment> \<open>offset\<close>

record PolicyAccountMeta =
  pam_key :: pubkey
  pam_is_signer :: bool
  pam_is_writable :: bool

record StrategyLeaf =
  sl_vault :: pubkey
  sl_strategist :: pubkey
  sl_policy_version :: u64
  sl_target_program :: pubkey
  sl_instruction_data :: bytes
  sl_accounts :: "PolicyAccountMeta list"
  sl_operators :: "PolicyOperator list"

text \<open>\<open>u8::from(b)\<close>\<close>

definition u8_from_bool :: "bool \<Rightarrow> u8" where
  "u8_from_bool b = (if b then 1 else 0)"

text \<open>
  The loop over the operators, with its three mutable variables: the bytes to hash, the amount
  found and the number of ingested instruction bytes. A \<open>usize\<close> is a \<open>nat\<close>; the sums of two
  \<open>u16\<close> values and of at most 32 lengths of at most 1024 bytes stay far below its bound.
\<close>

fun hash_operators ::
  "bytes \<Rightarrow> PolicyAccountMeta list \<Rightarrow> PolicyOperator list \<Rightarrow> bytes \<Rightarrow> u64 option \<Rightarrow> nat \<Rightarrow>
   (bytes \<times> u64 option) result" where
  "hash_operators data accounts [] bytes manager_limit_amount ingested = Inr (bytes, manager_limit_amount)"
| "hash_operators data accounts (IngestInstruction offset len # ops) bytes manager_limit_amount ingested =
     require (len > 0) (Vault_Err InvalidPolicyOperator) (
     let from = unat offset; to = from + unat len in
     ok_or (get_range data from to) (Vault_Err PolicyOperatorOutOfBounds) (\<lambda>selected.
     let ingested = ingested + length selected in
     require (ingested \<le> MAX_POLICY_INGESTED_INSTRUCTION_BYTES) (Vault_Err PolicyIngestionLimitExceeded) (
     hash_operators data accounts ops
       (bytes @ [0] @ u16_to_le offset @ u16_to_le len @ selected) manager_limit_amount ingested)))"
| "hash_operators data accounts (IngestAccount index # ops) bytes manager_limit_amount ingested =
     ok_or (get_at accounts (unat index)) (Vault_Err PolicyOperatorOutOfBounds) (\<lambda>account.
     hash_operators data accounts ops
       (bytes @ [1] @ [index] @ pam_key account @ [u8_from_bool (pam_is_signer account)]
          @ [u8_from_bool (pam_is_writable account)]) manager_limit_amount ingested)"
| "hash_operators data accounts (ManagerLimitAmount offset # ops) bytes manager_limit_amount ingested =
     require (manager_limit_amount = None) (Vault_Err DuplicateManagerLimitOperator) (
     let from = unat offset; to = from + 8 in
     ok_or (get_range data from to) (Vault_Err PolicyOperatorOutOfBounds) (\<lambda>raw.
     hash_operators data accounts ops (bytes @ [2] @ u16_to_le offset) (Some (u64_from_le raw)) ingested))"

definition hash_strategy_leaf ::
  "(bytes \<Rightarrow> bytes) \<Rightarrow> pubkey \<Rightarrow> StrategyLeaf \<Rightarrow> (bytes \<times> u64 option) result" where
  "hash_strategy_leaf hash program_id input =
     require (length (sl_instruction_data input) \<ge> 8) (Vault_Err InvalidVenueInstruction) (
     require (length (sl_instruction_data input) \<le> MAX_MANAGE_IX_DATA_LEN) (Vault_Err InstructionDataTooLarge) (
     require (length (sl_accounts input) \<le> MAX_MANAGE_CPI_ACCOUNTS) (Vault_Err TooManyCpiAccounts) (
     require (length (sl_operators input) \<le> MAX_POLICY_OPERATORS) (Vault_Err InvalidPolicyOperator) (
     ok_or (u_of_nat (length (sl_instruction_data input)) :: u32 option) (Vault_Err InstructionDataTooLarge) (\<lambda>instruction_len.
     ok_or (u_of_nat (length (sl_accounts input)) :: u16 option) (Vault_Err TooManyCpiAccounts) (\<lambda>account_count.
     ok_or (u_of_nat (length (sl_operators input)) :: u8 option) (Vault_Err InvalidPolicyOperator) (\<lambda>operator_count.
     let bytes = STRATEGY_LEAF_DOMAIN @ program_id @ sl_vault input @ sl_strategist input
                 @ u64_to_le (sl_policy_version input) @ sl_target_program input
                 @ take 8 (sl_instruction_data input) @ u32_to_le instruction_len
                 @ u16_to_le account_count @ [operator_count]
     in try_ok (hash_operators (sl_instruction_data input) (sl_accounts input) (sl_operators input)
                  bytes None 0) (\<lambda>(bytes, manager_limit_amount).
        Inr (hash bytes, manager_limit_amount)))))))))"

subsection \<open>Nodes and proofs\<close>

definition hash_strategy_node :: "(bytes \<Rightarrow> bytes) \<Rightarrow> bytes \<Rightarrow> bytes \<Rightarrow> bytes" where
  "hash_strategy_node hash left right =
     (let (left, right) = (if left \<le> right then (left, right) else (right, left))
      in hash (STRATEGY_NODE_DOMAIN @ left @ right))"

definition verify_strategy_proof :: "(bytes \<Rightarrow> bytes) \<Rightarrow> bytes \<Rightarrow> bytes list \<Rightarrow> bytes \<Rightarrow> unit result" where
  "verify_strategy_proof hash leaf proof_path root =
     require (length proof_path \<le> MAX_MERKLE_PROOF_DEPTH) (Vault_Err MerkleProofTooDeep) (
     let computed = foldl (hash_strategy_node hash) leaf proof_path
     in require (computed = root) (Vault_Err MerkleProofInvalid) (
        Inr ()))"

subsection \<open>The client\<close>

datatype StrategyPolicyHashError =
    InvalidInstructionData | TooManyAccounts | TooManyOperators | OperatorOutOfBounds
  | EmptyInstructionRange | DuplicateManagerLimitAmount | IngestionLimitExceeded | EmptyTree
  | TreeTooLarge | LeafIndexOutOfBounds

definition normalize_policy_accounts :: "pubkey \<Rightarrow> PolicyAccountMeta list \<Rightarrow> PolicyAccountMeta list" where
  "normalize_policy_accounts vault accounts =
     map (\<lambda>account. \<lparr>pam_key = pam_key account,
            pam_is_signer = (pam_is_signer account \<or> pam_key account = vault),
            pam_is_writable = (pam_is_writable account \<and> pam_key account \<noteq> vault)\<rparr>) accounts"

fun client_hash_operators ::
  "bytes \<Rightarrow> PolicyAccountMeta list \<Rightarrow> PolicyOperator list \<Rightarrow> bytes \<Rightarrow> bool \<Rightarrow> nat \<Rightarrow>
   StrategyPolicyHashError + bytes" where
  "client_hash_operators data accounts [] bytes has_manager_limit_amount ingested = Inr bytes"
| "client_hash_operators data accounts (IngestInstruction offset len # ops) bytes has_manager_limit_amount ingested =
     (if len = 0 then Inl EmptyInstructionRange
      else
        let from = unat offset; to = from + unat len in
        ok_or (get_range data from to) OperatorOutOfBounds (\<lambda>selected.
        let ingested = ingested + length selected in
        if ingested > MAX_POLICY_INGESTED_INSTRUCTION_BYTES then Inl IngestionLimitExceeded
        else client_hash_operators data accounts ops
          (bytes @ [0] @ u16_to_le offset @ u16_to_le len @ selected) has_manager_limit_amount ingested))"
| "client_hash_operators data accounts (IngestAccount index # ops) bytes has_manager_limit_amount ingested =
     ok_or (get_at accounts (unat index)) OperatorOutOfBounds (\<lambda>account.
     client_hash_operators data accounts ops
       (bytes @ [1] @ [index] @ pam_key account @ [u8_from_bool (pam_is_signer account)]
          @ [u8_from_bool (pam_is_writable account)]) has_manager_limit_amount ingested)"
| "client_hash_operators data accounts (ManagerLimitAmount offset # ops) bytes has_manager_limit_amount ingested =
     (if has_manager_limit_amount then Inl DuplicateManagerLimitAmount
      else
        let from = unat offset; to = from + 8 in
        ok_or (get_range data from to) OperatorOutOfBounds (\<lambda>_.
        client_hash_operators data accounts ops (bytes @ [2] @ u16_to_le offset) True ingested))"

definition hash_strategy_policy_leaf ::
  "(bytes \<Rightarrow> bytes) \<Rightarrow> pubkey \<Rightarrow> StrategyLeaf \<Rightarrow> StrategyPolicyHashError + bytes" where
  "hash_strategy_policy_leaf hash program_address input =
     (if \<not> (8 \<le> length (sl_instruction_data input)
            \<and> length (sl_instruction_data input) \<le> MAX_MANAGE_IX_DATA_LEN)
      then Inl InvalidInstructionData
      else if length (sl_accounts input) > MAX_MANAGE_CPI_ACCOUNTS then Inl TooManyAccounts
      else if length (sl_operators input) > MAX_POLICY_OPERATORS then Inl TooManyOperators
      else
        let bytes = STRATEGY_LEAF_DOMAIN @ program_address @ sl_vault input @ sl_strategist input
                    @ u64_to_le (sl_policy_version input) @ sl_target_program input
                    @ take 8 (sl_instruction_data input)
                    @ u32_to_le (word_of_nat (length (sl_instruction_data input)))
                    @ u16_to_le (word_of_nat (length (sl_accounts input)))
                    @ [word_of_nat (length (sl_operators input))]
        in try_ok (client_hash_operators (sl_instruction_data input) (sl_accounts input)
                     (sl_operators input) bytes False 0) (\<lambda>bytes.
           Inr (hash bytes)))"

definition hash_strategy_policy_node :: "(bytes \<Rightarrow> bytes) \<Rightarrow> bytes \<Rightarrow> bytes \<Rightarrow> bytes" where
  "hash_strategy_policy_node hash first second =
     (let (lower, upper) = (if first \<le> second then (first, second) else (second, first))
      in hash (STRATEGY_NODE_DOMAIN @ lower @ upper))"

record StrategyPolicyMerkleTree =
  smt_leaves :: "bytes list"
  smt_levels :: "bytes list list"
  smt_root :: bytes

text \<open>\<open>current.chunks(2)\<close>, hashed pairwise; an odd last element is paired with itself.\<close>

fun next_level :: "(bytes \<Rightarrow> bytes) \<Rightarrow> bytes list \<Rightarrow> bytes list" where
  "next_level hash [] = []"
| "next_level hash [a] = [hash_strategy_policy_node hash a a]"
| "next_level hash (a # b # rest) = hash_strategy_policy_node hash a b # next_level hash rest"

lemma length_next_level: "length (next_level hash xs) = (length xs + 1) div 2"
  by (induction hash xs rule: next_level.induct) auto

function tree_levels :: "(bytes \<Rightarrow> bytes) \<Rightarrow> bytes list \<Rightarrow> bytes list list" where
  "tree_levels hash current =
     (if length current > 1 then current # tree_levels hash (next_level hash current) else [current])"
  by pat_completeness auto
termination
  by (relation "measure (\<lambda>(_, current). length current)") (auto simp: length_next_level)

declare tree_levels.simps [simp del]

definition build_strategy_policy_merkle_tree ::
  "(bytes \<Rightarrow> bytes) \<Rightarrow> bytes list \<Rightarrow> StrategyPolicyHashError + StrategyPolicyMerkleTree" where
  "build_strategy_policy_merkle_tree hash leaves =
     (if leaves = [] then Inl EmptyTree
      else if length leaves > MAX_POLICY_LEAVES then Inl TreeTooLarge
      else
        let leaves = sort leaves; levels = tree_levels hash leaves
        in Inr \<lparr>smt_leaves = leaves, smt_levels = levels, smt_root = hd (last levels)\<rparr>)"

fun proof_siblings :: "bytes list list \<Rightarrow> nat \<Rightarrow> bytes list" where
  "proof_siblings [] index = []"
| "proof_siblings (level # levels) index =
     (if even index
      then (case get_at level (index + 1) of Some sibling \<Rightarrow> sibling | None \<Rightarrow> level ! index)
      else level ! (index - 1)) # proof_siblings levels (index div 2)"

definition strategy_policy_proof ::
  "StrategyPolicyMerkleTree \<Rightarrow> nat \<Rightarrow> StrategyPolicyHashError + bytes list" where
  "strategy_policy_proof tree sorted_leaf_index =
     (if sorted_leaf_index \<ge> length (smt_leaves tree) then Inl LeafIndexOutOfBounds
      else Inr (proof_siblings (take (length (smt_levels tree) - 1) (smt_levels tree)) sorted_leaf_index))"

subsection \<open>The client's proofs verify\<close>

lemma node_eq: "hash_strategy_policy_node hash a b = hash_strategy_node hash a b"
  by (simp add: hash_strategy_policy_node_def hash_strategy_node_def)

lemma node_commute: "hash_strategy_node hash a b = hash_strategy_node hash b a"
  by (auto simp: hash_strategy_node_def)

lemma next_level_nth:
  "i < length xs \<Longrightarrow> next_level hash xs ! (i div 2) =
     hash_strategy_node hash (xs ! i)
       (if even i then (case get_at xs (i + 1) of Some s \<Rightarrow> s | None \<Rightarrow> xs ! i) else xs ! (i - 1))"
proof (induction hash xs arbitrary: i rule: next_level.induct)
  case (2 hash a)
  then show ?case by (simp add: node_eq get_at_def)
next
  case (3 hash a b rest)
  show ?case
  proof (cases "i < 2")
    case True
    then have "i = 0 \<or> i = 1" by auto
    then show ?thesis by (auto simp: node_eq node_commute [of _ a b] get_at_def)
  next
    case False
    then obtain j where j: "i = Suc (Suc j)" by (metis add_2_eq_Suc less_eqE not_less)
    with 3 show ?thesis by (auto simp: get_at_def nth_Cons_pos odd_pos)
  qed
qed simp

lemma tree_levels_nonempty [simp]: "tree_levels hash xs \<noteq> []"
  by (subst tree_levels.simps) simp

lemma proof_climbs:
  "i < length xs \<Longrightarrow>
   foldl (hash_strategy_node hash) (xs ! i)
     (proof_siblings (take (length (tree_levels hash xs) - 1) (tree_levels hash xs)) i)
   = hd (last (tree_levels hash xs))"
proof (induction hash xs arbitrary: i rule: tree_levels.induct)
  case (1 hash xs)
  show ?case
  proof (cases "length xs > 1")
    case False
    with 1(2) obtain x where "xs = [x]" "i = 0" by (cases xs) auto
    then show ?thesis by (simp add: tree_levels.simps)
  next
    case True
    let ?ys = "next_level hash xs"
    have i: "i div 2 < length ?ys" using 1(2) by (auto simp: length_next_level)
    have levels: "tree_levels hash xs = xs # tree_levels hash ?ys"
      using True by (subst tree_levels.simps) simp
    obtain k where k: "length (tree_levels hash ?ys) = Suc k"
      by (cases "tree_levels hash ?ys") auto
    show ?thesis
      using 1(1) [OF True i] next_level_nth [OF 1(2), of hash]
      by (simp add: levels k)
  qed
qed

lemma length_tree_levels: "length xs \<le> 2 ^ k \<Longrightarrow> length (tree_levels hash xs) \<le> Suc k"
proof (induction k arbitrary: xs)
  case 0
  then show ?case by (subst tree_levels.simps) simp
next
  case (Suc k)
  show ?case
  proof (cases "length xs > 1")
    case True
    from Suc.prems have "length (next_level hash xs) \<le> 2 ^ k" by (simp add: length_next_level)
    from Suc.IH [OF this] True show ?thesis by (subst tree_levels.simps) simp
  next
    case False
    then show ?thesis by (subst tree_levels.simps) simp
  qed
qed

lemma length_proof_siblings [simp]: "length (proof_siblings levels i) = length levels"
  by (induction levels i rule: proof_siblings.induct) auto

text \<open>
  C28. Every proof the client builds is accepted on chain: for each leaf of a tree the client
  builds, from up to 4096 leaves, it returns a proof, and the program's check accepts the leaf
  with that proof against the root.
\<close>

theorem client_proof_verifies:
  assumes tree: "build_strategy_policy_merkle_tree hash leaves = Inr tree" and leaf: "leaf \<in> set leaves"
  shows "\<exists>i proof_path. smt_leaves tree ! i = leaf \<and> strategy_policy_proof tree i = Inr proof_path
    \<and> verify_strategy_proof hash leaf proof_path (smt_root tree) = Inr ()"
proof -
  from tree have few: "length leaves \<le> 2 ^ 12"
    and t: "tree = \<lparr>smt_leaves = sort leaves, smt_levels = tree_levels hash (sort leaves),
      smt_root = hd (last (tree_levels hash (sort leaves)))\<rparr>"
    by (auto simp: build_strategy_policy_merkle_tree_def Let_def MAX_POLICY_LEAVES_def split: if_splits)
  from leaf obtain i where i: "i < length (sort leaves)" "sort leaves ! i = leaf"
    by (metis in_set_conv_nth set_sort)
  let ?levels = "tree_levels hash (sort leaves)"
  let ?path = "proof_siblings (take (length ?levels - 1) ?levels) i"
  have "length ?levels \<le> Suc 12" by (rule length_tree_levels) (use few in simp)
  then have "length ?path \<le> MAX_MERKLE_PROOF_DEPTH" by (simp add: MAX_MERKLE_PROOF_DEPTH_def)
  with proof_climbs [OF i(1), of hash] i(2)
  have "verify_strategy_proof hash leaf ?path (smt_root tree) = Inr ()"
    by (simp add: verify_strategy_proof_def t)
  moreover have "strategy_policy_proof tree i = Inr ?path"
    using i(1) by (simp add: strategy_policy_proof_def t)
  moreover have "smt_leaves tree ! i = leaf" by (simp add: t i(2))
  ultimately show ?thesis by blast
qed

theorem client_proof_verifies_witness:
  "\<exists>tree i proof_path. smt_leaves tree ! i = replicate 32 2 \<and> strategy_policy_proof tree i = Inr proof_path
    \<and> verify_strategy_proof rev (replicate 32 2) proof_path (smt_root tree) = Inr ()"
proof -
  obtain tree where tree: "build_strategy_policy_merkle_tree rev
      [replicate 32 3, replicate 32 1, replicate 32 2] = Inr tree"
    by (simp add: build_strategy_policy_merkle_tree_def Let_def MAX_POLICY_LEAVES_def)
  from client_proof_verifies [OF tree, of "replicate 32 2"] show ?thesis by simp blast
qed

subsection \<open>Both sides hash the same leaf\<close>

text \<open>The program's result is the client's hash and an amount, when either accepts the leaf.\<close>

lemma client_hash_operators_agrees:
  "client_hash_operators data accounts ops bytes (amount \<noteq> None) n = Inr bs \<longleftrightarrow>
   (\<exists>amount'. hash_operators data accounts ops bytes amount n = Inr (bs, amount'))"
proof (induction ops arbitrary: bytes amount n)
  case (Cons op ops)
  show ?case
  proof (cases op)
    case (IngestInstruction offset len)
    then show ?thesis
      using Cons.IH
      by (cases "get_range data (unat offset) (unat offset + unat len)")
        (auto simp: Let_def res_simps not_le word_neq_0_conv split: if_splits)
  next
    case (IngestAccount index)
    then show ?thesis using Cons.IH by (auto simp: res_simps)
  next
    case (ManagerLimitAmount offset)
    then show ?thesis
      using Cons.IH [of _ "Some _"] by (auto simp: Let_def res_simps split: if_splits)
  qed
qed auto

lemma leaf_hashes_agree_lemma:
  "hash_strategy_policy_leaf hash program_id input = Inr h \<longleftrightarrow>
   (\<exists>amount. hash_strategy_leaf hash program_id input = Inr (h, amount))"
proof -
  let ?data = "sl_instruction_data input" and ?ops = "sl_operators input"
  show ?thesis
  proof (cases "8 \<le> length ?data \<and> length ?data \<le> MAX_MANAGE_IX_DATA_LEN
      \<and> length (sl_accounts input) \<le> MAX_MANAGE_CPI_ACCOUNTS \<and> length ?ops \<le> MAX_POLICY_OPERATORS")
    case True
    then have "u_of_nat (length ?data) = Some (word_of_nat (length ?data) :: u32)"
      "u_of_nat (length (sl_accounts input)) = Some (word_of_nat (length (sl_accounts input)) :: u16)"
      "u_of_nat (length ?ops) = Some (word_of_nat (length ?ops) :: u8)"
      by (simp_all add: u_of_nat_def MAX_MANAGE_IX_DATA_LEN_def MAX_MANAGE_CPI_ACCOUNTS_def
          MAX_POLICY_OPERATORS_def)
    with True client_hash_operators_agrees [of ?data "sl_accounts input" ?ops _ None 0] show ?thesis
      by (auto simp: hash_strategy_policy_leaf_def hash_strategy_leaf_def Let_def res_simps)
  next
    case False
    then show ?thesis
      by (auto simp: hash_strategy_policy_leaf_def hash_strategy_leaf_def Let_def res_simps)
  qed
qed

text \<open>
  C29. The leaf the client puts into a policy is the leaf the program recomputes: for the same
  vault, strategist, version, target, instruction, accounts and operators one accepts the leaf
  exactly when the other does, and the hashes are equal.
\<close>

theorem leaf_hashes_agree:
  "hash_strategy_policy_leaf hash program_id input = Inr h \<longleftrightarrow>
   (\<exists>amount. hash_strategy_leaf hash program_id input = Inr (h, amount))"
  by (rule leaf_hashes_agree_lemma)

end
