(* ===== verification/Managed_Calls.thy ===== *)
theory Managed_Calls
  imports Strategy_Policy Venues Merkle
begin

text \<open>
  \<open>manage_vault_with_merkle_verification\<close>: a strategist runs one instruction of an approved venue
  with the vault's signature, if the policy's Merkle tree commits to it. The invoked program is
  not code of this repository: \<open>invoke\<close> takes its id, the account metas, the instruction data and
  the account infos it is called with, and maps the world to an error or the next world.
\<close>

record ManageVaultWithMerkleVerificationArgs =
  mva_policy_version :: u64
  mva_instruction_data :: bytes
  mva_operators :: "PolicyOperator list"
  mva_proof :: "bytes list"

record ManageVaultWithMerkleVerification =
  mv_strategist :: pubkey
  mv_share_mint :: pubkey
  mv_vault :: pubkey
  mv_venue_entry :: pubkey
  mv_vault_venue :: pubkey
  mv_strategy_policy :: pubkey
  mv_target_program :: account_info

type_synonym cpi =
  "pubkey \<Rightarrow> PolicyAccountMeta list \<Rightarrow> bytes \<Rightarrow> account_info list \<Rightarrow> world \<Rightarrow> world result"

text \<open>The accounts as the policy and the invoked program see them: the vault signs and is read-only.\<close>

definition policy_account_meta :: "pubkey \<Rightarrow> account_info \<Rightarrow> PolicyAccountMeta" where
  "policy_account_meta vault_key account =
     \<lparr>pam_key = ai_key account,
      pam_is_signer = (ai_is_signer account \<or> ai_key account = vault_key),
      pam_is_writable = (ai_is_writable account \<and> ai_key account \<noteq> vault_key)\<rparr>"

definition strategy_leaf_of ::
  "ManageVaultWithMerkleVerification \<Rightarrow> ManageVaultWithMerkleVerificationArgs \<Rightarrow>
   PolicyAccountMeta list \<Rightarrow> StrategyLeaf" where
  "strategy_leaf_of accts args policy_accounts =
     \<lparr>sl_vault = mv_vault accts, sl_strategist = mv_strategist accts,
      sl_policy_version = mva_policy_version args,
      sl_target_program = ai_key (mv_target_program accts),
      sl_instruction_data = mva_instruction_data args, sl_accounts = policy_accounts,
      sl_operators = mva_operators args\<rparr>"

text \<open>The checks on the strategist, the policy, the venue and the target program.\<close>

definition assert_call_allowed ::
  "env \<Rightarrow> ManageVaultWithMerkleVerification \<Rightarrow> ManageVaultWithMerkleVerificationArgs \<Rightarrow> vault \<Rightarrow>
   StrategyPolicy \<Rightarrow> VenueEntry \<Rightarrow> VaultVenue \<Rightarrow> account_info list \<Rightarrow> unit result" where
  "assert_call_allowed E accts args v sp ve vv remaining_accounts =
     try_ok (Vault_assert_unpaused_and_initialized v) (\<lambda>_.
     try_ok (StrategyPolicy_assert_bound sp (mv_vault accts) (mv_strategist accts)) (\<lambda>_.
     try_ok (StrategyPolicy_assert_active sp) (\<lambda>_.
     require (mva_policy_version args = sp_version sp) (Vault_Err StaleStrategyPolicyVersion) (
     try_ok (VenueEntry_assert_active ve) (\<lambda>_.
     try_ok (VaultVenue_assert_active vv) (\<lambda>_.
     try_ok (VaultVenue_assert_manager_authorized vv v (mv_strategist accts)) (\<lambda>_.
     let target_program = ai_key (mv_target_program accts) in
     require (target_program = ve_target_program ve) (Vault_Err TargetProgramMismatch) (
     require (target_program = vv_target_program vv) (Vault_Err TargetProgramMismatch) (
     require (ai_executable (mv_target_program accts)) (Vault_Err TargetProgramNotExecutable) (
     require (target_program \<noteq> env_program_id E) (Vault_Err UnsafeTargetProgram) (
     require (length (mva_instruction_data args) \<le> MAX_MANAGE_IX_DATA_LEN) (Vault_Err InstructionDataTooLarge) (
     require (length remaining_accounts \<le> MAX_MANAGE_CPI_ACCOUNTS) (Vault_Err TooManyCpiAccounts) (
     VenueEntry_assert_instruction_allowed ve (mva_instruction_data args))))))))))))))"

text \<open>
  The policy and the vault are written before the call, so that the invoked program sees the
  \<open>executing\<close> flag and the consumed limit, and again from memory after it, as Anchor does at the
  exit of the instruction.
\<close>

definition manage_vault_with_merkle_verification ::
  "env \<Rightarrow> cpi \<Rightarrow> ManageVaultWithMerkleVerification \<Rightarrow> account_info list \<Rightarrow>
   ManageVaultWithMerkleVerificationArgs \<Rightarrow> world \<Rightarrow> world result" where
  "manage_vault_with_merkle_verification E invoke accts remaining_accounts args w =
     load (l_mints (w_ledger w)) (mv_share_mint accts) (\<lambda>share_mint.
     load (w_vaults w) (mv_vault accts) (\<lambda>v.
     require (mv_share_mint accts = v_share_mint v) (Vault_Err InvalidShareMint) (
     seeds_with_bump E [VAULT_CONFIG_SEED, mv_share_mint accts] (v_bump v) (mv_vault accts) (
     load (w_venue_entries w) (mv_venue_entry accts) (\<lambda>ve.
     vault_venue_account E w (mv_vault accts) (mv_venue_entry accts) (mv_vault_venue accts) (\<lambda>vv.
     load (w_policies w) (mv_strategy_policy accts) (\<lambda>sp.
     seeds_with_bump E (policy_seeds (mv_vault accts) (mv_strategist accts)) (sp_bump sp)
       (mv_strategy_policy accts) (
     require (sp_vault sp = mv_vault accts) (Vault_Err InvalidStrategyPolicy) (
     require (sp_strategist sp = mv_strategist accts) (Vault_Err InvalidStrategyPolicy) (
     try_ok (assert_call_allowed E accts args v sp ve vv remaining_accounts) (\<lambda>_.
     let policy_accounts = map (policy_account_meta (mv_vault accts)) remaining_accounts in
     try_ok (hash_strategy_leaf (env_hash E) (env_program_id E)
       (strategy_leaf_of accts args policy_accounts)) (\<lambda>(leaf, manager_limit_amount).
     try_ok (verify_strategy_proof (env_hash E) leaf (mva_proof args) (sp_merkle_root sp)) (\<lambda>_.
     try_ok
       (case manager_limit_amount of
          Some amount \<Rightarrow> Vault_consume_manager_rolling_limit v amount (env_slot E)
        | None \<Rightarrow> Inr v) (\<lambda>v.
     let share_supply_before = mint_supply share_mint;
         w' = w\<lparr>w_policies := (w_policies w)(mv_strategy_policy accts \<mapsto> sp\<lparr>sp_executing := True\<rparr>),
                w_vaults := (w_vaults w)(mv_vault accts \<mapsto> v)\<rparr> in
     try_ok (signed_by E [VAULT_CONFIG_SEED, mv_share_mint accts, [v_bump v]] (mv_vault accts)
       (invoke (ai_key (mv_target_program accts)) policy_accounts (mva_instruction_data args)
         (remaining_accounts @ [mv_target_program accts]) w')) (\<lambda>w'.
     load (l_mints (w_ledger w')) (mv_share_mint accts) (\<lambda>share_mint.
     require (mint_supply share_mint = share_supply_before) (Vault_Err ShareSupplyChanged) (
     ok_or (u_of_nat (length policy_accounts) :: u16 option) (Vault_Err TooManyCpiAccounts) (\<lambda>_.
     Inr (w'\<lparr>w_policies := (w_policies w')(mv_strategy_policy accts \<mapsto> sp\<lparr>sp_executing := False\<rparr>),
             w_vaults := (w_vaults w')(mv_vault accts \<mapsto> v)\<rparr>
     )))))))))))))))))))"

end
