(* ===== verification/Dispatch.thy ===== *)
theory Dispatch
  imports Position_Books Administration Instant_Settlement Managed_Calls Lifecycle
begin

text \<open>
  The entry points of the program as one type, \<open>instruction\<close>, and \<open>dispatch\<close>, which runs the
  handler of each (\<open>lib.rs\<close> of the program). The client's \<open>instruction_label\<close> reads an
  instruction's discriminator back into the entry point's name.
\<close>

subsection \<open>Entry points\<close>

text \<open>The instructions on requests, prices and instant settlement.\<close>

datatype request_instruction =
    Create_deposit_request CreateDepositRequest "account_info list" RequestArgs
  | Create_redeem_request CreateRedeemRequest "account_info list" RequestArgs
  | Set_operator SetOperator
  | Approve_request ApproveRequest "account_info list" ApproveRequestArgs
  | Reject_request RejectRequest "account_info list" ApproveRequestArgs
  | Claim_request Claim "account_info list"
  | Cancel_request CancelRequest "account_info list"
  | Cancel_queued_deposit_request CancelQueuedDepositRequest "account_info list"
  | Cancel_queued_redemption_request CancelQueuedRedemptionRequest "account_info list"
  | Skip_canceled_queue_request SkipCanceledQueueRequest "account_info list"
  | Update_vault_nav UpdateVaultNav "account_info list" u128
  | Instant_deposit InstantDeposit "account_info list" u64
  | Instant_redeem InstantRedeem "account_info list" u64

fun exec_request :: "env \<Rightarrow> request_instruction \<Rightarrow> world \<Rightarrow> world result" where
  "exec_request E (Create_deposit_request accts ra args) w = create_deposit_request E accts ra args w"
| "exec_request E (Create_redeem_request accts ra args) w = create_redeem_request E accts ra args w"
| "exec_request E (Set_operator accts) w = set_operator accts w"
| "exec_request E (Approve_request accts ra args) w = approve_request E accts ra args w"
| "exec_request E (Reject_request accts ra args) w = reject_request E accts ra args w"
| "exec_request E (Claim_request accts ra) w = claim E accts ra w"
| "exec_request E (Cancel_request accts ra) w = cancel_request E accts ra w"
| "exec_request E (Cancel_queued_deposit_request accts ra) w = cancel_queued_deposit_request E accts ra w"
| "exec_request E (Cancel_queued_redemption_request accts ra) w = cancel_queued_redemption_request E accts ra w"
| "exec_request E (Skip_canceled_queue_request accts ra) w = skip_canceled_queue_request E accts ra w"
| "exec_request E (Update_vault_nav accts ra nav) w = update_nav E accts ra nav w"
| "exec_request E (Instant_deposit accts ra amount) w = instant_deposit E accts ra amount w"
| "exec_request E (Instant_redeem accts ra shares) w = instant_redeem E accts ra shares w"

datatype instruction =
    Request request_instruction
  | Admin admin_instruction
  | Venue venue_instruction
  | Manage_vault_with_merkle_verification ManageVaultWithMerkleVerification "account_info list"
      ManageVaultWithMerkleVerificationArgs

fun dispatch :: "env \<Rightarrow> cpi \<Rightarrow> instruction \<Rightarrow> world \<Rightarrow> world result" where
  "dispatch E invoke (Request i) w = exec_request E i w"
| "dispatch E invoke (Admin i) w = exec_admin E i w"
| "dispatch E invoke (Venue i) w = exec_venue E i w"
| "dispatch E invoke (Manage_vault_with_merkle_verification accts ra args) w =
     manage_vault_with_merkle_verification E invoke accts ra args w"

subsection \<open>Names\<close>

fun request_name :: "request_instruction \<Rightarrow> string" where
  "request_name (Create_deposit_request _ _ _) = ''create_deposit_request''"
| "request_name (Create_redeem_request _ _ _) = ''create_redeem_request''"
| "request_name (Set_operator _) = ''set_operator''"
| "request_name (Approve_request _ _ _) = ''approve_request''"
| "request_name (Reject_request _ _ _) = ''reject_request''"
| "request_name (Claim_request _ _) = ''claim''"
| "request_name (Cancel_request _ _) = ''cancel_request''"
| "request_name (Cancel_queued_deposit_request _ _) = ''cancel_queued_deposit_request''"
| "request_name (Cancel_queued_redemption_request _ _) = ''cancel_queued_redemption_request''"
| "request_name (Skip_canceled_queue_request _ _) = ''skip_canceled_queue_request''"
| "request_name (Update_vault_nav _ _ _) = ''update_vault_nav''"
| "request_name (Instant_deposit _ _ _) = ''instant_deposit''"
| "request_name (Instant_redeem _ _ _) = ''instant_redeem''"

fun extension_name :: "extension_instruction \<Rightarrow> string" where
  "extension_name (InitializeDepositFee _) = ''initialize_deposit_fee''"
| "extension_name (InitializeWithdrawalFee _) = ''initialize_withdrawal_fee''"
| "extension_name (InitializePausableSubscriptions _) = ''initialize_pausable_subscriptions''"
| "extension_name (InitializePausableRedemptions _) = ''initialize_pausable_redemptions''"
| "extension_name InitializeSubscriptionQueue = ''initialize_subscription_queue''"
| "extension_name InitializeRedemptionQueue = ''initialize_redemption_queue''"
| "extension_name (InitializeMinSubscription _) = ''initialize_min_subscription''"
| "extension_name (InitializeMinRedemption _) = ''initialize_min_redemption''"
| "extension_name InitializeExternallyManagedWithdrawals = ''initialize_externally_managed_withdrawals''"
| "extension_name (InitializeInstantSettlement _) = ''initialize_instant_settlement''"
| "extension_name (UpdateDepositFee _) = ''update_deposit_fee''"
| "extension_name (UpdateWithdrawalFee _) = ''update_withdrawal_fee''"
| "extension_name (UpdatePausableSubscriptions _) = ''update_pausable_subscriptions''"
| "extension_name (UpdatePausableRedemptions _) = ''update_pausable_redemptions''"
| "extension_name (UpdateMinSubscription _) = ''update_min_subscription''"
| "extension_name (UpdateMinRedemption _) = ''update_min_redemption''"

fun admin_name :: "admin_instruction \<Rightarrow> string" where
  "admin_name (Configure_extension _ _ i) = extension_name i"
| "admin_name (Create_vault _ _) = ''create_vault''"
| "admin_name (Initialize_tranches _ _) = ''initialize_tranches''"
| "admin_name (Initialize_vault _) = ''initialize_vault''"
| "admin_name (Pause_vault _) = ''pause_vault''"
| "admin_name (Update_vault _ _) = ''update_vault''"
| "admin_name (Invite_new_authority _ _) = ''invite_new_authority''"
| "admin_name (Accept_authority_invitation _) = ''accept_authority_invitation''"
| "admin_name (Queue_vault_update _ _) = ''queue_vault_update''"
| "admin_name (Execute_vault_update _) = ''execute_vault_update''"
| "admin_name (Cancel_vault_update _) = ''cancel_vault_update''"
| "admin_name (Queue_fee_update _ _) = ''queue_fee_update''"
| "admin_name (Execute_fee_update _) = ''execute_fee_update''"
| "admin_name (Cancel_fee_update _) = ''cancel_fee_update''"
| "admin_name (Queue_extension_update _ _) = ''queue_extension_update''"
| "admin_name (Execute_extension_update _) = ''execute_extension_update''"
| "admin_name (Cancel_extension_update _) = ''cancel_extension_update''"
| "admin_name (Initialize_strategy_policy _ _) = ''initialize_strategy_policy''"
| "admin_name (Update_strategy_policy _ _) = ''update_strategy_policy''"
| "admin_name (Pause_strategy_policy _) = ''pause_strategy_policy''"
| "admin_name (Close_strategy_policy _) = ''close_strategy_policy''"
| "admin_name (Queue_strategy_policy_update _ _) = ''queue_strategy_policy_update''"
| "admin_name (Execute_strategy_policy_update _) = ''execute_strategy_policy_update''"
| "admin_name (Cancel_strategy_policy_update _) = ''cancel_strategy_policy_update''"
| "admin_name (Initialize_protocol_fee_config _ _) = ''initialize_protocol_fee_config''"
| "admin_name (Update_protocol_fee_config _ _) = ''update_protocol_fee_config''"

fun venue_name :: "venue_instruction \<Rightarrow> string" where
  "venue_name (Add_vault_asset _ _) = ''add_vault_asset''"
| "venue_name (Remove_vault_asset _) = ''remove_vault_asset''"
| "venue_name (Register_venue _ _) = ''register_venue''"
| "venue_name (Set_venue_entry_paused _ _) = ''set_venue_entry_paused''"
| "venue_name (Approve_vault_venue _ _) = ''approve_vault_venue''"
| "venue_name (Remove_vault_venue _) = ''remove_vault_venue''"
| "venue_name (Create_venue_position _) = ''create_venue_position''"
| "venue_name (Deploy_venue_position _ _) = ''deploy_venue_position''"
| "venue_name (Pull_venue_position _ _) = ''pull_venue_position''"
| "venue_name (Remove_venue_position _) = ''remove_venue_position''"
| "venue_name (Withdraw_assets _ _) = ''withdraw_assets''"

fun instruction_name :: "instruction \<Rightarrow> string" where
  "instruction_name (Request i) = request_name i"
| "instruction_name (Admin i) = admin_name i"
| "instruction_name (Venue i) = venue_name i"
| "instruction_name (Manage_vault_with_merkle_verification _ _ _) = ''manage_vault_with_merkle_verification''"

subsection \<open>Labels\<close>

text \<open>
  The constants \<open>*_DISCRIMINATOR\<close> are generated from the program's IDL: \<open>disc\<close> gives the one of
  each entry point.
\<close>

definition DISCRIMINATORS :: "(string \<Rightarrow> bytes) \<Rightarrow> (bytes \<times> string) list" where
  "DISCRIMINATORS disc =
     [(disc ''accept_authority_invitation'', ''accept_authority_invitation''),
      (disc ''add_vault_asset'', ''add_vault_asset''),
      (disc ''approve_request'', ''approve_request''),
      (disc ''approve_vault_venue'', ''approve_vault_venue''),
      (disc ''cancel_queued_deposit_request'', ''cancel_queued_deposit_request''),
      (disc ''cancel_queued_redemption_request'', ''cancel_queued_redemption_request''),
      (disc ''cancel_request'', ''cancel_request''),
      (disc ''cancel_extension_update'', ''cancel_extension_update''),
      (disc ''cancel_fee_update'', ''cancel_fee_update''),
      (disc ''cancel_strategy_policy_update'', ''cancel_strategy_policy_update''),
      (disc ''cancel_vault_update'', ''cancel_vault_update''),
      (disc ''claim'', ''claim''),
      (disc ''close_strategy_policy'', ''close_strategy_policy''),
      (disc ''create_deposit_request'', ''create_deposit_request''),
      (disc ''create_redeem_request'', ''create_redeem_request''),
      (disc ''create_vault'', ''create_vault''),
      (disc ''create_venue_position'', ''create_venue_position''),
      (disc ''deploy_venue_position'', ''deploy_venue_position''),
      (disc ''execute_extension_update'', ''execute_extension_update''),
      (disc ''execute_fee_update'', ''execute_fee_update''),
      (disc ''execute_strategy_policy_update'', ''execute_strategy_policy_update''),
      (disc ''execute_vault_update'', ''execute_vault_update''),
      (disc ''initialize_deposit_fee'', ''initialize_deposit_fee''),
      (disc ''initialize_externally_managed_withdrawals'', ''initialize_externally_managed_withdrawals''),
      (disc ''initialize_instant_settlement'', ''initialize_instant_settlement''),
      (disc ''initialize_min_redemption'', ''initialize_min_redemption''),
      (disc ''initialize_min_subscription'', ''initialize_min_subscription''),
      (disc ''initialize_pausable_redemptions'', ''initialize_pausable_redemptions''),
      (disc ''initialize_pausable_subscriptions'', ''initialize_pausable_subscriptions''),
      (disc ''initialize_redemption_queue'', ''initialize_redemption_queue''),
      (disc ''initialize_protocol_fee_config'', ''initialize_protocol_fee_config''),
      (disc ''initialize_subscription_queue'', ''initialize_subscription_queue''),
      (disc ''initialize_strategy_policy'', ''initialize_strategy_policy''),
      (disc ''initialize_tranches'', ''initialize_tranches''),
      (disc ''initialize_vault'', ''initialize_vault''),
      (disc ''initialize_withdrawal_fee'', ''initialize_withdrawal_fee''),
      (disc ''instant_deposit'', ''instant_deposit''),
      (disc ''instant_redeem'', ''instant_redeem''),
      (disc ''invite_new_authority'', ''invite_new_authority''),
      (disc ''manage_vault_with_merkle_verification'', ''manage_vault_with_merkle_verification''),
      (disc ''pause_strategy_policy'', ''pause_strategy_policy''),
      (disc ''pause_vault'', ''pause_vault''),
      (disc ''pull_venue_position'', ''pull_venue_position''),
      (disc ''queue_extension_update'', ''queue_extension_update''),
      (disc ''queue_fee_update'', ''queue_fee_update''),
      (disc ''queue_strategy_policy_update'', ''queue_strategy_policy_update''),
      (disc ''queue_vault_update'', ''queue_vault_update''),
      (disc ''register_venue'', ''register_venue''),
      (disc ''reject_request'', ''reject_request''),
      (disc ''remove_venue_position'', ''remove_venue_position''),
      (disc ''remove_vault_venue'', ''remove_vault_venue''),
      (disc ''set_operator'', ''set_operator''),
      (disc ''set_venue_entry_paused'', ''set_venue_entry_paused''),
      (disc ''skip_canceled_queue_request'', ''skip_canceled_queue_request''),
      (disc ''update_deposit_fee'', ''update_deposit_fee''),
      (disc ''update_min_redemption'', ''update_min_redemption''),
      (disc ''update_min_subscription'', ''update_min_subscription''),
      (disc ''update_pausable_redemptions'', ''update_pausable_redemptions''),
      (disc ''update_pausable_subscriptions'', ''update_pausable_subscriptions''),
      (disc ''update_protocol_fee_config'', ''update_protocol_fee_config''),
      (disc ''update_strategy_policy'', ''update_strategy_policy''),
      (disc ''update_vault'', ''update_vault''),
      (disc ''update_vault_nav'', ''update_vault_nav''),
      (disc ''update_withdrawal_fee'', ''update_withdrawal_fee''),
      (disc ''remove_vault_asset'', ''remove_vault_asset''),
      (disc ''withdraw_assets'', ''withdraw_assets'')]"

definition instruction_label ::
  "(string \<Rightarrow> bytes) \<Rightarrow> pubkey \<Rightarrow> pubkey \<Rightarrow> bytes \<Rightarrow> string option" where
  "instruction_label disc async_vault_v2_id program_id data =
     (if program_id \<noteq> async_vault_v2_id \<or> length data < 8 then None
      else map_option snd (find (\<lambda>(d, _). d = take 8 data) (DISCRIMINATORS disc)))"

definition labelled :: "string list" where
  "labelled = map snd (DISCRIMINATORS (\<lambda>_. []))"

lemma DISCRIMINATORS_pairs: "DISCRIMINATORS disc = map (\<lambda>n. (disc n, n)) labelled"
  by (simp add: labelled_def DISCRIMINATORS_def)

lemma instruction_name_labelled: "instruction_name i \<in> set labelled"
proof (cases i)
  case (Request r)
  then show ?thesis by (cases r) (simp_all add: labelled_def DISCRIMINATORS_def)
next
  case (Admin a)
  then show ?thesis
  proof (cases a)
    case (Configure_extension vk k e)
    then show ?thesis by (cases e) (simp_all add: Admin labelled_def DISCRIMINATORS_def)
  qed (simp_all add: labelled_def DISCRIMINATORS_def)
next
  case (Venue v)
  then show ?thesis by (cases v) (simp_all add: labelled_def DISCRIMINATORS_def)
qed (simp add: labelled_def DISCRIMINATORS_def)

lemma find_inj:
  assumes "inj_on f (set xs)" "x \<in> set xs"
  shows "find (\<lambda>(d, _). d = f x) (map (\<lambda>n. (f n, n)) xs) = Some (f x, x)"
  using assms
proof (induction xs)
  case (Cons a xs)
  then show ?case by (cases "a = x") (auto simp: inj_on_eq_iff)
qed simp


text \<open>Discriminators that number the entry points.\<close>

definition numbered :: "string \<Rightarrow> bytes" where
  "numbered n = replicate 7 0 @ [of_nat (length (takeWhile (\<lambda>m. m \<noteq> n) labelled))]"

lemma position_inject:
  "x \<in> set xs \<Longrightarrow> y \<in> set xs \<Longrightarrow>
   length (takeWhile (\<lambda>m. m \<noteq> x) xs) = length (takeWhile (\<lambda>m. m \<noteq> y) xs) \<Longrightarrow> x = y"
  by (induction xs) (auto split: if_splits)

lemma position_less: "x \<in> set xs \<Longrightarrow> length (takeWhile (\<lambda>m. m \<noteq> x) xs) < length xs"
  by (induction xs) auto

lemma numbered_inject: "inj_on numbered (set labelled)"
proof (rule inj_onI)
  fix x y assume xy: "x \<in> set labelled" "y \<in> set labelled" "numbered x = numbered y"
  have "length labelled \<le> 256" by (simp add: labelled_def DISCRIMINATORS_def)
  with position_less [OF xy(1)] position_less [OF xy(2)]
  have "length (takeWhile (\<lambda>m. m \<noteq> x) labelled) < 256" "length (takeWhile (\<lambda>m. m \<noteq> y) labelled) < 256" by simp_all
  moreover from xy(3) have "(of_nat (length (takeWhile (\<lambda>m. m \<noteq> x) labelled)) :: byte)
    = of_nat (length (takeWhile (\<lambda>m. m \<noteq> y) labelled))" by (simp add: numbered_def)
  ultimately have "length (takeWhile (\<lambda>m. m \<noteq> x) labelled) = length (takeWhile (\<lambda>m. m \<noteq> y) labelled)"
    by (simp add: word_of_nat_eq_iff take_bit_nat_eq_self)
  then show "x = y" by (rule position_inject [OF xy(1,2)])
qed


end
