(* ===== verification/Sample_Venue.thy ===== *)
theory Sample_Venue
  imports Dispatch
begin

text \<open>
  A vault with an approved venue \<open>key 26\<close> and a position of 500 in it, the manager's policy
  \<open>key 23\<close>, and the instructions the properties of positions and managed calls are applied to.
\<close>

definition sample_venue_entry :: VenueEntry where
  "sample_venue_entry =
     \<lparr>ve_registry_authority = key 50, ve_venue_id = key 7, ve_target_program = key 60,
      ve_allowed_discriminator_count = 1, ve_allowed_discriminators = replicate 8 7,
      ve_risk_class = 0, ve_venue_type = ExternalProtocol, ve_routine_safe = True, ve_paused = False, ve_bump = 248\<rparr>"

definition sample_vault_venue :: VaultVenue where
  "sample_vault_venue =
     \<lparr>vv_vault = key 20, vv_venue_entry = key 25, vv_recipient_authority = key 51,
      vv_target_program = key 60, vv_routine_safe = True, vv_paused = False, vv_position_count = 1,
      vv_approved_at_slot = 10, vv_bump = 247\<rparr>"

definition sample_position :: Position where
  "sample_position =
     \<lparr>pos_vault = key 20, pos_venue_entry = key 25, pos_vault_venue = key 26, pos_asset_mint = key 1,
      pos_token_account = key 28, pos_amount = 500, pos_token_account_bump = 245, pos_bump = 246\<rparr>"

definition venue_ledger :: ledger where
  "venue_ledger = sample_ledger
     \<lparr>l_tokens := (l_tokens sample_ledger)(key 28 \<mapsto> sample_token (key 1) (key 20) 500)\<rparr>"

definition managed_policy :: StrategyPolicy where
  "managed_policy =
     \<lparr>sp_vault = key 20, sp_strategist = key 12, sp_merkle_root = replicate 32 1, sp_version = 3,
      sp_paused = False, sp_executing = False, sp_bump = 250\<rparr>"

definition venue_world :: world where
  "venue_world = sample_world
     \<lparr>w_ledger := venue_ledger, w_venue_entries := [key 25 \<mapsto> sample_venue_entry],
      w_vault_venues := [key 26 \<mapsto> sample_vault_venue], w_positions := [key 27 \<mapsto> sample_position],
      w_policies := [key 23 \<mapsto> managed_policy]\<rparr>"

lemmas venue_world_defs =
  venue_world_def venue_ledger_def sample_venue_entry_def sample_vault_venue_def sample_position_def
  managed_policy_def sample_world_defs

text \<open>The manager deploys 300 of the primary asset.\<close>

definition sample_movement :: VenuePosition where
  "sample_movement =
     \<lparr>vp_authority = key 12, vp_asset_mint = key 1, vp_vault = key 20, vp_vault_asset = None,
      vp_venue_entry = key 25, vp_vault_venue = key 26, vp_position = key 27,
      vp_vault_token_account = key 3, vp_position_token_account = key 28,
      vp_asset_token_program = key 201\<rparr>"

lemma sample_deploy_runs:
  "\<exists>w. deploy_venue_position sample_env sample_movement 300 (venue_world\<lparr>w_vault_assets := m\<rparr>) = Inr w
     \<and> w_positions w = [key 27 \<mapsto> sample_position\<lparr>pos_amount := 800\<rparr>] \<and> w_vault_assets w = m"
  by (simp add: deploy_venue_position_def sample_movement_def venue_world_defs load_def load_opt_def
      vault_venue_account_def position_account_def position_token_account_def seeds_with_bump_def
      token_constraints_program_def token_constraints_def token_interface_def is_token_program_def
      vault_guard_defs venue_guard_defs move_primary_def Vault_consume_manager_rolling_limit_def
      consume_rolling_limit_def checked_move_def signer_seeds_def vault_seeds_def cpi_eval checked_eval
      put_opt_def Let_def)

lemma venue_world_no_assets: "venue_world\<lparr>w_vault_assets := Map.empty\<rparr> = venue_world"
  by (simp add: venue_world_def sample_world_def empty_world_def)

lemma venue_world_books: "position_books E venue_world"
proof (rule position_booksI)
  show "weight (deployed_balance vk mint) (w_vault_assets venue_world)
      = weight (position_amount vk mint) (w_positions venue_world)"
    if "asset_mints venue_world vk = Some primary" "mint \<noteq> primary" for vk primary mint
    using that
    by (auto simp: asset_mints_def venue_world_defs weight_def position_amount_def split: if_splits)
qed (auto simp: asset_mints_def venue_world_defs weight_def opened_in_def split: if_splits)

text \<open>
  The manager calls the venue's program with 200 tokens of the reserve, under a hash that maps
  everything to the policy's root.
\<close>

definition managed_env :: env where
  "managed_env = sample_env\<lparr>env_hash := \<lambda>_. replicate 32 1\<rparr>"

definition paying_program :: cpi where
  "paying_program program metas data infos w =
     Inr (w\<lparr>w_ledger := (w_ledger w)\<lparr>l_tokens := (l_tokens (w_ledger w))(key 3 \<mapsto>
       sample_token (key 1) (key 20) 4999800)\<rparr>\<rparr>)"

definition sample_managed :: ManageVaultWithMerkleVerification where
  "sample_managed =
     \<lparr>mv_strategist = key 12, mv_share_mint = key 2, mv_vault = key 20, mv_venue_entry = key 25,
      mv_vault_venue = key 26, mv_strategy_policy = key 23,
      mv_target_program = \<lparr>ai_key = key 60, ai_owner = key 61, ai_is_signer = False,
        ai_is_writable = False, ai_executable = True, ai_data = []\<rparr>\<rparr>"

definition sample_managed_args :: ManageVaultWithMerkleVerificationArgs where
  "sample_managed_args =
     \<lparr>mva_policy_version = 3, mva_instruction_data = replicate 8 7 @ [200, 0, 0, 0, 0, 0, 0, 0],
      mva_operators = [ManagerLimitAmount 8], mva_proof = []\<rparr>"

lemma sample_managed_leaf:
  "hash_strategy_leaf (\<lambda>_. replicate 32 1) program (strategy_leaf_of sample_managed sample_managed_args []) =
     Inr (replicate 32 1, Some 200)"
  by (simp add: hash_strategy_leaf_def strategy_leaf_of_def sample_managed_args_def
      MAX_MANAGE_IX_DATA_LEN_def MAX_MANAGE_CPI_ACCOUNTS_def MAX_POLICY_OPERATORS_def u_of_nat_def
      get_at_def get_range_def u64_from_le_def)

lemma sample_managed_allowed:
  "assert_call_allowed managed_env sample_managed sample_managed_args sample_vault managed_policy
     sample_venue_entry sample_vault_venue [] = Inr ()"
  by (simp add: assert_call_allowed_def sample_managed_def sample_managed_args_def sample_vault_def
      managed_policy_def sample_venue_entry_def sample_vault_venue_def sample_env_def managed_env_def
      vault_guard_defs venue_guard_defs policy_guard_defs VenueEntry_assert_instruction_allowed_def
      get_range_def chunks_exact.simps [of 8] MAX_MANAGE_IX_DATA_LEN_def MAX_MANAGE_CPI_ACCOUNTS_def Let_def)

lemma sample_managed_accounts [simp]:
  "mv_strategist sample_managed = key 12" "mv_share_mint sample_managed = key 2"
  "mv_vault sample_managed = key 20" "mv_venue_entry sample_managed = key 25"
  "mv_vault_venue sample_managed = key 26" "mv_strategy_policy sample_managed = key 23"
  by (simp_all add: sample_managed_def)

lemma venue_world_accounts [simp]:
  "w_vaults venue_world = [key 20 \<mapsto> sample_vault]"
  "w_venue_entries venue_world = [key 25 \<mapsto> sample_venue_entry]"
  "w_vault_venues venue_world = [key 26 \<mapsto> sample_vault_venue]"
  "w_policies venue_world = [key 23 \<mapsto> managed_policy]"
  "l_mints (w_ledger venue_world) = [key 1 \<mapsto> sample_mint None, key 2 \<mapsto> sample_mint (Some (key 20))]"
  by (simp_all add: venue_world_def sample_world_def venue_ledger_def sample_ledger_def)

lemma sample_managed_runs:
  "\<exists>w v. manage_vault_with_merkle_verification managed_env paying_program sample_managed []
       sample_managed_args venue_world = Inr w
     \<and> w_vaults w (key 20) = Some v \<and> v_manager_window_amount v = 200"
proof -
  have seeds: "env_create_program_address managed_env = sample_create" "env_hash managed_env = (\<lambda>_. replicate 32 1)"
    "env_slot managed_env = 100" by (simp_all add: managed_env_def sample_env_def)
  have vault: "v_share_mint sample_vault = key 2" "v_bump sample_vault = 253"
    "Vault_consume_manager_rolling_limit sample_vault 200 100
     = Inr (sample_vault\<lparr>v_manager_window_start_slot := 100, v_manager_window_amount := 200\<rparr>)"
    by (simp_all add: sample_vault_def Vault_consume_manager_rolling_limit_def consume_rolling_limit_def checked_eval)
  have rest: "vv_vault sample_vault_venue = key 20" "vv_venue_entry sample_vault_venue = key 25"
    "vv_bump sample_vault_venue = 247" "sp_vault managed_policy = key 20" "sp_strategist managed_policy = key 12"
    "sp_bump managed_policy = 250" "sp_merkle_root managed_policy = replicate 32 1"
    "mva_proof sample_managed_args = []"
    by (simp_all add: sample_vault_venue_def managed_policy_def sample_managed_args_def)
  show ?thesis
    by (simp add: manage_vault_with_merkle_verification_def load_def vault_venue_account_def
        seeds_with_bump_def policy_seeds_def sample_managed_allowed sample_managed_leaf verify_strategy_proof_def
        signed_by_def paying_program_def u_of_nat_def Let_def seeds vault rest)
qed

end
