(* ===== verification/System_Runs.thy ===== *)
theory System_Runs
  imports Position_Frames Sample_Venue
begin

text \<open>
  Runs of the whole program: any entry points in any order, at any times, with transactions that
  do not involve the program in between.
\<close>

subsection \<open>Steps\<close>

text \<open>
  The Solana runtime lets only a program write the accounts it owns, and refuses calls back into
  a program that is on the call stack: what an invoked program changes is the token ledger.
\<close>

definition confined :: "cpi \<Rightarrow> bool" where
  "confined invoke \<longleftrightarrow>
     (\<forall>program metas data infos w w'. invoke program metas data infos w = Inr w' \<longrightarrow>
        (\<exists>L. w' = w\<lparr>w_ledger := L\<rparr>))"

text \<open>Users sign for accounts outside the program.\<close>

fun wallet_users :: "env \<Rightarrow> instruction \<Rightarrow> bool" where
  "wallet_users E (Request (Create_deposit_request accts ra args)) = is_wallet E (cdr_user accts)"
| "wallet_users E (Request (Create_redeem_request accts ra args)) = is_wallet E (crr_user accts)"
| "wallet_users E (Request (Instant_deposit accts ra amount)) = is_wallet E (id_user accts)"
| "wallet_users E (Request (Instant_redeem accts ra shares)) = is_wallet E (ir_user accts)"
| "wallet_users E i = True"

inductive system_step :: "env \<Rightarrow> world \<Rightarrow> world \<Rightarrow> bool" for E where
  transaction: "dispatch (at_time E now) invoke i w = Inr w' \<Longrightarrow> confined invoke \<Longrightarrow> wallet_users E i \<Longrightarrow>
    system_step E w w'"
| elsewhere: "external E (w_ledger w) L \<Longrightarrow> system_step E w (w\<lparr>w_ledger := L\<rparr>)"

inductive system_run :: "env \<Rightarrow> world \<Rightarrow> world \<Rightarrow> bool" for E w0 where
  system_start: "system_run E w0 w0"
| system_next: "system_run E w0 w \<Longrightarrow> system_step E w w' \<Longrightarrow> system_run E w0 w'"

lemma system_run_invariant:
  assumes "system_run E w0 w" "I w0" "\<And>w w'. system_step E w w' \<Longrightarrow> I w \<Longrightarrow> I w'"
  shows "I w"
  using assms(1) by induction (use assms(2,3) in blast)+

subsection \<open>Managed calls\<close>

text \<open>
  A managed call that succeeds has passed every check on the policy, the venue and the target, and
  its proof hangs its leaf under the policy's root. It leaves all of the program's accounts as
  they were, except for the manager's window of the vault, which has the committed amount
  consumed, and for the policy's \<open>executing\<close> flag, which is down; the supply of the shares is
  the same.
\<close>

lemma managed_call_Inr:
  assumes run: "manage_vault_with_merkle_verification E invoke accts ra args w = Inr w'"
    and confined: "confined invoke"
  obtains v v' sp ve vv L leaf amount m m'
  where "w_vaults w (mv_vault accts) = Some v" "w_policies w (mv_strategy_policy accts) = Some sp"
    "w_venue_entries w (mv_venue_entry accts) = Some ve" "w_vault_venues w (mv_vault_venue accts) = Some vv"
    "assert_call_allowed E accts args v sp ve vv ra = Inr ()"
    "hash_strategy_leaf (env_hash E) (env_program_id E)
       (strategy_leaf_of accts args (map (policy_account_meta (mv_vault accts)) ra)) = Inr (leaf, amount)"
    "verify_strategy_proof (env_hash E) leaf (mva_proof args) (sp_merkle_root sp) = Inr ()"
    "(case amount of None \<Rightarrow> Inr v
      | Some n \<Rightarrow> Vault_consume_manager_rolling_limit v n (env_slot E)) = Inr v'"
    "w' = w\<lparr>w_ledger := L,
       w_policies := (w_policies w)(mv_strategy_policy accts \<mapsto> sp\<lparr>sp_executing := False\<rparr>),
       w_vaults := (w_vaults w)(mv_vault accts \<mapsto> v')\<rparr>"
    "l_mints (w_ledger w) (v_share_mint v) = Some m" "l_mints L (v_share_mint v) = Some m'"
    "mint_supply m' = mint_supply m" "vv_vault vv = mv_vault accts"
proof -
  have inv: "\<exists>L. w2 = w1\<lparr>w_ledger := L\<rparr>" if "invoke p ms d is w1 = Inr w2" for p ms d "is" w1 w2
    using confined that unfolding confined_def by blast
  from run show thesis
    apply (clarsimp simp: manage_vault_with_merkle_verification_def res_simps Let_def)
    apply (drule inv)
    apply clarsimp
    apply (rule that)
                apply (assumption | rule refl | simp)+
    done
qed

lemma managed_vault:
  "(case amount of None \<Rightarrow> Inr v
    | Some n \<Rightarrow> Vault_consume_manager_rolling_limit v n s) = Inr v' \<Longrightarrow> books_part v' = books_part v"
  by (cases amount) (auto simp: Vault_consume_manager_rolling_limit_def res_simps books_part_def identity_eq)

lemma managed_call_keeps:
  assumes "manage_vault_with_merkle_verification E invoke accts ra args w = Inr w'" "confined invoke"
  shows "keeps_positions w w'"
  using assms
proof (rule managed_call_Inr, goal_cases)
  case (1 v v' sp ve vv L leaf amount m m')
  have "identity v' = identity v" using managed_vault [OF 1(8)] by (simp add: books_part_def)
  with 1(1,9) show ?case by (intro keeps_positions_vault) auto
qed

subsection \<open>Positions\<close>

lemma exec_request_keeps: "exec_request E i w = Inr w' \<Longrightarrow> keeps_positions w w'"
  by (cases i) (auto intro: lifecycle_keeps instant_deposit_keeps instant_redeem_keeps)

lemma external_keeps: "keeps_positions w (w\<lparr>w_ledger := L\<rparr>)"
  by (simp add: keeps_positions_def vault_ids_def)

lemma dispatch_cases:
  assumes "dispatch E invoke i w = Inr w'" "confined invoke"
  obtains (keeps) "keeps_positions w w'" | (venue) j where "i = Venue j" "exec_venue E j w = Inr w'"
proof (cases i)
  case (Venue j)
  then show thesis using assms venue by simp
qed (use assms keeps exec_request_keeps exec_admin_keeps managed_call_keeps in \<open>auto\<close>)

lemma at_time_position_books [simp]: "position_books (at_time E now) w = position_books E w"
  by (simp add: position_books_def)

lemma system_step_position_books:
  assumes "system_step E w w'" "position_books E w"
  shows "position_books E w'"
  using assms(1)
proof cases
  case (transaction now invoke i)
  from transaction(1,2) show ?thesis
  proof (cases rule: dispatch_cases)
    case (venue j)
    then show ?thesis using exec_venue_position_books [OF venue(2)] assms(2) by simp
  qed (rule position_books_frame [OF assms(2)])
qed (use assms(2) position_books_frame external_keeps in blast)

lemma unique_weight:
  assumes "finite (dom m)" "m k = Some a" "\<And>j b. m j = Some b \<Longrightarrow> f b \<noteq> 0 \<Longrightarrow> j = k"
  shows "weight f m = f a"
proof -
  have "weight f (m(k := None)) = 0" by (intro weight_zero) (use assms(3) in \<open>auto split: if_splits\<close>)
  with weight_remove [OF assms(1), of f k] assms(2) show ?thesis by simp
qed

lemma deployed_unique:
  assumes "position_books E w" "w_vault_assets w k = Some va"
  shows "weight (deployed_balance (va_vault va) (va_asset_mint va)) (w_vault_assets w) = unat (va_deployed_balance va)"
proof -
  have "j = k" if "w_vault_assets w j = Some vb" "va_vault vb = va_vault va" "va_asset_mint vb = va_asset_mint va"
    for j vb using position_booksD(5) [OF assms(1)] that assms(2) by metis
  then have "weight (deployed_balance (va_vault va) (va_asset_mint va)) (w_vault_assets w)
      = deployed_balance (va_vault va) (va_asset_mint va) va"
    by (intro unique_weight [OF position_booksD(2) [OF assms(1)] assms(2)])
      (auto simp: deployed_balance_def split: if_splits)
  then show ?thesis by (simp add: deployed_balance_def)
qed

lemma opened_in_count:
  "finite (dom m) \<Longrightarrow> weight (opened_in k) m = card {j. \<exists>p. m j = Some p \<and> pos_vault_venue p = k}"
  using weight_count [of m "\<lambda>p. pos_vault_venue p = k"] by (simp add: opened_in_def [abs_def])

text \<open>
  C13. Positions balance. In every run of the program, with any managed calls, a vault's approved
  venue counts exactly the positions open in it, and a secondary asset's deployed balance is the
  sum of the amounts its positions hold across all venues.
\<close>
theorem positions_balance:
  assumes "system_run E w0 w" and "position_books E w0"
  shows "(\<forall>k vv. w_vault_venues w k = Some vv \<longrightarrow>
        unat (vv_position_count vv) = card {j. \<exists>p. w_positions w j = Some p \<and> pos_vault_venue p = k})
    \<and> (\<forall>k va. w_vault_assets w k = Some va \<longrightarrow>
        unat (va_deployed_balance va)
        = weight (position_amount (va_vault va) (va_asset_mint va)) (w_positions w))"
proof -
  have books: "position_books E w"
    by (rule system_run_invariant [where I = "position_books E", OF assms]) (rule system_step_position_books)
  note old = position_booksD [OF books]
  have "unat (va_deployed_balance va) = weight (position_amount (va_vault va) (va_asset_mint va)) (w_positions w)"
    if va: "w_vault_assets w k = Some va" for k va
    using old(6) [OF va] old(8) deployed_unique [OF books va] by metis
  then show ?thesis using old(7) opened_in_count [OF old(1)] by metis
qed

lemma no_call_confined: "confined (\<lambda>program metas data infos w. Inr w)"
  unfolding confined_def by (metis Inr_inject world.surjective world.update_convs(1))

theorem positions_balance_witness:
  "\<exists>w vv. system_run sample_env venue_world w \<and> w_positions w = [key 27 \<mapsto> sample_position\<lparr>pos_amount := 800\<rparr>]
     \<and> w_vault_venues w (key 26) = Some vv
     \<and> unat (vv_position_count vv) = card {j. \<exists>p. w_positions w j = Some p \<and> pos_vault_venue p = key 26}"
proof -
  obtain w where w: "deploy_venue_position sample_env sample_movement 300 venue_world = Inr w"
    "w_positions w = [key 27 \<mapsto> sample_position\<lparr>pos_amount := 800\<rparr>]"
    using sample_deploy_runs [of Map.empty] by (auto simp: venue_world_no_assets)
  have "system_step sample_env venue_world w"
    by (rule transaction [where now = "(100, 2000, 1)" and i = "Venue (Deploy_venue_position sample_movement 300)"
        and invoke = "\<lambda>program metas data infos w. Inr w"])
      (use w in \<open>simp_all add: sample_at_time no_call_confined\<close>)
  then have run: "system_run sample_env venue_world w" by (blast intro: system_run.intros)
  have "w_vault_venues w (key 26) = Some sample_vault_venue"
    using deploy_venue_position_Inr [OF w(1)] by (auto simp: position_move_def)
  with run w(2) positions_balance [OF run venue_world_books] show ?thesis by blast
qed

subsection \<open>Secondary assets\<close>

text \<open>
  In this version no instruction credits a secondary asset: approvals of its requests are refused
  until the valuation of several assets is settled, so nothing can be deployed either.
\<close>

definition assets_unfunded :: "world \<Rightarrow> bool" where
  "assets_unfunded w \<longleftrightarrow>
     (\<forall>k va. w_vault_assets w k = Some va \<longrightarrow> va_idle_balance va = 0 \<and> va_deployed_balance va = 0)"

lemma assets_unfunded_frame:
  assumes "assets_unfunded w" "keeps_positions w w'"
  shows "assets_unfunded w'"
  using assms asset_ledger_same(3) unfolding assets_unfunded_def keeps_positions_def by metis

lemma assets_unfunded_moved:
  assumes "assets_unfunded w" "books_moved accts (w_vault_assets w) m v v' d q" "d = 0 \<or> q = 0"
  shows "\<forall>k va. m k = Some va \<longrightarrow> va_idle_balance va = 0 \<and> va_deployed_balance va = 0"
  using assms by (auto simp: assets_unfunded_def books_moved_def asset_move_def unsigned_eq_0_iff split: if_splits)

lemma exec_venue_unfunded:
  assumes run: "exec_venue E i w = Inr w'" and old: "assets_unfunded w"
  shows "assets_unfunded w'"
proof (cases i)
  case (Deploy_venue_position accts amount)
  then show ?thesis using run deploy_venue_position_Inr assets_unfunded_moved [OF old]
    unfolding assets_unfunded_def by fastforce
next
  case (Pull_venue_position accts amount)
  then show ?thesis using run pull_venue_position_Inr assets_unfunded_moved [OF old]
    unfolding assets_unfunded_def by fastforce
next
  case (Withdraw_assets accts amount)
  then show ?thesis using run assets_unfunded_frame [OF old withdraw_assets_keeps] by simp
next
  case (Register_venue accts args)
  then show ?thesis using run assets_unfunded_frame [OF old] register_venue_keeps by simp
next
  case (Set_venue_entry_paused accts paused)
  then show ?thesis using run assets_unfunded_frame [OF old] register_venue_keeps by simp
next
  case (Add_vault_asset accts cap)
  with run old show ?thesis
    by (auto simp: add_vault_asset_def init_token_account_def res_simps assets_unfunded_def split: if_splits)
next
  case (Remove_vault_asset accts)
  with run old show ?thesis
    by (auto simp: remove_vault_asset_def res_simps assets_unfunded_def close_def split: if_splits)
qed (use run old in \<open>auto simp: approve_vault_venue_def remove_vault_venue_def create_venue_position_def
    remove_venue_position_def position_account_def position_token_account_def init_token_account_def
    res_simps assets_unfunded_def\<close>)

lemma system_step_unfunded:
  assumes "system_step E w w'" "assets_unfunded w"
  shows "assets_unfunded w'"
  using assms(1)
proof cases
  case (transaction now invoke i)
  from transaction(1,2) show ?thesis
    by (cases rule: dispatch_cases) (use exec_venue_unfunded assets_unfunded_frame assms(2) in blast)+
qed (use assms(2) assets_unfunded_frame external_keeps in blast)


definition sample_asset :: VaultAsset where
  "sample_asset =
     \<lparr>va_vault = key 20, va_asset_mint = key 5, va_reserve = key 6, va_pending_vault = key 7,
      va_idle_balance = 0, va_deployed_balance = 0, va_pending_deposit_amount = 0,
      va_deposit_cap = 0, va_manager_window_start_slot = 0, va_manager_window_amount = 0,
      va_reserve_bump = 255, va_pending_vault_bump = 255, va_bump = 0\<rparr>"

definition asset_world :: world where
  "asset_world = venue_world\<lparr>w_vault_assets := [key 255 \<mapsto> sample_asset]\<rparr>"

lemma asset_world_books: "position_books sample_env asset_world"
proof -
  have find: "sample_find [ASSET_CONFIG_SEED, key 20, key 5] = (key 255, 0)"
    by (simp add: sample_find_def sample_addresses_def seed_defs ASSET_CONFIG_SEED_def)
  note old = position_booksD [OF venue_world_books [of sample_env]]
  show ?thesis
  proof (rule position_booksI)
    show "weight (deployed_balance vk mint) (w_vault_assets asset_world)
        = weight (position_amount vk mint) (w_positions asset_world)"
      if "asset_mints asset_world vk = Some primary" "mint \<noteq> primary" for vk primary mint
    proof -
      have "weight (deployed_balance vk mint) (w_vault_assets asset_world) = 0"
        by (rule weight_zero) (auto simp: asset_world_def sample_asset_def deployed_balance_def split: if_splits)
      moreover have "weight (deployed_balance vk mint) (w_vault_assets venue_world) = 0"
        by (simp add: venue_world_defs weight_def)
      ultimately show ?thesis using old(8) that by (simp add: asset_world_def asset_mints_def)
    qed
  qed (use old in \<open>auto simp: asset_world_def sample_asset_def asset_mints_def sample_env_def find
      sample_vault_def split: if_splits\<close>)
qed


end
