(* ===== verification/Position_Moves.thy ===== *)
theory Position_Moves
  imports System_Runs
begin

text \<open>
  What moving tokens between the vault's reserve and a position does to the token accounts: both
  balances change by exactly the amount, and pulling what was deployed restores them.
\<close>

lemma token_move_exact:
  assumes "token_move E accts v src dst amount L L'" and spl: "spl_laws E"
  shows "holder L' = holder L" "l_mints L' = l_mints L"
    "amount_of L' src + unat amount = amount_of L src" "amount_of L' dst = amount_of L dst + unat amount"
    "k \<noteq> src \<Longrightarrow> k \<noteq> dst \<Longrightarrow> amount_of L' k = amount_of L k"
proof -
  from assms(1) obtain m s t where t: "l_tokens L src = Some s" "l_tokens L dst = Some t"
    "checked_move E accts v m src (ta_amount s) dst (ta_amount t) amount L = Inr L'"
    unfolding token_move_def by blast
  from t(3) have eff: "transfer_effect E src (vp_asset_mint accts) dst (unat amount) L L'"
    by (auto simp: checked_move_def res_simps intro: spl_transfer [OF spl])
  from t(3) obtain s' t' where after: "l_tokens L' src = Some s'" "l_tokens L' dst = Some t'"
    "checked_sub (ta_amount s) amount = Some (ta_amount s')" "checked_add (ta_amount t) amount = Some (ta_amount t')"
    by (auto simp: checked_move_def res_simps)
  from after t show "amount_of L' src + unat amount = amount_of L src"
    "amount_of L' dst = amount_of L dst + unat amount"
    by (auto simp: amount_of_def checked_simps)
  from eff show "holder L' = holder L" "l_mints L' = l_mints L"
    "k \<noteq> src \<Longrightarrow> k \<noteq> dst \<Longrightarrow> amount_of L' k = amount_of L k"
    by (simp_all add: transfer_effect_def)
qed

text \<open>
  C14. Moves are exact, and a pull undoes a deployment. A deployment adds exactly its amount to
  the position, takes it from the vault's token account and puts it into the position's token
  account; pulling the same amount later, at any time at which the limit allows it, leaves every
  position, every token balance, every mint and every asset's idle and deployed balance as they were
  before both.
\<close>
theorem pull_undoes_deployment:
  assumes deploy: "deploy_venue_position E accts amount w = Inr w1"
    and pull: "pull_venue_position (at_time E now) accts amount w1 = Inr w2"
    and lawful: "spl_laws E" "spl_laws (at_time E now)"
  shows "(\<exists>p p1. w_positions w (vp_position accts) = Some p \<and> w_positions w1 (vp_position accts) = Some p1
      \<and> unat (pos_amount p1) = unat (pos_amount p) + unat amount)
    \<and> amount_of (w_ledger w1) (vp_vault_token_account accts) + unat amount
      = amount_of (w_ledger w) (vp_vault_token_account accts)
    \<and> amount_of (w_ledger w1) (vp_position_token_account accts)
      = amount_of (w_ledger w) (vp_position_token_account accts) + unat amount
    \<and> w_positions w2 = w_positions w \<and> amount_of (w_ledger w2) = amount_of (w_ledger w)
    \<and> holder (w_ledger w2) = holder (w_ledger w) \<and> l_mints (w_ledger w2) = l_mints (w_ledger w)
    \<and> asset_ledger (w_vault_assets w2) = asset_ledger (w_vault_assets w)"
proof -
  let ?reserve = "vp_vault_token_account accts" and ?held = "vp_position_token_account accts"
  from deploy_venue_position_Inr [OF deploy] obtain v v1 p n where d: "position_move accts w w1 v v1 p n"
    "books_moved accts (w_vault_assets w) (w_vault_assets w1) v v1 (unat amount) 0"
    "unat n = unat (pos_amount p) + unat amount"
    "token_move E accts v1 ?reserve ?held amount (w_ledger w) (w_ledger w1)" by blast
  from pull_venue_position_Inr [OF pull] obtain u u1 q m where u: "position_move accts w1 w2 u u1 q m"
    "books_moved accts (w_vault_assets w1) (w_vault_assets w2) u u1 0 (unat amount)"
    "unat m + unat amount = unat (pos_amount q)"
    "token_move (at_time E now) accts u1 ?held ?reserve amount (w_ledger w1) (w_ledger w2)" by blast
  from d(1) u(1) have q: "q = p\<lparr>pos_amount := n\<rparr>" "u = v1" by (simp_all add: position_move_def)
  with u(3) d(3) have m: "m = pos_amount p" by (simp add: word_unat_eq_iff)
  have positions: "w_positions w2 = w_positions w"
    using d(1) u(1) by (auto simp: position_move_def q m fun_eq_iff)
  note td = token_move_exact [OF d(4) lawful(1)] and tu = token_move_exact [OF u(4) lawful(2)]
  have amounts: "amount_of (w_ledger w2) k = amount_of (w_ledger w) k" for k
    using td(3,4) td(5) [of k] tu(3,4) tu(5) [of k] by (cases "k = ?reserve"; cases "k = ?held") auto
  have "v_asset_mint v1 = v_asset_mint v" using d(2) by (simp add: books_moved_def identity_eq)
  then have assets: "asset_ledger (w_vault_assets w2) = asset_ledger (w_vault_assets w)"
  proof (cases "vp_asset_mint accts = v_asset_mint v")
    case True
    with d(2) u(2) show ?thesis by (simp add: books_moved_def q \<open>v_asset_mint v1 = v_asset_mint v\<close>)
  next
    case False
    with d(2) u(2) obtain k va va1 va2 where "w_vault_assets w k = Some va"
      "w_vault_assets w1 = (w_vault_assets w)(k \<mapsto> va1)" "w_vault_assets w2 = (w_vault_assets w1)(k \<mapsto> va2)"
      "asset_move va va1 (unat amount) 0" "asset_move va1 va2 0 (unat amount)"
      by (auto simp: books_moved_def q \<open>v_asset_mint v1 = v_asset_mint v\<close>)
    then show ?thesis by (auto simp: asset_ledger_def asset_key_def asset_move_def fun_eq_iff word_unat_eq_iff)
  qed
  show ?thesis
    using d(1,3) td tu positions amounts assets by (auto simp: position_move_def)
qed

lemma sample_moves_run:
  "\<exists>w1 w2. deploy_venue_position sample_env sample_movement 300 venue_world = Inr w1
     \<and> pull_venue_position sample_env sample_movement 300 w1 = Inr w2"
  by (simp add: deploy_venue_position_def pull_venue_position_def sample_movement_def venue_world_defs
      load_def load_opt_def vault_venue_account_def position_account_def position_token_account_def
      seeds_with_bump_def token_constraints_program_def token_constraints_def token_interface_def
      is_token_program_def vault_guard_defs venue_guard_defs move_primary_def
      Vault_consume_manager_rolling_limit_def consume_rolling_limit_def checked_move_def
      signer_seeds_def vault_seeds_def cpi_eval checked_eval put_opt_def Let_def)

theorem pull_undoes_deployment_witness:
  "\<exists>w1 w2. deploy_venue_position sample_env sample_movement 300 venue_world = Inr w1
     \<and> pull_venue_position sample_env sample_movement 300 w1 = Inr w2
     \<and> w_positions w2 = w_positions venue_world
     \<and> amount_of (w_ledger w2) = amount_of (w_ledger venue_world)"
proof -
  obtain w1 w2 where w: "deploy_venue_position sample_env sample_movement 300 venue_world = Inr w1"
    "pull_venue_position sample_env sample_movement 300 w1 = Inr w2" using sample_moves_run by blast
  with pull_undoes_deployment [of sample_env sample_movement 300 venue_world w1 "(100, 2000, 1)" w2]
  show ?thesis by (simp add: sample_at_time sample_env_spl_laws)
qed

end
