(* ===== verification/Merkle_Soundness.thy ===== *)
theory Merkle_Soundness
  imports Merkle Samples
begin

text \<open>
  What a Merkle policy guarantees against a strategist who wants to run something else: a leaf
  hash determines everything the leaf commits to, and only leaves of the tree have a proof. Both
  need SHA-256 to be free of collisions, which is assumed of exactly the strings that are hashed
  in the situation at hand.
\<close>

subsection \<open>The string that is hashed\<close>

fun op_valid :: "bytes \<Rightarrow> PolicyAccountMeta list \<Rightarrow> PolicyOperator \<Rightarrow> bool" where
  "op_valid data accounts (IngestInstruction offset len) \<longleftrightarrow> len > 0 \<and> unat offset + unat len \<le> length data"
| "op_valid data accounts (IngestAccount index) \<longleftrightarrow> unat index < length accounts"
| "op_valid data accounts (ManagerLimitAmount offset) \<longleftrightarrow> unat offset + 8 \<le> length data"

fun op_bytes :: "bytes \<Rightarrow> PolicyAccountMeta list \<Rightarrow> PolicyOperator \<Rightarrow> bytes" where
  "op_bytes data accounts (IngestInstruction offset len) =
     [0] @ u16_to_le offset @ u16_to_le len @ take (unat len) (drop (unat offset) data)"
| "op_bytes data accounts (IngestAccount index) =
     [1] @ [index] @ pam_key (accounts ! unat index)
     @ [u8_from_bool (pam_is_signer (accounts ! unat index))]
     @ [u8_from_bool (pam_is_writable (accounts ! unat index))]"
| "op_bytes data accounts (ManagerLimitAmount offset) = [2] @ u16_to_le offset"

definition leaf_header :: "pubkey \<Rightarrow> StrategyLeaf \<Rightarrow> bytes" where
  "leaf_header program_id input =
     program_id @ sl_vault input @ sl_strategist input
     @ u64_to_le (sl_policy_version input) @ sl_target_program input
     @ take 8 (sl_instruction_data input)
     @ u32_to_le (word_of_nat (length (sl_instruction_data input)))
     @ u16_to_le (word_of_nat (length (sl_accounts input)))
     @ [word_of_nat (length (sl_operators input))]"

definition leaf_preimage :: "pubkey \<Rightarrow> StrategyLeaf \<Rightarrow> bytes" where
  "leaf_preimage program_id input =
     STRATEGY_LEAF_DOMAIN @ leaf_header program_id input
     @ concat (map (op_bytes (sl_instruction_data input) (sl_accounts input)) (sl_operators input))"

lemma hash_operators_Inr:
  "hash_operators data accounts ops bytes amount n = Inr (bs, amount') \<Longrightarrow>
     bs = bytes @ concat (map (op_bytes data accounts) ops)
     \<and> (\<forall>op \<in> set ops. op_valid data accounts op)"
proof (induction ops arbitrary: bytes amount n)
  case (Cons op ops)
  then show ?case
    by (cases op) (auto simp: Let_def res_simps get_range_Some get_at_Some dest!: Cons.IH)
qed simp

lemma hash_strategy_leaf_Inr:
  assumes "hash_strategy_leaf hash program_id input = Inr (h, amount)"
  shows "h = hash (leaf_preimage program_id input)"
    and "8 \<le> length (sl_instruction_data input)" "length (sl_instruction_data input) \<le> 1024"
    and "length (sl_accounts input) \<le> 64" "length (sl_operators input) \<le> 32"
    and "\<forall>op \<in> set (sl_operators input).
      op_valid (sl_instruction_data input) (sl_accounts input) op"
proof -
  show b: "8 \<le> length (sl_instruction_data input)" "length (sl_instruction_data input) \<le> 1024"
    "length (sl_accounts input) \<le> 64" "length (sl_operators input) \<le> 32"
    using assms by (auto simp: hash_strategy_leaf_def res_simps MAX_MANAGE_IX_DATA_LEN_def
        MAX_MANAGE_CPI_ACCOUNTS_def MAX_POLICY_OPERATORS_def)
  then have n: "u_of_nat (length (sl_instruction_data input)) = Some (word_of_nat (length (sl_instruction_data input)) :: u32)"
    "u_of_nat (length (sl_accounts input)) = Some (word_of_nat (length (sl_accounts input)) :: u16)"
    "u_of_nat (length (sl_operators input)) = Some (word_of_nat (length (sl_operators input)) :: u8)"
    by (simp_all add: u_of_nat_def)
  from assms obtain bs where bs: "hash_operators (sl_instruction_data input) (sl_accounts input)
      (sl_operators input) (STRATEGY_LEAF_DOMAIN @ leaf_header program_id input) None 0 = Inr (bs, amount)"
    and h: "h = hash bs"
    by (auto simp: hash_strategy_leaf_def res_simps Let_def n leaf_header_def)
  from hash_operators_Inr [OF bs] h show "h = hash (leaf_preimage program_id input)"
    "\<forall>op \<in> set (sl_operators input). op_valid (sl_instruction_data input) (sl_accounts input) op"
    by (simp_all add: leaf_preimage_def)
qed

subsection \<open>The string determines what it commits to\<close>

text \<open>What one operator commits to, of an instruction and its accounts.\<close>

fun op_commits ::
  "bytes \<Rightarrow> PolicyAccountMeta list \<Rightarrow> bytes \<Rightarrow> PolicyAccountMeta list \<Rightarrow> PolicyOperator \<Rightarrow> bool" where
  "op_commits data accounts data' accounts' (IngestInstruction offset len) \<longleftrightarrow>
     take (unat len) (drop (unat offset) data) = take (unat len) (drop (unat offset) data')"
| "op_commits data accounts data' accounts' (IngestAccount index) \<longleftrightarrow>
     accounts ! unat index = accounts' ! unat index"
| "op_commits data accounts data' accounts' (ManagerLimitAmount offset) \<longleftrightarrow> True"

definition same_commitment :: "StrategyLeaf \<Rightarrow> StrategyLeaf \<Rightarrow> bool" where
  "same_commitment a b \<longleftrightarrow>
     sl_vault a = sl_vault b \<and> sl_strategist a = sl_strategist b
     \<and> sl_policy_version a = sl_policy_version b \<and> sl_target_program a = sl_target_program b
     \<and> length (sl_instruction_data a) = length (sl_instruction_data b)
     \<and> take 8 (sl_instruction_data a) = take 8 (sl_instruction_data b)
     \<and> length (sl_accounts a) = length (sl_accounts b)
     \<and> sl_operators a = sl_operators b
     \<and> (\<forall>op \<in> set (sl_operators a). op_commits (sl_instruction_data a) (sl_accounts a)
          (sl_instruction_data b) (sl_accounts b) op)"

definition wf_leaf :: "StrategyLeaf \<Rightarrow> bool" where
  "wf_leaf input \<longleftrightarrow>
     length (sl_vault input) = 32 \<and> length (sl_strategist input) = 32
     \<and> length (sl_target_program input) = 32
     \<and> (\<forall>account \<in> set (sl_accounts input). length (pam_key account) = 32)"

lemma u8_from_bool_inject [simp]: "u8_from_bool a = u8_from_bool b \<longleftrightarrow> a = b"
  by (simp add: u8_from_bool_def)

lemma op_bytes_prefix:
  assumes "op_bytes d as o1 @ xs = op_bytes d' as' o2 @ ys"
    and "op_valid d as o1" "op_valid d' as' o2"
    and "\<forall>account \<in> set as. length (pam_key account) = 32"
    and "\<forall>account \<in> set as'. length (pam_key account) = 32"
  shows "o1 = o2 \<and> op_commits d as d' as' o1 \<and> xs = ys"
proof (cases o1)
  case (IngestInstruction offset len)
  with assms show ?thesis
    by (cases o2) auto
next
  case (IngestAccount i)
  with assms(1) obtain j where o2: "o2 = IngestAccount j"
    by (cases o2) auto
  with assms IngestAccount have "as ! unat i \<in> set as" "as' ! unat j \<in> set as'"
    by auto
  with assms(4,5) have "length (pam_key (as ! unat i)) = length (pam_key (as' ! unat j))" by simp
  with assms(1) IngestAccount o2 show ?thesis
    by (auto intro: PolicyAccountMeta.equality)
next
  case (ManagerLimitAmount offset)
  with assms show ?thesis by (cases o2) auto
qed

lemma ops_bytes_inject:
  assumes "concat (map (op_bytes d as) ops) = concat (map (op_bytes d' as') ops')"
    and "length ops = length ops'"
    and "\<forall>op \<in> set ops. op_valid d as op" "\<forall>op \<in> set ops'. op_valid d' as' op"
    and keys: "\<forall>account \<in> set as. length (pam_key account) = 32"
      "\<forall>account \<in> set as'. length (pam_key account) = 32"
  shows "ops = ops' \<and> (\<forall>op \<in> set ops. op_commits d as d' as' op)"
  using assms(2,1,3,4)
proof (induction ops ops' rule: list_induct2)
  case (Cons o1 ops o2 ops')
  from Cons.prems have "op_bytes d as o1 @ concat (map (op_bytes d as) ops) =
      op_bytes d' as' o2 @ concat (map (op_bytes d' as') ops')" by simp
  from op_bytes_prefix [OF this _ _ keys] Cons.prems Cons.IH show ?case by auto
qed simp

lemma u_of_nat_inject:
  "m < 2 ^ LENGTH('a) \<Longrightarrow> n < 2 ^ LENGTH('a) \<Longrightarrow>
   (word_of_nat m :: 'a::len word) = word_of_nat n \<Longrightarrow> m = n"
  by (metis unat_of_nat_small)

lemma leaf_preimage_inject:
  assumes eq: "leaf_preimage pid a = leaf_preimage pid b" and wf: "wf_leaf a" "wf_leaf b"
    and "hash_strategy_leaf hash pid a = Inr (h, x)" "hash_strategy_leaf hash pid b = Inr (h', y)"
  shows "same_commitment a b"
proof -
  note la = hash_strategy_leaf_Inr [OF assms(4)] and lb = hash_strategy_leaf_Inr [OF assms(5)]
  have lens: "length (take 8 (sl_instruction_data a)) = 8" "length (take 8 (sl_instruction_data b)) = 8"
    using la(2) lb(2) by simp_all
  from eq wf lens have fields: "sl_vault a = sl_vault b" "sl_strategist a = sl_strategist b"
    "sl_policy_version a = sl_policy_version b" "sl_target_program a = sl_target_program b"
    "take 8 (sl_instruction_data a) = take 8 (sl_instruction_data b)"
    and n: "(word_of_nat (length (sl_instruction_data a)) :: u32) = word_of_nat (length (sl_instruction_data b))"
    "(word_of_nat (length (sl_accounts a)) :: u16) = word_of_nat (length (sl_accounts b))"
    "(word_of_nat (length (sl_operators a)) :: u8) = word_of_nat (length (sl_operators b))"
    and ops: "concat (map (op_bytes (sl_instruction_data a) (sl_accounts a)) (sl_operators a)) =
      concat (map (op_bytes (sl_instruction_data b) (sl_accounts b)) (sl_operators b))"
    unfolding leaf_preimage_def leaf_header_def wf_leaf_def by simp_all
  have counts: "length (sl_instruction_data a) = length (sl_instruction_data b)"
    "length (sl_accounts a) = length (sl_accounts b)" "length (sl_operators a) = length (sl_operators b)"
    using n la(3-5) lb(3-5) by (auto dest!: u_of_nat_inject [rotated 2])
  from ops_bytes_inject [OF ops counts(3) la(6) lb(6)] wf
  show ?thesis by (simp add: same_commitment_def fields counts wf_leaf_def)
qed

text \<open>
  C27. A strategy leaf commits to what it names. Two accepted leaves with the same hash have the
  same vault, strategist, policy version, target program, discriminator, operators and numbers of
  bytes and accounts, the same bytes in every ingested range and the same key and privileges at
  every ingested account, provided SHA-256 does not collide on the two strings hashed.
\<close>

theorem strategy_leaf_binds:
  assumes "inj_on hash {leaf_preimage program_id a, leaf_preimage program_id b}"
    and "wf_leaf a" "wf_leaf b"
    and "hash_strategy_leaf hash program_id a = Inr (h, x)"
    and "hash_strategy_leaf hash program_id b = Inr (h, y)"
  shows "same_commitment a b"
proof (rule leaf_preimage_inject [OF _ assms(2-5)])
  have "hash (leaf_preimage program_id a) = hash (leaf_preimage program_id b)"
    using hash_strategy_leaf_Inr(1) [OF assms(4)] hash_strategy_leaf_Inr(1) [OF assms(5)] by simp
  with assms(1) show "leaf_preimage program_id a = leaf_preimage program_id b"
    by (rule inj_onD) simp_all
qed

definition sample_leaf :: "bytes \<Rightarrow> StrategyLeaf" where
  "sample_leaf amount =
     \<lparr>sl_vault = replicate 32 1, sl_strategist = replicate 32 2, sl_policy_version = 1,
      sl_target_program = replicate 32 3, sl_instruction_data = replicate 8 7 @ amount,
      sl_accounts = [\<lparr>pam_key = replicate 32 4, pam_is_signer = False, pam_is_writable = True\<rparr>],
      sl_operators = [IngestAccount 0, ManagerLimitAmount 8]\<rparr>"

lemma sample_leaf_hash:
  "length amount = 8 \<Longrightarrow> hash_strategy_leaf hash program_id (sample_leaf amount) =
     Inr (hash (leaf_preimage program_id (sample_leaf (replicate 8 0))), Some (u64_from_le amount))"
  by (simp add: hash_strategy_leaf_def sample_leaf_def leaf_preimage_def leaf_header_def
      MAX_MANAGE_IX_DATA_LEN_def MAX_MANAGE_CPI_ACCOUNTS_def MAX_POLICY_OPERATORS_def u_of_nat_def
      get_at_def get_range_def)

lemma wf_sample_leaf: "wf_leaf (sample_leaf amount)"
  by (simp add: wf_leaf_def sample_leaf_def)

theorem strategy_leaf_binds_witness:
  "same_commitment (sample_leaf (replicate 8 1)) (sample_leaf (replicate 8 2))"
  by (rule strategy_leaf_binds [of "\<lambda>x. x" "key 9" _ _ "leaf_preimage (key 9) (sample_leaf (replicate 8 0))"
        "Some (u64_from_le (replicate 8 1))" "Some (u64_from_le (replicate 8 2))"])
    (simp_all add: wf_sample_leaf sample_leaf_hash)

subsection \<open>Only the tree's leaves have proofs\<close>

definition node_preimage :: "bytes \<Rightarrow> bytes \<Rightarrow> bytes" where
  "node_preimage a b = STRATEGY_NODE_DOMAIN @ (if a \<le> b then a @ b else b @ a)"

fun level_preimages :: "bytes list \<Rightarrow> bytes list" where
  "level_preimages [] = []"
| "level_preimages [a] = [node_preimage a a]"
| "level_preimages (a # b # rest) = node_preimage a b # level_preimages rest"

definition tree_preimages :: "(bytes \<Rightarrow> bytes) \<Rightarrow> bytes list \<Rightarrow> bytes list" where
  "tree_preimages hash leaves = concat (map level_preimages (butlast (tree_levels hash (sort leaves))))"

fun path_preimages :: "(bytes \<Rightarrow> bytes) \<Rightarrow> bytes \<Rightarrow> bytes list \<Rightarrow> bytes list" where
  "path_preimages hash v [] = []"
| "path_preimages hash v (s # ss) = node_preimage v s # path_preimages hash (hash_strategy_node hash v s) ss"

lemma node_hash: "hash_strategy_node hash a b = hash (node_preimage a b)"
  by (simp add: hash_strategy_node_def node_preimage_def)

lemma next_level_preimages: "next_level hash xs = map hash (level_preimages xs)"
  by (induction xs rule: level_preimages.induct) (simp_all add: node_eq node_hash)

lemma level_preimages_pair:
  "p \<in> set (level_preimages xs) \<Longrightarrow> \<exists>a \<in> set xs. \<exists>b \<in> set xs. p = node_preimage a b"
  by (induction xs rule: level_preimages.induct) auto

lemma node_preimage_inject:
  assumes "node_preimage a b = node_preimage c d" "length a = 32" "length b = 32"
    and "length c = 32" "length d = 32"
  shows "a = c \<or> a = d"
  using assms by (auto simp: node_preimage_def split: if_splits)

lemma leaf_not_node: "leaf_preimage pid l \<noteq> node_preimage a b"
proof
  assume eq: "leaf_preimage pid l = node_preimage a b"
  have len: "length STRATEGY_LEAF_DOMAIN = length STRATEGY_NODE_DOMAIN"
    by (simp add: STRATEGY_LEAF_DOMAIN_def STRATEGY_NODE_DOMAIN_def ascii_def)
  have "STRATEGY_LEAF_DOMAIN = STRATEGY_NODE_DOMAIN"
    using eq len by (simp add: leaf_preimage_def node_preimage_def)
  then show False
    by (simp add: STRATEGY_LEAF_DOMAIN_def STRATEGY_NODE_DOMAIN_def ascii_def)
qed

lemma path_preimages_snoc:
  "path_preimages hash v (ss @ [s]) =
     path_preimages hash v ss @ [node_preimage (foldl (hash_strategy_node hash) v ss) s]"
  by (induction ss arbitrary: v) simp_all

text \<open>
  One step down a tree: a value that climbs to the level above has climbed to this level before.
  \<open>S\<close> is the set of strings on which the hash does not collide.
\<close>

lemma climb_down:
  assumes inj: "inj_on hash S" and len: "\<forall>x. length (hash x) = 32"
    and nodes: "set (level_preimages xs) \<subseteq> S" and xs: "\<forall>x \<in> set xs. length x = 32"
    and leaf: "v = hash p" "p \<in> S" "\<forall>a b. p \<noteq> node_preimage a b"
    and path: "set (path_preimages hash v path) \<subseteq> S" "\<forall>s \<in> set path. length s = 32"
    and up: "foldl (hash_strategy_node hash) v path \<in> set (next_level hash xs)"
  shows "\<exists>ss s. path = ss @ [s] \<and> foldl (hash_strategy_node hash) v ss \<in> set xs"
proof -
  from up obtain q where q: "q \<in> set (level_preimages xs)"
    "foldl (hash_strategy_node hash) v path = hash q" by (auto simp: next_level_preimages)
  from level_preimages_pair [OF q(1)] obtain a b
    where ab: "a \<in> set xs" "b \<in> set xs" "q = node_preimage a b" by blast
  show ?thesis
  proof (cases path rule: rev_cases)
    case Nil
    with q(2) leaf(1) have "hash p = hash q" by simp
    with inj leaf(2) q(1) nodes have "p = q" by (auto dest: inj_onD)
    with leaf(3) ab(3) show ?thesis by blast
  next
    case (snoc ss s)
    let ?w = "foldl (hash_strategy_node hash) v ss"
    have w: "length ?w = 32"
      using len leaf(1) by (cases ss rule: rev_cases) (simp_all add: node_hash)
    from snoc path(1) have "node_preimage ?w s \<in> S" by (simp add: path_preimages_snoc)
    moreover from snoc q(2) have "hash (node_preimage ?w s) = hash q" by (simp add: node_hash)
    ultimately have "node_preimage ?w s = q" using inj q(1) nodes by (auto dest: inj_onD)
    then have "?w = a \<or> ?w = b"
      using node_preimage_inject [of ?w s a b] ab xs w path(2) snoc by auto
    with ab snoc show ?thesis by blast
  qed
qed

lemma path_preimages_append:
  "path_preimages hash v (xs @ ys) =
     path_preimages hash v xs @ path_preimages hash (foldl (hash_strategy_node hash) v xs) ys"
  by (induction xs arbitrary: v) simp_all

lemma climb_to_root:
  assumes inj: "inj_on hash S" and len: "\<forall>x. length (hash x) = 32"
    and leaf: "v = hash p" "p \<in> S" "\<forall>a b. p \<noteq> node_preimage a b"
    and path: "set (path_preimages hash v path) \<subseteq> S" "\<forall>s \<in> set path. length s = 32"
  shows "xs \<noteq> [] \<Longrightarrow> set (concat (map level_preimages (butlast (tree_levels hash xs)))) \<subseteq> S \<Longrightarrow>
    \<forall>x \<in> set xs. length x = 32 \<Longrightarrow>
    foldl (hash_strategy_node hash) v path = hd (last (tree_levels hash xs)) \<Longrightarrow>
    \<exists>ss rest. path = ss @ rest \<and> foldl (hash_strategy_node hash) v ss \<in> set xs"
proof (induction xs rule: measure_induct_rule [where f = length])
  case (less xs)
  show ?case
  proof (cases "length xs > 1")
    case False
    with less.prems(1) obtain r where "xs = [r]" by (cases xs) auto
    with less.prems(4) show ?thesis
      by (intro exI [of _ path] exI [of _ "[]"]) (simp add: tree_levels.simps)
  next
    case True
    let ?ys = "next_level hash xs"
    have levels: "tree_levels hash xs = xs # tree_levels hash ?ys"
      using True by (subst tree_levels.simps) simp
    have "length ?ys < length xs" using True by (simp add: length_next_level)
    moreover have "?ys \<noteq> []" using True length_next_level [of hash xs] by auto
    moreover have "set (level_preimages xs) \<subseteq> S"
      "set (concat (map level_preimages (butlast (tree_levels hash ?ys)))) \<subseteq> S"
      using less.prems(2) by (simp_all add: levels)
    moreover have "\<forall>y \<in> set ?ys. length y = 32"
      using len by (auto simp: next_level_preimages)
    moreover have "foldl (hash_strategy_node hash) v path = hd (last (tree_levels hash ?ys))"
      using less.prems(4) by (simp add: levels)
    ultimately obtain ss rest where ss: "path = ss @ rest"
      "foldl (hash_strategy_node hash) v ss \<in> set ?ys" and S: "set (level_preimages xs) \<subseteq> S"
      using less.IH [of ?ys] by blast
    have "set (path_preimages hash v ss) \<subseteq> S" "\<forall>s \<in> set ss. length s = 32"
      using path by (simp_all add: ss(1) path_preimages_append)
    from climb_down [OF inj len S less.prems(3) leaf this ss(2)] obtain ss' s
      where "ss = ss' @ [s]" "foldl (hash_strategy_node hash) v ss' \<in> set xs" by blast
    with ss(1) show ?thesis by auto
  qed
qed

lemma accepted_action_listed:
  assumes leaves: "list_all2 (\<lambda>l leaf. hash_strategy_policy_leaf hash program_id l = Inr leaf) policy leaves"
    and tree: "build_strategy_policy_merkle_tree hash leaves = Inr tree"
    and action: "hash_strategy_leaf hash program_id action = Inr (h, amount)"
    and accepted: "verify_strategy_proof hash h proof_path (smt_root tree) = Inr ()"
    and wf: "wf_leaf action" "\<forall>l \<in> set policy. wf_leaf l"
    and bytes: "\<forall>x. length (hash x) = 32" "\<forall>s \<in> set proof_path. length s = 32"
    and inj: "inj_on hash (set (leaf_preimage program_id action # map (leaf_preimage program_id) policy
      @ tree_preimages hash leaves @ path_preimages hash h proof_path))"
  shows "\<exists>l \<in> set policy. same_commitment action l"
proof -
  let ?S = "set (leaf_preimage program_id action # map (leaf_preimage program_id) policy
    @ tree_preimages hash leaves @ path_preimages hash h proof_path)"
  have policy_leaf: "\<exists>l \<in> set policy. \<exists>x. hash_strategy_leaf hash program_id l = Inr (leaf, x)
      \<and> leaf = hash (leaf_preimage program_id l)" if "leaf \<in> set leaves" for leaf
    using leaves that hash_strategy_leaf_Inr(1)
    by (fastforce simp: list_all2_conv_all_nth in_set_conv_nth leaf_hashes_agree_lemma)
  have h: "h = hash (leaf_preimage program_id action)"
    using action by (rule hash_strategy_leaf_Inr(1))
  from tree have t: "leaves \<noteq> []" "smt_root tree = hd (last (tree_levels hash (sort leaves)))"
    by (auto simp: build_strategy_policy_merkle_tree_def Let_def split: if_splits)
  from accepted have root: "foldl (hash_strategy_node hash) h proof_path = hd (last (tree_levels hash (sort leaves)))"
    by (simp add: verify_strategy_proof_def Let_def res_simps t(2))
  have "\<exists>ss rest. proof_path = ss @ rest \<and> foldl (hash_strategy_node hash) h ss \<in> set (sort leaves)"
  proof (rule climb_to_root [OF inj bytes(1) h])
    show "leaf_preimage program_id action \<in> ?S" by simp
    show "\<forall>a b. leaf_preimage program_id action \<noteq> node_preimage a b" using leaf_not_node by blast
    show "set (path_preimages hash h proof_path) \<subseteq> ?S" by auto
    show "\<forall>s \<in> set proof_path. length s = 32" by (rule bytes(2))
    show "sort leaves \<noteq> []" using t(1) by (metis length_0_conv length_sort)
    show "set (concat (map level_preimages (butlast (tree_levels hash (sort leaves))))) \<subseteq> ?S"
      by (auto simp: tree_preimages_def)
    show "\<forall>x \<in> set (sort leaves). length x = 32" using policy_leaf bytes(1) by fastforce
  qed (rule root)
  then obtain ss rest where ss: "proof_path = ss @ rest" "foldl (hash_strategy_node hash) h ss \<in> set leaves"
    by auto
  from policy_leaf [OF ss(2)] obtain l x where l: "l \<in> set policy"
    "hash_strategy_leaf hash program_id l = Inr (foldl (hash_strategy_node hash) h ss, x)"
    "foldl (hash_strategy_node hash) h ss = hash (leaf_preimage program_id l)" by blast
  have "ss = []"
  proof (cases ss rule: rev_cases)
    case (snoc ys s)
    let ?n = "node_preimage (foldl (hash_strategy_node hash) h ys) s"
    have "hash ?n = hash (leaf_preimage program_id l)" using l(3) by (simp add: snoc node_hash)
    moreover have "?n \<in> ?S" by (simp add: ss(1) snoc path_preimages_append)
    moreover have "leaf_preimage program_id l \<in> ?S" using l(1) by simp
    ultimately have "?n = leaf_preimage program_id l" by (rule inj_onD [OF inj])
    then show ?thesis using leaf_not_node by metis
  qed
  with l(2) have "hash_strategy_leaf hash program_id l = Inr (h, x)" by simp
  moreover have "leaf_preimage program_id action = leaf_preimage program_id l"
  proof (rule inj_onD [OF inj])
    show "hash (leaf_preimage program_id action) = hash (leaf_preimage program_id l)"
      using h l(3) \<open>ss = []\<close> by simp
  qed (use l(1) in simp_all)
  ultimately have "same_commitment action l"
    using leaf_preimage_inject [OF _ wf(1) _ action] wf(2) l(1) by blast
  with l(1) show ?thesis by blast
qed

text \<open>
  C8. A strategist can only run what the policy lists. If the program accepts an action with some
  proof against the root of the tree that the client built from a policy, then the action commits
  to the same things as one of the policy's leaves: no proof, of any length, makes an internal
  node, a combination of leaves or an unlisted action pass. SHA-256 gives 32 bytes and is
  assumed free of collisions on the strings hashed for the action, the policy, its tree and the
  proof.
\<close>

theorem accepted_action_is_in_policy:
  assumes leaves: "list_all2 (\<lambda>l leaf. hash_strategy_policy_leaf hash program_id l = Inr leaf) policy leaves"
    and tree: "build_strategy_policy_merkle_tree hash leaves = Inr tree"
    and action: "hash_strategy_leaf hash program_id action = Inr (h, amount)"
    and accepted: "verify_strategy_proof hash h proof_path (smt_root tree) = Inr ()"
    and wf: "wf_leaf action" "\<forall>l \<in> set policy. wf_leaf l"
    and bytes: "\<forall>x. length (hash x) = 32" "\<forall>s \<in> set proof_path. length s = 32"
    and inj: "inj_on hash (set (leaf_preimage program_id action # map (leaf_preimage program_id) policy
      @ tree_preimages hash leaves @ path_preimages hash h proof_path))"
  shows "\<exists>l \<in> set policy. same_commitment action l"
  by (rule accepted_action_listed [OF assms])

text \<open>A policy of one leaf with a dynamic amount, and an action with another amount.\<close>

definition sample_hash :: "bytes \<Rightarrow> bytes" where
  "sample_hash x = take 32 (rev x @ replicate 32 0)"

lemma length_sample_hash [simp]: "length (sample_hash x) = 32"
  by (auto simp: sample_hash_def min_def)

theorem accepted_action_is_in_policy_witness:
  "\<exists>l \<in> set [sample_leaf (replicate 8 0)]. same_commitment (sample_leaf (replicate 8 5)) l"
proof -
  let ?h = "sample_hash (leaf_preimage (key 9) (sample_leaf (replicate 8 0)))"
  have tree: "build_strategy_policy_merkle_tree sample_hash [?h] =
      Inr \<lparr>smt_leaves = [?h], smt_levels = [[?h]], smt_root = ?h\<rparr>"
    by (simp add: build_strategy_policy_merkle_tree_def tree_levels.simps MAX_POLICY_LEAVES_def Let_def)
  have same: "leaf_preimage (key 9) (sample_leaf (replicate 8 5)) =
      leaf_preimage (key 9) (sample_leaf (replicate 8 0))"
    by (simp add: leaf_preimage_def leaf_header_def sample_leaf_def)
  show ?thesis
    by (rule accepted_action_is_in_policy [OF _ tree, of "key 9" _ _ ?h
          "Some (u64_from_le (replicate 8 5))" "[]"])
      (simp_all add: leaf_hashes_agree_lemma sample_leaf_hash wf_sample_leaf same
        verify_strategy_proof_def tree_preimages_def tree_levels.simps)
qed

end
