(* ===== verification/Managed_Soundness.thy ===== *)
theory Managed_Soundness
  imports System_Runs Merkle_Soundness
begin

text \<open>
  What a strategist can do with the vault's signature: only actions the policy lists, on venues
  the vault approves, within the manager's limit, with nothing of the vault's own accounts
  changed but that limit, and not through the same policy twice at once.
\<close>

text \<open>
  C10. Managed calls are confined. A managed call that succeeds was made by the policy's strategist,
  who is the manager, or the hot manager on a venue marked routine-safe; vault, policy, venue and
  approval are all active, the policy version is the current one, and the target is the venue's
  executable program and not the vault program. Afterwards the program's accounts are what they were,
  but for the manager's window, in which the committed amount is consumed, and the policy is
  not executing; the share supply has not moved.
\<close>
theorem managed_call_is_confined:
  assumes "manage_vault_with_merkle_verification E invoke accts ra args w = Inr w'" and "confined invoke"
  shows "\<exists>v v' sp ve vv L amount. w_vaults w (mv_vault accts) = Some v
    \<and> w_policies w (mv_strategy_policy accts) = Some sp
    \<and> w_venue_entries w (mv_venue_entry accts) = Some ve \<and> w_vault_venues w (mv_vault_venue accts) = Some vv
    \<and> (mv_strategist accts = v_manager v \<or> mv_strategist accts = v_hot_manager v \<and> vv_routine_safe vv)
    \<and> sp_strategist sp = mv_strategist accts \<and> sp_vault sp = mv_vault accts
    \<and> sp_version sp = mva_policy_version args
    \<and> \<not> v_paused v \<and> v_initialized v \<and> \<not> sp_paused sp \<and> \<not> sp_executing sp \<and> \<not> ve_paused ve \<and> \<not> vv_paused vv
    \<and> ai_key (mv_target_program accts) = ve_target_program ve
    \<and> ai_executable (mv_target_program accts) \<and> ai_key (mv_target_program accts) \<noteq> env_program_id E
    \<and> (case amount of
         None \<Rightarrow> v' = v
       | Some n \<Rightarrow> Vault_consume_manager_rolling_limit v n (env_slot E) = Inr v')
    \<and> w' = w\<lparr>w_ledger := L,
        w_policies := (w_policies w)(mv_strategy_policy accts \<mapsto> sp\<lparr>sp_executing := False\<rparr>),
        w_vaults := (w_vaults w)(mv_vault accts \<mapsto> v')\<rparr>
    \<and> map_option mint_supply (l_mints L (v_share_mint v)) = map_option mint_supply (l_mints (w_ledger w) (v_share_mint v))"
  using assms
proof (rule managed_call_Inr, goal_cases)
  case (1 v v' sp ve vv L leaf amount m m')
  note allowed = 1(5) [unfolded assert_call_allowed_def, simplified res_simps Let_def vault_guard_defs
    venue_guard_defs policy_guard_defs]
  have limit: "case amount of None \<Rightarrow> v' = v
    | Some n \<Rightarrow> Vault_consume_manager_rolling_limit v n (env_slot E) = Inr v'"
    using 1(8) by (cases amount) auto
  show ?case
    by (rule exI [of _ v], rule exI [of _ v'], rule exI [of _ sp], rule exI [of _ ve], rule exI [of _ vv],
        rule exI [of _ L], rule exI [of _ amount])
      (use 1 allowed limit in auto)
qed

theorem managed_call_is_confined_witness:
  "\<exists>w v. manage_vault_with_merkle_verification managed_env paying_program sample_managed []
       sample_managed_args venue_world = Inr w
     \<and> w_vaults w (key 20) = Some v \<and> v_manager_window_amount v = 200
     \<and> w_positions w = w_positions venue_world \<and> w_requests w = w_requests venue_world"
proof -
  obtain w v where w: "manage_vault_with_merkle_verification managed_env paying_program sample_managed []
       sample_managed_args venue_world = Inr w" "w_vaults w (key 20) = Some v" "v_manager_window_amount v = 200"
    using sample_managed_runs by blast
  have "confined paying_program" by (auto simp: confined_def paying_program_def)
  from managed_call_is_confined [OF w(1) this] have "w_positions w = w_positions venue_world"
    "w_requests w = w_requests venue_world" by auto
  with w show ?thesis by blast
qed

text \<open>
  C11. No re-entrance. A managed call whose target program calls back into a managed call of the same
  policy, in whatever way, with whatever accounts and arguments, fails.
\<close>
theorem policy_is_not_reentered:
  assumes "\<And>program metas data infos w1. \<exists>invoke2 accts2 ra2 args2.
      mv_strategy_policy accts2 = mv_strategy_policy accts
      \<and> invoke program metas data infos w1
        = manage_vault_with_merkle_verification E invoke2 accts2 ra2 args2 w1"
  shows "\<exists>e. manage_vault_with_merkle_verification E invoke accts ra args w = Inl e"
proof -
  have inner: False
    if "manage_vault_with_merkle_verification E invoke2 accts2 ra2 args2 w1 = Inr w2"
      "w_policies w1 (mv_strategy_policy accts2) = Some sp" "sp_executing sp"
    for invoke2 accts2 ra2 args2 w1 w2 sp
    using that
    by (auto simp: manage_vault_with_merkle_verification_def res_simps assert_call_allowed_def
        policy_guard_defs Let_def)
  have "invoke program metas data infos w1 \<noteq> Inr w2"
    if "w_policies w1 (mv_strategy_policy accts) = Some sp" "sp_executing sp" for program metas data infos w1 w2 sp
    using assms [of program metas data infos w1] inner that by metis
  then have "manage_vault_with_merkle_verification E invoke accts ra args w \<noteq> Inr w'" for w'
    by (auto simp: manage_vault_with_merkle_verification_def res_simps Let_def)
  then show ?thesis by (cases "manage_vault_with_merkle_verification E invoke accts ra args w") auto
qed

text \<open>The sample's call succeeds with the paying program, and fails with one that repeats the call.\<close>

definition reentering_program :: cpi where
  "reentering_program program metas data infos w =
     manage_vault_with_merkle_verification managed_env paying_program sample_managed []
       sample_managed_args w"

theorem policy_is_not_reentered_witness:
  "(\<exists>w e. manage_vault_with_merkle_verification managed_env paying_program sample_managed []
       sample_managed_args venue_world = Inr w
     \<and> manage_vault_with_merkle_verification managed_env reentering_program sample_managed []
       sample_managed_args venue_world = Inl e)"
proof -
  have "\<exists>invoke2 accts2 ra2 args2. mv_strategy_policy accts2 = mv_strategy_policy sample_managed
      \<and> reentering_program program metas data infos w1
        = manage_vault_with_merkle_verification managed_env invoke2 accts2 ra2 args2 w1"
    for program metas data infos w1 unfolding reentering_program_def by blast
  from policy_is_not_reentered [where invoke = reentering_program and accts = sample_managed
    and E = managed_env, OF this] sample_managed_runs show ?thesis by blast
qed

text \<open>The action a call's proof is about.\<close>

definition called_action ::
  "ManageVaultWithMerkleVerification \<Rightarrow> ManageVaultWithMerkleVerificationArgs \<Rightarrow> account_info list \<Rightarrow>
   StrategyLeaf" where
  "called_action accts args ra = strategy_leaf_of accts args (map (policy_account_meta (mv_vault accts)) ra)"

text \<open>
  C9. A strategist's call was listed. If the policy's root is that of the tree the client built from
  a list of actions, then any managed call that succeeds under the policy commits to the same
  vault, strategist, version, program, discriminator, counts and ingested bytes and accounts as
  one of the listed actions, whatever the proof and the invoked program. SHA-256 gives 32 bytes
  and is assumed free of collisions on the strings hashed for the call, the list, its tree and
  the proof.
\<close>
theorem managed_call_was_listed:
  assumes run: "manage_vault_with_merkle_verification E invoke accts ra args w = Inr w'"
    and leaves: "list_all2 (\<lambda>l leaf. hash_strategy_policy_leaf (env_hash E) (env_program_id E) l = Inr leaf)
      listed leaves"
    and tree: "build_strategy_policy_merkle_tree (env_hash E) leaves = Inr tree"
    and policy: "w_policies w (mv_strategy_policy accts) = Some sp" "sp_merkle_root sp = smt_root tree"
    and wf: "wf_leaf (called_action accts args ra)" "\<forall>l \<in> set listed. wf_leaf l"
    and bytes: "\<forall>x. length (env_hash E x) = 32" "\<forall>s \<in> set (mva_proof args). length s = 32"
    and inj: "inj_on (env_hash E) (set (leaf_preimage (env_program_id E) (called_action accts args ra)
      # map (leaf_preimage (env_program_id E)) listed @ tree_preimages (env_hash E) leaves
      @ path_preimages (env_hash E) (env_hash E (leaf_preimage (env_program_id E) (called_action accts args ra))) (mva_proof args)))"
  shows "\<exists>l \<in> set listed. same_commitment (called_action accts args ra) l"
proof -
  obtain leaf amount where leaf: "hash_strategy_leaf (env_hash E) (env_program_id E) (called_action accts args ra) = Inr (leaf, amount)"
    "verify_strategy_proof (env_hash E) leaf (mva_proof args) (smt_root tree) = Inr ()"
    using run policy
    by (auto simp: manage_vault_with_merkle_verification_def res_simps Let_def called_action_def)
  show ?thesis
    by (rule accepted_action_listed [OF leaves tree leaf wf bytes])
      (use inj in \<open>simp add: hash_strategy_leaf_Inr(1) [OF leaf(1)]\<close>)
qed

theorem managed_call_was_listed_witness:
  "\<exists>l \<in> set [strategy_leaf_of sample_managed sample_managed_args []].
     same_commitment (called_action sample_managed sample_managed_args []) l"
proof -
  let ?listed = "[strategy_leaf_of sample_managed sample_managed_args []]"
  let ?tree = "\<lparr>smt_leaves = [replicate 32 1], smt_levels = [[replicate 32 1]], smt_root = replicate 32 1\<rparr>"
  have hash: "env_hash managed_env = (\<lambda>_. replicate 32 1)" by (simp add: managed_env_def)
  obtain w where w: "manage_vault_with_merkle_verification managed_env paying_program sample_managed []
      sample_managed_args venue_world = Inr w" using sample_managed_runs by blast
  have tree: "build_strategy_policy_merkle_tree (env_hash managed_env) [replicate 32 1] = Inr ?tree"
    by (simp add: build_strategy_policy_merkle_tree_def tree_levels.simps MAX_POLICY_LEAVES_def Let_def)
  have wf: "wf_leaf (strategy_leaf_of sample_managed sample_managed_args [])"
    by (simp add: wf_leaf_def strategy_leaf_of_def sample_managed_def)
  have leaves: "list_all2 (\<lambda>l leaf. hash_strategy_policy_leaf (env_hash managed_env) (env_program_id managed_env) l
      = Inr leaf) ?listed [replicate 32 1]"
    by (simp add: hash leaf_hashes_agree_lemma sample_managed_leaf)
  show ?thesis
    using managed_call_was_listed [OF w, of ?listed "[replicate 32 1]" ?tree managed_policy] leaves tree wf
    by (simp add: hash called_action_def managed_policy_def sample_managed_args_def tree_preimages_def tree_levels.simps)
qed

end
