(* ===== verification/Limit_Windows.thy ===== *)
theory Limit_Windows
  imports Rolling_Limit Samples
begin

text \<open>
  What the rolling limits guarantee, for the buckets of the program: one consumption is one step
  of the epoch window model, and a run of consumptions lets at most twice the limit through in
  any stretch of slots as long as the configured window.
\<close>

text \<open>
  C25. Refinement of the window model. With a limit and a window configured and no overflow of the
  window's end, \<open>consume_rolling_limit\<close> accepts exactly when the abstract window (absent, expired
  or open) has room for the amount, and its result is the abstract window after it.
\<close>
theorem rolling_limit_refines_window:
  assumes "limit \<noteq> 0" and "0 < window" and "unat start + unat window < 2 ^ 64"
  shows "(case consume_rolling_limit amount slot limit window start consumed of
            Inl e \<Rightarrow> None | Inr (start', consumed') \<Rightarrow> Some (unat start', unat consumed'))
       = spec_consume (unat amount) (unat slot) (unat limit) (unat window) (abs_window start consumed)"
  using consume_rolling_limit_spec [OF assms, of amount slot consumed]
  by (auto split: sum.splits)

theorem rolling_limit_refines_window_witness:
  "(case consume_rolling_limit 40 25 100 10 12 70 of
      Inl e \<Rightarrow> None | Inr (start', consumed') \<Rightarrow> Some (unat start', unat consumed')) = Some (25, 40)"
  using rolling_limit_refines_window [of 100 10 12 40 25 70]
  by (simp add: spec_consume_def abs_window_def)

text \<open>
  C21. Redemptions in any window. Starting from an empty bucket, whatever redemptions are tried in
  slot order, the ones the vault's redemption limit accepts within any stretch of slots as long as
  the configured window total at most twice the limit.
\<close>
theorem redemptions_in_any_window:
  assumes "v_redemption_window_start_slot v = 0" and "v_redemption_window_amount v = 0"
    and "v_redemption_rolling_limit v \<noteq> 0"
    and "sorted (map (\<lambda>op. unat (snd op)) ops)"
  shows "accepted_between t (unat (v_rolling_limit_window_slots v))
           (snd (bucket_run Vault_consume_redemption_rolling_limit v ops))
         \<le> 2 * unat (v_redemption_rolling_limit v)"
  by (rule redemption_bucket.sliding_window_bound) fact+

text \<open>
  The sample vault with a limit of 100 per 100 slots: 20 at slot 1, 80 at slot 100 and 100 at slot
  101 are all accepted, so 180 leave in two consecutive slots.
\<close>

definition limited_vault :: vault where
  "limited_vault = sample_vault\<lparr>v_redemption_rolling_limit := 100\<rparr>"

lemma limited_vault_run:
  "snd (bucket_run Vault_consume_redemption_rolling_limit limited_vault [(20, 1), (80, 100), (1, 100), (100, 101)])
     = [(20, 1), (80, 100), (100, 101)]"
  by (simp add: limited_vault_def sample_vault_def Vault_consume_redemption_rolling_limit_def
      consume_rolling_limit_def checked_add_def u_of_nat_def Let_def)

theorem redemptions_in_any_window_witness:
  "accepted_between 100 100
     (snd (bucket_run Vault_consume_redemption_rolling_limit limited_vault
       [(20, 1), (80, 100), (1, 100), (100, 101)])) = 180
   \<and> (180::nat) \<le> 2 * unat (v_redemption_rolling_limit limited_vault)"
proof -
  have vault: "v_rolling_limit_window_slots limited_vault = 100" "v_redemption_rolling_limit limited_vault = 100"
    by (simp_all add: limited_vault_def sample_vault_def)
  have "accepted_between 100 (unat (v_rolling_limit_window_slots limited_vault))
      (snd (bucket_run Vault_consume_redemption_rolling_limit limited_vault
        [(20, 1), (80, 100), (1, 100), (100, 101)])) \<le> 2 * unat (v_redemption_rolling_limit limited_vault)"
    by (rule redemptions_in_any_window) (simp_all add: limited_vault_def sample_vault_def)
  then show ?thesis
    unfolding limited_vault_run vault by (simp add: accepted_between_def)
qed

end
