(* ===== verification/Client_Reader.thy ===== *)
theory Client_Reader
  imports Extension_Instructions
begin

text \<open>
  The readers of the Rust client (\<open>clients/rust/async_vault_v2/src/extensions\<close>), which decode a
  vault's or a request's extensions from the raw account data. The data of a vault account is its
  first \<open>VAULT_TLV_START\<close> bytes, written by Anchor, and then the region the program's state calls
  \<open>v_tlv\<close>. Borsh's \<open>try_from_slice\<close>, which a derive generates, is an argument where an
  enum is decoded.
\<close>

definition VAULT_TLV_START :: nat where "VAULT_TLV_START = 672"
definition CLIENT_REQUEST_TLV_START :: nat where "CLIENT_REQUEST_TLV_START = 211"

definition client_get_extension_bytes :: "bytes \<Rightarrow> ExtensionType \<Rightarrow> bytes option" where
  "client_get_extension_bytes tlv_data ext_type = get_tlv_bytes tlv_data (ExtensionType_as_u16 ext_type)"

definition client_get_request_extension_bytes :: "bytes \<Rightarrow> RequestExtensionType \<Rightarrow> bytes option" where
  "client_get_request_extension_bytes request_data ext_type =
     (if length request_data \<le> CLIENT_REQUEST_TLV_START then None
      else get_tlv_bytes (drop CLIENT_REQUEST_TLV_START request_data) (RequestExtensionType_as_u16 ext_type))"

text \<open>The check and lookup every vault getter starts with.\<close>

definition client_vault_bytes :: "bytes \<Rightarrow> ExtensionType \<Rightarrow> bytes option" where
  "client_vault_bytes vault_data ext_type =
     (if length vault_data \<le> VAULT_TLV_START then None
      else client_get_extension_bytes (drop VAULT_TLV_START vault_data) ext_type)"

definition client_get_fee :: "(bytes \<Rightarrow> FeeType option) \<Rightarrow> bytes \<Rightarrow> ExtensionType \<Rightarrow> FeeType option" where
  "client_get_fee try_from_slice vault_data ext_type =
     Option.bind (client_vault_bytes vault_data ext_type) try_from_slice"

definition client_get_deposit_fee :: "(bytes \<Rightarrow> FeeType option) \<Rightarrow> bytes \<Rightarrow> FeeType option" where
  "client_get_deposit_fee try_from_slice vault_data = client_get_fee try_from_slice vault_data DepositFee"

definition client_get_withdrawal_fee :: "(bytes \<Rightarrow> FeeType option) \<Rightarrow> bytes \<Rightarrow> FeeType option" where
  "client_get_withdrawal_fee try_from_slice vault_data = client_get_fee try_from_slice vault_data WithdrawalFee"

record ClientInstantSettlement =
  cis_min_deposit_amount :: u64
  cis_max_deposit_amount :: u64
  cis_min_redeem_shares :: u64
  cis_max_redeem_shares :: u64
  cis_max_user_deposit_amount :: u64
  cis_max_user_redeem_shares :: u64
  cis_enabled :: bool

definition client_instant_settlement_state :: "bytes \<Rightarrow> ClientInstantSettlement option" where
  "client_instant_settlement_state vault_data =
     Option.bind (client_vault_bytes vault_data InstantSettlement) (\<lambda>bytes.
     if length bytes < 56 then None
     else Some \<lparr>cis_min_deposit_amount = u64_field 0 bytes, cis_max_deposit_amount = u64_field 1 bytes,
        cis_min_redeem_shares = u64_field 2 bytes, cis_max_redeem_shares = u64_field 3 bytes,
        cis_max_user_deposit_amount = u64_field 4 bytes, cis_max_user_redeem_shares = u64_field 5 bytes,
        cis_enabled = (get_at bytes 48 = Some 1)\<rparr>)"

definition client_instant_settlement_is_enabled :: "bytes \<Rightarrow> bool" where
  "client_instant_settlement_is_enabled vault_data =
     (case client_instant_settlement_state vault_data of None \<Rightarrow> False | Some s \<Rightarrow> cis_enabled s)"

definition client_externally_managed_state :: "bytes \<Rightarrow> bool option" where
  "client_externally_managed_state vault_data =
     map_option (\<lambda>bytes. get_at bytes 0 = Some 1) (client_vault_bytes vault_data ExternallyManagedWithdrawals)"

definition client_externally_managed_is_enabled :: "bytes \<Rightarrow> bool" where
  "client_externally_managed_is_enabled vault_data =
     (case client_externally_managed_state vault_data of None \<Rightarrow> False | Some enabled \<Rightarrow> enabled)"

definition client_min_threshold :: "ExtensionType \<Rightarrow> bytes \<Rightarrow> u64 option" where
  "client_min_threshold ext_type vault_data =
     Option.bind (client_vault_bytes vault_data ext_type) (\<lambda>bytes.
     if length bytes < 8 then None else Some (u64_from_le (take 8 bytes)))"

definition client_min_subscription_state :: "bytes \<Rightarrow> u64 option" where
  "client_min_subscription_state = client_min_threshold MinSubscription"

definition client_min_redemption_state :: "bytes \<Rightarrow> u64 option" where
  "client_min_redemption_state = client_min_threshold MinRedemption"

definition client_paused :: "ExtensionType \<Rightarrow> bytes \<Rightarrow> bool option" where
  "client_paused ext_type vault_data =
     Option.bind (client_vault_bytes vault_data ext_type) (\<lambda>bytes.
     if bytes = [] then None else Some (bytes ! 0 \<noteq> 0))"

definition client_pausable_subscriptions_state :: "bytes \<Rightarrow> bool option" where
  "client_pausable_subscriptions_state = client_paused PausableSubscriptions"

definition client_pausable_redemptions_state :: "bytes \<Rightarrow> bool option" where
  "client_pausable_redemptions_state = client_paused PausableRedemptions"

subsection \<open>Agreement with the program\<close>

lemma client_vault_bytes_eq:
  assumes "length header = VAULT_TLV_START" "vault_region v es"
  shows "client_vault_bytes (header @ v_tlv v) t = get_extension_bytes (v_tlv v) t"
proof (cases "v_tlv v = []")
  case True
  then have "es = []" using vault_region_tlv [OF assms(2)] by simp
  with True assms(1) vault_region_get [OF assms(2), of t] show ?thesis
    by (simp add: client_vault_bytes_def)
next
  case False
  with assms(1) show ?thesis
    by (simp add: client_vault_bytes_def client_get_extension_bytes_def get_tlv_bytes_def
        get_tlv_bytes_from_eq get_extension_bytes_def get_extension_bytes_raw_def)
qed

text \<open>
  The bytes Borsh writes for a \<open>FeeType\<close>, and its documented contract: a slice decodes to a value
  exactly when it is the encoding of that value, with nothing left over.
\<close>

definition borsh_FeeType :: "FeeType \<Rightarrow> bytes" where
  "borsh_FeeType fee =
     (case fee of FixedAmount amount \<Rightarrow> 0 # u64_to_le amount | Percentage bps \<Rightarrow> 1 # u16_to_le bps)"

definition borsh_contract :: "(bytes \<Rightarrow> FeeType option) \<Rightarrow> bool" where
  "borsh_contract try_from_slice \<longleftrightarrow> (\<forall>bs fee. try_from_slice bs = Some fee \<longleftrightarrow> bs = borsh_FeeType fee)"

text \<open>
  C37. The client reads a fixed fee as the program stored it, and a percentage fee not at all:
  the stored entry is padded to nine bytes, the Borsh decoder of the client wants exactly three,
  so \<open>get_deposit_fee\<close> answers \<open>None\<close> for every vault with a percentage deposit fee.
\<close>

theorem client_deposit_fee:
  assumes "borsh_contract try_from_slice" "length header = VAULT_TLV_START"
    and "vault_region v es" "exec_extension a i v = Inr w"
    and "i = InitializeDepositFee fee \<or> i = UpdateDepositFee fee"
  shows "client_get_deposit_fee try_from_slice (header @ v_tlv w) =
    (case fee of FixedAmount amount \<Rightarrow> Some fee | Percentage bps \<Rightarrow> None)"
proof -
  have effect: "extension_effect a i v w"
    using assms(3,4) by (rule extension_instruction_effect_lemma)
  then obtain es' where region: "vault_region w es'" by (auto simp: extension_effect_def)
  have bytes: "client_vault_bytes (header @ v_tlv w) DepositFee =
      Some (FeeData_bytes_of (FeeData_from_fee_type fee))"
    using client_vault_bytes_eq [OF assms(2) region] effect assms(5)
    by (auto simp: extension_effect_def)
  show ?thesis
  proof (cases fee)
    case (FixedAmount amount)
    then have "FeeData_bytes_of (FeeData_from_fee_type fee) = borsh_FeeType fee"
      by (simp add: FeeData_bytes_of_def FeeData_from_fee_type_def borsh_FeeType_def splice_def)
    with bytes assms(1) FixedAmount show ?thesis
      by (simp add: client_get_deposit_fee_def client_get_fee_def borsh_contract_def)
  next
    case (Percentage bps)
    have "FeeData_bytes_of (FeeData_from_fee_type fee) \<noteq> borsh_FeeType f" for f
    proof
      assume eq: "FeeData_bytes_of (FeeData_from_fee_type fee) = borsh_FeeType f"
      from Percentage have "hd (FeeData_bytes_of (FeeData_from_fee_type fee)) = 1"
        by (simp add: FeeData_bytes_of_def FeeData_from_fee_type_def)
      moreover have "length (FeeData_bytes_of (FeeData_from_fee_type fee)) = 9"
        by (simp add: FeeData_bytes_of_def)
      ultimately show False
        by (simp only: eq) (cases f; simp add: borsh_FeeType_def)
    qed
    then have "try_from_slice (FeeData_bytes_of (FeeData_from_fee_type fee)) = None"
      using assms(1) by (auto simp: borsh_contract_def intro: ccontr)
    with bytes Percentage show ?thesis
      by (simp add: client_get_deposit_fee_def client_get_fee_def)
  qed
qed

text \<open>A decoder that meets the contract.\<close>

definition borsh_try_from_slice :: "bytes \<Rightarrow> FeeType option" where
  "borsh_try_from_slice bs =
     (case bs of
        [] \<Rightarrow> None
      | tag # rest \<Rightarrow>
          if tag = 0 \<and> length rest = 8 then Some (FixedAmount (u64_from_le rest))
          else if tag = 1 \<and> length rest = 2 then Some (Percentage (u16_from_le rest))
          else None)"

lemma u16_to_from_le: "length bs = 2 \<Longrightarrow> u16_to_le (u16_from_le bs) = bs"
  using le_nat_bound [of bs] le_bytes_le_nat [of bs]
  by (simp add: u16_from_le_def u16_to_le_def unat_of_nat_small)

lemma borsh_try_from_slice_contract: "borsh_contract borsh_try_from_slice"
  unfolding borsh_contract_def
proof (intro allI iffI)
  fix bs fee
  assume "borsh_try_from_slice bs = Some fee"
  then show "bs = borsh_FeeType fee"
    by (auto simp: borsh_try_from_slice_def borsh_FeeType_def u64_to_from_le u16_to_from_le
        split: list.splits if_splits)
next
  fix bs fee
  assume "bs = borsh_FeeType fee"
  then show "borsh_try_from_slice bs = Some fee"
    by (cases fee) (simp_all add: borsh_try_from_slice_def borsh_FeeType_def)
qed

theorem client_deposit_fee_witness:
  "\<exists>w :: vault. client_get_deposit_fee borsh_try_from_slice (replicate 672 0 @ v_tlv w) = None"
proof -
  have "\<exists>w. exec_extension (key 11) (UpdateDepositFee (Percentage 25)) deposit_fee_vault = Inr w"
    using deposit_fee.update_total [OF deposit_fee_vault_region, of "FeeData_from_fee_type (Percentage 25)"]
    by (simp add: extension_handler_defs DepositFee_ext_def FeeType_validate_def MAX_BPS_def)
      (simp add: deposit_fee_vault_def sample_vault_def)
  then obtain w where w: "exec_extension (key 11) (UpdateDepositFee (Percentage 25)) deposit_fee_vault = Inr w"
    by blast
  have "length (replicate 672 (0 :: byte)) = VAULT_TLV_START" by (simp add: VAULT_TLV_START_def)
  from client_deposit_fee [OF borsh_try_from_slice_contract this deposit_fee_vault_region w, of "Percentage 25"]
  have "client_get_deposit_fee borsh_try_from_slice (replicate 672 0 @ v_tlv w) = None"
    by (simp only: FeeType.case simp_thms)
  then show ?thesis by (rule exI)
qed

text \<open>
  C38. For every other kind of extension the client shows what the program enforces: on the data
  of any vault whose region is well formed, its getters report a minimum, a pause flag or an
  enabled flag exactly when the program's own checks apply it.
\<close>

theorem client_agrees_with_program:
  assumes header: "length header = VAULT_TLV_START" and region: "vault_region v es"
  defines "data \<equiv> header @ v_tlv v"
  shows "(check_subscriptions_paused v = Inr () \<longleftrightarrow> client_pausable_subscriptions_state data \<noteq> Some True)
    \<and> (check_redemptions_paused v = Inr () \<longleftrightarrow> client_pausable_redemptions_state data \<noteq> Some True)
    \<and> (check_min_subscription_amount v amount = Inr () \<longleftrightarrow>
         (case client_min_subscription_state data of None \<Rightarrow> True | Some t \<Rightarrow> t \<le> amount))
    \<and> (check_min_redemption_amount v amount = Inr () \<longleftrightarrow>
         (case client_min_redemption_state data of None \<Rightarrow> True | Some t \<Rightarrow> t \<le> amount))
    \<and> (assert_externally_managed_withdrawals_enabled v = Inr () \<longleftrightarrow>
         client_externally_managed_is_enabled data)
    \<and> ((\<exists>e. assert_instant_settlement_enabled v = Inr e) \<longleftrightarrow> client_instant_settlement_is_enabled data)"
proof -
  have eq: "client_vault_bytes data t = map_of es (ExtensionType_as_u16 t)" for t
    using client_vault_bytes_eq [OF header region] vault_region_get [OF region]
    by (simp add: data_def)
  note len = vault_region_len [OF region]
  note defs = eq read_vault_extension_region [OF region] res_simps
  show ?thesis
  proof (intro conjI)
    show "check_subscriptions_paused v = Inr () \<longleftrightarrow> client_pausable_subscriptions_state data \<noteq> Some True"
      using len [of PausableSubscriptions]
      by (cases "map_of es (ExtensionType_as_u16 PausableSubscriptions)")
        (auto simp: check_subscriptions_paused_def client_pausable_subscriptions_state_def
          client_paused_def defs PausableSubscription_ext_def flag_pod_read_def)
    show "check_redemptions_paused v = Inr () \<longleftrightarrow> client_pausable_redemptions_state data \<noteq> Some True"
      using len [of PausableRedemptions]
      by (cases "map_of es (ExtensionType_as_u16 PausableRedemptions)")
        (auto simp: check_redemptions_paused_def client_pausable_redemptions_state_def
          client_paused_def defs PausableRedemption_ext_def flag_pod_read_def)
    show "check_min_subscription_amount v amount = Inr () \<longleftrightarrow>
         (case client_min_subscription_state data of None \<Rightarrow> True | Some t \<Rightarrow> t \<le> amount)"
      using len [of MinSubscription]
      by (cases "map_of es (ExtensionType_as_u16 MinSubscription)")
        (auto simp: check_min_subscription_amount_def client_min_subscription_state_def
          client_min_threshold_def defs MinSubscription_ext_def threshold_pod_read_def)
    show "check_min_redemption_amount v amount = Inr () \<longleftrightarrow>
         (case client_min_redemption_state data of None \<Rightarrow> True | Some t \<Rightarrow> t \<le> amount)"
      using len [of MinRedemption]
      by (cases "map_of es (ExtensionType_as_u16 MinRedemption)")
        (auto simp: check_min_redemption_amount_def client_min_redemption_state_def
          client_min_threshold_def defs MinRedemption_ext_def threshold_pod_read_def)
    show "assert_externally_managed_withdrawals_enabled v = Inr () \<longleftrightarrow>
         client_externally_managed_is_enabled data"
      using len [of ExternallyManagedWithdrawals]
      by (cases "map_of es (ExtensionType_as_u16 ExternallyManagedWithdrawals)")
        (auto simp: assert_externally_managed_withdrawals_enabled_def
          client_externally_managed_is_enabled_def client_externally_managed_state_def
          defs ExternallyManagedWithdrawals_ext_def flag_pod_read_def get_at_def)
    show "(\<exists>e. assert_instant_settlement_enabled v = Inr e) \<longleftrightarrow> client_instant_settlement_is_enabled data"
      using len [of InstantSettlement]
      by (cases "map_of es (ExtensionType_as_u16 InstantSettlement)")
        (auto simp: assert_instant_settlement_enabled_def
          client_instant_settlement_is_enabled_def client_instant_settlement_state_def
          defs InstantSettlement_ext_def InstantSettlement_pod_read_def get_at_def)
  qed
qed

theorem client_agrees_with_program_witness:
  "check_min_subscription_amount min_subscription_vault 7 = Inr () \<longleftrightarrow>
   (case client_min_subscription_state (replicate 672 0 @ v_tlv min_subscription_vault) of
      None \<Rightarrow> True | Some t \<Rightarrow> t \<le> 7)"
proof -
  have "length (replicate 672 (0 :: byte)) = VAULT_TLV_START" by (simp add: VAULT_TLV_START_def)
  from client_agrees_with_program [OF this min_subscription_vault_region, of 7] show ?thesis by blast
qed

end
