(* ===== verification/Well_Typed.thy ===== *)
theory Well_Typed
  imports System_Runs Instant_Books
begin

text \<open>
  Type safety of the extension regions: every instruction keeps the region of every vault a
  sequence of known extensions of their declared sizes, so every later read of any extension
  decodes.
\<close>

subsection \<open>Well-typed vaults\<close>

definition well_typed :: "vault \<Rightarrow> bool" where
  "well_typed v \<longleftrightarrow> (\<exists>es. vault_region v es)"

lemma well_typed_same: "well_typed v \<Longrightarrow> v_tlv v' = v_tlv v \<Longrightarrow> well_typed v'"
  by (simp add: well_typed_def vault_region_def)

lemma well_typed_empty: "v_tlv v = [] \<Longrightarrow> well_typed v"
  by (auto simp: well_typed_def vault_region_def intro: exI [of _ "[]"])

context vault_extension begin

lemma updated_well_typed: "update_vault_extension E v e = Inr w \<Longrightarrow> valid e \<Longrightarrow> well_typed v \<Longrightarrow> well_typed w"
  unfolding well_typed_def using update_region(2) by blast

lemma well_typed_reads: "well_typed v \<Longrightarrow> \<exists>e. read_vault_extension E v = Inr e"
  unfolding well_typed_def using read_total by blast

end

context fifo_queue begin

lemma next_id_reads:
  assumes run: "next_queue_request_id Q v = Inr (v', rid)" and ok: "well_typed v"
  shows "well_typed v'"
    and "\<exists>e. read_vault_extension Q v = Inr e \<and>
    (case e of
       None \<Rightarrow> v' = v \<and> rid = None
     | Some q \<Rightarrow> 12 \<le> compute_request_extension_space v \<and>
         (\<exists>q' n. increment_total Q q = (q', n) \<and> rid = Some n \<and> read_vault_extension Q v' = Inr (Some q')))" (is ?taken)
proof -
  from ok obtain es where region: "vault_region v es" by (auto simp: well_typed_def)
  obtain e where e: "read_vault_extension Q v = Inr e \<and> (e = None \<longleftrightarrow> map_of es ty = None)"
    using read_total [OF region] ..
  note e = conjunct1 [OF e] conjunct2 [OF e]
  have "well_typed v' \<and> ?taken"
  proof (cases e)
    case None
    with e(2) have "get_extension_bytes (v_tlv v) (EXTENSION_TYPE Q) = None"
      unfolding vault_region_get [OF region] by blast
    then have "get_extension_bytes_raw_mut (v_tlv v) ty = None"
      by (simp add: get_extension_bytes_def get_extension_bytes_raw_def get_extension_bytes_raw_mut_def)
    then have "v' = v \<and> rid = None" using run by (simp add: next_queue_request_id_def split: if_splits)
    with e(1) None ok show ?thesis by simp
  next
    case (Some q)
    obtain q' n where inc: "increment_total Q q = (q', n)" by fastforce
    from run have "try_ok (update_vault_extension Q v q') (\<lambda>w. Inr (w, Some n)) = Inr (v', rid)"
      unfolding next_id_is_update [OF region e(1) [unfolded Some]] inc by simp
    then have upd: "update_vault_extension Q v q' = Inr v'" and rid: "rid = Some n"
      by (auto simp: res_simps)
    have "read_vault_extension Q v' = Inr (Some q')" by (rule read_after_update [OF region _ upd]) simp
    moreover have "12 \<le> compute_request_extension_space v"
      using space [OF region] e(2) Some by simp
    moreover have "well_typed v'" by (rule updated_well_typed [OF upd _ ok]) simp
    ultimately show ?thesis using e(1) Some inc rid by simp
  qed
  then show "well_typed v'" and ?taken by blast+
qed

lemma advance_well_typed: "check_and_advance_queue Q R v r = Inr v' \<Longrightarrow> well_typed v \<Longrightarrow> well_typed v'"
  by (auto simp: check_and_advance_queue_def Let_def res_simps split: option.splits dest: updated_well_typed)

end

lemma leave_well_typed:
  "leave_queue SubscriptionQueue_ext SubscriptionQueueRequest v tcs ctx m t r ra = Inr (v', tcs') \<Longrightarrow>
   well_typed v \<Longrightarrow> well_typed v'"
  "leave_queue RedemptionQueue_ext RedemptionQueueRequest v tcs ctx m t r ra = Inr (v', tcs') \<Longrightarrow>
   well_typed v \<Longrightarrow> well_typed v'"
  by (auto simp: leave_queue_def res_simps split: if_splits
      dest: subscription_queue.advance_well_typed redemption_queue.advance_well_typed)

lemma assign_well_typed:
  "assign_queue_id SubscriptionQueue_ext v tcs ctx m t ra = Inr (v', tcs', rid) \<Longrightarrow> well_typed v \<Longrightarrow> well_typed v'"
  "assign_queue_id RedemptionQueue_ext v tcs ctx m t ra = Inr (v', tcs', rid) \<Longrightarrow> well_typed v \<Longrightarrow> well_typed v'"
  by (auto simp: assign_queue_id_def res_simps split: if_splits
      dest: subscription_queue.next_id_reads(1) redemption_queue.next_id_reads(1))

lemma fifo_well_typed: "check_fifo_ordering v tcs ctx m r ra = Inr (v', tcs') \<Longrightarrow> well_typed v \<Longrightarrow> well_typed v'"
  by (auto simp: check_fifo_ordering_def split: RequestType.splits dest: leave_well_typed)

subsection \<open>Administration\<close>

lemma exec_extension_well_typed: "exec_extension a i v = Inr v' \<Longrightarrow> well_typed v \<Longrightarrow> well_typed v'"
  unfolding well_typed_def using extension_instruction_effect_lemma by (fastforce simp: extension_effect_def)

lemma apply_fee_update_well_typed:
  assumes run: "apply_fee_update v args = Inr v'" and ok: "well_typed v"
  shows "well_typed v'"
  using run
  by (cases "fua_kind args")
    (auto simp: apply_fee_update_def res_simps
      intro: deposit_fee.updated_well_typed [OF _ _ ok] withdrawal_fee.updated_well_typed [OF _ _ ok])

lemma apply_extension_update_well_typed:
  assumes run: "apply_extension_update v args = Inr v'" and ok: "well_typed v"
  shows "well_typed v'"
  using run
  by (cases "eua_kind args")
    (auto simp: apply_extension_update_def res_simps
      intro: min_subscription.updated_well_typed [OF _ _ ok] min_redemption.updated_well_typed [OF _ _ ok]
        pausable_subscription.updated_well_typed [OF _ _ ok] pausable_redemption.updated_well_typed [OF _ _ ok])

subsection \<open>Worlds\<close>

definition typed_world :: "world \<Rightarrow> bool" where
  "typed_world w \<longleftrightarrow> (\<forall>k v. w_vaults w k = Some v \<longrightarrow> well_typed v)"

lemma typed_worldD: "typed_world w \<Longrightarrow> w_vaults w k = Some v \<Longrightarrow> well_typed v"
  by (simp add: typed_world_def)

lemma typed_same: "typed_world w \<Longrightarrow> w_vaults w' = w_vaults w \<Longrightarrow> typed_world w'"
  by (simp add: typed_world_def)

lemma typed_update:
  "typed_world w \<Longrightarrow> w_vaults w' = (w_vaults w)(k \<mapsto> v') \<Longrightarrow> well_typed v' \<Longrightarrow> typed_world w'"
  by (simp add: typed_world_def)

text \<open>An instruction that changes no region.\<close>

lemma typed_keeps:
  assumes "typed_world w" "\<And>k v'. w_vaults w' k = Some v' \<Longrightarrow> \<exists>v. w_vaults w k = Some v \<and> v_tlv v' = v_tlv v"
  shows "typed_world w'"
  using assms well_typed_same unfolding typed_world_def by metis

lemma exec_admin_typed:
  assumes run: "exec_admin E i w = Inr w'" and ok: "typed_world w"
  shows "typed_world w'"
proof (cases i)
  case (Create_vault a args)
  with run ok show ?thesis
    by (auto simp: create_vault_def init_token_account_def res_simps new_vault_def
        intro!: typed_update [OF ok] well_typed_empty)
next
  case (Configure_extension vk a x)
  with run ok show ?thesis
    by (auto simp: configure_extension_def res_simps intro!: typed_update [OF ok]
        intro: exec_extension_well_typed dest: typed_worldD)
next
  case (Execute_fee_update a)
  with run ok show ?thesis
    by (auto simp: execute_fee_update_def res_simps intro!: typed_update [OF ok]
        intro: apply_fee_update_well_typed dest: typed_worldD)
next
  case (Execute_extension_update a)
  with run ok show ?thesis
    by (auto simp: execute_extension_update_def res_simps intro!: typed_update [OF ok]
        intro: apply_extension_update_well_typed dest: typed_worldD)
next
  case (Update_vault a args)
  with run show ?thesis
    by (auto simp: update_vault_def res_simps updated_vault_def intro!: typed_keeps [OF ok] split: if_splits)
next
  case (Execute_vault_update a)
  with run show ?thesis
    by (auto simp: execute_vault_update_def res_simps updated_vault_def intro!: typed_keeps [OF ok] split: if_splits)
next
  case (Accept_authority_invitation a)
  with run show ?thesis
    by (auto simp: accept_authority_invitation_def res_simps take_over_def Let_def intro!: typed_keeps [OF ok]
        split: if_splits)
next
  case (Initialize_tranches a args)
  with run show ?thesis
    by (auto simp: initialize_tranches_def res_simps intro!: typed_keeps [OF ok] split: if_splits)
qed (use run in \<open>auto simp: setup_defs queued_update_defs policy_defs res_simps Let_def
    intro!: typed_keeps [OF ok] split: if_splits\<close>)

subsection \<open>Requests\<close>

lemma add_pending_tlv: "add_pending_deposit b n v va = Inr (v', va') \<Longrightarrow> v_tlv v' = v_tlv v"
  by (auto dest!: add_pending_deposit_Inr)

lemma release_pending_tlv: "release_pending_deposit b n v va = Inr (v', va') \<Longrightarrow> v_tlv v' = v_tlv v"
  by (auto dest!: release_pending_deposit_Inr)

lemma refund_tlv:
  "(case t of
      Deposit \<Rightarrow> refund_deposit E vk v m am va p u tp n L
    | Redeem \<Rightarrow> try_ok x (\<lambda>L. Inr (v, va, L))) = Inr (v', va', L') \<Longrightarrow> v_tlv v' = v_tlv v"
  by (auto simp: refund_deposit_def Let_def res_simps dest!: release_pending_tlv split: RequestType.splits if_splits)

lemma account_tlv:
  "account_deposit b d n v va = Inr (v', va') \<Longrightarrow> v_tlv v' = v_tlv v"
  "account_redeem b d v va = Inr (v', va') \<Longrightarrow> v_tlv v' = v_tlv v"
  by (auto simp: account_deposit_def account_redeem_def res_simps split: if_splits)

lemma consume_redemption_tlv: "Vault_consume_redemption_rolling_limit v n s = Inr v' \<Longrightarrow> v_tlv v' = v_tlv v"
  by (auto simp: Vault_consume_redemption_rolling_limit_def res_simps)

lemma create_deposit_request_typed:
  "create_deposit_request E accts ra args w = Inr w' \<Longrightarrow> typed_world w \<Longrightarrow> typed_world w'"
  apply (clarsimp simp: create_deposit_request_def res_simps Let_def)
  apply (frule (1) typed_worldD)
  apply (drule add_pending_tlv)
  apply (drule assign_well_typed(1))
   apply (erule well_typed_same)
  apply simp
  apply (erule typed_update)
   apply simp
  apply assumption
  done

lemma create_redeem_request_typed:
  "create_redeem_request E accts ra args w = Inr w' \<Longrightarrow> typed_world w \<Longrightarrow> typed_world w'"
  apply (clarsimp simp: create_redeem_request_def res_simps Let_def)
  apply (frule (1) typed_worldD)
  apply (drule assign_well_typed(2))
   apply (erule well_typed_same)
  apply simp
  apply (erule typed_update)
   apply simp
  apply assumption
  done

lemma cancel_request_typed: "cancel_request E accts ra w = Inr w' \<Longrightarrow> typed_world w \<Longrightarrow> typed_world w'"
  apply (clarsimp simp: cancel_request_def res_simps Let_def)
  apply (frule (1) typed_worldD)
  apply (drule refund_tlv)
  apply (erule typed_update)
   apply simp
  apply (erule well_typed_same, (simp; fail))
  done

lemma reject_request_typed: "reject_request E accts ra args w = Inr w' \<Longrightarrow> typed_world w \<Longrightarrow> typed_world w'"
  apply (clarsimp simp: reject_request_def res_simps Let_def)
  apply (frule (1) typed_worldD)
  apply (drule (1) fifo_well_typed)
  apply (drule refund_tlv)
  apply (erule typed_update)
   apply simp
  apply (erule well_typed_same, (simp; fail))
  done

lemma skip_canceled_queue_request_typed:
  "skip_canceled_queue_request E accts ra w = Inr w' \<Longrightarrow> typed_world w \<Longrightarrow> typed_world w'"
  apply (clarsimp simp: skip_canceled_queue_request_def res_simps Let_def)
  apply (frule (1) typed_worldD)
  apply (drule (1) fifo_well_typed)
  apply (erule typed_update)
   apply simp
  apply assumption
  done

lemma cancel_queued_deposit_request_typed:
  "cancel_queued_deposit_request E accts ra w = Inr w' \<Longrightarrow> typed_world w \<Longrightarrow> typed_world w'"
  apply (clarsimp simp: cancel_queued_deposit_request_def res_simps Let_def)
  apply (frule (1) typed_worldD)
  apply (drule release_pending_tlv)
  apply (erule typed_update)
   apply simp
  apply (erule well_typed_same, (simp; fail))
  done

lemma cancel_queued_redemption_request_typed:
  "cancel_queued_redemption_request E accts ra w = Inr w' \<Longrightarrow> typed_world w \<Longrightarrow> typed_world w'"
  apply (clarsimp simp: cancel_queued_redemption_request_def res_simps Let_def)
  apply (frule (1) typed_worldD)
  apply (erule typed_update)
   apply simp
  apply (erule well_typed_same, (simp; fail))
  done

lemma update_nav_typed:
  assumes "update_nav E accts ra nav w = Inr w'" "typed_world w"
  shows "typed_world w'"
  using assms(1)
proof (rule update_nav_Inr, goal_cases)
  case (1 v v1 L n tcs)
  obtain mark ts where "v1 = v\<lparr>v_high_water_mark := mark, v_last_fee_crystallization_timestamp := ts\<rparr>"
    using maybe_crystallize_performance_fee_Inr(1) [OF 1(4)] by blast
  with 1 show ?case by (intro typed_keeps [OF assms(2)]) (auto split: if_splits)
qed

lemma approve_request_typed:
  assumes run: "approve_request E accts ra args w = Inr w'" and ok: "typed_world w"
  shows "typed_world w'"
  using run
proof (rule approve_request_Inr, goal_cases)
  case (1 v va r t_reserve t_pending am sm ctx v1 tcs1 v2 va2 tcs L claimable pa)
  have "well_typed v1" by (rule fifo_well_typed [OF 1(8) typed_worldD [OF ok 1(2)]])
  moreover have "v_tlv v2 = v_tlv v1"
    using 1(9)
    by (auto simp: res_simps settle_redeem_request_def Let_def dest!: account_tlv consume_redemption_tlv
        split: RequestType.splits)
  ultimately have "well_typed (v2\<lparr>v_pending_async_requests := pa\<rparr>)" by (auto intro: well_typed_same)
  with typed_update [OF ok] 1(1) show ?case by simp
qed

lemma instant_typed:
  assumes ok: "typed_world w"
  shows "instant_deposit E ida ra n w = Inr w' \<Longrightarrow> typed_world w'"
    and "instant_redeem E ira ra n w = Inr w' \<Longrightarrow> typed_world w'"
proof -
  assume "instant_deposit E ida ra n w = Inr w'"
  then show "typed_world w'"
    by (rule instant_deposit_Inr) (auto intro!: typed_keeps [OF ok] split: if_splits)
next
  assume "instant_redeem E ira ra n w = Inr w'"
  then show "typed_world w'"
  proof (rule instant_redeem_Inr, goal_cases)
    case (1 v am sm r t settings users gross wfee ifee total_fee net v1 L1 pf rest L2 L3 total)
    obtain start used where "v1 = v\<lparr>v_redemption_window_start_slot := start, v_redemption_window_amount := used\<rparr>"
      using consume_redemption_Inr 1(28) by blast
    with 1(1,34) show ?case by (intro typed_keeps [OF ok]) (auto split: if_splits)
  qed
qed

lemma quiet_request_typed:
  "set_operator so w = Inr w' \<Longrightarrow> typed_world w \<Longrightarrow> typed_world w'"
  "claim E cl ra w = Inr w' \<Longrightarrow> typed_world w \<Longrightarrow> typed_world w'"
  by (auto simp: set_operator_def claim_def res_simps intro: typed_same)

lemma exec_request_typed: "exec_request E i w = Inr w' \<Longrightarrow> typed_world w \<Longrightarrow> typed_world w'"
  by (cases i; simp only: exec_request.simps)
    (erule (1) create_deposit_request_typed create_redeem_request_typed cancel_request_typed
      reject_request_typed skip_canceled_queue_request_typed cancel_queued_deposit_request_typed
      cancel_queued_redemption_request_typed update_nav_typed approve_request_typed quiet_request_typed
      instant_typed [rotated])+

subsection \<open>Venues and managed calls\<close>

lemma consume_manager_tlv: "Vault_consume_manager_rolling_limit v n s = Inr v' \<Longrightarrow> v_tlv v' = v_tlv v"
  by (auto simp: Vault_consume_manager_rolling_limit_def res_simps)

lemma consume_external_tlv: "Vault_consume_external_withdraw_rolling_limit v n s = Inr v' \<Longrightarrow> v_tlv v' = v_tlv v"
  by (auto simp: Vault_consume_external_withdraw_rolling_limit_def res_simps)

text \<open>Both movements leave the vault, or consume from its manager's limit.\<close>

lemma moved_tlv:
  "(if b then try_ok (move_primary E accts n v) (\<lambda>v. Inr (v, x, None))
    else try_ok m (\<lambda>(va, ledger). Inr (v, Some va, Some ledger))) = Inr (v', x', l) \<Longrightarrow> v_tlv v' = v_tlv v"
  by (auto simp: move_primary_def res_simps dest!: consume_manager_tlv split: if_splits)

lemma movement_typed:
  assumes ok: "typed_world w"
  shows "deploy_venue_position E accts n w = Inr w' \<Longrightarrow> typed_world w'"
    and "pull_venue_position E accts n w = Inr w' \<Longrightarrow> typed_world w'"
proof -
  assume "deploy_venue_position E accts n w = Inr w'"
  then show "typed_world w'"
    apply (clarsimp simp: deploy_venue_position_def position_account_def position_token_account_def res_simps)
    apply (drule moved_tlv)
    apply (rule typed_keeps [OF ok])
    apply (auto split: if_splits)
    done
next
  assume "pull_venue_position E accts n w = Inr w'"
  then show "typed_world w'"
    apply (clarsimp simp: pull_venue_position_def position_account_def position_token_account_def res_simps)
    apply (drule moved_tlv)
    apply (rule typed_keeps [OF ok])
    apply (auto split: if_splits)
    done
qed

lemma exec_venue_typed:
  assumes run: "exec_venue E i w = Inr w'" and ok: "typed_world w"
  shows "typed_world w'"
proof (cases i)
  case (Deploy_venue_position accts n)
  with run movement_typed [OF ok] show ?thesis by simp
next
  case (Pull_venue_position accts n)
  with run movement_typed [OF ok] show ?thesis by simp
next
  case (Withdraw_assets accts n)
  with run show ?thesis
    by (auto simp: withdraw_assets_def res_simps intro!: typed_keeps [OF ok] dest!: consume_external_tlv split: if_splits)
qed (use run in \<open>auto simp: add_vault_asset_def remove_vault_asset_def register_venue_def
      set_venue_entry_paused_def approve_vault_venue_def remove_vault_venue_def create_venue_position_def
      remove_venue_position_def position_account_def position_token_account_def
      init_token_account_def res_simps Let_def intro!: typed_keeps [OF ok] split: if_splits\<close>)

lemma managed_typed:
  assumes run: "manage_vault_with_merkle_verification E invoke accts ra args w = Inr w'"
    and invoke: "confined invoke" and ok: "typed_world w"
  shows "typed_world w'"
  using run invoke
proof (rule managed_call_Inr, goal_cases)
  case (1 v v' sp ve vv L leaf amount m m')
  have "v_tlv v' = v_tlv v" using 1(8) by (cases amount) (auto dest: consume_manager_tlv)
  with 1(1,9) show ?case by (intro typed_keeps [OF ok]) (auto split: if_splits)
qed

lemma system_step_typed: "system_step E w w' \<Longrightarrow> typed_world w \<Longrightarrow> typed_world w'"
proof (induction rule: system_step.induct)
  case (transaction now invoke i w w')
  then show ?case
    by (cases i) (auto intro: exec_request_typed exec_admin_typed exec_venue_typed managed_typed)
next
  case (elsewhere w L)
  then show ?case by (simp add: typed_world_def)
qed

text \<open>
  C22. Extension data is always well formed. In every run of the program, with any managed calls,
  from a world in which it is so (an empty one, for instance), the extension region of every vault
  is a sequence of entries of known types, each at most once and of the size its type declares;
  so reading any extension of any vault decodes, and no handler fails on corrupt extension data.
\<close>
theorem extension_data_stays_well_typed:
  assumes "system_run E w0 w" and "typed_world w0"
  shows "\<forall>k v. w_vaults w k = Some v \<longrightarrow>
    (\<exists>es. v_tlv v = tlv_encode es \<and> distinct (map fst es)
       \<and> (\<forall>(ty, b) \<in> set es. \<exists>t. ty = ExtensionType_as_u16 t \<and> length b = ExtensionType_data_len t))
    \<and> (\<exists>e. read_vault_extension DepositFee_ext v = Inr e)
    \<and> (\<exists>e. read_vault_extension WithdrawalFee_ext v = Inr e)
    \<and> (\<exists>e. read_vault_extension PausableSubscription_ext v = Inr e)
    \<and> (\<exists>e. read_vault_extension PausableRedemption_ext v = Inr e)
    \<and> (\<exists>e. read_vault_extension SubscriptionQueue_ext v = Inr e)
    \<and> (\<exists>e. read_vault_extension RedemptionQueue_ext v = Inr e)
    \<and> (\<exists>e. read_vault_extension MinSubscription_ext v = Inr e)
    \<and> (\<exists>e. read_vault_extension MinRedemption_ext v = Inr e)
    \<and> (\<exists>e. read_vault_extension ExternallyManagedWithdrawals_ext v = Inr e)
    \<and> (\<exists>e. read_vault_extension InstantSettlement_ext v = Inr e)"
proof (intro allI impI, goal_cases)
  case (1 k v)
  have "typed_world w"
    by (rule system_run_invariant [where I = typed_world, OF assms]) (rule system_step_typed)
  then have v: "well_typed v" using 1 by (rule typed_worldD)
  show ?case
    by (intro conjI v [unfolded well_typed_def vault_region_def]
        deposit_fee.well_typed_reads withdrawal_fee.well_typed_reads
        pausable_subscription.well_typed_reads pausable_redemption.well_typed_reads
        subscription_queue.well_typed_reads redemption_queue.well_typed_reads
        min_subscription.well_typed_reads min_redemption.well_typed_reads
        externally_managed.well_typed_reads instant_settlement.well_typed_reads v)
qed

definition extension_world :: world where
  "extension_world = sample_world\<lparr>w_vaults := [key 20 \<mapsto> min_subscription_vault]\<rparr>"

theorem extension_data_stays_well_typed_witness:
  "\<exists>w v. system_run sample_env extension_world w \<and> w_vaults w = [key 20 \<mapsto> v]
     \<and> exec_extension (key 11) (UpdateMinSubscription 5) min_subscription_vault = Inr v
     \<and> (\<exists>e. read_vault_extension MinSubscription_ext v = Inr e)"
proof -
  obtain v where v: "exec_extension (key 11) (UpdateMinSubscription 5) min_subscription_vault = Inr v"
    using min_subscription_vault_update by blast
  let ?w = "extension_world\<lparr>w_vaults := [key 20 \<mapsto> v]\<rparr>"
  have "system_step sample_env extension_world ?w"
    by (rule transaction [where now = "(100, 2000, 1)" and invoke = "\<lambda>program metas data infos w. Inr w"
          and i = "Admin (Configure_extension (key 20) (key 11) (UpdateMinSubscription 5))"])
      (use v in \<open>simp_all add: sample_at_time no_call_confined configure_extension_def load_def extension_world_def
        del: exec_extension.simps\<close>)
  then have run: "system_run sample_env extension_world ?w" by (blast intro: system_run.intros)
  have typed: "typed_world extension_world"
    using min_subscription_vault_region by (auto simp: typed_world_def extension_world_def well_typed_def)
  have "w_vaults ?w (key 20) = Some v" by simp
  with extension_data_stays_well_typed [OF run typed] have "\<exists>e. read_vault_extension MinSubscription_ext v = Inr e"
    by blast
  with run v show ?thesis by auto
qed

end
