(* ===== verification/Client_Queues.thy ===== *)
theory Client_Queues
  imports Client_Reader Well_Typed
begin

text \<open>
  The client's readers of the two queues (\<open>extensions/subscription_queue.rs\<close> and
  \<open>extensions/redemption_queue.rs\<close>): the counters from a vault's data, and the place in the queue
  from a request's. Both structs are decoded by Borsh, which is an argument here.
\<close>

record ClientQueue =
  cq_all_time_total_requests :: u64
  cq_last_processed_request_index :: u64

definition client_subscription_queue_state ::
  "(bytes \<Rightarrow> ClientQueue option) \<Rightarrow> bytes \<Rightarrow> ClientQueue option" where
  "client_subscription_queue_state try_from_slice vault_data =
     Option.bind (client_vault_bytes vault_data SubscriptionQueue) try_from_slice"

definition client_redemption_queue_state ::
  "(bytes \<Rightarrow> ClientQueue option) \<Rightarrow> bytes \<Rightarrow> ClientQueue option" where
  "client_redemption_queue_state try_from_slice vault_data =
     Option.bind (client_vault_bytes vault_data RedemptionQueue) try_from_slice"

text \<open>The struct of a request's place has the one field \<open>id\<close>.\<close>

definition client_subscription_queue_request_state ::
  "(bytes \<Rightarrow> u64 option) \<Rightarrow> bytes \<Rightarrow> u64 option" where
  "client_subscription_queue_request_state try_from_slice request_data =
     Option.bind (client_get_request_extension_bytes request_data SubscriptionQueueRequestType) try_from_slice"

definition client_redemption_queue_request_state ::
  "(bytes \<Rightarrow> u64 option) \<Rightarrow> bytes \<Rightarrow> u64 option" where
  "client_redemption_queue_request_state try_from_slice request_data =
     Option.bind (client_get_request_extension_bytes request_data RedemptionQueueRequestType) try_from_slice"

text \<open>Borsh's contract for the two structs: integers are written in little endian, in order.\<close>

definition borsh_queue_contract :: "(bytes \<Rightarrow> ClientQueue option) \<Rightarrow> bool" where
  "borsh_queue_contract try_from_slice \<longleftrightarrow>
     (\<forall>bs q. try_from_slice bs = Some q \<longleftrightarrow>
        bs = u64_to_le (cq_all_time_total_requests q) @ u64_to_le (cq_last_processed_request_index q))"

definition borsh_id_contract :: "(bytes \<Rightarrow> u64 option) \<Rightarrow> bool" where
  "borsh_id_contract try_from_slice \<longleftrightarrow> (\<forall>bs rid. try_from_slice bs = Some rid \<longleftrightarrow> bs = u64_to_le rid)"

subsection \<open>What the program stores is what the client reads\<close>

definition client_queue_of :: "FifoCounters \<Rightarrow> ClientQueue" where
  "client_queue_of q =
     \<lparr>cq_all_time_total_requests = fc_all_time_total q, cq_last_processed_request_index = fc_last_processed q\<rparr>"

lemma FifoCounters_bytes_of_read:
  assumes "FifoCounters_pod_read bs = Some q"
  shows "FifoCounters_bytes_of q = bs"
proof -
  from assms have len: "length bs = 16"
    and q: "q = \<lparr>fc_all_time_total = u64_field 0 bs, fc_last_processed = u64_field 1 bs\<rparr>"
    by (auto simp: FifoCounters_pod_read_def split: if_splits)
  have "FifoCounters_bytes_of q = take 8 bs @ take 8 (drop 8 bs)"
    using len by (simp add: q FifoCounters_bytes_of_def u64_field_def u64_to_from_le)
  also have "\<dots> = bs" using len by (simp add: append_take_drop_id)
  finally show ?thesis .
qed

lemma borsh_queue_read:
  assumes "borsh_queue_contract dec" "FifoCounters_pod_read bs = Some q"
  shows "dec bs = Some (client_queue_of q)"
  using assms(1) FifoCounters_bytes_of_read [OF assms(2)]
  by (simp add: borsh_queue_contract_def client_queue_of_def FifoCounters_bytes_of_def)

lemma client_counters:
  assumes dec: "borsh_queue_contract dec" and header: "length header = VAULT_TLV_START"
    and region: "vault_region v es" and pod: "pod_read Q = FifoCounters_pod_read"
    and read: "read_vault_extension Q v = Inr e"
  shows "Option.bind (client_vault_bytes (header @ v_tlv v) (EXTENSION_TYPE Q)) dec = map_option client_queue_of e"
proof -
  have eq: "client_vault_bytes (header @ v_tlv v) (EXTENSION_TYPE Q) = map_of es (ExtensionType_as_u16 (EXTENSION_TYPE Q))"
    using client_vault_bytes_eq [OF header region] vault_region_get [OF region] by simp
  show ?thesis
    using read pod
    by (cases "map_of es (ExtensionType_as_u16 (EXTENSION_TYPE Q))")
      (auto simp: eq read_vault_extension_region [OF region] res_simps borsh_queue_read [OF dec])
qed

lemma client_request_bytes_eq:
  assumes "length header = CLIENT_REQUEST_TLV_START"
  shows "client_get_request_extension_bytes (header @ req_tlv r) t =
    (if req_tlv r = [] then None else get_extension_bytes_raw (req_tlv r) (RequestExtensionType_as_u16 t))"
  using assms
  by (simp add: client_get_request_extension_bytes_def get_tlv_bytes_def get_tlv_bytes_from_eq
      get_extension_bytes_raw_def)

lemma client_place:
  assumes dec: "borsh_id_contract dec" and header: "length header = CLIENT_REQUEST_TLV_START"
    and read: "read_request_extension R r = Inr e"
  shows "Option.bind (client_get_request_extension_bytes (header @ req_tlv r) (REQUEST_EXTENSION_TYPE R)) dec = e"
proof -
  have "dec bs = Some rid" if "queue_id_pod_read bs = Some rid" for bs rid
    using that dec by (auto simp: queue_id_pod_read_def borsh_id_contract_def u64_to_from_le split: if_splits)
  with read show ?thesis
    by (auto simp: client_request_bytes_eq [OF header] read_request_extension_def res_simps
        split: if_splits option.splits)
qed

subsection \<open>The place a new request gets\<close>

text \<open>An untagged request has no place.\<close>

lemma untagged_read: "req_tlv r = replicate n 0 \<Longrightarrow> read_request_extension R r = Inr None"
  using get_extension_bytes_raw_encode [of "[]" "RequestExtensionType_as_u16 (REQUEST_EXTENSION_TYPE R)" n]
  by (simp add: read_request_extension_def)

lemma tagged_read:
  assumes "tag_request R r queue_id = Inr r'" "req_tlv r = replicate n 0"
    and "queue_id \<noteq> None \<Longrightarrow> 12 \<le> n"
  shows "read_request_extension R r' = Inr queue_id"
proof (cases queue_id)
  case None
  with assms show ?thesis by (simp add: tag_request_def untagged_read)
next
  case (Some rid)
  have "r = r\<lparr>req_tlv := replicate n 0\<rparr>" using assms(2) by simp
  with init_request_extension_read [of n R r rid] assms Some show ?thesis
    by (auto simp: tag_request_def)
qed

lemma create_deposit_request_place:
  assumes "create_deposit_request E accts ra args w = Inr w'" "w_vaults w (cdr_vault accts) = Some v"
    and "v_tranche_config v = None"
  obtains u v' r0 r rid where "v_tlv u = v_tlv v" "w_vaults w' (cdr_vault accts) = Some v'"
    "w_requests w' (cdr_request accts) = Some r"
    "next_queue_request_id SubscriptionQueue_ext u = Inr (v', rid)"
    "tag_request SubscriptionQueueRequest r0 rid = Inr r"
    "req_tlv r0 = replicate (compute_request_extension_space v) 0"
  using assms
  apply (clarsimp simp: create_deposit_request_def res_simps Let_def)
  apply (drule add_pending_tlv)
  apply (drule validate_request_share_mint_tranche)
  apply (clarsimp simp: assign_queue_id_def res_simps)
  done

lemma create_redeem_request_place:
  assumes run: "create_redeem_request E accts ra args w = Inr w'" and v: "w_vaults w (crr_vault accts) = Some v"
    and single: "v_tranche_config v = None"
  obtains u v' r0 r rid where "v_tlv u = v_tlv v" "w_vaults w' (crr_vault accts) = Some v'"
    "w_requests w' (crr_request accts) = Some r"
    "next_queue_request_id RedemptionQueue_ext u = Inr (v', rid)"
    "tag_request RedemptionQueueRequest r0 rid = Inr r"
    "req_tlv r0 = replicate (compute_request_extension_space v) 0"
proof -
  have "\<exists>n v' r0 r rid. w_vaults w' (crr_vault accts) = Some v' \<and> w_requests w' (crr_request accts) = Some r
    \<and> next_queue_request_id RedemptionQueue_ext (v\<lparr>v_pending_async_requests := n\<rparr>) = Inr (v', rid)
    \<and> tag_request RedemptionQueueRequest r0 rid = Inr r
    \<and> req_tlv r0 = replicate (compute_request_extension_space v) 0"
    using run v single
    apply (clarsimp simp: create_redeem_request_def res_simps Let_def)
    apply (drule validate_request_share_mint_tranche)
    apply (clarsimp simp: assign_queue_id_def res_simps)
    apply (intro exI conjI, assumption, assumption)
    apply simp
    done
  then show thesis by (elim exE conjE) (rule that [rotated], assumption+, simp)
qed

text \<open>The vault and the request of an instruction that opens a request, with the client's readers of its queue.\<close>

fun queue_readers ::
  "(bytes \<Rightarrow> ClientQueue option) \<Rightarrow> (bytes \<Rightarrow> u64 option) \<Rightarrow> request_instruction \<Rightarrow>
   (pubkey \<times> pubkey \<times> (bytes \<Rightarrow> ClientQueue option) \<times> (bytes \<Rightarrow> u64 option)) option" where
  "queue_readers dq di (Create_deposit_request accts _ _) =
     Some (cdr_vault accts, cdr_request accts,
       client_subscription_queue_state dq, client_subscription_queue_request_state di)"
| "queue_readers dq di (Create_redeem_request accts _ _) =
     Some (crr_vault accts, crr_request accts,
       client_redemption_queue_state dq, client_redemption_queue_request_state di)"
| "queue_readers dq di _ = None"

text \<open>
  What the readers show before and after: without the queue nothing; with it, the total grows by
  one and is the place of the request.
\<close>

definition shows_place ::
  "(bytes \<Rightarrow> ClientQueue option) \<Rightarrow> (bytes \<Rightarrow> u64 option) \<Rightarrow> bytes \<Rightarrow> bytes \<Rightarrow> bytes \<Rightarrow> bool" where
  "shows_place vault_reader request_reader before after request_data \<longleftrightarrow>
     (case vault_reader before of
        None \<Rightarrow> vault_reader after = None \<and> request_reader request_data = None
      | Some q \<Rightarrow>
          let place = cq_all_time_total_requests q + 1
          in vault_reader after = Some (q\<lparr>cq_all_time_total_requests := place\<rparr>)
             \<and> request_reader request_data = Some place)"

lemma shown_place:
  assumes Q: "Q \<in> {SubscriptionQueue_ext, RedemptionQueue_ext}"
    and dq: "borsh_queue_contract dq" and di: "borsh_id_contract di"
    and headers: "length header = VAULT_TLV_START" "length header' = VAULT_TLV_START"
      "length rheader = CLIENT_REQUEST_TLV_START"
    and tlv: "v_tlv u = v_tlv v" and old: "well_typed u" and new: "well_typed v'"
    and reads: "\<exists>e. read_vault_extension Q u = Inr e \<and>
      (case e of
         None \<Rightarrow> v' = u \<and> rid = None
       | Some q \<Rightarrow> 12 \<le> compute_request_extension_space u \<and>
           (\<exists>q' n. increment_total Q q = (q', n) \<and> rid = Some n \<and> read_vault_extension Q v' = Inr (Some q')))"
    and tag: "tag_request R r0 rid = Inr r" "req_tlv r0 = replicate (compute_request_extension_space v) 0"
  shows "shows_place (\<lambda>data. Option.bind (client_vault_bytes data (EXTENSION_TYPE Q)) dq)
    (\<lambda>data. Option.bind (client_get_request_extension_bytes data (REQUEST_EXTENSION_TYPE R)) di)
    (header @ v_tlv v) (header' @ v_tlv v') (rheader @ req_tlv r)"
proof -
  obtain es es' where regions: "vault_region u es" "vault_region v' es'"
    using old new by (auto simp: well_typed_def)
  have pod: "pod_read Q = FifoCounters_pod_read" and inc: "increment_total Q = FifoCounters_increment_total"
    using Q by (auto simp: SubscriptionQueue_ext_def RedemptionQueue_ext_def)
  note before = client_counters [OF dq headers(1) regions(1) pod] client_counters [OF dq headers(2) regions(1) pod]
    and after = client_counters [OF dq headers(2) regions(2) pod]
  from reads obtain e where e: "read_vault_extension Q u = Inr e" by blast
  have space: "compute_request_extension_space v = compute_request_extension_space u"
    by (simp add: compute_request_extension_space_def tlv)
  have "read_request_extension R r = Inr rid"
    using reads by (intro tagged_read [OF tag]) (auto simp: space split: option.splits)
  then have place: "Option.bind (client_get_request_extension_bytes (rheader @ req_tlv r) (REQUEST_EXTENSION_TYPE R)) di = rid"
    by (rule client_place [OF di headers(3)])
  show ?thesis
    using reads e
    by (cases e) (auto simp: shows_place_def tlv [symmetric] before after place inc FifoCounters_increment_total_def
        client_queue_of_def Let_def)
qed

lemma deposit_shows_place:
  assumes decs: "borsh_queue_contract dq" "borsh_id_contract di"
    and headers: "length header = VAULT_TLV_START" "length header' = VAULT_TLV_START"
      "length rheader = CLIENT_REQUEST_TLV_START"
    and v: "well_typed v" "w_vaults w (cdr_vault accts) = Some v" "v_tranche_config v = None"
    and run: "create_deposit_request E accts ra args w = Inr w'"
  shows "\<exists>v' r. w_vaults w' (cdr_vault accts) = Some v' \<and> w_requests w' (cdr_request accts) = Some r
    \<and> shows_place (client_subscription_queue_state dq) (client_subscription_queue_request_state di)
        (header @ v_tlv v) (header' @ v_tlv v') (rheader @ req_tlv r)"
  using run v(2,3)
proof (rule create_deposit_request_place, goal_cases)
  case (1 u v' r0 r rid)
  have u: "well_typed u" by (rule well_typed_same [OF v(1) 1(1)])
  have new: "well_typed v'" by (rule subscription_queue.next_id_reads(1) [OF 1(4) u])
  show ?case
    using shown_place [OF _ decs headers 1(1) u new subscription_queue.next_id_reads(2) [OF 1(4) u] 1(5,6)] 1(2,3)
    by (simp add: SubscriptionQueue_ext_def SubscriptionQueueRequest_def
        client_subscription_queue_state_def [abs_def] client_subscription_queue_request_state_def [abs_def])
qed

lemma redeem_shows_place:
  assumes decs: "borsh_queue_contract dq" "borsh_id_contract di"
    and headers: "length header = VAULT_TLV_START" "length header' = VAULT_TLV_START"
      "length rheader = CLIENT_REQUEST_TLV_START"
    and v: "well_typed v" "w_vaults w (crr_vault accts) = Some v" "v_tranche_config v = None"
    and run: "create_redeem_request E accts ra args w = Inr w'"
  shows "\<exists>v' r. w_vaults w' (crr_vault accts) = Some v' \<and> w_requests w' (crr_request accts) = Some r
    \<and> shows_place (client_redemption_queue_state dq) (client_redemption_queue_request_state di)
        (header @ v_tlv v) (header' @ v_tlv v') (rheader @ req_tlv r)"
  using run v(2,3)
proof (rule create_redeem_request_place, goal_cases)
  case (1 u v' r0 r rid)
  have u: "well_typed u" by (rule well_typed_same [OF v(1) 1(1)])
  have new: "well_typed v'" by (rule redemption_queue.next_id_reads(1) [OF 1(4) u])
  show ?case
    using shown_place [OF _ decs headers 1(1) u new redemption_queue.next_id_reads(2) [OF 1(4) u] 1(5,6)] 1(2,3)
    by (simp add: RedemptionQueue_ext_def RedemptionQueueRequest_def
        client_redemption_queue_state_def [abs_def] client_redemption_queue_request_state_def [abs_def])
qed


text \<open>Decoders that meet the contracts, and a vault with a redemption queue.\<close>

definition sample_queue_decoder :: "bytes \<Rightarrow> ClientQueue option" where
  "sample_queue_decoder bs = map_option client_queue_of (FifoCounters_pod_read bs)"

lemma sample_queue_decoder_contract: "borsh_queue_contract sample_queue_decoder"
  unfolding borsh_queue_contract_def
proof (intro allI iffI)
  fix bs and q :: ClientQueue
  assume "sample_queue_decoder bs = Some q"
  then show "bs = u64_to_le (cq_all_time_total_requests q) @ u64_to_le (cq_last_processed_request_index q)"
    by (auto simp: sample_queue_decoder_def client_queue_of_def FifoCounters_bytes_of_def
        dest!: FifoCounters_bytes_of_read)
next
  fix bs and q :: ClientQueue
  assume "bs = u64_to_le (cq_all_time_total_requests q) @ u64_to_le (cq_last_processed_request_index q)"
  then have "bs = FifoCounters_bytes_of \<lparr>fc_all_time_total = cq_all_time_total_requests q,
      fc_last_processed = cq_last_processed_request_index q\<rparr>"
    by (simp add: FifoCounters_bytes_of_def)
  then show "sample_queue_decoder bs = Some q"
    by (simp add: sample_queue_decoder_def FifoCounters_roundtrip client_queue_of_def)
qed

lemma sample_id_decoder_contract: "borsh_id_contract queue_id_pod_read"
  by (auto simp: borsh_id_contract_def queue_id_pod_read_def u64_to_from_le split: if_splits)

definition redeemable_vault :: vault where
  "redeemable_vault = sample_vault\<lparr>v_tlv := tlv_encode [(6, replicate 16 0)]\<rparr>"

definition redeemable_world :: world where
  "redeemable_world = sample_world\<lparr>w_vaults := [key 20 \<mapsto> redeemable_vault]\<rparr>"

definition sample_redemption :: request_instruction where
  "sample_redemption = Create_redeem_request
     \<lparr>crr_user = key 30, crr_asset_mint = key 1, crr_share_mint = key 2, crr_vault = key 20,
      crr_vault_asset = None, crr_request = key 41, crr_user_share_account = key 32,
      crr_share_token_program = key 201\<rparr> [] \<lparr>ra_amount = 500, ra_operator = None\<rparr>"

lemma redeemable_region: "v_tlv v = v_tlv redeemable_vault \<Longrightarrow> vault_region v [(6, replicate 16 0)]"
  by (auto simp: vault_region_def redeemable_vault_def intro!: exI [of _ RedemptionQueue])

lemma redeemable_next:
  assumes "v_tlv v = v_tlv redeemable_vault"
  shows "\<exists>w n. next_queue_request_id RedemptionQueue_ext v = Inr (w, Some n)"
proof -
  note region = redeemable_region [OF assms]
  have "read_vault_extension RedemptionQueue_ext v = Inr (Some FifoCounters_zeroed)"
    by (simp add: read_vault_extension_region [OF region] RedemptionQueue_ext_def
        FifoCounters_pod_read_def u64_field_zeros FifoCounters_zeroed_def)
  from redemption_queue.next_id_is_update [OF region this]
    redemption_queue.update_total [OF region, of "fst (increment_total RedemptionQueue_ext FifoCounters_zeroed)"]
  show ?thesis by (auto simp: RedemptionQueue_ext_def split_beta)
qed

lemma sample_redemption_runs: "\<exists>w. exec_request sample_env sample_redemption redeemable_world = Inr w"
proof -
  have no: "read_vault_extension PausableRedemption_ext redeemable_vault = Inr None"
    "read_vault_extension MinRedemption_ext redeemable_vault = Inr None"
    by (simp_all add: read_vault_extension_region [OF redeemable_region [OF refl]]
        PausableRedemption_ext_def MinRedemption_ext_def)
  let ?v = "redeemable_vault\<lparr>v_pending_async_requests := 2\<rparr>"
  have tlv: "v_tlv ?v = v_tlv redeemable_vault" by simp
  obtain v n where next_id: "next_queue_request_id RedemptionQueue_ext ?v = Inr (v, Some n)"
    using redeemable_next [OF tlv] by blast
  have space: "12 \<le> compute_request_extension_space redeemable_vault"
    by (rule redemption_queue.space [OF redeemable_region [OF refl]]) (simp add: RedemptionQueue_ext_def)
  have "\<exists>r. req_tlv r0 = replicate (compute_request_extension_space redeemable_vault) 0 \<longrightarrow>
      tag_request RedemptionQueueRequest r0 (Some n) = Inr r" for r0
    using init_request_extension_read [OF space, of RedemptionQueueRequest r0 n]
    by (metis (no_types, lifting) option.case(2) request.surjective request.update_convs(12) tag_request_def)
  then obtain tagged where tag: "\<And>r0. req_tlv r0 = replicate (compute_request_extension_space redeemable_vault) 0 \<Longrightarrow>
      tag_request RedemptionQueueRequest r0 (Some n) = Inr (tagged r0)" by metis
  have fields: "v_asset_mint redeemable_vault = key 1" "v_share_mint redeemable_vault = key 2"
    "\<not> v_paused redeemable_vault" "v_initialized redeemable_vault" "v_tranche_config redeemable_vault = None"
    "v_pending_async_requests redeemable_vault = 1" "v_bump redeemable_vault = 253"
    by (simp_all add: redeemable_vault_def sample_vault_def)
  show ?thesis
    by (simp add: sample_redemption_def create_redeem_request_def redeemable_world_def sample_world_defs cpi_eval
        checked_eval fields no next_id tag vault_guard_defs validate_request_share_mint_def load_def load_opt_def
        init_account_def check_redemptions_paused_def check_min_redemption_amount_def vault_pda_def vault_seeds_def
        burn_shares_def assign_queue_id_def enforce_tranche_request_limits_def token_interface_def token_constraints_def
        fresh_def seeds_with_bump_def is_token_program_def request_nav_def Let_def)
qed


end
