(* ===== verification/Custody_Frames.thy ===== *)
theory Custody_Frames
  imports System_Runs Instant_Books
begin

text \<open>
  Requests, settlement, NAV updates and instant settlement open and close no token account, create
  no vault, and open requests for existing vaults only: one lemma per instruction.
\<close>

definition quiet_tokens :: "world \<Rightarrow> world \<Rightarrow> bool" where
  "quiet_tokens w w' \<longleftrightarrow>
     holder (w_ledger w') = holder (w_ledger w) \<and> dom (w_vaults w') = dom (w_vaults w)
     \<and> (\<forall>k r. w_requests w' k = Some r \<longrightarrow>
          req_vault r \<in> dom (w_vaults w) \<or> (\<exists>k0 r0. w_requests w k0 = Some r0 \<and> req_vault r0 = req_vault r))"

lemma quiet_tokensI:
  assumes "holder (w_ledger w') = holder (w_ledger w)" "w_requests w' = (w_requests w)(rk := new)"
    and "dom (w_vaults w') = dom (w_vaults w)"
    and "\<And>r. new = Some r \<Longrightarrow> req_vault r \<in> dom (w_vaults w)
      \<or> (\<exists>k0 r0. w_requests w k0 = Some r0 \<and> req_vault r0 = req_vault r)"
  shows "quiet_tokens w w'"
  using assms unfolding quiet_tokens_def by (auto split: if_splits)

lemma quiet_tokens_frame:
  assumes "holder (w_ledger w') = holder (w_ledger w)" "w_requests w' = w_requests w"
    and "dom (w_vaults w') = dom (w_vaults w)"
  shows "quiet_tokens w w'"
  using assms unfolding quiet_tokens_def by auto

subsection \<open>Token instructions\<close>

lemma transfer_holder: "transfer_checked E p a m b k n d L = Inr L' \<Longrightarrow> spl_laws E \<Longrightarrow> holder L' = holder L"
  using spl_transfer by (fastforce simp: transfer_effect_def)

lemma mint_holder: "mint_to E p m b k n L = Inr L' \<Longrightarrow> spl_laws E \<Longrightarrow> holder L' = holder L"
  using spl_mint by (fastforce simp: mint_effect_def)

lemma burn_holder: "burn E p m b k n L = Inr L' \<Longrightarrow> spl_laws E \<Longrightarrow> holder L' = holder L"
  using spl_burnt by (fastforce simp: burn_effect_def)

lemma mint_shares_holder: "mint_shares E vk v m d p n L = Inr L' \<Longrightarrow> spl_laws E \<Longrightarrow> holder L' = holder L"
  by (auto simp: mint_shares_def res_simps dest: mint_holder)

lemma transfer_assets_to_user_holder:
  "transfer_assets_to_user E vk v am m src dst p n L = Inr L' \<Longrightarrow> spl_laws E \<Longrightarrow> holder L' = holder L"
  by (auto simp: transfer_assets_to_user_def res_simps dest: transfer_holder)

lemma refund_deposit_holder:
  "refund_deposit E vk v am m va p u tp n L = Inr (v', va', L') \<Longrightarrow> spl_laws E \<Longrightarrow> holder L' = holder L"
  by (auto simp: refund_deposit_def Let_def res_simps dest: transfer_assets_to_user_holder split: if_splits)

lemma refund_holder:
  "(case t of
      Deposit \<Rightarrow> refund_deposit E vk v m am va p u tp n L
    | Redeem \<Rightarrow> try_ok (mint_shares E vk v1 sm d p2 n L) (\<lambda>L. Inr (v, va, L))) = Inr (v', va', L') \<Longrightarrow>
   spl_laws E \<Longrightarrow> holder L' = holder L"
  by (auto simp: res_simps dest: refund_deposit_holder mint_shares_holder split: RequestType.splits)

subsection \<open>Instructions\<close>

lemma create_deposit_request_tokens:
  assumes "create_deposit_request E accts ra args w = Inr w'" and spl: "spl_laws E"
  shows "quiet_tokens w w'"
  using assms(1)
proof (rule create_deposit_request_Inr, goal_cases)
  case (1 v v' va r t L vas tcs m)
  have "holder L = holder (w_ledger w)"
    using 1(6) spl by (auto simp: transfer_assets_from_user_to_pending_vault_def dest: transfer_holder)
  with 1 show ?case by (intro quiet_tokensI [where rk = "cdr_request accts" and new = "Some r"]) auto
qed

lemma create_redeem_request_tokens:
  assumes "create_redeem_request E accts ra args w = Inr w'" and spl: "spl_laws E"
  shows "quiet_tokens w w'"
  using assms(1)
proof (rule create_redeem_request_Inr, goal_cases)
  case (1 v v' r t L tcs)
  have "holder L = holder (w_ledger w)" using 1(4) spl by (auto simp: burn_shares_def dest: burn_holder)
  with 1 show ?case by (intro quiet_tokensI [where rk = "crr_request accts" and new = "Some r"]) auto
qed

lemma set_operator_tokens: "set_operator so w = Inr w' \<Longrightarrow> quiet_tokens w w'"
  apply (clarsimp simp: set_operator_def res_simps)
  apply (auto simp: quiet_tokens_def split: if_splits)
  done

lemma cancel_request_tokens:
  "cancel_request E accts ra w = Inr w' \<Longrightarrow> spl_laws E \<Longrightarrow> quiet_tokens w w'"
  apply (clarsimp simp: cancel_request_def res_simps Let_def)
  apply (drule (1) refund_holder)
  apply (auto simp: quiet_tokens_def close_def split: if_splits)
  done

lemma reject_request_tokens:
  "reject_request E accts ra args w = Inr w' \<Longrightarrow> spl_laws E \<Longrightarrow> quiet_tokens w w'"
  apply (clarsimp simp: reject_request_def res_simps Let_def)
  apply (drule (1) refund_holder)
  apply (auto simp: quiet_tokens_def close_def split: if_splits)
  done

lemma cancel_queued_deposit_request_tokens:
  "cancel_queued_deposit_request E accts ra w = Inr w' \<Longrightarrow> spl_laws E \<Longrightarrow> quiet_tokens w w'"
  apply (clarsimp simp: cancel_queued_deposit_request_def res_simps Let_def)
  apply (drule (1) transfer_holder)
  apply (auto simp: quiet_tokens_def split: if_splits)
  done

lemma cancel_queued_redemption_request_tokens:
  "cancel_queued_redemption_request E accts ra w = Inr w' \<Longrightarrow> spl_laws E \<Longrightarrow> quiet_tokens w w'"
  apply (clarsimp simp: cancel_queued_redemption_request_def res_simps Let_def)
  apply (drule (1) mint_holder)
  apply (auto simp: quiet_tokens_def split: if_splits)
  done

lemma skip_canceled_queue_request_tokens:
  "skip_canceled_queue_request E accts ra w = Inr w' \<Longrightarrow> quiet_tokens w w'"
  apply (clarsimp simp: skip_canceled_queue_request_def res_simps Let_def)
  apply (auto simp: quiet_tokens_def close_def split: if_splits)
  done

lemma claim_tokens: "claim E accts ra w = Inr w' \<Longrightarrow> spl_laws E \<Longrightarrow> quiet_tokens w w'"
  apply (clarsimp simp: claim_def res_simps Let_def)
  apply (auto simp: quiet_tokens_def close_def res_simps split: if_splits RequestType.splits
      dest: mint_shares_holder transfer_assets_to_user_holder)
  done

lemma approve_request_tokens:
  assumes "approve_request E accts ra args w = Inr w'" and spl: "spl_laws E"
  shows "quiet_tokens w w'"
  using assms(1)
proof (rule approve_request_Inr, goal_cases)
  case (1 v va r t_reserve t_pending am sm ctx v1 tcs1 v2 va2 tcs L claimable pa)
  have "holder L = holder (w_ledger w)"
    using 1(9)
    by (auto simp: res_simps dest: debits_holder [OF settle_deposit_request_effect(1) [OF spl]]
        debits_holder [OF settle_redeem_request_effect(1) [OF spl]] split: RequestType.splits)
  with 1(1,2,3,22) show ?case by (auto simp: quiet_tokens_def split: if_splits)
qed

lemma update_nav_tokens:
  assumes "update_nav E accts ra nav w = Inr w'" and spl: "spl_laws E"
  shows "quiet_tokens w w'"
  using assms(1)
proof (rule update_nav_Inr, goal_cases)
  case (1 v v1 L n tcs)
  have "debits {} (w_ledger w) L"
    using 1(4) mint_performance_fee_shares_debits [OF spl]
    by (auto simp: maybe_crystallize_performance_fee_def Let_def res_simps debits_refl split: if_splits)
  with 1(6) show ?case by (intro quiet_tokens_frame) (auto simp: debits_holder 1(1))
qed

lemma instant_deposit_tokens:
  assumes "instant_deposit E accts ra amount w = Inr w'" and spl: "spl_laws E"
  shows "quiet_tokens w w'"
  using assms(1)
proof (rule instant_deposit_Inr, goal_cases)
  case (1 v1 am sm1 r t settings users fee net shares pf rest L1 L2 L3 total)
  from 1(27) obtain pt where fees: "pay_instant_fees E w v1 (transfer_user_assets_to E accts am)
      (id_fee_recipient_token_account accts) rest (id_protocol_fee_recipient_token_account accts) pt pf ra
      (w_ledger w) = Inr L1" by auto
  from debits_holder [OF pay_and_transfer_effect(1) [OF transfer_user_assets_effect [OF spl] fees 1(28)]]
    mint_holder [OF 1(29) spl] 1(31)
  show ?case by (intro quiet_tokens_frame) (use 1(1) in auto)
qed

lemma instant_redeem_tokens:
  assumes "instant_redeem E accts ra shares w = Inr w'" and spl: "spl_laws E"
  shows "quiet_tokens w w'"
  using assms(1)
proof (rule instant_redeem_Inr, goal_cases)
  case (1 v0 am sm1 r t settings users gross wfee ifee total_fee net v1 L1 pf rest L2 L3 total)
  from 1(31) obtain pt where fees: "pay_instant_fees E w v1 (transfer_vault_assets_to E accts v1 am)
      (ir_fee_recipient_token_account accts) rest (ir_protocol_fee_recipient_token_account accts) pt pf ra
      L1 = Inr L2" by auto
  from debits_holder [OF pay_and_transfer_effect(1) [OF transfer_vault_assets_effect [OF spl] fees 1(32)]]
    burn_holder [OF 1(29) spl] 1(34)
  show ?case by (intro quiet_tokens_frame) (use 1(1) in auto)
qed

lemmas request_tokens =
  create_deposit_request_tokens create_redeem_request_tokens set_operator_tokens
  approve_request_tokens reject_request_tokens claim_tokens cancel_request_tokens
  cancel_queued_deposit_request_tokens cancel_queued_redemption_request_tokens
  skip_canceled_queue_request_tokens update_nav_tokens instant_deposit_tokens instant_redeem_tokens

lemma exec_request_tokens: "exec_request E i w = Inr w' \<Longrightarrow> spl_laws E \<Longrightarrow> quiet_tokens w w'"
  by (cases i) (simp_all add: request_tokens)

end
