(* ===== verification/Custody.thy ===== *)
theory Custody
  imports Custody_Frames
begin

text \<open>
  The token accounts a vault keeps for itself: every one is owned by its vault, and no two of its
  roles share one. With that, the books of the requests balance in every run of the whole program.
\<close>

subsection \<open>Token accounts in custody\<close>

datatype custody =
    Reserve_of pubkey | Escrow_of pubkey \<comment> \<open>of a vault\<close>
  | Asset_reserve_of pubkey | Asset_escrow_of pubkey \<comment> \<open>of an approved asset\<close>
  | Tokens_of pubkey \<comment> \<open>of a position\<close>

text \<open>The token account in a role, with the vault that owns it.\<close>

fun custodian :: "world \<Rightarrow> custody \<Rightarrow> (pubkey \<times> pubkey) option" where
  "custodian w (Reserve_of k) = map_option (\<lambda>v. (v_vault_token_account v, k)) (w_vaults w k)"
| "custodian w (Escrow_of k) = map_option (\<lambda>v. (v_pending_vault v, k)) (w_vaults w k)"
| "custodian w (Asset_reserve_of k) = map_option (\<lambda>va. (va_reserve va, va_vault va)) (w_vault_assets w k)"
| "custodian w (Asset_escrow_of k) = map_option (\<lambda>va. (va_pending_vault va, va_vault va)) (w_vault_assets w k)"
| "custodian w (Tokens_of k) = map_option (\<lambda>p. (pos_token_account p, pos_vault p)) (w_positions w k)"

definition owner_of :: "ledger \<Rightarrow> pubkey \<Rightarrow> pubkey option" where
  "owner_of L k = map_option ta_owner (l_tokens L k)"

definition custody_ok :: "env \<Rightarrow> world \<Rightarrow> bool" where
  "custody_ok E w \<longleftrightarrow>
     (\<forall>c a vk. custodian w c = Some (a, vk) \<longrightarrow> owner_of (w_ledger w) a = Some vk \<and> \<not> is_wallet E vk)
     \<and> (\<forall>c d a u v. custodian w c = Some (a, u) \<longrightarrow> custodian w d = Some (a, v) \<longrightarrow> c = d)"

lemma custody_okD:
  assumes "custody_ok E w"
  shows "custodian w c = Some (a, vk) \<Longrightarrow> owner_of (w_ledger w) a = Some vk"
    and "custodian w c = Some (a, vk) \<Longrightarrow> \<not> is_wallet E vk"
    and "custodian w c = Some (a, u) \<Longrightarrow> custodian w d = Some (a, v) \<Longrightarrow> c = d"
  using assms unfolding custody_ok_def by blast+

lemma owner_of_holder: "owner_of L k = map_option (snd \<circ> snd) (holder L k)"
  by (simp add: owner_of_def holder_def option.map_comp comp_def)

lemma same_holder_owner: "holder L' k = holder L k \<Longrightarrow> owner_of L' k = owner_of L k"
  by (simp add: owner_of_holder)

text \<open>
  A step closes some accounts, opens some at addresses that held nothing, and leaves the owners of
  the others.
\<close>

lemma custody_step:
  assumes ok: "custody_ok E w"
    and kept: "\<And>c a vk. custodian w c = Some (a, vk) \<Longrightarrow> custodian w' c \<noteq> None \<Longrightarrow>
      custodian w' c = Some (a, vk) \<and> owner_of (w_ledger w') a = Some vk"
    and opened: "\<And>c a vk. custodian w c = None \<Longrightarrow> custodian w' c = Some (a, vk) \<Longrightarrow>
      owner_of (w_ledger w) a = None \<and> owner_of (w_ledger w') a = Some vk \<and> \<not> is_wallet E vk"
    and apart: "\<And>c d a u v. custodian w c = None \<Longrightarrow> custodian w d = None \<Longrightarrow>
      custodian w' c = Some (a, u) \<Longrightarrow> custodian w' d = Some (a, v) \<Longrightarrow> c = d"
  shows "custody_ok E w'"
proof -
  note old = custody_okD [OF ok]
  have own: "owner_of (w_ledger w') a = Some vk \<and> \<not> is_wallet E vk" if "custodian w' c = Some (a, vk)" for c a vk
    using that kept opened old(2) by (cases "custodian w c") fastforce+
  have "c = d" if c: "custodian w' c = Some (a, u)" and d: "custodian w' d = Some (a, v)" for c d a u v
  proof -
    consider (new) "custodian w c = None" "custodian w d = None"
      | (old) u' v' where "custodian w c = Some (a, u')" "custodian w d = Some (a, v')"
      | (left) v' where "custodian w c = None" "custodian w d = Some (a, v')"
      | (right) u' where "custodian w c = Some (a, u')" "custodian w d = None"
      using kept c d by (cases "custodian w c"; cases "custodian w d") fastforce+
    then show ?thesis
    proof cases
      case new
      then show ?thesis using apart c d by blast
    next
      case old
      then show ?thesis using custody_okD(3) [OF ok] by blast
    next
      case left
      then show ?thesis using opened [OF left(1) c] custody_okD(1) [OF ok left(2)] by simp
    next
      case right
      then show ?thesis using opened [OF right(2) d] custody_okD(1) [OF ok right(1)] by simp
    qed
  qed
  with own show ?thesis unfolding custody_ok_def by blast
qed

lemma custody_frame:
  assumes "custody_ok E w" "custodian w' = custodian w"
    and "\<And>c a vk. custodian w c = Some (a, vk) \<Longrightarrow> owner_of (w_ledger w') a = Some vk"
  shows "custody_ok E w'"
  by (rule custody_step [OF assms(1)]) (use assms(2,3) in auto)

lemma keeps_custodian:
  assumes "keeps_positions w w'" "dom (w_vaults w') = dom (w_vaults w)"
  shows "custodian w' = custodian w"
proof
  fix c
  have vault: "map_option identity (w_vaults w' k) = map_option identity (w_vaults w k)" for k
  proof (cases "w_vaults w k")
    case None
    then have "w_vaults w' k = None" using assms(2) by (metis domIff)
    with None show ?thesis by simp
  next
    case (Some v)
    then have "k \<in> dom (vault_ids w)" by (auto simp: vault_ids_def)
    with assms(1) have "vault_ids w k = vault_ids w' k" by (simp add: keeps_positions_def map_le_def)
    then show ?thesis by (simp add: vault_ids_def)
  qed
  have asset: "map_option asset_key (w_vault_assets w' k) = map_option asset_key (w_vault_assets w k)" for k
  proof -
    have "asset_ledger (w_vault_assets w') = asset_ledger (w_vault_assets w)"
      using assms(1) by (simp add: keeps_positions_def)
    from fun_cong [OF this, of k] show ?thesis by (simp add: asset_ledger_def)
  qed
  show "custodian w' c = custodian w c"
  proof (cases c)
    case (Reserve_of k)
    then show ?thesis using vault [of k] by (cases "w_vaults w k"; cases "w_vaults w' k") (auto simp: identity_eq)
  next
    case (Escrow_of k)
    then show ?thesis using vault [of k] by (cases "w_vaults w k"; cases "w_vaults w' k") (auto simp: identity_eq)
  next
    case (Asset_reserve_of k)
    then show ?thesis using asset [of k]
      by (cases "w_vault_assets w k"; cases "w_vault_assets w' k") (auto simp: asset_key_def)
  next
    case (Asset_escrow_of k)
    then show ?thesis using asset [of k]
      by (cases "w_vault_assets w k"; cases "w_vault_assets w' k") (auto simp: asset_key_def)
  next
    case (Tokens_of k)
    then show ?thesis using assms(1) by (simp add: keeps_positions_def)
  qed
qed

lemma quiet_tokensD:
  assumes "quiet_tokens w w'"
  shows "holder (w_ledger w') = holder (w_ledger w)" "dom (w_vaults w') = dom (w_vaults w)"
    and "w_requests w' k = Some r \<Longrightarrow>
      req_vault r \<in> dom (w_vaults w) \<or> (\<exists>k0 r0. w_requests w k0 = Some r0 \<and> req_vault r0 = req_vault r)"
  using assms unfolding quiet_tokens_def by blast+

lemma custody_quiet:
  assumes ok: "custody_ok E w" and keeps: "keeps_positions w w'" and quiet: "quiet_tokens w w'"
  shows "custody_ok E w'"
proof (rule custody_frame [OF ok keeps_custodian [OF keeps quiet_tokensD(2) [OF quiet]]])
  show "owner_of (w_ledger w') a = Some vk" if "custodian w c = Some (a, vk)" for c a vk
  proof -
    have "owner_of (w_ledger w') a = owner_of (w_ledger w) a"
      by (rule same_holder_owner) (simp add: quiet_tokensD(1) [OF quiet])
    with custody_okD(1) [OF ok that] show ?thesis by simp
  qed
qed

subsection \<open>Opening and closing accounts\<close>

text \<open>
  The documented effects of the other instructions of the token programs: a new account is empty and
  belongs to its owner, closing removes one account and touches no other, and a change of a
  mint's authority touches no account.
\<close>

definition spl_account_laws :: "env \<Rightarrow> bool" where
  "spl_account_laws E \<longleftrightarrow>
     (\<forall>p k mint own L L'. spl_init_account (env_spl E) p k mint own L = Inr L' \<longrightarrow>
        l_tokens L k = None
        \<and> l_tokens L' = (l_tokens L)(k \<mapsto> \<lparr>ta_program = p, ta_mint = mint, ta_owner = own, ta_amount = 0\<rparr>))
     \<and> (\<forall>p k dst a L L'. close_account E p k dst a L = Inr L' \<longrightarrow> l_tokens L' = (l_tokens L)(k := None))
     \<and> (\<forall>p mint new a L L'. set_mint_authority E p mint new a L = Inr L' \<longrightarrow> l_tokens L' = l_tokens L)"

lemma spl_account_lawsD:
  assumes "spl_account_laws E"
  shows "spl_init_account (env_spl E) p k mint own L = Inr L' \<Longrightarrow> l_tokens L k = None
      \<and> l_tokens L' = (l_tokens L)(k \<mapsto> \<lparr>ta_program = p, ta_mint = mint, ta_owner = own, ta_amount = 0\<rparr>)"
    and "close_account E p k dst a L = Inr L' \<Longrightarrow> l_tokens L' = (l_tokens L)(k := None)"
    and "set_mint_authority E p mint new a L = Inr L' \<Longrightarrow> l_tokens L' = l_tokens L"
  using assms unfolding spl_account_laws_def by metis+

text \<open>\<open>find_program_address\<close> returns the address that its bump derives.\<close>

definition address_laws :: "env \<Rightarrow> bool" where
  "address_laws E \<longleftrightarrow>
     (\<forall>seeds k b. env_find_program_address E seeds = (k, b) \<longrightarrow>
        env_create_program_address E (seeds @ [[b]]) = Some k)"

text \<open>A step that keeps the vaults' part of the books, the escrows' owners and what they hold.\<close>

lemma books_frame:
  assumes books: "world_books E w" and requests: "w_requests w' = w_requests w"
    and vaults: "\<And>k v'. w_vaults w' k = Some v' \<Longrightarrow> \<exists>v. w_vaults w k = Some v \<and> books_part v' = books_part v
      \<and> holder (w_ledger w') (v_pending_vault v) = holder (w_ledger w) (v_pending_vault v)
      \<and> amount_of (w_ledger w) (v_pending_vault v) \<le> amount_of (w_ledger w') (v_pending_vault v)"
  shows "world_books E w'"
proof -
  have "books_ok E (w_requests w') (w_ledger w') k v'" if "w_vaults w' k = Some v'" for k v'
  proof -
    from vaults [OF that] obtain v where v: "w_vaults w k = Some v" "books_part v' = books_part v"
      "holder (w_ledger w') (v_pending_vault v) = holder (w_ledger w) (v_pending_vault v)"
      "amount_of (w_ledger w) (v_pending_vault v) \<le> amount_of (w_ledger w') (v_pending_vault v)" by blast
    from v(2) have ident: "identity v' = identity v" "v_pending_async_requests v' = v_pending_async_requests v"
      "v_pending_deposit_amount v' = v_pending_deposit_amount v" by (simp_all add: books_part_def)
    then have "v_asset_mint v' = v_asset_mint v" "v_pending_vault v' = v_pending_vault v"
      "v_vault_token_account v' = v_vault_token_account v" by (simp_all add: identity_eq)
    then show ?thesis using books_of [OF books v(1)] v(3,4) ident(2,3)
      by (simp add: books_ok_def requests signer_seeds_identity [OF ident(1)])
  qed
  moreover have "finite (dom (w_requests w'))" using books by (simp add: world_books_def requests)
  ultimately show ?thesis by (simp add: world_books_def)
qed

text \<open>What holds of every world the program can reach.\<close>

definition sound :: "env \<Rightarrow> world \<Rightarrow> bool" where
  "sound E w \<longleftrightarrow> world_books E w \<and> custody_ok E w
     \<and> (\<forall>k r. w_requests w k = Some r \<longrightarrow> req_vault r \<in> dom (w_vaults w))"

lemma soundI:
  "world_books E w \<Longrightarrow> custody_ok E w \<Longrightarrow>
   (\<And>k r. w_requests w k = Some r \<Longrightarrow> req_vault r \<in> dom (w_vaults w)) \<Longrightarrow> sound E w"
  by (simp add: sound_def)

lemma soundD:
  assumes "sound E w"
  shows "world_books E w" "custody_ok E w"
    "w_requests w k = Some r \<Longrightarrow> req_vault r \<in> dom (w_vaults w)"
  using assms by (auto simp: sound_def)

lemma custody_vaults:
  assumes "custody_ok E w" "w_vaults w k = Some v"
  shows "owner_of (w_ledger w) (v_pending_vault v) = Some k" "\<not> is_wallet E k"
    "owner_of (w_ledger w) (v_vault_token_account v) = Some k"
  using custody_okD(1,2) [OF assms(1), where c = "Escrow_of k"]
    custody_okD(1) [OF assms(1), where c = "Reserve_of k"] assms(2) by auto

text \<open>A debit of an account in another role leaves the escrows what they hold.\<close>

lemma escrow_spared:
  assumes "custody_ok E w" "custodian w c = Some (a, vk)" "c \<noteq> Escrow_of k" "w_vaults w k = Some v"
  shows "v_pending_vault v \<noteq> a"
proof
  assume "v_pending_vault v = a"
  then have "custodian w (Escrow_of k) = Some (a, k)" using assms(4) by simp
  from custody_okD(3) [OF assms(1) assms(2) this] assms(3) show False by blast
qed

text \<open>A transfer out of an account that is not an escrow.\<close>

lemma sound_transfer:
  assumes ok: "sound E w" and role: "custodian w c = Some (src, vk)" "\<And>k. c \<noteq> Escrow_of k"
    and effect: "transfer_effect E' src m dst n (w_ledger w) (w_ledger w')"
    and requests: "w_requests w' = w_requests w" and custody: "custodian w' = custodian w"
    and vaults: "\<And>k v'. w_vaults w' k = Some v' \<Longrightarrow> \<exists>v. w_vaults w k = Some v \<and> books_part v' = books_part v"
    and doms: "dom (w_vaults w') = dom (w_vaults w)"
  shows "sound E w'"
proof -
  note old = soundD [OF ok]
  have holder: "holder (w_ledger w') k = holder (w_ledger w) k" for k using effect by (simp add: transfer_effect_def)
  have spared: "amount_of (w_ledger w) (v_pending_vault v) \<le> amount_of (w_ledger w') (v_pending_vault v)"
    if "w_vaults w k = Some v" for k v
    using debits_le [OF transfer_debits(1) [OF effect]] escrow_spared [OF old(2) role that] by simp
  show ?thesis
  proof (rule soundI)
    show "world_books E w'" by (rule books_frame [OF old(1) requests]) (use vaults spared holder in blast)
    show "custody_ok E w'"
    proof (rule custody_frame [OF old(2) custody])
      show "owner_of (w_ledger w') a = Some vk" if "custodian w c = Some (a, vk)" for c a vk
        using custody_okD(1) [OF old(2) that] same_holder_owner [OF holder] by simp
    qed
    show "req_vault r \<in> dom (w_vaults w')" if "w_requests w' k = Some r" for k r
      using old(3) that by (simp add: requests doms)
  qed
qed

end
