(* ===== verification/Custody_Runs.thy ===== *)
theory Custody_Runs
  imports Custody
begin

text \<open>
  The books and the custody of token accounts in the runs of the whole program: one lemma per
  group of entry points, then the invariant of the runs.
\<close>

subsection \<open>Requests, settlement, prices and instant settlement\<close>

lemma exec_request_books:
  assumes run: "exec_request (at_time E now) i w = Inr w'" and users: "wallet_users E (Request i)"
    and lawful: "lawful_runtime E" and books: "world_books E w"
  shows "world_books E w'"
proof (cases "(\<exists>accts ra n. i = Instant_deposit accts ra n) \<or> (\<exists>accts ra n. i = Instant_redeem accts ra n)")
  case True
  with run users lawful books show ?thesis
    using instant_deposit_books [of "at_time E now"] instant_redeem_books [of "at_time E now"] by fastforce
next
  case False
  with run users have "lifecycle_step E w w'" by (cases i) (auto intro: lifecycle_step.intros)
  then show ?thesis by (rule lifecycle_step_books [OF _ lawful books])
qed

lemma exec_request_sound:
  assumes run: "exec_request (at_time E now) i w = Inr w'" and users: "wallet_users E (Request i)"
    and lawful: "lawful_runtime E" and ok: "sound E w"
  shows "sound E w'"
proof (rule soundI)
  note old = soundD [OF ok]
  have quiet: "quiet_tokens w w'" by (rule exec_request_tokens [OF run]) (simp add: lawful)
  show "world_books E w'" by (rule exec_request_books [OF run users lawful old(1)])
  show "custody_ok E w'" by (rule custody_quiet [OF old(2) exec_request_keeps [OF run] quiet])
  show "req_vault r \<in> dom (w_vaults w')" if "w_requests w' k = Some r" for k r
    using quiet_tokensD(2,3) [OF quiet] that old(3) by metis
qed

subsection \<open>Steps that move no tokens\<close>

lemma sound_step:
  assumes ok: "sound E w" and custody: "custody_ok E w'" and requests: "w_requests w' = w_requests w"
    and vaults: "\<And>k v. w_vaults w k = Some v \<Longrightarrow> \<exists>v'. w_vaults w' k = Some v' \<and> books_part v' = books_part v"
    and doms: "dom (w_vaults w') = dom (w_vaults w)"
    and escrows: "\<And>k v. w_vaults w k = Some v \<Longrightarrow>
      holder (w_ledger w') (v_pending_vault v) = holder (w_ledger w) (v_pending_vault v)
      \<and> amount_of (w_ledger w) (v_pending_vault v) \<le> amount_of (w_ledger w') (v_pending_vault v)"
  shows "sound E w'"
proof (rule soundI [OF _ custody])
  note old = soundD [OF ok]
  show "world_books E w'"
  proof (rule books_frame [OF old(1) requests])
    show "\<exists>v. w_vaults w k = Some v \<and> books_part v' = books_part v
        \<and> holder (w_ledger w') (v_pending_vault v) = holder (w_ledger w) (v_pending_vault v)
        \<and> amount_of (w_ledger w) (v_pending_vault v) \<le> amount_of (w_ledger w') (v_pending_vault v)"
      if v': "w_vaults w' k = Some v'" for k v'
    proof -
      from v' doms obtain v where v: "w_vaults w k = Some v" by (metis domI domD)
      with vaults v' have "books_part v' = books_part v" by fastforce
      then show ?thesis using v escrows by blast
    qed
  qed
  show "req_vault r \<in> dom (w_vaults w')" if "w_requests w' k = Some r" for k r
    using old(3) that by (simp add: requests doms)
qed

lemma custodian_escrow: "w_vaults w k = Some v \<Longrightarrow> custodian w (Escrow_of k) = Some (v_pending_vault v, k)"
  by simp

lemma sound_frame:
  assumes ok: "sound E w" and keeps: "keeps_positions w w'" and requests: "w_requests w' = w_requests w"
    and doms: "dom (w_vaults w') = dom (w_vaults w)"
    and vaults: "\<And>k v. w_vaults w k = Some v \<Longrightarrow> \<exists>v'. w_vaults w' k = Some v' \<and> books_part v' = books_part v"
    and owners: "\<And>c a vk. custodian w c = Some (a, vk) \<Longrightarrow> holder (w_ledger w') a = holder (w_ledger w) a"
    and spared: "\<And>k v. w_vaults w k = Some v \<Longrightarrow>
      amount_of (w_ledger w) (v_pending_vault v) \<le> amount_of (w_ledger w') (v_pending_vault v)"
  shows "sound E w'"
proof (rule sound_step [OF ok _ requests vaults doms])
  show "custody_ok E w'"
  proof (rule custody_frame [OF soundD(2) [OF ok] keeps_custodian [OF keeps doms]])
    show "owner_of (w_ledger w') a = Some vk" if "custodian w c = Some (a, vk)" for c a vk
      using custody_okD(1) [OF soundD(2) [OF ok] that] same_holder_owner [OF owners [OF that]] by simp
  qed
  show "holder (w_ledger w') (v_pending_vault v) = holder (w_ledger w) (v_pending_vault v)
      \<and> amount_of (w_ledger w) (v_pending_vault v) \<le> amount_of (w_ledger w') (v_pending_vault v)"
    if "w_vaults w k = Some v" for k v
    using owners [OF custodian_escrow [OF that]] spared [OF that] by blast
qed

lemma same_tokens_holder:
  "l_tokens L' = l_tokens L \<Longrightarrow> holder L' = holder L \<and> amount_of L' = amount_of L"
  by (simp add: fun_eq_iff holder_def amount_of_def)

lemma sound_same_tokens:
  assumes "sound E w" "keeps_positions w w'" "w_requests w' = w_requests w" "dom (w_vaults w') = dom (w_vaults w)"
    and "\<And>k v. w_vaults w k = Some v \<Longrightarrow> \<exists>v'. w_vaults w' k = Some v' \<and> books_part v' = books_part v"
    and "l_tokens (w_ledger w') = l_tokens (w_ledger w)"
  shows "sound E w'"
  by (rule sound_frame [OF assms(1-5)]) (simp_all add: same_tokens_holder [OF assms(6)])

subsection \<open>Administration\<close>

lemma at_time_custody [simp]: "custody_ok (at_time E now) w = custody_ok E w"
  by (simp add: custody_ok_def)

lemma at_time_sound [simp]: "sound (at_time E now) w = sound E w"
  by (simp add: sound_def)

text \<open>Every instruction but the creation of a vault.\<close>

lemma exec_admin_tokens:
  assumes run: "exec_admin E i w = Inr w'" and spl: "spl_account_laws E"
    and old: "\<And>accts args. i \<noteq> Create_vault accts args"
  shows "l_tokens (w_ledger w') = l_tokens (w_ledger w)"
  using run
proof (cases i)
  case (Initialize_tranches accts args)
  with run show ?thesis
    by (auto simp: initialize_tranches_def res_simps Let_def dest: spl_account_lawsD(3) [OF spl] split: if_splits)
qed (use run old in \<open>auto simp: setup_defs queued_update_defs policy_defs res_simps Let_def split: if_splits\<close>)

lemma exec_admin_doms:
  assumes run: "exec_admin E i w = Inr w'" and old: "\<And>accts args. i \<noteq> Create_vault accts args"
  shows "dom (w_vaults w') = dom (w_vaults w)"
  using run old
  by (cases i) (auto simp: setup_defs queued_update_defs policy_defs res_simps Let_def split: if_splits)

lemma exec_admin_sound:
  assumes run: "exec_admin E i w = Inr w'" and spl: "spl_account_laws E" and ok: "sound E w"
    and old: "\<And>accts args. i \<noteq> Create_vault accts args"
  shows "sound E w'"
  using exec_admin_frame [OF run] exec_admin_part [OF run] exec_admin_doms [OF run old] exec_admin_tokens [OF run spl old]
  by (intro sound_same_tokens [OF ok exec_admin_keeps [OF run]]) auto


subsection \<open>Opening accounts\<close>

lemma at_time_account_laws [simp]:
  "spl_account_laws (at_time E now) = spl_account_laws E" "address_laws (at_time E now) = address_laws E"
  by (simp_all add: spl_account_laws_def address_laws_def set_mint_authority_def close_account_def)

lemma tokens_extend:
  assumes "l_tokens L \<subseteq>\<^sub>m l_tokens L'"
  shows "holder L a = Some h \<Longrightarrow> holder L' a = Some h" "owner_of L a = Some own \<Longrightarrow> owner_of L' a = Some own"
    and "amount_of L a \<le> amount_of L' a"
  using assms by (auto simp: map_le_def dom_def holder_def owner_of_def amount_of_def split: option.splits)

lemma custody_open:
  assumes ok: "custody_ok E w" and tokens: "l_tokens (w_ledger w) \<subseteq>\<^sub>m l_tokens (w_ledger w')"
    and kept: "custodian w \<subseteq>\<^sub>m custodian w'"
    and opened: "\<And>c a vk. custodian w c = None \<Longrightarrow> custodian w' c = Some (a, vk) \<Longrightarrow>
      l_tokens (w_ledger w) a = None \<and> owner_of (w_ledger w') a = Some vk \<and> \<not> is_wallet E vk"
    and apart: "\<And>c d a u v. custodian w c = None \<Longrightarrow> custodian w d = None \<Longrightarrow>
      custodian w' c = Some (a, u) \<Longrightarrow> custodian w' d = Some (a, v) \<Longrightarrow> c = d"
  shows "custody_ok E w'"
proof (rule custody_step [OF ok])
  show "custodian w' c = Some (a, vk) \<and> owner_of (w_ledger w') a = Some vk"
    if c: "custodian w c = Some (a, vk)" for c a vk
  proof -
    have "custodian w' c = custodian w c" using kept c by (metis domI map_le_def)
    then show ?thesis using c tokens_extend(2) [OF tokens custody_okD(1) [OF ok c]] by simp
  qed
  show "owner_of (w_ledger w) a = None \<and> owner_of (w_ledger w') a = Some vk \<and> \<not> is_wallet E vk"
    if "custodian w c = None" "custodian w' c = Some (a, vk)" for c a vk
    using opened [OF that] by (simp add: owner_of_def)
qed (rule apart)

lemma custody_close:
  assumes ok: "custody_ok E w" and kept: "custodian w' \<subseteq>\<^sub>m custodian w"
    and tokens: "\<And>c a vk. custodian w' c = Some (a, vk) \<Longrightarrow> l_tokens (w_ledger w') a = l_tokens (w_ledger w) a"
  shows "custody_ok E w'"
proof (rule custody_step [OF ok])
  fix c
  show "custodian w' c = Some (a, vk) \<and> owner_of (w_ledger w') a = Some vk"
    if c: "custodian w c = Some (a, vk)" "custodian w' c \<noteq> None" for a vk
  proof -
    have same: "custodian w' c = custodian w c" using kept c(2) by (metis domIff map_le_def)
    with c tokens have "l_tokens (w_ledger w') a = l_tokens (w_ledger w) a" by simp
    then have "owner_of (w_ledger w') a = owner_of (w_ledger w) a" by (simp add: owner_of_def)
    then show ?thesis using same c(1) custody_okD(1) [OF ok c(1)] by simp
  qed
  show "owner_of (w_ledger w) a = None \<and> owner_of (w_ledger w') a = Some vk \<and> \<not> is_wallet E vk"
    if "custodian w c = None" "custodian w' c = Some (a, vk)" for a vk
    using kept that by (metis domI map_le_def option.distinct(1))
  show "c = d" if "custodian w c = None" "custodian w' c = Some (a, u)" for d a u
    using kept that by (metis domI map_le_def option.distinct(1))
qed

subsection \<open>Creating a vault\<close>

text \<open>A new vault counts nothing, and its two accounts are new, empty and its own.\<close>

lemma create_vault_Inr:
  assumes "create_vault E accts args w = Inr w'" and spl: "spl_account_laws E" and address: "address_laws E"
  obtains v p where "fresh w (cv_vault accts)" "w_vaults w' = (w_vaults w)(cv_vault accts \<mapsto> v)"
    "v_vault_token_account v = cv_reserve accts" "v_pending_vault v = cv_pending_vault accts"
    "v_pending_async_requests v = 0" "v_pending_deposit_amount v = 0"
    "env_create_program_address E (signer_seeds v) = Some (cv_vault accts)"
    "l_tokens (w_ledger w) (cv_reserve accts) = None" "l_tokens (w_ledger w) (cv_pending_vault accts) = None"
    "cv_reserve accts \<noteq> cv_pending_vault accts"
    "l_tokens (w_ledger w') = (l_tokens (w_ledger w))
       (cv_reserve accts \<mapsto> \<lparr>ta_program = p, ta_mint = v_asset_mint v, ta_owner = cv_vault accts, ta_amount = 0\<rparr>,
        cv_pending_vault accts \<mapsto>
          \<lparr>ta_program = p, ta_mint = v_asset_mint v, ta_owner = cv_vault accts, ta_amount = 0\<rparr>)"
proof -
  note laws = spl_account_lawsD [OF spl]
  obtain bump where bump: "env_find_program_address E [VAULT_CONFIG_SEED, cv_share_mint accts] = (cv_vault accts, bump)"
    using assms(1) by (cases "env_find_program_address E [VAULT_CONFIG_SEED, cv_share_mint accts]")
      (auto simp: create_vault_def seeds_canonical_def res_simps)
  from assms(1) obtain L1 L2 L3 b1 b2 where run:
    "fresh w (cv_vault accts)" "cv_reserve accts \<noteq> cv_pending_vault accts"
    "spl_init_account (env_spl E) (cv_asset_token_program accts) (cv_reserve accts) (cv_asset_mint accts)
       (cv_vault accts) (w_ledger w) = Inr L1"
    "spl_init_account (env_spl E) (cv_asset_token_program accts) (cv_pending_vault accts) (cv_asset_mint accts)
       (cv_vault accts) L1 = Inr L2"
    "set_mint_authority E (cv_share_token_program accts) (cv_share_mint accts) (cv_vault accts)
       (cv_mint_authority accts) L2 = Inr L3"
    "w' = w\<lparr>w_ledger := L3, w_vaults := (w_vaults w)(cv_vault accts \<mapsto> new_vault accts args bump b1 b2)\<rparr>"
    by (auto simp: create_vault_def init_token_account_def seeds_canonical_def init_account_def bump res_simps)
  have signer: "env_create_program_address E (signer_seeds (new_vault accts args bump b1 b2)) = Some (cv_vault accts)"
    using address bump unfolding address_laws_def by (fastforce simp: signer_seeds_def vault_seeds_def new_vault_def)
  show thesis
    by (rule that [of "new_vault accts args bump b1 b2" "cv_asset_token_program accts"])
      (use run signer laws(1) [OF run(3)] laws(1) [OF run(4)] laws(3) [OF run(5)] in
        \<open>auto simp: new_vault_def split: if_splits\<close>)
qed

end
