(* ===== verification/Custody_Venues.thy ===== *)
theory Custody_Venues
  imports Custody_Runs
begin

text \<open>
  The instructions that open, close and move token accounts keep the books and the custody: the
  creation of a vault, secondary assets, positions and withdrawals.
\<close>

subsection \<open>Creating a vault\<close>

lemma books_ok_extend:
  assumes "books_ok E requests L k v" "l_tokens L \<subseteq>\<^sub>m l_tokens L'"
  shows "books_ok E requests L' k v"
proof -
  have "amount_of L (v_pending_vault v) \<le> amount_of L' (v_pending_vault v)" by (rule tokens_extend(3) [OF assms(2)])
  then show ?thesis using assms(1) tokens_extend(1) [OF assms(2)] by (auto simp: books_ok_def)
qed

lemma create_vault_sound:
  assumes run: "create_vault E accts args w = Inr w'" and spl: "spl_account_laws E" and address: "address_laws E"
    and ok: "sound E w"
  shows "sound E w'"
  using run spl address
proof (rule create_vault_Inr, goal_cases)
  case (1 v p)
  note old = soundD [OF ok]
  let ?k = "cv_vault accts"
  have frame: "w_requests w' = w_requests w" "w_positions w' = w_positions w" "w_vault_assets w' = w_vault_assets w"
    using exec_admin_frame [of E "Create_vault accts args"] run by simp_all
  have ext: "l_tokens (w_ledger w) \<subseteq>\<^sub>m l_tokens (w_ledger w')" by (auto simp: 1(8,9,11) map_le_def)
  have new: "w_vaults w ?k = None" using 1(1) by (simp add: fresh_def)
  have program: "\<not> is_wallet E ?k" using 1(7) by (auto simp: is_wallet_def)
  have empty: "req_vault r \<noteq> ?k" if "w_requests w j = Some r" for j r using old(3) [OF that] new by auto
  have "books_ok E (w_requests w') (w_ledger w') ?k v"
  proof -
    have "weight (pending_count ?k) (w_requests w) = 0" "weight (pending_deposit ?k (v_asset_mint v)) (w_requests w) = 0"
      "weight (escrowed ?k (v_asset_mint v)) (w_requests w) = 0"
      using empty by (auto intro!: weight_zero simp: weights)
    then show ?thesis using 1(3-7,10,11) by (simp add: books_ok_def frame holder_def)
  qed
  moreover have "books_ok E (w_requests w') (w_ledger w') k u" if "w_vaults w k = Some u" for k u
    using books_ok_extend [OF books_of [OF old(1) that] ext] by (simp add: frame)
  ultimately have books: "world_books E w'" using old(1) 1(2) by (simp add: world_books_def frame)
  have custody: "custody_ok E w'"
  proof (rule custody_open [OF old(2) ext])
    show "custodian w \<subseteq>\<^sub>m custodian w'"
    proof (unfold map_le_def, rule ballI)
      show "custodian w c = custodian w' c" if "c \<in> dom (custodian w)" for c
        using that new by (cases c) (auto simp: 1(2) frame)
    qed
    have opened: "c = Reserve_of ?k \<and> a = cv_reserve accts \<and> vk = ?k
        \<or> c = Escrow_of ?k \<and> a = cv_pending_vault accts \<and> vk = ?k"
      if "custodian w c = None" "custodian w' c = Some (a, vk)" for c a vk
      using that 1(3,4) by (cases c) (auto simp: 1(2) frame split: if_splits)
    show "l_tokens (w_ledger w) a = None \<and> owner_of (w_ledger w') a = Some vk \<and> \<not> is_wallet E vk"
      if "custodian w c = None" "custodian w' c = Some (a, vk)" for c a vk
      using opened [OF that] 1(8,9,10) program by (auto simp: 1(11) owner_of_def)
    show "c = d" if "custodian w c = None" "custodian w d = None" "custodian w' c = Some (a, s)"
      "custodian w' d = Some (a, t)" for c d a s t
      using opened [OF that(1,3)] opened [OF that(2,4)] 1(10) by auto
  qed
  show ?case by (rule soundI [OF books custody]) (use old(3) in \<open>auto simp: frame 1(2)\<close>)
qed

lemma exec_admin_keeps_sound:
  assumes run: "exec_admin E i w = Inr w'" and spl: "spl_account_laws E" "address_laws E" and ok: "sound E w"
  shows "sound E w'"
proof (cases "\<exists>accts args. i = Create_vault accts args")
  case True
  then show ?thesis using run create_vault_sound [OF _ spl ok] by auto
next
  case False
  then show ?thesis using exec_admin_sound [OF run spl(1) ok] by blast
qed

subsection \<open>Secondary assets\<close>

lemma books_part_count [simp]: "books_part (v\<lparr>v_approved_asset_count := n\<rparr>) = books_part v"
  by (simp add: books_part_def identity_eq)

text \<open>Steps that only open accounts.\<close>

lemma sound_open:
  assumes ok: "sound E w" and custody: "custody_ok E w'" and requests: "w_requests w' = w_requests w"
    and ext: "l_tokens (w_ledger w) \<subseteq>\<^sub>m l_tokens (w_ledger w')"
    and v: "w_vaults w k = Some v" and upd: "w_vaults w' = (w_vaults w)(k \<mapsto> v')" and part: "books_part v' = books_part v"
  shows "sound E w'"
proof (rule sound_step [OF ok custody requests])
  show "\<exists>v'. w_vaults w' j = Some v' \<and> books_part v' = books_part u" if "w_vaults w j = Some u" for j u
    using that v part by (auto simp: upd)
  show "dom (w_vaults w') = dom (w_vaults w)" using v by (auto simp: upd)
  show "holder (w_ledger w') (v_pending_vault u) = holder (w_ledger w) (v_pending_vault u)
      \<and> amount_of (w_ledger w) (v_pending_vault u) \<le> amount_of (w_ledger w') (v_pending_vault u)"
    if "w_vaults w j = Some u" for j u
    using books_of [OF soundD(1) [OF ok] that] tokens_extend(1,3) [OF ext] by (fastforce simp: books_ok_def)
qed

lemma add_vault_asset_Inr:
  assumes run: "add_vault_asset E accts cap w = Inr w'" and spl: "spl_account_laws E"
  obtains v n va p where "w_vaults w (ava_vault accts) = Some v" "fresh w (ava_vault_asset accts)"
    "w_vaults w' = (w_vaults w)(ava_vault accts \<mapsto> v\<lparr>v_approved_asset_count := n\<rparr>)"
    "w_vault_assets w' = (w_vault_assets w)(ava_vault_asset accts \<mapsto> va)"
    "va_vault va = ava_vault accts" "va_reserve va = ava_reserve accts" "va_pending_vault va = ava_pending_vault accts"
    "w_requests w' = w_requests w" "w_positions w' = w_positions w"
    "l_tokens (w_ledger w) (ava_reserve accts) = None" "l_tokens (w_ledger w) (ava_pending_vault accts) = None"
    "ava_reserve accts \<noteq> ava_pending_vault accts"
    "l_tokens (w_ledger w') = (l_tokens (w_ledger w))
       (ava_reserve accts \<mapsto> \<lparr>ta_program = p, ta_mint = ava_asset_mint accts, ta_owner = ava_vault accts, ta_amount = 0\<rparr>,
        ava_pending_vault accts \<mapsto>
          \<lparr>ta_program = p, ta_mint = ava_asset_mint accts, ta_owner = ava_vault accts, ta_amount = 0\<rparr>)"
  using run
  by (auto simp: add_vault_asset_def init_token_account_def init_account_def seeds_canonical_def res_simps
      dest!: spl_account_lawsD(1) [OF spl])

lemma add_vault_asset_sound:
  assumes run: "add_vault_asset E accts cap w = Inr w'" and spl: "spl_account_laws E" and ok: "sound E w"
  shows "sound E w'"
  using run spl
proof (rule add_vault_asset_Inr, goal_cases)
  case (1 v n va p)
  note old = soundD [OF ok]
  let ?k = "ava_vault_asset accts"
  have ext: "l_tokens (w_ledger w) \<subseteq>\<^sub>m l_tokens (w_ledger w')" by (auto simp: 1(10,11,13) map_le_def)
  have new: "w_vault_assets w ?k = None" using 1(2) by (simp add: fresh_def)
  note program = custody_vaults(2) [OF old(2) 1(1)]
  have vaults: "custodian w' (Reserve_of j) = custodian w (Reserve_of j)"
    "custodian w' (Escrow_of j) = custodian w (Escrow_of j)" for j using 1(1) by (auto simp: 1(3))
  have custody: "custody_ok E w'"
  proof (rule custody_open [OF old(2) ext])
    show "custodian w \<subseteq>\<^sub>m custodian w'"
    proof (unfold map_le_def, rule ballI)
      show "custodian w c = custodian w' c" if "c \<in> dom (custodian w)" for c
        using that new vaults by (cases c) (auto simp: 1(4,9))
    qed
    have opened: "c = Asset_reserve_of ?k \<and> a = ava_reserve accts \<and> vk = ava_vault accts
        \<or> c = Asset_escrow_of ?k \<and> a = ava_pending_vault accts \<and> vk = ava_vault accts"
      if "custodian w c = None" "custodian w' c = Some (a, vk)" for c a vk
      using that 1(1,5-7) by (cases c) (auto simp: 1(3,4,9) split: if_splits)
    show "l_tokens (w_ledger w) a = None \<and> owner_of (w_ledger w') a = Some vk \<and> \<not> is_wallet E vk"
      if "custodian w c = None" "custodian w' c = Some (a, vk)" for c a vk
      using opened [OF that] 1(10-12) program by (auto simp: 1(13) owner_of_def)
    show "c = d" if "custodian w c = None" "custodian w d = None" "custodian w' c = Some (a, s)"
      "custodian w' d = Some (a, t)" for c d a s t
      using opened [OF that(1,3)] opened [OF that(2,4)] 1(12) by auto
  qed
  show ?case by (rule sound_open [OF ok custody 1(8) ext 1(1) 1(3)]) simp
qed

lemma remove_vault_asset_Inr:
  assumes run: "remove_vault_asset E accts w = Inr w'" and spl: "spl_account_laws E"
  obtains v n va where "w_vaults w (rva_vault accts) = Some v" "w_vault_assets w (rva_vault_asset accts) = Some va"
    "w_vaults w' = (w_vaults w)(rva_vault accts \<mapsto> v\<lparr>v_approved_asset_count := n\<rparr>)"
    "w_vault_assets w' = (w_vault_assets w)(rva_vault_asset accts := None)"
    "w_requests w' = w_requests w" "w_positions w' = w_positions w"
    "l_tokens (w_ledger w') = (l_tokens (w_ledger w))(va_reserve va := None, va_pending_vault va := None)"
  using run
  by (auto simp: remove_vault_asset_def close_vault_token_account_def signed_by_def close_def res_simps
      dest!: spl_account_lawsD(2) [OF spl] split: if_splits)

text \<open>Steps that close the accounts of the roles \<open>R\<close>.\<close>

lemma sound_close:
  assumes ok: "sound E w" and requests: "w_requests w' = w_requests w"
    and kept: "\<And>c a vk. custodian w' c = Some (a, vk) \<Longrightarrow> custodian w c = Some (a, vk) \<and> c \<notin> R"
    and tokens: "\<And>a. (\<And>c vk. custodian w c = Some (a, vk) \<Longrightarrow> c \<notin> R) \<Longrightarrow>
      l_tokens (w_ledger w') a = l_tokens (w_ledger w) a"
    and escrows: "\<And>k. Escrow_of k \<notin> R"
    and vaults: "\<And>k v. w_vaults w k = Some v \<Longrightarrow> \<exists>v'. w_vaults w' k = Some v' \<and> books_part v' = books_part v"
    and doms: "dom (w_vaults w') = dom (w_vaults w)"
  shows "sound E w'"
proof -
  note old = soundD [OF ok]
  have same: "l_tokens (w_ledger w') a = l_tokens (w_ledger w) a" if "custodian w c = Some (a, vk)" "c \<notin> R" for c a vk
    using custody_okD(3) [OF old(2) that(1)] that(2) by (intro tokens) blast
  have custody: "custody_ok E w'"
  proof (rule custody_close [OF old(2)])
    show "custodian w' \<subseteq>\<^sub>m custodian w" using kept by (fastforce simp: map_le_def)
  qed (use kept same in blast)
  show ?thesis
  proof (rule sound_step [OF ok custody requests vaults doms])
    fix k v assume "w_vaults w k = Some v"
    then have "l_tokens (w_ledger w') (v_pending_vault v) = l_tokens (w_ledger w) (v_pending_vault v)"
      using same [OF custodian_escrow escrows] by blast
    then show "holder (w_ledger w') (v_pending_vault v) = holder (w_ledger w) (v_pending_vault v)
        \<and> amount_of (w_ledger w) (v_pending_vault v) \<le> amount_of (w_ledger w') (v_pending_vault v)"
      by (simp add: holder_def amount_of_def)
  qed
qed

lemma remove_vault_asset_sound:
  assumes run: "remove_vault_asset E accts w = Inr w'" and spl: "spl_account_laws E" and ok: "sound E w"
  shows "sound E w'"
  using run spl
proof (rule remove_vault_asset_Inr, goal_cases)
  case (1 v n va)
  let ?k = "rva_vault_asset accts"
  show ?case
  proof (rule sound_close [OF ok 1(5), where R = "{Asset_reserve_of ?k, Asset_escrow_of ?k}"])
    show "custodian w c = Some (a, vk) \<and> c \<notin> {Asset_reserve_of ?k, Asset_escrow_of ?k}"
      if "custodian w' c = Some (a, vk)" for c a vk
      using that 1(1) by (cases c) (auto simp: 1(3,4,6) split: if_splits)
    show "l_tokens (w_ledger w') a = l_tokens (w_ledger w) a"
      if "\<And>c vk. custodian w c = Some (a, vk) \<Longrightarrow> c \<notin> {Asset_reserve_of ?k, Asset_escrow_of ?k}" for a
      using that [of "Asset_reserve_of ?k"] that [of "Asset_escrow_of ?k"] by (auto simp: 1(2,7))
  qed (use 1(1) in \<open>auto simp: 1(3)\<close>)
qed

subsection \<open>Positions\<close>

lemma create_venue_position_Inr:
  assumes run: "create_venue_position E accts w = Inr w'" and spl: "spl_account_laws E"
  obtains v q p where "w_vaults w (cvp_vault accts) = Some v" "fresh w (cvp_position accts)"
    "w_vaults w' = w_vaults w" "w_vault_assets w' = w_vault_assets w" "w_requests w' = w_requests w"
    "w_positions w' = (w_positions w)(cvp_position accts \<mapsto> q)"
    "pos_vault q = cvp_vault accts" "pos_token_account q = cvp_position_token_account accts"
    "l_tokens (w_ledger w) (cvp_position_token_account accts) = None"
    "l_tokens (w_ledger w') = (l_tokens (w_ledger w))(cvp_position_token_account accts \<mapsto>
       \<lparr>ta_program = p, ta_mint = cvp_asset_mint accts, ta_owner = cvp_vault accts, ta_amount = 0\<rparr>)"
  using run
  by (auto simp: create_venue_position_def init_token_account_def init_account_def seeds_canonical_def res_simps
      dest!: spl_account_lawsD(1) [OF spl])

lemma create_venue_position_sound:
  assumes run: "create_venue_position E accts w = Inr w'" and spl: "spl_account_laws E" and ok: "sound E w"
  shows "sound E w'"
  using run spl
proof (rule create_venue_position_Inr, goal_cases)
  case (1 v q p)
  note old = soundD [OF ok]
  let ?k = "cvp_position accts"
  have ext: "l_tokens (w_ledger w) \<subseteq>\<^sub>m l_tokens (w_ledger w')" by (auto simp: 1(9,10) map_le_def)
  have new: "w_positions w ?k = None" using 1(2) by (simp add: fresh_def)
  have opened: "c = Tokens_of ?k \<and> a = cvp_position_token_account accts \<and> vk = cvp_vault accts"
    if "custodian w c = None" "custodian w' c = Some (a, vk)" for c a vk
    using that 1(7,8) by (cases c) (auto simp: 1(3,4,6) split: if_splits)
  have custody: "custody_ok E w'"
  proof (rule custody_open [OF old(2) ext])
    show "custodian w \<subseteq>\<^sub>m custodian w'"
    proof (unfold map_le_def, rule ballI)
      show "custodian w c = custodian w' c" if "c \<in> dom (custodian w)" for c
        using that new by (cases c) (auto simp: 1(3,4,6))
    qed
    show "l_tokens (w_ledger w) a = None \<and> owner_of (w_ledger w') a = Some vk \<and> \<not> is_wallet E vk"
      if "custodian w c = None" "custodian w' c = Some (a, vk)" for c a vk
      using opened [OF that] 1(9) custody_vaults(2) [OF old(2) 1(1)] by (auto simp: 1(10) owner_of_def)
    show "c = d" if "custodian w c = None" "custodian w d = None" "custodian w' c = Some (a, s)"
      "custodian w' d = Some (a, t)" for c d a s t
      using opened [OF that(1,3)] opened [OF that(2,4)] by simp
  qed
  show ?case by (rule sound_open [OF ok custody 1(5) ext 1(1), of v]) (use 1(1) in \<open>auto simp: 1(3)\<close>)
qed

lemma remove_venue_position_Inr:
  assumes run: "remove_venue_position E accts w = Inr w'" and spl: "spl_account_laws E"
  obtains q where "w_positions w (vp_position accts) = Some q" "w_vaults w' = w_vaults w"
    "w_vault_assets w' = w_vault_assets w" "w_requests w' = w_requests w"
    "w_positions w' = (w_positions w)(vp_position accts := None)"
    "l_tokens (w_ledger w') = (l_tokens (w_ledger w))(pos_token_account q := None)"
  using run
  by (auto simp: remove_venue_position_def position_account_def position_token_account_def
      close_vault_token_account_def signed_by_def close_def res_simps
      dest!: spl_account_lawsD(2) [OF spl] split: if_splits)

lemma remove_venue_position_sound:
  assumes run: "remove_venue_position E accts w = Inr w'" and spl: "spl_account_laws E" and ok: "sound E w"
  shows "sound E w'"
  using run spl
proof (rule remove_venue_position_Inr, goal_cases)
  case (1 q)
  let ?k = "vp_position accts"
  show ?case
  proof (rule sound_close [OF ok 1(4), where R = "{Tokens_of ?k}"])
    show "custodian w c = Some (a, vk) \<and> c \<notin> {Tokens_of ?k}" if "custodian w' c = Some (a, vk)" for c a vk
      using that by (cases c) (auto simp: 1(2,3,5) split: if_splits)
    show "l_tokens (w_ledger w') a = l_tokens (w_ledger w) a"
      if "\<And>c vk. custodian w c = Some (a, vk) \<Longrightarrow> c \<notin> {Tokens_of ?k}" for a
      using that [of "Tokens_of ?k"] by (auto simp: 1(1,6))
  qed (simp_all add: 1(2))
qed

lemma token_move_effect:
  "token_move E accts v src dst amount L L' \<Longrightarrow> spl_laws E \<Longrightarrow>
   transfer_effect E src (vp_asset_mint accts) dst (unat amount) L L'"
  by (auto simp: token_move_def checked_move_def signed_by_def res_simps dest: spl_transfer split: if_splits)

text \<open>The roles of the accounts of a movement.\<close>

lemma moved_custodian:
  assumes move: "position_move accts w w' v v' p n"
    and assets: "books_moved accts (w_vault_assets w) (w_vault_assets w') v v' d q"
  shows "custodian w' = custodian w"
    and "custodian w (Tokens_of (vp_position accts)) = Some (vp_position_token_account accts, vp_vault accts)"
    and "\<exists>c vk. custodian w c = Some (vp_vault_token_account accts, vk) \<and> (\<forall>k. c \<noteq> Escrow_of k)"
    and "dom (w_vaults w') = dom (w_vaults w)"
    and "w_vaults w' k = Some u' \<Longrightarrow> \<exists>u. w_vaults w k = Some u \<and> books_part u' = books_part u"
proof -
  have v: "w_vaults w (vp_vault accts) = Some v" "w_vaults w' = (w_vaults w)(vp_vault accts \<mapsto> v')"
    and p: "w_positions w (vp_position accts) = Some p" "w_positions w' = (w_positions w)(vp_position accts \<mapsto> p\<lparr>pos_amount := n\<rparr>)"
      "pos_token_account p = vp_position_token_account accts" "pos_vault p = vp_vault accts"
    using move by (simp_all add: position_move_def)
  have part: "books_part v' = books_part v" using assets by (simp add: books_moved_def books_part_def)
  then have accounts: "v_pending_vault v' = v_pending_vault v" "v_vault_token_account v' = v_vault_token_account v"
    by (simp_all add: books_part_def identity_eq)
  have vaults: "custodian w' (Reserve_of j) = custodian w (Reserve_of j)"
    "custodian w' (Escrow_of j) = custodian w (Escrow_of j)" for j using v accounts by auto
  have positions: "custodian w' (Tokens_of j) = custodian w (Tokens_of j)" for j using p by auto
  have assets': "custodian w' (Asset_reserve_of j) = custodian w (Asset_reserve_of j)"
    "custodian w' (Asset_escrow_of j) = custodian w (Asset_escrow_of j)" for j
    using assets by (auto simp: books_moved_def asset_move_def)
  show "custodian w' = custodian w"
  proof
    show "custodian w' c = custodian w c" for c by (cases c) (simp_all only: vaults positions assets')
  qed
  show "custodian w (Tokens_of (vp_position accts)) = Some (vp_position_token_account accts, vp_vault accts)"
    using p by simp
  show "\<exists>c vk. custodian w c = Some (vp_vault_token_account accts, vk) \<and> (\<forall>k. c \<noteq> Escrow_of k)"
  proof (cases "vp_asset_mint accts = v_asset_mint v")
    case True
    then show ?thesis using assets v by (intro exI [of _ "Reserve_of (vp_vault accts)"]) (auto simp: books_moved_def)
  next
    case False
    then obtain k va where "w_vault_assets w k = Some va" "va_reserve va = vp_vault_token_account accts"
      using assets by (auto simp: books_moved_def)
    then show ?thesis by (intro exI [of _ "Asset_reserve_of k"]) auto
  qed
  show "dom (w_vaults w') = dom (w_vaults w)" using v by auto
  show "\<exists>u. w_vaults w k = Some u \<and> books_part u' = books_part u" if "w_vaults w' k = Some u'"
    using that v part by (auto split: if_splits)
qed

lemma deploy_venue_position_sound:
  assumes run: "deploy_venue_position E accts amount w = Inr w'" and spl: "spl_laws E" and ok: "sound E w"
  shows "sound E w'"
proof -
  from deploy_venue_position_Inr [OF run] obtain v v' p n where
    move: "position_move accts w w' v v' p n"
      "books_moved accts (w_vault_assets w) (w_vault_assets w') v v' (unat amount) 0"
    and tokens: "token_move E accts v' (vp_vault_token_account accts) (vp_position_token_account accts) amount
        (w_ledger w) (w_ledger w')" by blast
  note facts = moved_custodian [OF move]
  from facts(3) obtain c vk where c: "custodian w c = Some (vp_vault_token_account accts, vk)" "\<And>k. c \<noteq> Escrow_of k"
    by blast
  have "w_requests w' = w_requests w" using move(1) by (simp add: position_move_def)
  then show ?thesis
    by (rule sound_transfer [OF ok c token_move_effect [OF tokens spl] _ facts(1,5,4)])
qed

lemma pull_venue_position_sound:
  assumes run: "pull_venue_position E accts amount w = Inr w'" and spl: "spl_laws E" and ok: "sound E w"
  shows "sound E w'"
proof -
  from pull_venue_position_Inr [OF run] obtain v v' p n where
    move: "position_move accts w w' v v' p n"
      "books_moved accts (w_vault_assets w) (w_vault_assets w') v v' 0 (unat amount)"
    and tokens: "token_move E accts v' (vp_position_token_account accts) (vp_vault_token_account accts) amount
        (w_ledger w) (w_ledger w')" by blast
  note facts = moved_custodian [OF move]
  have requests: "w_requests w' = w_requests w" using move(1) by (simp add: position_move_def)
  show ?thesis
    by (rule sound_transfer [OF ok facts(2) _ token_move_effect [OF tokens spl] requests facts(1,5,4)]) simp
qed

lemma withdraw_assets_Inr:
  assumes "withdraw_assets E accts amount w = Inr w'"
  shows "\<exists>v v' m. w_vaults w (wa_vault accts) = Some v
    \<and> v_vault_token_account v = wa_vault_token_account accts
    \<and> Vault_consume_external_withdraw_rolling_limit v amount (env_slot E) = Inr v'
    \<and> transfer_checked E (wa_asset_token_program accts) (wa_vault_token_account accts)
        (wa_asset_mint accts) (wa_recipient_token_account accts) (wa_vault accts) amount
        (mint_decimals (m :: mint_account)) (w_ledger w) = Inr (w_ledger w')
    \<and> w_vaults w' = (w_vaults w)(wa_vault accts \<mapsto> v') \<and> w_requests w' = w_requests w"
  using assms by (auto simp: withdraw_assets_def signed_by_def res_simps split: if_splits)

lemma withdraw_assets_sound:
  assumes run: "withdraw_assets E accts amount w = Inr w'" and spl: "spl_laws E" and ok: "sound E w"
  shows "sound E w'"
proof -
  from withdraw_assets_Inr [OF run] obtain v v' and m :: mint_account where v: "w_vaults w (wa_vault accts) = Some v"
    "v_vault_token_account v = wa_vault_token_account accts"
    "Vault_consume_external_withdraw_rolling_limit v amount (env_slot E) = Inr v'"
    "transfer_checked E (wa_asset_token_program accts) (wa_vault_token_account accts)
       (wa_asset_mint accts) (wa_recipient_token_account accts) (wa_vault accts) amount
       (mint_decimals m) (w_ledger w) = Inr (w_ledger w')"
    and w': "w_vaults w' = (w_vaults w)(wa_vault accts \<mapsto> v')" "w_requests w' = w_requests w" by blast
  have part: "books_part v' = books_part v"
    using v(3) by (auto simp: Vault_consume_external_withdraw_rolling_limit_def res_simps books_part_def identity_eq)
  have role: "custodian w (Reserve_of (wa_vault accts)) = Some (wa_vault_token_account accts, wa_vault accts)"
    using v by simp
  have doms: "dom (w_vaults w') = dom (w_vaults w)" using v(1) by (auto simp: w')
  show ?thesis
    by (rule sound_transfer [OF ok role _ spl_transfer [OF spl v(4)]])
      (use keeps_custodian [OF withdraw_assets_keeps [OF run] doms] doms v(1) part in
        \<open>auto simp: w' split: if_splits\<close>)
qed

lemma exec_venue_sound:
  assumes run: "exec_venue E i w = Inr w'" and spl: "spl_laws E" "spl_account_laws E" and ok: "sound E w"
  shows "sound E w'"
proof -
  have quiet: ?thesis if "l_tokens (w_ledger w') = l_tokens (w_ledger w)" "custodian w' = custodian w"
    "w_requests w' = w_requests w" "w_vaults w' = w_vaults w"
  proof (rule sound_step [OF ok custody_frame [OF soundD(2) [OF ok] that(2)] that(3)])
    show "owner_of (w_ledger w') a = Some vk" if "custodian w c = Some (a, vk)" for c a vk
      using custody_okD(1) [OF soundD(2) [OF ok] that] \<open>l_tokens (w_ledger w') = _\<close> by (simp add: owner_of_def)
  qed (simp_all add: that(4) same_tokens_holder [OF that(1)])
  have same: "custodian w' = custodian w" if "w_vaults w' = w_vaults w" "w_vault_assets w' = w_vault_assets w"
    "w_positions w' = w_positions w"
  proof
    show "custodian w' c = custodian w c" for c using that by (cases c) simp_all
  qed
  show ?thesis
  proof (cases i)
    case (Register_venue accts args)
    with run show ?thesis by (intro quiet same) (auto simp: register_venue_def res_simps Let_def)
  next
    case (Set_venue_entry_paused accts paused)
    with run show ?thesis by (intro quiet same) (auto simp: set_venue_entry_paused_def res_simps Let_def)
  next
    case (Approve_vault_venue accts recipient)
    with run show ?thesis by (intro quiet same) (auto simp: approve_vault_venue_def res_simps Let_def)
  next
    case (Remove_vault_venue accts)
    with run show ?thesis by (intro quiet same) (auto simp: remove_vault_venue_def res_simps Let_def)
  qed (use run add_vault_asset_sound remove_vault_asset_sound create_venue_position_sound
      remove_venue_position_sound deploy_venue_position_sound pull_venue_position_sound
      withdraw_assets_sound spl ok in \<open>auto\<close>)
qed

end
