(* ===== verification/System_Custody.thy ===== *)
theory System_Custody
  imports Custody_Venues
begin

text \<open>
  The books of the requests and the custody of token accounts in every run of the whole program:
  requests, settlement, administration, venues, instant settlement and managed calls together.
\<close>

subsection \<open>Runs\<close>

text \<open>
  A policy can list any call, also one that gives an account of the vault away. The runs considered
  here make managed calls that keep the owners of the accounts in custody and take nothing out of
  an escrow.
\<close>

definition harmless :: "cpi \<Rightarrow> bool" where
  "harmless invoke \<longleftrightarrow>
     (\<forall>program metas data infos w w'. invoke program metas data infos w = Inr w' \<longrightarrow>
        (\<forall>c a vk. custodian w c = Some (a, vk) \<longrightarrow> holder (w_ledger w') a = holder (w_ledger w) a)
        \<and> (\<forall>k v. w_vaults w k = Some v \<longrightarrow>
             amount_of (w_ledger w) (v_pending_vault v) \<le> amount_of (w_ledger w') (v_pending_vault v)))"

inductive careful_run :: "env \<Rightarrow> world \<Rightarrow> world \<Rightarrow> bool" for E w0 where
  careful_start: "careful_run E w0 w0"
| careful_transaction: "careful_run E w0 w \<Longrightarrow> dispatch (at_time E now) invoke i w = Inr w' \<Longrightarrow>
    confined invoke \<Longrightarrow> harmless invoke \<Longrightarrow> wallet_users E i \<Longrightarrow> careful_run E w0 w'"
| careful_elsewhere: "careful_run E w0 w \<Longrightarrow> external E (w_ledger w) L \<Longrightarrow> careful_run E w0 (w\<lparr>w_ledger := L\<rparr>)"

lemma careful_run_system_run: "careful_run E w0 w \<Longrightarrow> system_run E w0 w"
  by (induction rule: careful_run.induct) (blast intro: system_run.intros system_step.intros)+

subsection \<open>Managed calls and other transactions\<close>

text \<open>The invoked program runs on the vault's accounts with the policy marked as executing.\<close>

lemma managed_call_ledger:
  assumes run: "manage_vault_with_merkle_verification E invoke accts ra args w = Inr w'"
  shows "\<exists>program metas data infos w1 w2 v v'. invoke program metas data infos w1 = Inr w2
    \<and> w_vaults w (mv_vault accts) = Some v \<and> books_part v' = books_part v
    \<and> w_vaults w1 = (w_vaults w)(mv_vault accts \<mapsto> v')
    \<and> w_vault_assets w1 = w_vault_assets w \<and> w_positions w1 = w_positions w
    \<and> w_ledger w1 = w_ledger w \<and> w_ledger w' = w_ledger w2"
  using run
  apply (clarsimp simp: manage_vault_with_merkle_verification_def res_simps Let_def)
  apply (drule managed_vault)
  apply (intro exI conjI)
         apply assumption
        apply simp_all
  done

lemma managed_call_sound:
  assumes run: "manage_vault_with_merkle_verification E invoke accts ra args w = Inr w'"
    and invoke: "confined invoke" "harmless invoke" and ok: "sound E w"
  shows "sound E w'"
proof -
  from managed_call_ledger [OF run] obtain program metas data infos w1 w2 u u' where
    call: "invoke program metas data infos w1 = Inr w2" "w_vaults w (mv_vault accts) = Some u"
      "books_part u' = books_part u"
    and w1: "w_vaults w1 = (w_vaults w)(mv_vault accts \<mapsto> u')" "w_vault_assets w1 = w_vault_assets w"
      "w_positions w1 = w_positions w" "w_ledger w1 = w_ledger w" and w2: "w_ledger w' = w_ledger w2" by blast
  have accounts: "v_pending_vault u' = v_pending_vault u" "v_vault_token_account u' = v_vault_token_account u"
    using call(3) by (simp_all add: books_part_def identity_eq)
  have same: "custodian w1 c = custodian w c" for c using w1 call(2) accounts by (cases c) auto
  have kept: "custodian w1 c = Some (a, vk) \<Longrightarrow> holder (w_ledger w2) a = holder (w_ledger w1) a"
    "w_vaults w1 k = Some v \<Longrightarrow> amount_of (w_ledger w1) (v_pending_vault v) \<le> amount_of (w_ledger w2) (v_pending_vault v)"
    for c a vk k v using call(1) invoke(2) unfolding harmless_def by blast+
  show ?thesis
    using run invoke(1)
  proof (rule managed_call_Inr, goal_cases)
    case (1 v v' sp ve vv L leaf amount m m')
    show ?case
    proof (rule sound_frame [OF ok managed_call_keeps [OF run invoke(1)]])
      show "\<exists>u'. w_vaults w' k = Some u' \<and> books_part u' = books_part u" if "w_vaults w k = Some u" for k u
        using that 1(1) managed_vault [OF 1(8)] by (auto simp: 1(9))
      show "holder (w_ledger w') a = holder (w_ledger w) a" if "custodian w c = Some (a, vk)" for c a vk
        using kept(1) that by (simp add: w1 w2 same)
      show "amount_of (w_ledger w) (v_pending_vault u) \<le> amount_of (w_ledger w') (v_pending_vault u)"
        if "w_vaults w k = Some u" for k u
        using kept(2) [of k] that call(2) accounts by (cases "k = mv_vault accts") (auto simp: w1 w2)
    qed (use 1(1) in \<open>auto simp: 1(9)\<close>)
  qed
qed

lemma external_sound:
  assumes ok: "sound E w" and "external E (w_ledger w) L"
  shows "sound E (w\<lparr>w_ledger := L\<rparr>)"
proof (rule sound_frame [OF ok external_keeps])
  have kept: "holder L a = holder (w_ledger w) a \<and> amount_of (w_ledger w) a \<le> amount_of L a"
    if "custodian w c = Some (a, vk)" for c a vk
  proof -
    note own = custody_okD(1,2) [OF soundD(2) [OF ok] that]
    then obtain p m where h: "holder (w_ledger w) a = Some (p, m, vk)" by (auto simp: owner_of_holder)
    with assms(2) own(2) show ?thesis unfolding external_def by metis
  qed
  show "holder (w_ledger (w\<lparr>w_ledger := L\<rparr>)) a = holder (w_ledger w) a" if "custodian w c = Some (a, vk)" for c a vk
    using kept [OF that] by simp
  show "amount_of (w_ledger w) (v_pending_vault v) \<le> amount_of (w_ledger (w\<lparr>w_ledger := L\<rparr>)) (v_pending_vault v)"
    if "w_vaults w k = Some v" for k v
    using kept [OF custodian_escrow [OF that]] by simp
qed simp_all

definition lawful_program :: "env \<Rightarrow> bool" where
  "lawful_program E \<longleftrightarrow> lawful_runtime E \<and> spl_account_laws E \<and> address_laws E"

lemma careful_run_sound:
  assumes "careful_run E w0 w" and laws: "lawful_program E" and start: "sound E w0"
  shows "sound E w"
  using assms(1)
proof induction
  case careful_start
  show ?case by (rule start)
next
  case (careful_transaction w now invoke i w')
  have E: "spl_laws (at_time E now)" "spl_account_laws (at_time E now)" "address_laws (at_time E now)"
    "lawful_runtime E" using laws by (auto simp: lawful_program_def)
  have old: "sound (at_time E now) w" by (simp add: careful_transaction.IH)
  show ?case
  proof (cases i)
    case (Request j)
    then show ?thesis
      using exec_request_sound careful_transaction.hyps careful_transaction.IH E(4) by simp
  next
    case (Admin j)
    then show ?thesis
      using exec_admin_keeps_sound [OF _ E(2,3) old] careful_transaction.hyps(2) by simp
  next
    case (Venue j)
    then show ?thesis using exec_venue_sound [OF _ E(1,2) old] careful_transaction.hyps(2) by simp
  next
    case (Manage_vault_with_merkle_verification accts ra args)
    then show ?thesis
      using managed_call_sound [OF _ careful_transaction.hyps(3,4) old] careful_transaction.hyps(2) by simp
  qed
next
  case (careful_elsewhere w L)
  then show ?case by (intro external_sound)
qed

subsection \<open>A runtime that keeps the laws\<close>

lemma sample_account_laws: "spl_account_laws sample_env"
  by (auto simp: spl_account_laws_def sample_env_def reference_spl_def close_account_def set_mint_authority_def
      reference_init_account_def reference_close_account_def reference_set_mint_authority_def res_simps)

lemma sample_address_laws: "address_laws sample_env"
proof -
  have "sample_create (seeds @ [[b]]) = Some k" if "sample_find seeds = (k, b)" for seeds k b
    using that
    by (auto simp: sample_find_def sample_create_def sample_addresses_def seed_defs split: if_splits)
  then show ?thesis by (simp add: address_laws_def sample_env_def)
qed

lemma sample_program_lawful: "lawful_program sample_env"
  unfolding lawful_program_def using sample_lawful sample_account_laws sample_address_laws by blast

lemma sample_program_address: "\<not> is_wallet sample_env (key 20)"
  by (auto simp: is_wallet_def sample_env_def intro: sample_create_simps(1))

lemma venue_custodian:
  "custodian venue_world c = Some (a, vk) \<longleftrightarrow>
     vk = key 20 \<and> (c = Reserve_of (key 20) \<and> a = key 3 \<or> c = Escrow_of (key 20) \<and> a = key 4
       \<or> c = Tokens_of (key 27) \<and> a = key 28)"
  by (cases c) (auto simp: venue_world_defs split: if_splits)

lemma venue_world_sound: "sound sample_env venue_world"
proof (rule soundI)
  show "world_books sample_env venue_world"
    by (simp add: world_books_def books_ok_def venue_world_defs weight_def weights signer_seeds_def
        vault_seeds_def amount_of_def holder_def)
  have owners: "owner_of (w_ledger venue_world) (key b) = Some (key 20)" if "b \<in> {3, 4, 28}" for b
    using that by (auto simp: owner_of_def venue_ledger_def sample_ledger_def venue_world_def sample_token_def)
  show "custody_ok sample_env venue_world"
    unfolding custody_ok_def venue_custodian using sample_program_address owners by auto
  show "req_vault r \<in> dom (w_vaults venue_world)" if "w_requests venue_world k = Some r" for k r
    using that by (auto simp: venue_world_defs split: if_splits)
qed

lemma no_call_harmless: "harmless (\<lambda>program metas data infos w. Inr w)"
  by (simp add: harmless_def)

lemma sample_careful_run:
  obtains w where "careful_run sample_env venue_world w"
    "w_positions w = [key 27 \<mapsto> sample_position\<lparr>pos_amount := 800\<rparr>]"
    "w_vaults w (key 20) \<noteq> None" "w_requests w = [key 40 \<mapsto> sample_request]"
proof -
  obtain w where w: "deploy_venue_position sample_env sample_movement 300 venue_world = Inr w"
    "w_positions w = [key 27 \<mapsto> sample_position\<lparr>pos_amount := 800\<rparr>]"
    using sample_deploy_runs [of Map.empty] by (auto simp: venue_world_no_assets)
  have "careful_run sample_env venue_world w"
    by (rule careful_transaction [OF careful_start, where now = "(100, 2000, 1)"
          and i = "Venue (Deploy_venue_position sample_movement 300)"
          and invoke = "\<lambda>program metas data infos w. Inr w"])
      (use w in \<open>simp_all add: sample_at_time no_call_confined no_call_harmless\<close>)
  moreover have "w_vaults w (key 20) \<noteq> None" "w_requests w = w_requests venue_world"
    using deploy_venue_position_Inr [OF w(1)] by (auto simp: position_move_def sample_movement_def)
  ultimately show thesis using w(2) by (intro that) (auto simp: venue_world_def sample_world_def)
qed

subsection \<open>What holds in every run\<close>





end
