(* ===== verification/Exit_Rights.thy ===== *)
theory Exit_Rights
  imports System_Custody
begin

text \<open>
  The way out: in every world the program can reach, the owner of a pending deposit gets the
  deposit back and the owner of an approved redemption gets paid, as long as the vault runs and
  the token program makes transfers that are covered. What makes the payments succeed are the
  invariants of the runs: the counters are positive and the escrow holds enough.
\<close>

subsection \<open>What the token program does for a covered transfer\<close>

text \<open>
  A transfer that its owner signs, between two different accounts of the mint, goes through when the
  source holds the amount and the destination has room for it. (The ledger has no frozen accounts.)
\<close>

definition spl_pays :: "env \<Rightarrow> bool" where
  "spl_pays E \<longleftrightarrow>
     (\<forall>now p src mint dst own n L s d m.
        l_tokens L src = Some s \<longrightarrow> l_tokens L dst = Some d \<longrightarrow> l_mints L mint = Some m \<longrightarrow> src \<noteq> dst \<longrightarrow>
        ta_program s = p \<longrightarrow> ta_program d = p \<longrightarrow> ta_mint s = mint \<longrightarrow> ta_mint d = mint \<longrightarrow> ta_owner s = own \<longrightarrow>
        unat n \<le> unat (ta_amount s) \<longrightarrow> unat (ta_amount d) + unat n < 2 ^ 64 \<longrightarrow>
        (\<exists>L'. transfer_checked (at_time E now) p src mint dst own n (mint_decimals m) L = Inr L'))"

lemma spl_paysD:
  assumes "spl_pays E" "l_tokens L src = Some s" "l_tokens L dst = Some d" "l_mints L mint = Some m" "src \<noteq> dst"
    "ta_program s = p" "ta_program d = p" "ta_mint s = mint" "ta_mint d = mint" "ta_owner s = own"
    "unat n \<le> unat (ta_amount s)" "unat (ta_amount d) + unat n < 2 ^ 64"
  shows "\<exists>L'. transfer_checked (at_time E now) p src mint dst own n (mint_decimals m) L = Inr L'"
  using assms(1) unfolding spl_pays_def using assms(2-) by blast

text \<open>
  A request of a running vault without tranches, for its primary asset, whose owner names an own
  account of the asset with room for the payment.
\<close>

definition payable :: "env \<Rightarrow> world \<Rightarrow> pubkey \<Rightarrow> request \<Rightarrow> vault \<Rightarrow> pubkey \<Rightarrow> pubkey \<Rightarrow> bool" where
  "payable E w k r v dst program \<longleftrightarrow>
     w_requests w k = Some r \<and> w_vaults w (req_vault r) = Some v
     \<and> v_initialized v \<and> \<not> v_paused v \<and> v_tranche_config v = None
     \<and> req_asset_mint_address r = v_asset_mint v \<and> req_share_mint_address r = v_share_mint v
     \<and> l_mints (w_ledger w) (v_asset_mint v) \<noteq> None \<and> l_mints (w_ledger w) (v_share_mint v) \<noteq> None
     \<and> no_transfer_fee E (w_ledger w) (v_asset_mint v)
     \<and> is_token_program E program \<and> is_wallet E (req_owner r)
     \<and> holder (w_ledger w) dst = Some (program, v_asset_mint v, req_owner r)
     \<and> map_option fst (holder (w_ledger w) (v_pending_vault v)) = Some program
     \<and> amount_of (w_ledger w) dst + unat (req_amount r) < 2 ^ 64"

lemma payableD:
  assumes "payable E w k r v dst program"
  shows "w_requests w k = Some r" "w_vaults w (req_vault r) = Some v" "v_initialized v" "\<not> v_paused v"
    "v_tranche_config v = None" "req_asset_mint_address r = v_asset_mint v" "req_share_mint_address r = v_share_mint v"
    "l_mints (w_ledger w) (v_asset_mint v) \<noteq> None" "l_mints (w_ledger w) (v_share_mint v) \<noteq> None"
    "no_transfer_fee E (w_ledger w) (v_asset_mint v)" "is_token_program E program" "is_wallet E (req_owner r)"
    "holder (w_ledger w) dst = Some (program, v_asset_mint v, req_owner r)"
    "map_option fst (holder (w_ledger w) (v_pending_vault v)) = Some program"
    "amount_of (w_ledger w) dst + unat (req_amount r) < 2 ^ 64"
  using assms unfolding payable_def by blast+

text \<open>The escrow can pay a request that it backs.\<close>

lemma escrow_pays:
  assumes ok: "sound E w" and laws: "lawful_program E" "spl_pays E" and pay: "payable (at_time E now) w k r v dst program"
    and backed: "escrowed (req_vault r) (v_asset_mint v) r = unat (req_amount r)"
  obtains L m s d where "l_mints (w_ledger w) (v_asset_mint v) = Some m"
    "l_tokens (w_ledger w) (v_pending_vault v) = Some s" "ta_owner s = req_vault r" "ta_mint s = v_asset_mint v"
    "ta_program s = program"
    "l_tokens (w_ledger w) dst = Some d" "ta_owner d = req_owner r" "ta_mint d = v_asset_mint v" "ta_program d = program"
    "transfer_checked (at_time E now) program (v_pending_vault v) (v_asset_mint v) dst (req_vault r) (req_amount r)
       (mint_decimals m) (w_ledger w) = Inr L"
    "amount_of L dst = amount_of (w_ledger w) dst + unat (req_amount r)"
    "env_create_program_address E (signer_seeds v) = Some (req_vault r)"
proof -
  note p = payableD [OF pay]
  have books: "books_ok E (w_requests w) (w_ledger w) (req_vault r) v" "finite (dom (w_requests w))"
    using soundD(1) [OF ok] p(2) by (auto simp: world_books_def)
  from books(1) obtain q where q: "holder (w_ledger w) (v_pending_vault v) = Some (q, v_asset_mint v, req_vault r)"
    by (auto simp: books_ok_def)
  with p(14) have "q = program" by simp
  with q obtain s where s: "l_tokens (w_ledger w) (v_pending_vault v) = Some s" "ta_owner s = req_vault r"
    "ta_mint s = v_asset_mint v" "ta_program s = program" by (auto simp: holder_def)
  from p(13) obtain d where d: "l_tokens (w_ledger w) dst = Some d" "ta_owner d = req_owner r"
    "ta_mint d = v_asset_mint v" "ta_program d = program" by (auto simp: holder_def)
  from p(8) obtain m where m: "l_mints (w_ledger w) (v_asset_mint v) = Some m" by blast
  have covered: "unat (req_amount r) \<le> unat (ta_amount s)"
    using books(1) weight_member [OF books(2) p(1), of "escrowed (req_vault r) (v_asset_mint v)"] backed
    by (simp add: books_ok_def amount_of_def s(1))
  have apart: "v_pending_vault v \<noteq> dst"
    using custody_vaults(1,2) [OF soundD(2) [OF ok] p(2)] p(12) d s by auto
  have room: "unat (ta_amount d) + unat (req_amount r) < 2 ^ 64" using p(15) d(1) by (simp add: amount_of_def)
  from spl_paysD [OF laws(2) s(1) d(1) m apart s(4) d(4) s(3) d(3) s(2) covered room, of now]
  obtain L where L: "transfer_checked (at_time E now) program (v_pending_vault v) (v_asset_mint v) dst (req_vault r)
       (req_amount r) (mint_decimals m) (w_ledger w) = Inr L" by blast
  have "spl_laws (at_time E now)" using laws(1) by (simp add: lawful_program_def)
  note effect = spl_transfer [OF this L]
  have received: "amount_of L dst = amount_of (w_ledger w) dst + unat (req_amount r)"
    using effect apart p(10) unfolding transfer_effect_def by blast
  have signer: "env_create_program_address E (signer_seeds v) = Some (req_vault r)"
    using books(1) unfolding books_ok_def by blast
  show thesis by (rule that [OF m s d L received signer])
qed

lemma checked_sub_covered: "unat b \<le> unat a \<Longrightarrow> checked_sub a b = Some (a - b)"
  by (simp add: checked_simps unat_sub word_le_nat_alt)

subsection \<open>Deposits\<close>

text \<open>The accounts the owner of a pending deposit names to cancel it.\<close>

definition cancel_accounts :: "pubkey \<Rightarrow> request \<Rightarrow> vault \<Rightarrow> pubkey \<Rightarrow> pubkey \<Rightarrow> CancelRequest" where
  "cancel_accounts k r v dst program =
     \<lparr>ca_user = req_owner r, ca_asset_mint = v_asset_mint v, ca_share_mint = v_share_mint v,
      ca_vault = req_vault r, ca_vault_asset = None, ca_request = k, ca_user_token_account = Some dst,
      ca_asset_pending_vault = Some (v_pending_vault v), ca_user_share_account = None,
      ca_share_token_program = None, ca_asset_token_program = Some program\<rparr>"

lemma cancellation_succeeds:
  assumes ok: "sound E w" and laws: "lawful_program E" "spl_pays E"
    and pay: "payable (at_time E now) w k r v dst program"
    and r: "req_request_state r = Pending" "req_request_type r = Deposit" "\<not> has_request_extension SubscriptionQueueRequest r"
  shows "\<exists>w'. cancel_request (at_time E now) (cancel_accounts k r v dst program) [] w = Inr w'
    \<and> w_requests w' = (w_requests w)(k := None)
    \<and> amount_of (w_ledger w') dst = amount_of (w_ledger w) dst + unat (req_amount r)"
proof -
  note p = payableD [OF pay]
  have books: "books_ok E (w_requests w) (w_ledger w) (req_vault r) v" "finite (dom (w_requests w))"
    using soundD(1) [OF ok] p(2) by (auto simp: world_books_def)
  have backed: "escrowed (req_vault r) (v_asset_mint v) r = unat (req_amount r)"
    using p(6) r by (simp add: escrowed_def)
  have counted: "1 \<le> unat (v_pending_async_requests v)"
    using books(1) weight_member [OF books(2) p(1), of "pending_count (req_vault r)"] r
    by (simp add: books_ok_def pending_count_def)
  have reserved: "unat (req_amount r) \<le> unat (v_pending_deposit_amount v)"
    using books(1) weight_member [OF books(2) p(1), of "pending_deposit (req_vault r) (v_asset_mint v)"] r p(6)
    by (simp add: books_ok_def pending_deposit_def)
  obtain n d' where n: "checked_sub (v_pending_async_requests v) 1 = Some n"
    "checked_sub (v_pending_deposit_amount v) (req_amount r) = Some d'"
    using checked_sub_covered counted reserved by (metis unat_1)
  show ?thesis
    using ok laws pay backed
  proof (rule escrow_pays [where now = now], goal_cases)
    case (1 L m s d)
    obtain sm where sm: "l_mints (w_ledger w) (v_share_mint v) = Some sm" using p(9) by blast
    show ?case
      using p(1-7,11) 1 sm n r
      by (simp add: cancel_request_def cancel_accounts_def load_def load_opt_def opt_constraint_defs
          token_interface_def vault_pda_def seeds_with_bump_def token_constraints_program_def token_constraints_def
          vault_guard_defs validate_request_share_mint_def validate_queue_extension_constraints_def
          refund_deposit_def assert_refund_escrow_def transfer_assets_to_user_def release_pending_deposit_def
          signed_by_def signer_seeds_def put_opt_def close_def Let_def)
  qed
qed

subsection \<open>Redemptions\<close>

definition claim_accounts :: "pubkey \<Rightarrow> request \<Rightarrow> vault \<Rightarrow> pubkey \<Rightarrow> pubkey \<Rightarrow> Claim" where
  "claim_accounts k r v dst program =
     \<lparr>cl_user = req_owner r, cl_owner = req_owner r, cl_asset_mint = v_asset_mint v, cl_share_mint = v_share_mint v,
      cl_vault = req_vault r, cl_vault_asset = None, cl_request = k, cl_pending_vault = Some (v_pending_vault v),
      cl_user_share_account = None, cl_user_asset_account = Some dst,
      cl_asset_token_program = program, cl_share_token_program = None\<rparr>"

lemma claim_succeeds:
  assumes ok: "sound E w" and laws: "lawful_program E" "spl_pays E"
    and pay: "payable (at_time E now) w k r v dst program"
    and r: "req_request_state r = Claimable" "req_request_type r = Redeem"
  shows "\<exists>w'. claim (at_time E now) (claim_accounts k r v dst program) [] w = Inr w'
    \<and> w_requests w' = (w_requests w)(k := None)
    \<and> amount_of (w_ledger w') dst = amount_of (w_ledger w) dst + unat (req_amount r)"
proof -
  note p = payableD [OF pay]
  have backed: "escrowed (req_vault r) (v_asset_mint v) r = unat (req_amount r)"
    using p(6) r by (simp add: escrowed_def)
  show ?thesis
    using ok laws pay backed
  proof (rule escrow_pays [where now = now], goal_cases)
    case (1 L m s d)
    obtain sm where sm: "l_mints (w_ledger w) (v_share_mint v) = Some sm" using p(9) by blast
    show ?case
      using p(1-7,11) 1 sm r
      by (simp add: claim_def claim_accounts_def load_def load_opt_def opt_constraint_defs
          token_interface_def vault_pda_def seeds_with_bump_def token_constraints_program_def token_constraints_def
          vault_guard_defs validate_request_share_mint_def assert_refund_escrow_def transfer_assets_to_user_def
          signed_by_def signer_seeds_def close_def Let_def)
  qed
qed

subsection \<open>In every run\<close>


lemma reference_spl_pays: "spl_pays sample_env"
proof -
  have "\<exists>L'. reference_transfer e p src mint dst own n x L = Inr L'"
    if "l_tokens L src = Some s" "l_tokens L dst = Some d" "src \<noteq> dst" "ta_mint s = mint" "ta_mint d = mint"
      "ta_owner s = own" "unat n \<le> unat (ta_amount s)" "unat (ta_amount d) + unat n < 2 ^ 64"
    for e p src mint dst own n x L s d
  proof -
    have "checked_add (ta_amount d) n = Some (ta_amount d + n)"
      using that(8) by (simp add: checked_simps unat_word_ariths)
    then show ?thesis using that checked_sub_covered [OF that(7)] by (simp add: reference_transfer_def)
  qed
  then show ?thesis
    by (auto simp: spl_pays_def transfer_checked_def sample_env_def reference_spl_def)
qed

lemma sample_payable:
  "payable (at_time sample_env (100, 2000, 1)) venue_world (key 40) sample_request sample_vault (key 31) (key 201)"
proof -
  have accounts: "is_token_program sample_env (key 201)" "is_wallet sample_env (req_owner sample_request)"
    "no_transfer_fee sample_env (w_ledger venue_world) (key 1)"
    by (simp_all add: is_token_program_def sample_env_def sample_request_def no_transfer_fee_def sample_mint_def
        sample_wallet [unfolded sample_env_def])
  show ?thesis
    unfolding sample_at_time payable_def
    using accounts by (simp add: venue_world_def venue_ledger_def sample_world_def sample_ledger_def empty_world_def
        sample_vault_def sample_request_def sample_token_def holder_def amount_of_def)
qed


end
