(* ===== verification/Request_Progress.thy ===== *)
theory Request_Progress
  imports System_Runs Instant_Books
begin

text \<open>
  Settlement ends: every instruction that settles a request moves it one step on, from pending to
  claimable or cancelled and from there out of the program, and no instruction moves one back.
\<close>

subsection \<open>Steps\<close>

definition steps_left :: "request \<Rightarrow> nat" where
  "steps_left r = (case req_request_state r of Pending \<Rightarrow> 2 | Claimable \<Rightarrow> 1 | Canceled \<Rightarrow> 1)"

lemma steps_left_pos: "0 < steps_left r" "steps_left r \<le> 2"
  by (simp_all add: steps_left_def split: RequestState.splits)

text \<open>The instructions that open requests, and those that settle one.\<close>

fun opens :: "instruction \<Rightarrow> bool" where
  "opens (Request (Create_deposit_request _ _ _)) = True"
| "opens (Request (Create_redeem_request _ _ _)) = True"
| "opens _ = False"

fun settles :: "instruction \<Rightarrow> bool" where
  "settles (Request (Approve_request _ _ _)) = True"
| "settles (Request (Reject_request _ _ _)) = True"
| "settles (Request (Claim_request _ _)) = True"
| "settles (Request (Cancel_request _ _)) = True"
| "settles (Request (Cancel_queued_deposit_request _ _)) = True"
| "settles (Request (Cancel_queued_redemption_request _ _)) = True"
| "settles (Request (Skip_canceled_queue_request _ _)) = True"
| "settles _ = False"

definition opened_one :: "world \<Rightarrow> world \<Rightarrow> bool" where
  "opened_one w w' \<longleftrightarrow> (\<exists>k r. w_requests w k = None \<and> w_requests w' = (w_requests w)(k \<mapsto> r))"

definition settled_one :: "world \<Rightarrow> world \<Rightarrow> bool" where
  "settled_one w w' \<longleftrightarrow>
     (\<exists>k r x. w_requests w k = Some r \<and> w_requests w' = (w_requests w)(k := x)
        \<and> opt_weight steps_left x < steps_left r)"

definition settled_none :: "world \<Rightarrow> world \<Rightarrow> bool" where
  "settled_none w w' \<longleftrightarrow> map_option steps_left \<circ> w_requests w' = map_option steps_left \<circ> w_requests w"

lemma settled_noneI: "w_requests w' = w_requests w \<Longrightarrow> settled_none w w'"
  by (simp add: settled_none_def)

lemma settled_closed:
  "w_requests w k = Some r \<Longrightarrow> w_requests w' = close (w_requests w) k \<Longrightarrow> settled_one w w'"
  unfolding settled_one_def close_def using steps_left_pos(1) by fastforce

lemma settled_on:
  "w_requests w k = Some r \<Longrightarrow> req_request_state r = Pending \<Longrightarrow>
   w_requests w' = (w_requests w)(k \<mapsto> r') \<Longrightarrow> req_request_state r' \<noteq> Pending \<Longrightarrow> settled_one w w'"
  unfolding settled_one_def
  by (intro exI [of _ k] exI [of _ r] exI [of _ "Some r'"]) (auto simp: steps_left_def split: RequestState.splits)

lemma settling_instructions:
  "reject_request E rr ra aa w = Inr w' \<Longrightarrow> settled_one w w'"
  "claim E cl ra w = Inr w' \<Longrightarrow> settled_one w w'"
  "cancel_request E ca ra w = Inr w' \<Longrightarrow> settled_one w w'"
  "cancel_queued_deposit_request E cqd ra w = Inr w' \<Longrightarrow> settled_one w w'"
  "cancel_queued_redemption_request E cqr ra w = Inr w' \<Longrightarrow> settled_one w w'"
  "skip_canceled_queue_request E sc ra w = Inr w' \<Longrightarrow> settled_one w w'"
  by (auto simp: reject_request_def claim_def cancel_request_def cancel_queued_deposit_request_def
      cancel_queued_redemption_request_def skip_canceled_queue_request_def res_simps Let_def
      intro: settled_closed settled_on)

lemma approve_settles: "approve_request E accts ra args w = Inr w' \<Longrightarrow> settled_one w w'"
  by (erule approve_request_Inr) (rule settled_on, auto)

lemma opening_instructions:
  "create_deposit_request E cdr ra args w = Inr w' \<Longrightarrow> opened_one w w'"
  "create_redeem_request E crr ra args w = Inr w' \<Longrightarrow> opened_one w w'"
   apply (erule create_deposit_request_Inr)
   apply (unfold opened_one_def, intro exI conjI, assumption, simp)
  apply (erule create_redeem_request_Inr)
  apply (intro exI conjI, assumption, simp)
  done

lemma set_operator_settles_none: "set_operator accts w = Inr w' \<Longrightarrow> settled_none w w'"
  by (auto simp: set_operator_def res_simps settled_none_def steps_left_def fun_eq_iff)

lemma other_requests:
  assumes run: "exec_request E i w = Inr w'" and other: "\<not> opens (Request i)" "\<not> settles (Request i)"
  shows "settled_none w w'"
  using run
proof (cases i)
  case (Set_operator accts)
  then show ?thesis using run set_operator_settles_none by simp
next
  case (Update_vault_nav accts ra nav)
  then show ?thesis using run by (auto elim!: update_nav_Inr intro: settled_noneI)
next
  case (Instant_deposit accts ra n)
  then show ?thesis using run by (auto elim!: instant_deposit_Inr intro: settled_noneI)
next
  case (Instant_redeem accts ra n)
  then show ?thesis using run by (auto elim!: instant_redeem_Inr intro: settled_noneI)
qed (use other in simp_all)

lemma exec_venue_requests: "exec_venue E i w = Inr w' \<Longrightarrow> w_requests w' = w_requests w"
  by (cases i)
    (auto simp: position_move_def add_vault_asset_def remove_vault_asset_def register_venue_def
      set_venue_entry_paused_def approve_vault_venue_def remove_vault_venue_def create_venue_position_def
      remove_venue_position_def withdraw_assets_def position_account_def position_token_account_def
      init_token_account_def res_simps Let_def
      dest!: deploy_venue_position_Inr pull_venue_position_Inr)

lemma dispatch_progress:
  assumes run: "dispatch E invoke i w = Inr w'" and invoke: "confined invoke"
  shows "if opens i then opened_one w w' else if settles i then settled_one w w' else settled_none w w'"
proof (cases i)
  case (Request j)
  then show ?thesis
    using run other_requests [of E j w w'] by (cases j) (auto intro: opening_instructions settling_instructions approve_settles)
next
  case (Admin j)
  then show ?thesis using run exec_admin_frame by (auto intro: settled_noneI)
next
  case (Venue j)
  then show ?thesis using run exec_venue_requests by (auto intro: settled_noneI)
next
  case (Manage_vault_with_merkle_verification accts ra args)
  then show ?thesis using run invoke by (auto elim!: managed_call_Inr intro: settled_noneI)
qed

subsection \<open>The backlog\<close>

definition backlog :: "world \<Rightarrow> nat" where
  "backlog w = weight steps_left (w_requests w)"

lemma opened_backlog:
  assumes "opened_one w w'" "finite (dom (w_requests w))"
  shows "finite (dom (w_requests w'))" "backlog w' \<le> backlog w + 2"
proof -
  from assms(1) obtain k r where k: "w_requests w k = None" "w_requests w' = (w_requests w)(k \<mapsto> r)"
    by (auto simp: opened_one_def)
  show "finite (dom (w_requests w'))" using assms(2) k by simp
  show "backlog w' \<le> backlog w + 2"
    using weight_update [OF assms(2), of steps_left k "Some r"] steps_left_pos(2) [of r] k by (simp add: backlog_def)
qed

lemma settled_backlog:
  assumes "settled_one w w'" "finite (dom (w_requests w))"
  shows "finite (dom (w_requests w'))" "backlog w' < backlog w"
proof -
  from assms(1) obtain k r x where k: "w_requests w k = Some r" "w_requests w' = (w_requests w)(k := x)"
    "opt_weight steps_left x < steps_left r" by (auto simp: settled_one_def)
  show "finite (dom (w_requests w'))" using assms(2) k by (cases x) simp_all
  show "backlog w' < backlog w"
    using weight_update [OF assms(2), of steps_left k x] k by (simp add: backlog_def)
qed

lemma quiet_backlog:
  assumes "settled_none w w'"
  shows "dom (w_requests w') = dom (w_requests w)" "backlog w' = backlog w"
proof -
  have same: "map_option steps_left (w_requests w' k) = map_option steps_left (w_requests w k)" for k
    using fun_cong [OF assms [unfolded settled_none_def], of k] by simp
  then have "w_requests w' k = None \<longleftrightarrow> w_requests w k = None" for k by (metis option.map_disc_iff)
  then show doms: "dom (w_requests w') = dom (w_requests w)" by (auto simp: dom_def)
  have "steps_left (the (w_requests w' k)) = steps_left (the (w_requests w k))" if "k \<in> dom (w_requests w)" for k
    using same [of k] that doms by (metis domD option.map_sel option.sel option.simps(3) domI)
  then show "backlog w' = backlog w" by (simp add: backlog_def weight_def doms)
qed

text \<open>Runs of the program that count the requests opened and the settling instructions.\<close>

inductive counted_run :: "env \<Rightarrow> world \<Rightarrow> nat \<Rightarrow> nat \<Rightarrow> world \<Rightarrow> bool" for E w0 where
  counted_start: "counted_run E w0 0 0 w0"
| counted_transaction: "counted_run E w0 opened settled w \<Longrightarrow> dispatch (at_time E now) invoke i w = Inr w' \<Longrightarrow>
    confined invoke \<Longrightarrow>
    counted_run E w0 (opened + (if opens i then 1 else 0)) (settled + (if settles i then 1 else 0)) w'"
| counted_elsewhere: "counted_run E w0 opened settled w \<Longrightarrow> counted_run E w0 opened settled (w\<lparr>w_ledger := L\<rparr>)"

lemma opens_settles: "opens i \<Longrightarrow> \<not> settles i"
  by (cases i rule: opens.cases) simp_all

lemma counted_backlog:
  assumes "counted_run E w0 opened settled w" "finite (dom (w_requests w0))"
  shows "finite (dom (w_requests w)) \<and> settled + backlog w \<le> backlog w0 + 2 * opened"
  using assms(1)
proof induction
  case (counted_transaction opened settled w now invoke i w')
  note step = dispatch_progress [OF counted_transaction.hyps(2,3)]
  consider "opens i" "\<not> settles i" "opened_one w w'" | "\<not> opens i" "settles i" "settled_one w w'"
    | "\<not> opens i" "\<not> settles i" "settled_none w w'"
    using step opens_settles by (auto split: if_splits)
  then show ?case
    using counted_transaction.IH opened_backlog [of w w'] settled_backlog [of w w'] quiet_backlog [of w w']
    by cases auto
qed (use assms(2) in \<open>simp_all add: backlog_def\<close>)

lemma backlog_bound:
  assumes "finite (dom (w_requests w))"
  shows "backlog w \<le> 2 * card (dom (w_requests w))"
proof -
  have "backlog w \<le> (\<Sum>k\<in>dom (w_requests w). 2)"
    unfolding backlog_def weight_def by (rule sum_mono) (rule steps_left_pos)
  then show ?thesis by (simp add: mult.commute)
qed

text \<open>
  C18. Settlement ends. In any run of the program, whatever is done in between, the number of
  approvals, rejections, claims, cancellations and skips that succeed is at most twice the number
  of requests there were and have been opened since; while no request is opened it is at most the
  number of steps the open requests have left, so no run settles for ever.
\<close>
theorem settlement_ends:
  assumes "counted_run E w0 opened settled w" and "finite (dom (w_requests w0))"
  shows "settled \<le> 2 * (card (dom (w_requests w0)) + opened)
    \<and> (opened = 0 \<longrightarrow> settled + backlog w \<le> backlog w0)
    \<and> (backlog w = 0 \<longrightarrow> w_requests w = Map.empty)"
proof -
  note bound = counted_backlog [OF assms]
  have "w_requests w = Map.empty" if empty: "backlog w = 0"
  proof
    show "w_requests w k = None" for k
    proof (rule ccontr)
      assume "w_requests w k \<noteq> None"
      then obtain r where "w_requests w k = Some r" by blast
      with bound have "steps_left r \<le> backlog w" unfolding backlog_def by (blast intro: weight_member)
      with empty steps_left_pos(1) [of r] show False by simp
    qed
  qed
  with bound backlog_bound [OF assms(2)] show ?thesis by auto
qed

theorem settlement_ends_witness:
  "\<exists>w. counted_run sample_env sample_world 0 1 w \<and> 1 + backlog w \<le> backlog sample_world"
proof -
  obtain w where w: "cancel_request sample_env sample_cancel [] sample_world = Inr w"
    using sample_cancel_runs by blast
  have "counted_run sample_env sample_world
      (0 + (if opens (Request (Cancel_request sample_cancel [])) then 1 else 0))
      (0 + (if settles (Request (Cancel_request sample_cancel [])) then 1 else 0)) w"
    by (rule counted_transaction [OF counted_start, where now = "(100, 2000, 1)"
          and invoke = "\<lambda>program metas data infos w. Inr w"])
      (use w in \<open>simp_all add: sample_at_time no_call_confined\<close>)
  then have run: "counted_run sample_env sample_world 0 1 w" by simp
  have "finite (dom (w_requests sample_world))" by (simp add: sample_world_def)
  from settlement_ends [OF run this] run show ?thesis by auto
qed

end
