(* ===== verification/Paused_Vault.thy ===== *)
theory Paused_Vault
  imports Request_Progress
begin

text \<open>
  What a pause stops: every instruction that opens, approves, pays or withdraws a request, moves
  assets or trades instantly fails on a paused vault; its requests can only be rejected, or skipped
  when they were cancelled before.
\<close>

text \<open>The vault that an instruction needs to be running.\<close>

fun running_vault :: "instruction \<Rightarrow> pubkey option" where
  "running_vault (Request (Create_deposit_request accts _ _)) = Some (cdr_vault accts)"
| "running_vault (Request (Create_redeem_request accts _ _)) = Some (crr_vault accts)"
| "running_vault (Request (Approve_request accts _ _)) = Some (ar_vault accts)"
| "running_vault (Request (Claim_request accts _)) = Some (cl_vault accts)"
| "running_vault (Request (Cancel_request accts _)) = Some (ca_vault accts)"
| "running_vault (Request (Cancel_queued_deposit_request accts _)) = Some (cqd_vault accts)"
| "running_vault (Request (Cancel_queued_redemption_request accts _)) = Some (cqr_vault accts)"
| "running_vault (Request (Instant_deposit accts _ _)) = Some (id_vault accts)"
| "running_vault (Request (Instant_redeem accts _ _)) = Some (ir_vault accts)"
| "running_vault (Venue (Deploy_venue_position accts _)) = Some (vp_vault accts)"
| "running_vault (Venue (Pull_venue_position accts _)) = Some (vp_vault accts)"
| "running_vault (Venue (Withdraw_assets accts _)) = Some (wa_vault accts)"
| "running_vault (Manage_vault_with_merkle_verification accts _ _) = Some (mv_vault accts)"
| "running_vault _ = None"

lemma paused_is_refused: "v_paused v \<Longrightarrow> Vault_assert_unpaused_and_initialized v \<noteq> Inr u"
  by (simp add: Vault_assert_unpaused_and_initialized_def res_simps)

lemmas running_handler_defs =
  create_deposit_request_def create_redeem_request_def claim_def cancel_request_def
  cancel_queued_deposit_request_def cancel_queued_redemption_request_def
  deploy_venue_position_def pull_venue_position_def withdraw_assets_def
  manage_vault_with_merkle_verification_def assert_call_allowed_def position_account_def position_token_account_def

lemma running_vault_runs:
  assumes "dispatch E invoke i w = Inr w'" "running_vault i = Some k"
  shows "\<exists>v. w_vaults w k = Some v \<and> \<not> v_paused v"
  using assms
  by (cases i rule: running_vault.cases)
    (auto simp: running_handler_defs res_simps Let_def paused_is_refused
      elim!: approve_request_Inr instant_deposit_Inr instant_redeem_Inr)

lemma move_requests:
  "deploy_venue_position E accts n w = Inr w' \<Longrightarrow> w_requests w' = w_requests w"
  "pull_venue_position E accts n w = Inr w' \<Longrightarrow> w_requests w' = w_requests w"
  "withdraw_assets E wa n w = Inr w' \<Longrightarrow> w_requests w' = w_requests w"
  using exec_venue_requests [of E "Deploy_venue_position accts n"] exec_venue_requests [of E "Pull_venue_position accts n"]
    exec_venue_requests [of E "Withdraw_assets wa n"] by auto

text \<open>The request an instruction touches belongs to the vault it runs.\<close>

definition touches_own :: "pubkey \<Rightarrow> world \<Rightarrow> world \<Rightarrow> bool" where
  "touches_own k w w' \<longleftrightarrow>
     (\<forall>j r. w_requests w j = Some r \<longrightarrow> req_vault r \<noteq> k \<longrightarrow> w_requests w' j = Some r)"

lemma running_touches_own:
  assumes run: "dispatch E invoke i w = Inr w'" and k: "running_vault i = Some k" and invoke: "confined invoke"
  shows "touches_own k w w'"
proof (cases "settles i \<or> opens i")
  case True
  then show ?thesis
    using run k
    by (cases i rule: running_vault.cases)
      (auto simp: touches_own_def claim_def cancel_request_def cancel_queued_deposit_request_def
        cancel_queued_redemption_request_def res_simps Let_def close_def
        elim!: approve_request_Inr create_deposit_request_Inr create_redeem_request_Inr)
next
  case False
  then have "w_requests w' = w_requests w"
    using run k
    by (cases i rule: running_vault.cases)
      (auto dest: move_requests elim!: instant_deposit_Inr instant_redeem_Inr managed_call_Inr [OF _ invoke])
  then show ?thesis by (simp add: touches_own_def)
qed

definition same_but_operator :: "request \<Rightarrow> request \<Rightarrow> bool" where
  "same_but_operator r r' \<longleftrightarrow> r'\<lparr>req_operator := req_operator r\<rparr> = r"

lemma idle_touches:
  assumes run: "dispatch E invoke i w = Inr w'" and none: "running_vault i = None" and invoke: "confined invoke"
    and r: "w_requests w j = Some r"
  shows "w_requests w' j = Some r
    \<or> (\<exists>r'. w_requests w' j = Some r' \<and> same_but_operator r r' \<and> (\<exists>so. i = Request (Set_operator so)))
    \<or> w_requests w' j = None \<and> (\<exists>rr ra args. i = Request (Reject_request rr ra args) \<and> req_request_state r = Pending)
    \<or> w_requests w' j = None \<and> (\<exists>sc ra. i = Request (Skip_canceled_queue_request sc ra) \<and> req_request_state r = Canceled)"
  using run
proof (cases i)
  case (Request q)
  with run none r show ?thesis
    by (cases q)
      (auto simp: set_operator_def same_but_operator_def reject_request_def skip_canceled_queue_request_def res_simps Let_def close_def
        split: if_splits elim!: update_nav_Inr)
next
  case (Admin q)
  with run r exec_admin_frame show ?thesis by fastforce
next
  case (Venue q)
  with run r exec_venue_requests show ?thesis by fastforce
qed (use none in simp)

text \<open>
  C15. A paused vault stands still. While a vault is paused, no deposit or redemption is requested,
  approved, cancelled by its owner or claimed, none is made instantly, and no asset of the vault is
  deployed, pulled, withdrawn or used in a managed call: each of these instructions fails. Its
  requests stay as they are, except that their owners may name another operator, the fulfiller may
  reject pending ones, and cancelled ones may be skipped.
\<close>
theorem paused_vault_stands_still:
  assumes "w_vaults w k = Some v" and "v_paused v" and "confined invoke"
  shows "(\<forall>i w'. running_vault i = Some k \<longrightarrow> dispatch E invoke i w \<noteq> Inr w')
    \<and> (\<forall>i w' j r. dispatch E invoke i w = Inr w' \<and> w_requests w j = Some r \<and> req_vault r = k \<longrightarrow>
        w_requests w' j = Some r
        \<or> (\<exists>r'. w_requests w' j = Some r' \<and> same_but_operator r r' \<and> (\<exists>so. i = Request (Set_operator so)))
        \<or> w_requests w' j = None \<and> (\<exists>rr ra args. i = Request (Reject_request rr ra args) \<and> req_request_state r = Pending)
        \<or> w_requests w' j = None \<and> (\<exists>sc ra. i = Request (Skip_canceled_queue_request sc ra) \<and> req_request_state r = Canceled))"
proof -
  have stopped: "dispatch E invoke i w \<noteq> Inr w'" if "running_vault i = Some k" for i w'
    using running_vault_runs [OF _ that] assms(1,2) by fastforce
  have kept: "w_requests w' j = Some r
      \<or> (\<exists>r'. w_requests w' j = Some r' \<and> same_but_operator r r' \<and> (\<exists>so. i = Request (Set_operator so)))
      \<or> w_requests w' j = None \<and> (\<exists>rr ra args. i = Request (Reject_request rr ra args) \<and> req_request_state r = Pending)
      \<or> w_requests w' j = None \<and> (\<exists>sc ra. i = Request (Skip_canceled_queue_request sc ra) \<and> req_request_state r = Canceled)"
    if run: "dispatch E invoke i w = Inr w'" and r: "w_requests w j = Some r" "req_vault r = k" for i w' j r
  proof (cases "running_vault i")
    case None
    then show ?thesis using idle_touches [OF run _ assms(3) r(1)] by blast
  next
    case (Some k')
    with stopped run have "k' \<noteq> k" by auto
    with running_touches_own [OF run Some assms(3)] r show ?thesis by (auto simp: touches_own_def)
  qed
  show ?thesis using stopped kept by blast
qed

definition paused_world :: world where
  "paused_world = sample_world\<lparr>w_vaults := [key 20 \<mapsto> sample_vault\<lparr>v_paused := True\<rparr>]\<rparr>"

theorem paused_vault_stands_still_witness:
  "w_vaults paused_world (key 20) = Some (sample_vault\<lparr>v_paused := True\<rparr>)
   \<and> cancel_request sample_env sample_cancel [] paused_world \<noteq> Inr sample_world"
proof -
  have v: "w_vaults paused_world (key 20) = Some (sample_vault\<lparr>v_paused := True\<rparr>)"
    "v_paused (sample_vault\<lparr>v_paused := True\<rparr>)" by (simp_all add: paused_world_def)
  have "running_vault (Request (Cancel_request sample_cancel [])) = Some (key 20)"
    by (simp add: sample_cancel_def)
  with paused_vault_stands_still [OF v no_call_confined, of sample_env]
  have "dispatch sample_env (\<lambda>program metas data infos w. Inr w) (Request (Cancel_request sample_cancel [])) paused_world
      \<noteq> Inr sample_world" by blast
  with v show ?thesis by simp
qed

end
