(* ===== verification/Policy_Versions.thy ===== *)
theory Policy_Versions
  imports Program_Runs
begin

text \<open>
  The version of a strategy policy lives in its account, so closing the policy forgets it: a
  policy that is initialised again starts at version 0, and an update that an emergency pause made
  stale becomes current once more.
\<close>

definition pause_policy :: admin_instruction where
  "pause_policy = Pause_strategy_policy
     \<lparr>psp_authority = key 15, psp_vault = key 20, psp_strategy_policy = key 23\<rparr>"

definition close_policy :: admin_instruction where
  "close_policy = Close_strategy_policy
     \<lparr>csp_authority = key 11, csp_vault = key 20, csp_strategy_policy = key 23\<rparr>"

definition open_policy :: admin_instruction where
  "open_policy = Initialize_strategy_policy
     \<lparr>isp_authority = key 11, isp_vault = key 20, isp_strategy_policy = key 23\<rparr> (key 12)"

definition paused_policy_world :: world where
  "paused_policy_world = queued_world\<lparr>w_policies := [key 23 \<mapsto> sample_policy\<lparr>sp_version := 1\<rparr>]\<rparr>"

lemma sample_find_policy [simp]: "sample_find [STRATEGY_POLICY_SEED, key 20, key 12] = (key 23, 250)"
  by (simp add: sample_find_def sample_addresses_def seed_defs)

lemmas policy_eval = admin_eval policy_account_def policy_seeds_def policy_guard_defs seeds_canonical_def

text \<open>
  The curator queues a root, the breaker pauses the policy, and the update is stale; the curator
  closes the policy and initialises it again, and anyone can execute the update.
\<close>

lemma paused_update_revives:
  "exec_admin (at_time sample_env slot_100) pause_policy queued_world = Inr paused_policy_world"
  "exec_admin (at_time sample_env slot_150) execute_root paused_policy_world =
     Inl (Vault_Err StaleStrategyPolicyVersion)"
  "exec_admin (at_time sample_env slot_150) close_policy paused_policy_world =
     Inr (paused_policy_world\<lparr>w_policies := Map.empty\<rparr>)"
  "exec_admin (at_time sample_env slot_150) open_policy (paused_policy_world\<lparr>w_policies := Map.empty\<rparr>) =
     Inr queued_world"
  "\<exists>w. exec_admin (at_time sample_env slot_150) execute_root queued_world = Inr w"
      apply (simp add: policy_eval slot_100_def pause_policy_def paused_policy_world_def pause_strategy_policy_def)
     apply (simp add: policy_eval slot_150_def paused_policy_world_def execute_strategy_policy_update_def)
    apply (simp add: policy_eval slot_150_def paused_policy_world_def close_policy_def close_strategy_policy_def)
   apply (simp add: policy_eval slot_150_def paused_policy_world_def open_policy_def initialize_strategy_policy_def
      Pubkey_default_def key_zero)
  by (simp add: sample_execute_root)

end
