(* ===== verification/Spec2Isabelle.thy ===== *)
theory Spec2Isabelle
  imports Share_Cover Position_Moves Managed_Soundness Limit_Windows Client_Queues Exit_Rights Paused_Vault
    Policy_Versions Well_Typed
begin

text \<open>
  The async vault program (\<open>programs/async_vault_v2\<close>), a Solana program for tokenised vaults whose
  deposits and redemptions are requests that a fulfiller settles later at a NAV.

  \<^bold>\<open>Parts and how they interact.\<close> A vault is one account of the program with its own parameters,
  counters and roles, followed by a TLV region of optional extensions. Its authority creates it,
  adds extensions and tranches, and initialises it; later changes of its configuration, fees,
  extensions and strategy policies go through a timelock if the vault has one. A user opens a
  deposit or redemption request, which moves assets into the vault's escrow or burns shares; the
  curator or fulfiller approves or rejects it at the current NAV, with fees, rolling limits,
  optional FIFO queues and, for vaults with two share classes, a junior ratio floor; the owner
  claims. Vaults that opt in also trade instantly at the NAV. The NAV is reported by
  \<open>update_vault_nav\<close>, which also mints the performance fee and runs the tranche waterfall. Assets leave the
  reserve to positions on approved venues, to an approved recipient, or through a strategist's
  managed call, one that a Merkle policy lists. The Rust client reads extensions from account data,
  builds the policies and names the instructions.

  \<^bold>\<open>The model.\<close> Data and arithmetic:
  \<^item> \<open>Vault_Prelude\<close>: machine integers as words, checked arithmetic as options, little-endian bytes,
    the early-return combinators \<open>require\<close>, \<open>ok_or\<close>, \<open>try_ok\<close> of Rust's \<open>?\<close> and \<open>require!\<close>.
  \<^item> \<open>Vault_Error\<close>: the error enums of \<open>error.rs\<close>, Anchor's constraint errors and errors of invoked
    programs; a result is \<open>error + 'a\<close>.
  \<^item> \<open>Vault_State\<close>: the accounts of \<open>state/\<close> as records, with their assertion and validation methods.
  \<^item> \<open>Rolling_Limit\<close>, \<open>Limit_Windows\<close>: \<open>consume_rolling_limit\<close> and its six buckets, instances of the
    locale \<open>rolling_bucket\<close>.
  \<^item> \<open>Fees\<close>: \<open>vault_common/fee.rs\<close> and the conversions of \<open>utils.rs\<close>.
  \<^item> \<open>Tlv\<close>, \<open>Extensions\<close>, \<open>Extension_Instructions\<close>: \<open>extensions/\<close>, from raw bytes to the instructions
    that initialise and update each extension; the locale \<open>vault_extension\<close> is what an extension
    owes the generic routines.
  \<^item> \<open>Fifo_Queue\<close>: \<open>extensions/fifo_queues\<close> with its two instances.
  \<^item> \<open>World\<close>, \<open>Token_Program\<close>: the accounts of the program as one map per account type, the runtime
    (\<open>env\<close>: clock, program ids, address derivation, hash, token programs) and the token ledger.

  Instructions, each a function from the accounts it is given, the remaining accounts, its
  arguments and the world to an error or the next world: the constraints of its \<open>Accounts\<close> struct,
  then its handler, then what Anchor writes back. A failed instruction changes nothing, so only the
  next world of a success matters.
  \<^item> \<open>Vault_Admin\<close>, \<open>Timelocked_Updates\<close>, \<open>Strategy_Policy\<close>: set-up and configuration, the queued
    updates, the life of a policy. \<open>Administration\<close> makes them one type and states the timelock as
    the locale \<open>timelock\<close>, with the four kinds of queued update as its interpretations.
  \<^item> \<open>Request_Utils\<close>, \<open>Requests\<close>, \<open>Settlement\<close>, \<open>Nav_Update\<close>, \<open>Instant_Settlement\<close>: opening,
    approving, rejecting, cancelling, skipping and claiming requests, the NAV, instant trades.
  \<^item> \<open>Venues\<close>, \<open>Managed_Calls\<close>: secondary assets, venues, positions and withdrawals; managed calls.
  \<^item> \<open>Merkle\<close>, \<open>Merkle_Soundness\<close>: \<open>utils/merkle.rs\<close> and the client's \<open>merkle_strategy_policy.rs\<close>.
  \<^item> \<open>Dispatch\<close>: the entry points of \<open>lib.rs\<close> as the type \<open>instruction\<close>, run by \<open>dispatch\<close>, and the
    client's labels of their discriminators.
  \<^item> \<open>Client_Reader\<close>, \<open>Client_Queues\<close>: the readers of \<open>clients/rust/async_vault_v2/src/extensions\<close>.

  Runs and what holds in them:
  \<^item> \<open>Request_Books\<close>, \<open>Request_Lifecycle\<close>, \<open>Approval_Books\<close>, \<open>Lifecycle\<close>: what a vault owes its
    requests, the preservation lemma of each instruction, and runs of the request side
    (\<open>lifecycle_step\<close>, \<open>reachable\<close>).
  \<^item> \<open>Program_Runs\<close>: requests, settlement, NAV updates and administration interleaved
    (\<open>program_run\<close>, with the trace of the administration), the timelock and the roles.
  \<^item> \<open>Instant_Books\<close>, \<open>Share_Cover\<close>: the effects of instant trades; shares covered between NAV updates.
  \<^item> \<open>Position_Books\<close>, \<open>Position_Frames\<close>, \<open>Position_Moves\<close>: what assets and venues record of positions.
  \<^item> \<open>System_Runs\<close>: any entry point, through \<open>dispatch\<close>, at any time (\<open>system_step\<close>, \<open>system_run\<close>).
  \<^item> \<open>Custody_Frames\<close>, \<open>Custody\<close>, \<open>Custody_Runs\<close>, \<open>Custody_Venues\<close>, \<open>System_Custody\<close>: whose the token
    accounts are, instruction by instruction, and the books in runs of all entry points (\<open>careful_run\<close>).
  \<^item> \<open>Exit_Rights\<close>, \<open>Request_Progress\<close>, \<open>Paused_Vault\<close>, \<open>Well_Typed\<close>: that owners can settle, that
    settlement ends, what a pause stops, that extension data always decodes.
  \<^item> \<open>Managed_Soundness\<close>: what a managed call checks and changes. \<open>Policy_Versions\<close>: a version that a
    closed and reopened policy forgets.
  \<^item> \<open>Samples\<close>, \<open>Reference_Ledger\<close>, \<open>Sample_World\<close>, \<open>Sample_Instant\<close>, \<open>Sample_Venue\<close>: the concrete
    accounts and the concrete token ledger that the witnesses evaluate; no property rests on them.

  \<^bold>\<open>Correspondence.\<close> A Rust struct is a record with the same field names behind a prefix; a
  function keeps its name; methods are prefixed with their type (\<open>Vault_validate_config\<close>). The
  bytes of an account after Anchor's part are its field \<open>v_tlv\<close> or \<open>req_tlv\<close>.

  \<^bold>\<open>Parameters.\<close> Program address derivation, SHA-256, the SPL token programs, Borsh and the programs
  that managed calls invoke are not part of the repository. They are fields of \<open>env\<close> or arguments,
  and what a theorem needs of them is a named hypothesis:
  \<^item> \<open>spl_laws\<close> (effects of a successful transfer, mint and burn, transfer fees included), \<open>lawful_runtime\<close>
    (the same at every clock value), \<open>spl_account_laws\<close> (opening and closing token accounts),
    \<open>address_laws\<close> (a found address is the one its seeds and bump create), \<open>lawful_program\<close> (all of
    these), \<open>spl_pays\<close> (a covered transfer signed by its owner succeeds). \<open>Reference_Ledger\<close>
    satisfies them.
  \<^item> \<open>external\<close>: transactions that do not involve the program leave alone what its addresses own;
    \<open>wallet_users\<close>: users' signing keys are not addresses of the program.
  \<^item> \<open>confined\<close>: an invoked program changes the token ledger only, since the runtime lets it write
    no account of the vault program and refuses to reenter it. \<open>harmless\<close>: it hands over no account in
    custody and takes nothing out of an escrow. A policy can list calls that are not harmless, for
    the vault signs them; the books are proved for runs whose managed calls are.
  \<^item> \<open>borsh_contract\<close> and its like for the queues; injectivity of the hash on the strings at hand.

  \<^bold>\<open>What the lemmas show.\<close> Every property is stated after a comment with its number. The invariant
  of the books is \<open>world_books\<close>: counters equal to the weights of the open requests and an escrow that
  covers them; one lemma \<open>books_step\<close> carries the preservation proofs. \<open>sound\<close> adds the custody of
  token accounts. Refinements: the queue counters against a FIFO list, the limit against an epoch
  window, the TLV bytes against a finite map of extensions. Loops over buffers and trees are total
  functions with a measure, so no fuel is used.

  \<^bold>\<open>Not modelled.\<close> Rent and lamports, account serialisation by Anchor outside the TLV region (an account
  is its record), frozen token accounts, events (\<open>events.rs\<close>, which are only logged), compute-unit
  logging (\<open>cu_tracker.rs\<close>) and the test SDK, the generated clients, the tests.
\<close>

end
